(* ===== verification/Prelude.thy ===== *)
theory Prelude
  imports Complex_Main "HOL-Library.Word" "HOL-Library.Multiset" "HOL-Library.Signed_Division"
begin

text \<open>
  What every component shares: Go's machine integers, results as sums, sequencing of fallible
  calls on a world, the slice operations of the code (lookup by a predicate, replacing and
  deleting the first match) and their lemmas. A Go call that can return an error is a value of
  \<open>'e + 'a\<close> (\<open>Inl\<close> the error); a call that acts on the outside world takes the world and
  returns it, paired with its result.
\<close>

type_synonym u8 = "8 word"
type_synonym u16 = "16 word"
type_synonym u32 = "32 word"
type_synonym u64 = "64 word"

lemma unat_less_u64: "unat (w :: u64) < 2 ^ 64"
  using unsigned_less [where ?'a = nat, of w] by simp

named_theorems io_simps "rewriting of sequenced calls"
named_theorems slice_simps "facts on slice operations"

section \<open>Results and sequencing\<close>

text \<open>\<open>if err != nil { return err }\<close> after a call, then the rest of the function.\<close>

definition bindE :: "('e + 'a) \<times> 'w \<Rightarrow> ('a \<Rightarrow> 'w \<Rightarrow> ('e + 'b) \<times> 'w) \<Rightarrow> ('e + 'b) \<times> 'w" where
  "bindE r k = (case r of (Inl e, w) \<Rightarrow> (Inl e, w) | (Inr a, w) \<Rightarrow> k a w)"

text \<open>\<open>fmt.Errorf("...: %w", err)\<close>: the error of a call wrapped into one of the caller.\<close>

definition wrapE :: "('e \<Rightarrow> 'f) \<Rightarrow> ('e + 'a) \<times> 'w \<Rightarrow> ('f + 'a) \<times> 'w" where
  "wrapE g r = (case r of (Inl e, w) \<Rightarrow> (Inl (g e), w) | (Inr a, w) \<Rightarrow> (Inr a, w))"

lemma bindE_simps [simp, io_simps]:
  "bindE (Inl e, w) k = (Inl e, w)"
  "bindE (Inr a, w) k = k a w"
  by (simp_all add: bindE_def)

lemma wrapE_simps [simp, io_simps]:
  "wrapE g (Inl e, w) = (Inl (g e), w)"
  "wrapE g (Inr a, w) = (Inr a, w)"
  by (simp_all add: wrapE_def)

lemma bindE_Inr_iff [io_simps]:
  "bindE r k = (Inr b, w') \<longleftrightarrow> (\<exists>a w. r = (Inr a, w) \<and> k a w = (Inr b, w'))"
  by (auto simp: bindE_def split: prod.splits sum.splits)

lemma wrapE_Inr_iff [io_simps]:
  "wrapE g r = (Inr b, w') \<longleftrightarrow> r = (Inr b, w')"
  by (auto simp: wrapE_def split: prod.splits sum.splits)

lemma bindE_split:
  "P (bindE r k) \<longleftrightarrow>
     (\<forall>e w. r = (Inl e, w) \<longrightarrow> P (Inl e, w)) \<and> (\<forall>a w. r = (Inr a, w) \<longrightarrow> P (k a w))"
  by (cases r; cases "fst r") (auto simp: bindE_def)

text \<open>A validation step: stop with the error when the test fails.\<close>

definition guardE :: "bool \<Rightarrow> 'e \<Rightarrow> 'e + unit" where
  "guardE ok e = (if ok then Inr () else Inl e)"

section \<open>Slices\<close>

text \<open>The first element that satisfies a predicate, with its index (\<open>for i, x := range xs\<close>).\<close>

fun find_first :: "('a \<Rightarrow> bool) \<Rightarrow> 'a list \<Rightarrow> (nat \<times> 'a) option" where
  "find_first p [] = None"
| "find_first p (x # xs) = (if p x then Some (0, x) else map_option (apfst Suc) (find_first p xs))"

text \<open>\<open>xs[i] = y\<close> at the first match; \<open>None\<close> when nothing matches.\<close>

fun replace_first :: "('a \<Rightarrow> bool) \<Rightarrow> 'a \<Rightarrow> 'a list \<Rightarrow> 'a list option" where
  "replace_first p y [] = None"
| "replace_first p y (x # xs) = (if p x then Some (y # xs) else map_option ((#) x) (replace_first p y xs))"

text \<open>\<open>slices.Delete(xs, i, i+1)\<close> at the first match; nothing happens when nothing matches.\<close>

fun delete_first :: "('a \<Rightarrow> bool) \<Rightarrow> 'a list \<Rightarrow> 'a list" where
  "delete_first p [] = []"
| "delete_first p (x # xs) = (if p x then xs else x # delete_first p xs)"

lemma find_first_None_iff [slice_simps]: "find_first p xs = None \<longleftrightarrow> (\<forall>x \<in> set xs. \<not> p x)"
  by (induction xs) auto

lemma find_first_SomeD:
  "find_first p xs = Some (i, x) \<Longrightarrow> i < length xs \<and> xs ! i = x \<and> p x \<and> (\<forall>j < i. \<not> p (xs ! j))"
proof (induction xs arbitrary: i)
  case (Cons y ys)
  then show ?case by (auto simp: nth_Cons' split: if_splits)
qed simp

lemma find_first_in_set: "find_first p xs = Some (i, x) \<Longrightarrow> x \<in> set xs \<and> p x"
  using find_first_SomeD nth_mem by fastforce

lemma find_first_Some_ex [slice_simps]: "x \<in> set xs \<Longrightarrow> p x \<Longrightarrow> \<exists>i y. find_first p xs = Some (i, y)"
  by (metis find_first_None_iff not_None_eq surj_pair)

lemma replace_first_find:
  "replace_first p y xs = (case find_first p xs of None \<Rightarrow> None | Some (i, _) \<Rightarrow> Some (xs[i := y]))"
  by (induction xs) (auto split: option.splits)

lemma replace_first_None_iff [slice_simps]: "replace_first p y xs = None \<longleftrightarrow> (\<forall>x \<in> set xs. \<not> p x)"
  by (induction xs) auto

lemma replace_first_set: "replace_first p y xs = Some ys \<Longrightarrow> set ys \<subseteq> insert y (set xs)"
  by (induction xs arbitrary: ys) (fastforce split: if_splits)+

lemma replace_first_map:
  assumes "replace_first p y xs = Some ys" and "\<And>x. p x \<Longrightarrow> f x = f y"
  shows "map f ys = map f xs"
  using assms by (induction xs arbitrary: ys) (auto split: if_splits)

lemma replace_first_other:
  assumes "replace_first p y xs = Some ys" and "x \<in> set xs" and "\<not> p x"
  shows "x \<in> set ys"
  using assms by (induction xs arbitrary: ys) (auto split: if_splits)

lemma replace_first_mem: "replace_first p y xs = Some ys \<Longrightarrow> y \<in> set ys"
  by (induction xs arbitrary: ys) (auto split: if_splits)

lemma find_first_replace:
  assumes "replace_first p y xs = Some ys" and "p y"
  shows "\<exists>i. find_first p ys = Some (i, y)"
  using assms by (induction xs arbitrary: ys) (auto split: if_splits)

lemma find_first_replace_other:
  assumes "replace_first p y xs = Some ys" and "\<And>x. p x \<Longrightarrow> \<not> q x" and "\<not> q y"
  shows "find_first q ys = find_first q xs"
  using assms by (induction xs arbitrary: ys) (auto split: if_splits)

lemma delete_first_set: "set (delete_first p xs) \<subseteq> set xs"
  by (induction xs) auto

lemma delete_first_mset:
  "delete_first p xs = (case find_first p xs of None \<Rightarrow> xs | Some (i, _) \<Rightarrow> take i xs @ drop (Suc i) xs)"
  by (induction xs) (auto split: option.splits)

lemma delete_first_id [slice_simps]: "\<forall>x \<in> set xs. \<not> p x \<Longrightarrow> delete_first p xs = xs"
  by (induction xs) auto

lemma delete_first_filter: "(\<And>x. p x \<Longrightarrow> \<not> q x) \<Longrightarrow> filter q (delete_first p xs) = filter q xs"
  by (induction xs) auto

lemma delete_first_distinct:
  assumes "distinct (map f xs)"
  shows "delete_first (\<lambda>x. f x = k) xs = filter (\<lambda>x. f x \<noteq> k) xs"
  using assms
proof (induction xs)
  case (Cons x xs)
  show ?case
  proof (cases "f x = k")
    case True
    then have "\<forall>y \<in> set xs. f y \<noteq> k" using Cons.prems by (metis distinct.simps(2) image_eqI list.set_map list.simps(9))
    then show ?thesis using True by simp
  next
    case False
    then show ?thesis using Cons by simp
  qed
qed simp

lemma distinct_map_delete_first: "distinct (map f xs) \<Longrightarrow> distinct (map f (delete_first p xs))"
proof (induction xs)
  case (Cons x xs)
  then show ?case using delete_first_set [of p xs] by auto
qed simp

lemma find_first_delete_other:
  "(\<And>x. p x \<Longrightarrow> \<not> q x) \<Longrightarrow> map_option snd (find_first q (delete_first p xs)) = map_option snd (find_first q xs)"
  by (induction xs) (auto simp: option.map_comp o_def)

section \<open>The contract of sort.Slice\<close>

locale slice_sort =
  fixes srt :: "'a list \<Rightarrow> 'a list" and key :: "'a \<Rightarrow> 'k::linorder"
  assumes perm: "mset (srt xs) = mset xs"
    and sorted_key: "sorted (map key (srt xs))"
begin

lemma set_srt: "set (srt xs) = set xs"
  using perm by (rule mset_eq_setD)

lemma srt_Nil_iff: "srt xs = [] \<longleftrightarrow> xs = []"
  using perm [of xs] by (metis mset_zero_iff)

lemma first_min:
  assumes "srt xs = y # ys"
  shows "y \<in> set xs" and "\<forall>x \<in> set xs. key y \<le> key x"
proof -
  show "y \<in> set xs" using assms set_srt [of xs] by auto
  have "\<forall>x \<in> set (srt xs). key y \<le> key x"
    using sorted_key [of xs] by (simp add: assms)
  then show "\<forall>x \<in> set xs. key y \<le> key x" by (simp add: set_srt)
qed

end

end
