(* ===== verification/Float64.thy ===== *)
theory Float64
  imports Prelude "HOL-Library.Log_Nat"
begin

text \<open>
  Go's \<open>float64\<close>: IEEE 754 binary64 with round-to-nearest, ties to even, computed on exact
  rationals. A value is a finite rational, an infinity or NaN; the sign of a zero is not kept
  (no operation used by the modelled code can tell the two zeros apart: every divisor is the
  conversion of an unsigned integer or a positive constant).

  \<open>ilog2\<close> is the exponent of a positive rational, \<open>round_half_even\<close> rounds to an
  integer, \<open>rnd\<close> rounds to a double with unbounded exponent above and gradual underflow below,
  \<open>fround\<close> adds the overflow to the infinities. The locale \<open>rounding\<close> states what the
  arithmetic of the farmerbot relies on (monotone, exact on the representable numbers) and is
  interpreted by \<open>rnd\<close>.
\<close>

section \<open>Rounding to a double\<close>

definition ilog2 :: "rat \<Rightarrow> int" where
  "ilog2 x = (if 1 \<le> x then bitlen \<lfloor>x\<rfloor> - 1 else - bitlen (\<lceil>1 / x\<rceil> - 1))"

definition round_half_even :: "rat \<Rightarrow> int" where
  "round_half_even x =
     (let f = \<lfloor>x\<rfloor>; d = x - of_int f
      in if d < 1 / 2 then f else if 1 / 2 < d then f + 1 else if even f then f else f + 1)"

abbreviation p2 :: "int \<Rightarrow> rat" where
  "p2 e \<equiv> 2 powi e"

definition ulp_exp :: "rat \<Rightarrow> int" where
  "ulp_exp x = max (ilog2 \<bar>x\<bar>) (-1022) - 52"

definition rnd :: "rat \<Rightarrow> rat" where
  "rnd x = (if x = 0 then 0
            else let u = p2 (ulp_exp x) in of_int (round_half_even (x / u)) * u)"

definition representable :: "rat \<Rightarrow> bool" where
  "representable x \<longleftrightarrow> (\<exists>m k. x = of_int m * p2 k \<and> \<bar>m\<bar> < 2 ^ 53 \<and> -1074 \<le> k)"

subsection \<open>The exponent\<close>

lemma bitlen_floor_bounds:
  assumes "1 \<le> (x::rat)"
  shows "p2 (bitlen \<lfloor>x\<rfloor> - 1) \<le> x" and "x < p2 (bitlen \<lfloor>x\<rfloor>)"
proof -
  have pos: "0 < \<lfloor>x\<rfloor>" using assms by linarith
  have b: "2 ^ nat (bitlen \<lfloor>x\<rfloor> - 1) \<le> \<lfloor>x\<rfloor>" "\<lfloor>x\<rfloor> < 2 ^ nat (bitlen \<lfloor>x\<rfloor>)"
    using bitlen_bounds [OF pos] by auto
  have bl: "1 \<le> bitlen \<lfloor>x\<rfloor>"
    using pos bitlen_eq_zero_iff [of "\<lfloor>x\<rfloor>"] bitlen_nonneg [of "\<lfloor>x\<rfloor>"] by linarith
  have "of_int (2 ^ nat (bitlen \<lfloor>x\<rfloor> - 1)) \<le> x"
    using b(1) by (simp only: le_floor_iff)
  then show "p2 (bitlen \<lfloor>x\<rfloor> - 1) \<le> x"
    using bl by (simp add: power_int_def)
  have "x < of_int (2 ^ nat (bitlen \<lfloor>x\<rfloor>))"
    using b(2) by (simp only: floor_less_iff)
  then show "x < p2 (bitlen \<lfloor>x\<rfloor>)"
    using bitlen_nonneg [of "\<lfloor>x\<rfloor>"] by (simp add: power_int_def)
qed

lemma bitlen_ceiling_bounds:
  assumes "1 < (y::rat)"
  shows "p2 (bitlen (\<lceil>y\<rceil> - 1) - 1) < y" and "y \<le> p2 (bitlen (\<lceil>y\<rceil> - 1))"
proof -
  let ?c = "\<lceil>y\<rceil> - 1"
  have pos: "0 < ?c" using assms by linarith
  have b: "2 ^ nat (bitlen ?c - 1) < \<lceil>y\<rceil>" "\<lceil>y\<rceil> \<le> 2 ^ nat (bitlen ?c)"
    using bitlen_bounds [OF pos] by auto
  have bl: "1 \<le> bitlen ?c" using pos bitlen_eq_zero_iff [of ?c] bitlen_nonneg [of ?c] by linarith
  have "of_int (2 ^ nat (bitlen ?c - 1)) < y"
    using b(1) by (simp only: less_ceiling_iff)
  then show "p2 (bitlen ?c - 1) < y"
    using bl by (simp add: power_int_def)
  have "y \<le> of_int (2 ^ nat (bitlen ?c))"
    using b(2) by (simp only: ceiling_le_iff)
  then show "y \<le> p2 (bitlen ?c)"
    using bitlen_nonneg [of ?c] by (simp add: power_int_def)
qed

lemma ilog2_bounds:
  assumes "0 < x"
  shows "p2 (ilog2 x) \<le> x" and "x < p2 (ilog2 x + 1)"
proof -
  have "p2 (ilog2 x) \<le> x \<and> x < p2 (ilog2 x + 1)"
  proof (cases "1 \<le> x")
    case True
    then show ?thesis using bitlen_floor_bounds [OF True] by (simp add: ilog2_def)
  next
    case False
    then have y: "1 < 1 / x" using assms by simp
    let ?b = "bitlen (\<lceil>1 / x\<rceil> - 1)"
    have 1: "p2 (?b - 1) < 1 / x" and 2: "1 / x \<le> p2 ?b"
      using bitlen_ceiling_bounds [OF y] by simp_all
    have e: "ilog2 x = - ?b" using False by (simp add: ilog2_def)
    have "1 / p2 ?b \<le> x" using 2 assms by (simp add: field_simps)
    moreover have "x < 1 / p2 (?b - 1)"
      using 1 assms by (simp add: field_simps)
    ultimately show ?thesis
      by (simp add: e power_int_minus divide_inverse) (metis add.commute minus_diff_eq power_int_minus uminus_add_conv_diff)
  qed
  then show "p2 (ilog2 x) \<le> x" and "x < p2 (ilog2 x + 1)" by simp_all
qed

lemma powi_less_cancel: "p2 a < p2 b \<Longrightarrow> a < b"
  by (metis linorder_not_less one_le_numeral power_int_increasing)

lemma powi_mono: "a \<le> b \<Longrightarrow> p2 a \<le> p2 b"
  by (simp add: power_int_increasing)

lemma ilog2_mono:
  assumes "0 < x" and "x \<le> y"
  shows "ilog2 x \<le> ilog2 y"
proof -
  have "p2 (ilog2 x) < p2 (ilog2 y + 1)"
    using ilog2_bounds [of x] ilog2_bounds [of y] assms by linarith
  then show ?thesis using powi_less_cancel by force
qed

lemma ilog2_le:
  assumes "0 < x" and "x < p2 k"
  shows "ilog2 x < k"
proof -
  have "p2 (ilog2 x) < p2 k" using ilog2_bounds [of x] assms by linarith
  then show ?thesis by (rule powi_less_cancel)
qed

lemma ilog2_ge:
  assumes "p2 k \<le> x"
  shows "k \<le> ilog2 x"
proof -
  have "0 < p2 k" by simp
  then have "0 < x" using assms by linarith
  then have "p2 k < p2 (ilog2 x + 1)" using ilog2_bounds [of x] assms by linarith
  then show ?thesis using powi_less_cancel by force
qed

subsection \<open>Rounding to an integer\<close>

lemma round_half_even_bounds:
  "\<lfloor>x\<rfloor> \<le> round_half_even x" "round_half_even x \<le> \<lfloor>x\<rfloor> + 1"
  by (auto simp: round_half_even_def Let_def)

lemma round_half_even_of_int [simp]: "round_half_even (of_int n) = n"
  by (simp add: round_half_even_def)

lemma round_half_even_mono:
  assumes "x \<le> y"
  shows "round_half_even x \<le> round_half_even y"
proof (cases "\<lfloor>x\<rfloor> = \<lfloor>y\<rfloor>")
  case True
  then show ?thesis using assms by (auto simp: round_half_even_def Let_def)
next
  case False
  then have "\<lfloor>x\<rfloor> + 1 \<le> \<lfloor>y\<rfloor>" using floor_mono [OF assms] by linarith
  then show ?thesis using round_half_even_bounds [of x] round_half_even_bounds [of y] by linarith
qed

lemma round_half_even_minus: "round_half_even (- x) = - round_half_even x"
proof (cases "x = of_int \<lfloor>x\<rfloor>")
  case True
  then have "- x = of_int (- \<lfloor>x\<rfloor>)" by (metis of_int_minus)
  then show ?thesis by (metis True round_half_even_of_int)
next
  case False
  have "\<lfloor>- x\<rfloor> = - \<lfloor>x\<rfloor> - 1"
    using False by (intro floor_unique) (linarith | simp)+
  then show ?thesis by (auto simp: round_half_even_def Let_def)
qed

lemma round_half_even_le: "x \<le> of_int n \<Longrightarrow> round_half_even x \<le> n"
  using round_half_even_mono [of x "of_int n"] by simp

lemma round_half_even_ge: "of_int n \<le> x \<Longrightarrow> n \<le> round_half_even x"
  using round_half_even_mono [of "of_int n" x] by simp

subsection \<open>Rounding to a double: odd, exact, monotone\<close>

lemma p2_add: "p2 (a + b) = p2 a * p2 b"
  by (simp add: power_int_add)

lemma p2_nat: "0 \<le> k \<Longrightarrow> p2 k = of_int (2 ^ nat k)"
  by (simp add: power_int_def)

lemma p2_diff: "p2 (a - b) = p2 a / p2 b"
  by (simp add: power_int_diff)

lemma p2_scale:
  assumes "b \<le> a"
  shows "p2 a = of_int (2 ^ nat (a - b)) * p2 b"
proof -
  have "p2 a = p2 ((a - b) + b)" by simp
  also have "\<dots> = p2 (a - b) * p2 b" by (rule p2_add)
  finally show ?thesis using assms p2_nat [of "a - b"] by simp
qed

lemma rnd_0 [simp]: "rnd 0 = 0"
  by (simp add: rnd_def)

lemma rnd_minus: "rnd (- x) = - rnd x"
  by (simp add: rnd_def Let_def ulp_exp_def round_half_even_minus)

lemma representable_minus: "representable x \<Longrightarrow> representable (- x)"
proof -
  assume "representable x"
  then obtain m k where "x = of_int m * p2 k" "\<bar>m\<bar> < 2 ^ 53" "-1074 \<le> k"
    unfolding representable_def by blast
  then show "representable (- x)"
    unfolding representable_def by (intro exI [of _ "- m"] exI [of _ k]) simp
qed

lemma representable_ulp:
  assumes "representable x" and "x \<noteq> 0"
  obtains n where "x = of_int n * p2 (ulp_exp x)"
proof -
  obtain m k where x: "x = of_int m * p2 k" and m: "\<bar>m\<bar> < 2 ^ 53" and k: "-1074 \<le> k"
    using assms(1) unfolding representable_def by blast
  have "\<bar>x\<bar> = of_int \<bar>m\<bar> * p2 k" by (simp add: x abs_mult)
  also have "\<dots> < of_int (2 ^ 53) * p2 k"
    using m by (intro mult_strict_right_mono) (simp_all only: of_int_less_iff, simp)
  also have "\<dots> = p2 (53 + k)" by (simp add: p2_add)
  finally have "ilog2 \<bar>x\<bar> < 53 + k" using assms(2) by (intro ilog2_le) simp_all
  then have d: "0 \<le> k - ulp_exp x" using k by (simp add: ulp_exp_def)
  then have "x = of_int (m * 2 ^ nat (k - ulp_exp x)) * p2 (ulp_exp x)"
    using x p2_scale [of "ulp_exp x" k] by simp
  then show thesis by (rule that)
qed

lemma rnd_exact:
  assumes "representable x"
  shows "rnd x = x"
proof (cases "x = 0")
  case False
  then obtain n where "x = of_int n * p2 (ulp_exp x)" using representable_ulp [OF assms] by blast
  then have "x / p2 (ulp_exp x) = of_int n"
    by (metis nonzero_eq_divide_eq power_int_eq_0_iff zero_neq_numeral)
  then show ?thesis using False \<open>x = _\<close> by (simp add: rnd_def)
qed simp

lemma rnd_le_p2:
  assumes "0 < x" and "x \<le> p2 k" and "ulp_exp x \<le> k"
  shows "rnd x \<le> p2 k"
proof -
  have "p2 k = of_int (2 ^ nat (k - ulp_exp x)) * p2 (ulp_exp x)"
    using assms(3) by (rule p2_scale)
  moreover from this have "x / p2 (ulp_exp x) \<le> of_int (2 ^ nat (k - ulp_exp x))"
    using assms(2) by (simp add: divide_le_eq)
  then have "round_half_even (x / p2 (ulp_exp x)) \<le> 2 ^ nat (k - ulp_exp x)"
    by (rule round_half_even_le)
  then have "of_int (round_half_even (x / p2 (ulp_exp x))) * p2 (ulp_exp x)
      \<le> of_int (2 ^ nat (k - ulp_exp x)) * p2 (ulp_exp x)"
    by (intro mult_right_mono) (simp_all only: of_int_le_iff, simp)
  ultimately show ?thesis using assms(1) by (simp add: rnd_def Let_def)
qed

lemma rnd_ge_p2:
  assumes "p2 k \<le> x" and "ulp_exp x \<le> k"
  shows "p2 k \<le> rnd x"
proof -
  have pos: "0 < x" using assms(1) zero_less_power_int [of 2 k] by (metis less_le_trans zero_less_numeral)
  have eq: "p2 k = of_int (2 ^ nat (k - ulp_exp x)) * p2 (ulp_exp x)"
    using assms(2) by (rule p2_scale)
  then have "of_int (2 ^ nat (k - ulp_exp x)) \<le> x / p2 (ulp_exp x)"
    using assms(1) by (simp add: le_divide_eq)
  then have "2 ^ nat (k - ulp_exp x) \<le> round_half_even (x / p2 (ulp_exp x))"
    by (rule round_half_even_ge)
  then have "of_int (2 ^ nat (k - ulp_exp x)) * p2 (ulp_exp x)
      \<le> of_int (round_half_even (x / p2 (ulp_exp x))) * p2 (ulp_exp x)"
    by (intro mult_right_mono) (simp_all only: of_int_le_iff, simp)
  then show ?thesis using pos eq by (simp add: rnd_def Let_def)
qed

lemma rnd_mono_pos:
  assumes "0 < x" and "x \<le> y"
  shows "rnd x \<le> rnd y"
proof (cases "ulp_exp x = ulp_exp y")
  case True
  have "x / p2 (ulp_exp y) \<le> y / p2 (ulp_exp y)"
    using assms(2) by (simp add: divide_right_mono)
  then have "of_int (round_half_even (x / p2 (ulp_exp y))) * p2 (ulp_exp y)
      \<le> of_int (round_half_even (y / p2 (ulp_exp y))) * p2 (ulp_exp y)"
    by (intro mult_right_mono) (simp_all only: of_int_le_iff round_half_even_mono, simp)
  then show ?thesis using True assms by (simp add: rnd_def Let_def)
next
  case False
  have "ilog2 x \<le> ilog2 y" using assms by (rule ilog2_mono)
  then have k: "ulp_exp y = ilog2 y - 52" and lt: "ulp_exp x + 52 < ilog2 y" and
    max: "ilog2 x < ilog2 y"
    using False assms by (auto simp: ulp_exp_def max_def split: if_splits)
  have "x < p2 (ilog2 x + 1)" using assms(1) by (rule ilog2_bounds)
  also have "\<dots> \<le> p2 (ilog2 y)" using max by (intro powi_mono) simp
  finally have "rnd x \<le> p2 (ilog2 y)" using assms(1) lt by (intro rnd_le_p2) simp_all
  also have "\<dots> \<le> rnd y"
    using assms ilog2_bounds [of y] k by (intro rnd_ge_p2) simp_all
  finally show ?thesis .
qed

lemma rnd_nonneg:
  assumes "0 \<le> x"
  shows "0 \<le> rnd x"
proof -
  have "0 \<le> round_half_even (x / p2 (ulp_exp x))"
    using assms by (intro round_half_even_ge) simp
  then show ?thesis by (simp add: rnd_def Let_def)
qed

lemma rnd_mono:
  assumes "x \<le> y"
  shows "rnd x \<le> rnd y"
proof -
  consider "0 < x" | "x \<le> 0" "0 \<le> y" | "y < 0" using assms by linarith
  then show ?thesis
  proof cases
    case 1
    then show ?thesis using assms by (rule rnd_mono_pos)
  next
    case 2
    then show ?thesis using rnd_nonneg [of y] rnd_nonneg [of "- x"] by (simp add: rnd_minus)
  next
    case 3
    then show ?thesis using rnd_mono_pos [of "- y" "- x"] assms by (simp add: rnd_minus)
  qed
qed

lemma representable_rnd: "representable (rnd x)"
proof (cases "x = 0")
  case True
  then show ?thesis by (auto simp: representable_def intro: exI [of _ 0])
next
  case False
  let ?e = "ulp_exp x"
  let ?m = "round_half_even (x / p2 ?e)"
  have "\<bar>x\<bar> < p2 (ilog2 \<bar>x\<bar> + 1)" using False by (intro ilog2_bounds) simp
  also have "\<dots> \<le> p2 (?e + 53)" by (intro powi_mono) (simp add: ulp_exp_def)
  also have "\<dots> = of_int (2 ^ 53) * p2 ?e" by (simp add: p2_add)
  finally have "\<bar>x\<bar> \<le> of_int (2 ^ 53) * p2 ?e" by simp
  then have "x / p2 ?e \<le> of_int (2 ^ 53)" "of_int (- (2 ^ 53)) \<le> x / p2 ?e"
    by (auto simp: divide_le_eq le_divide_eq abs_le_iff)
  then have m: "\<bar>?m\<bar> \<le> 2 ^ 53"
    using round_half_even_le [of "x / p2 ?e" "2 ^ 53"] round_half_even_ge [of "- (2 ^ 53)" "x / p2 ?e"]
    unfolding abs_le_iff by linarith
  have r: "rnd x = of_int ?m * p2 ?e" using False by (simp add: rnd_def Let_def)
  have e: "-1074 \<le> ?e" by (simp add: ulp_exp_def)
  show ?thesis
  proof (cases "\<bar>?m\<bar> < 2 ^ 53")
    case True
    then show ?thesis using r e unfolding representable_def by blast
  next
    case False
    then have "?m = 2 ^ 52 * 2 \<or> ?m = - (2 ^ 52) * 2" using m by (simp add: abs_if split: if_splits)
    then obtain t where t: "?m = t * 2" "\<bar>t\<bar> = 2 ^ 52" by force
    have "rnd x = of_int t * p2 (?e + 1)" using r t(1) by (simp add: p2_add)
    then show ?thesis using e t(2) unfolding representable_def
      by (intro exI [of _ t] exI [of _ "?e + 1"]) simp
  qed
qed

lemma representable_p2: "-1074 \<le> k \<Longrightarrow> representable (p2 k)"
  unfolding representable_def by (intro exI [of _ 1] exI [of _ k]) simp

lemma representable_of_int: "\<bar>n\<bar> < 2 ^ 53 \<Longrightarrow> representable (of_int n)"
  unfolding representable_def by (intro exI [of _ n] exI [of _ 0]) simp

lemma representable_of_nat: "n < 2 ^ 53 \<Longrightarrow> representable (of_nat n)"
  using representable_of_int [of "int n"] by simp

text \<open>Doubles of at least \<open>2^e\<close> are multiples of \<open>2^(e - 52)\<close>.\<close>

lemma representable_grid:
  assumes "representable x" and "p2 e \<le> x"
  obtains n where "x = of_int n * p2 (e - 52)"
proof -
  obtain m k where x: "x = of_int m * p2 k" and m: "\<bar>m\<bar> < 2 ^ 53"
    using assms(1) unfolding representable_def by blast
  have "of_int m * p2 k < of_int (2 ^ 53) * p2 k"
    using m by (intro mult_strict_right_mono) (simp_all only: of_int_less_iff abs_less_iff, simp)
  also have "\<dots> = p2 (53 + k)" by (simp add: p2_add)
  finally have "p2 e < p2 (53 + k)" using assms(2) x by linarith
  then have "e - 52 \<le> k" using powi_less_cancel by force
  then have "x = of_int (m * 2 ^ nat (k - (e - 52))) * p2 (e - 52)"
    using x p2_scale [of "e - 52" k] by simp
  then show thesis by (rule that)
qed

section \<open>The rounding contract\<close>

text \<open>
  What a client of floating-point arithmetic needs from a rounding function: it is monotone,
  leaves representable numbers alone and returns representable ones. The rest of the library
  reasons about rounded results through these facts only.
\<close>

locale rounding =
  fixes r :: "rat \<Rightarrow> rat" and rep :: "rat \<Rightarrow> bool"
  assumes mono: "x \<le> y \<Longrightarrow> r x \<le> r y"
    and exact: "rep x \<Longrightarrow> r x = x"
    and rep_r: "rep (r x)"
begin

lemma idem: "r (r x) = r x"
  by (simp add: exact rep_r)

lemma ge_rep: "rep c \<Longrightarrow> c \<le> x \<Longrightarrow> c \<le> r x"
  using mono [of c x] by (simp add: exact)

lemma le_rep: "rep c \<Longrightarrow> x \<le> c \<Longrightarrow> r x \<le> c"
  using mono [of x c] by (simp add: exact)

lemma less_repD: "rep c \<Longrightarrow> c < r x \<Longrightarrow> c < x"
  using le_rep by (meson linorder_not_less)

lemma squeeze: "rep a \<Longrightarrow> rep b \<Longrightarrow> a \<le> x \<Longrightarrow> x \<le> b \<Longrightarrow> a \<le> r x \<and> r x \<le> b"
  by (simp add: ge_rep le_rep)

end

interpretation dbl: rounding rnd representable
  by unfold_locales (auto intro: rnd_mono rnd_exact representable_rnd)

section \<open>Values and operations\<close>

datatype f64 = Fin rat | PInf | NInf | NaN

definition fround :: "rat \<Rightarrow> f64" where
  "fround x = (let y = rnd x in if p2 1024 \<le> y then PInf else if y \<le> - p2 1024 then NInf else Fin y)"

fun fneg :: "f64 \<Rightarrow> f64" where
  "fneg (Fin x) = Fin (- x)"
| "fneg PInf = NInf"
| "fneg NInf = PInf"
| "fneg NaN = NaN"

fun fadd :: "f64 \<Rightarrow> f64 \<Rightarrow> f64" where
  "fadd NaN _ = NaN"
| "fadd _ NaN = NaN"
| "fadd (Fin x) (Fin y) = fround (x + y)"
| "fadd PInf NInf = NaN"
| "fadd NInf PInf = NaN"
| "fadd PInf _ = PInf"
| "fadd _ PInf = PInf"
| "fadd NInf _ = NInf"
| "fadd _ NInf = NInf"

definition fsub :: "f64 \<Rightarrow> f64 \<Rightarrow> f64" where
  "fsub a b = fadd a (fneg b)"

definition inf_sgn :: "rat \<Rightarrow> f64" where
  "inf_sgn s = (if s = 0 then NaN else if 0 < s then PInf else NInf)"

fun fmul :: "f64 \<Rightarrow> f64 \<Rightarrow> f64" where
  "fmul NaN _ = NaN"
| "fmul _ NaN = NaN"
| "fmul (Fin x) (Fin y) = fround (x * y)"
| "fmul PInf (Fin y) = inf_sgn y"
| "fmul NInf (Fin y) = inf_sgn (- y)"
| "fmul (Fin x) PInf = inf_sgn x"
| "fmul (Fin x) NInf = inf_sgn (- x)"
| "fmul PInf PInf = PInf"
| "fmul NInf NInf = PInf"
| "fmul _ _ = NInf"

fun fdiv :: "f64 \<Rightarrow> f64 \<Rightarrow> f64" where
  "fdiv NaN _ = NaN"
| "fdiv _ NaN = NaN"
| "fdiv (Fin x) (Fin y) = (if y = 0 then inf_sgn x else fround (x / y))"
| "fdiv (Fin x) _ = Fin 0"
| "fdiv PInf (Fin y) = (if 0 \<le> y then PInf else NInf)"
| "fdiv NInf (Fin y) = (if 0 \<le> y then NInf else PInf)"
| "fdiv _ _ = NaN"

fun flt :: "f64 \<Rightarrow> f64 \<Rightarrow> bool" where
  "flt NaN _ = False"
| "flt _ NaN = False"
| "flt (Fin x) (Fin y) = (x < y)"
| "flt NInf b = (b \<noteq> NInf)"
| "flt a PInf = (a \<noteq> PInf)"
| "flt _ _ = False"

fun feq :: "f64 \<Rightarrow> f64 \<Rightarrow> bool" where
  "feq NaN _ = False"
| "feq _ NaN = False"
| "feq a b = (a = b)"

definition fle :: "f64 \<Rightarrow> f64 \<Rightarrow> bool" where
  "fle a b \<longleftrightarrow> flt a b \<or> feq a b"

text \<open>\<open>math.Ceil\<close>, \<open>math.Min\<close> and \<open>math.Max\<close>.\<close>

fun fceil :: "f64 \<Rightarrow> f64" where
  "fceil (Fin x) = Fin (of_int \<lceil>x\<rceil>)"
| "fceil a = a"

definition fmin :: "f64 \<Rightarrow> f64 \<Rightarrow> f64" where
  "fmin a b = (if a = NInf \<or> b = NInf then NInf else if a = NaN \<or> b = NaN then NaN
               else if flt a b then a else b)"

definition fmax :: "f64 \<Rightarrow> f64 \<Rightarrow> f64" where
  "fmax a b = (if a = PInf \<or> b = PInf then PInf else if a = NaN \<or> b = NaN then NaN
               else if flt b a then a else b)"

text \<open>
  Conversions. From an integer the result is the nearest double. To an integer Go truncates
  toward zero, and leaves the result to the implementation when the value does not fit:
  that choice is the parameter \<open>impl\<close>.
\<close>

definition f64_of_int :: "int \<Rightarrow> f64" where
  "f64_of_int n = Fin (rnd (of_int n))"

definition f64_of_u64 :: "64 word \<Rightarrow> f64" where
  "f64_of_u64 w = Fin (rnd (of_nat (unat w)))"

definition trunc_rat :: "rat \<Rightarrow> int" where
  "trunc_rat x = (if 0 \<le> x then \<lfloor>x\<rfloor> else \<lceil>x\<rceil>)"

fun u64_of_f64 :: "(f64 \<Rightarrow> 64 word) \<Rightarrow> f64 \<Rightarrow> 64 word" where
  "u64_of_f64 impl (Fin x) =
     (if 0 \<le> trunc_rat x \<and> trunc_rat x < 2 ^ 64 then of_int (trunc_rat x) else impl (Fin x))"
| "u64_of_f64 impl a = impl a"

subsection \<open>Finite results\<close>

lemma fround_fin:
  assumes "\<bar>x\<bar> \<le> p2 1023"
  shows "fround x = Fin (rnd x)"
proof -
  have "rnd x \<le> p2 1023"
    using assms by (intro dbl.le_rep representable_p2) (auto simp: abs_le_iff)
  moreover have "- p2 1023 \<le> rnd x"
    using assms by (intro dbl.ge_rep representable_minus representable_p2) (auto simp: abs_le_iff)
  moreover have "p2 1024 = 2 * p2 1023" using p2_add [of 1 1023] by simp
  moreover have "0 < p2 1023" by simp
  ultimately show ?thesis unfolding fround_def Let_def by auto
qed

lemma fround_fin_small: "\<bar>x\<bar> \<le> 2 ^ 200 \<Longrightarrow> fround x = Fin (rnd x)"
proof (rule fround_fin)
  assume "\<bar>x\<bar> \<le> 2 ^ 200"
  also have "(2::rat) ^ 200 = p2 200" by simp
  also have "\<dots> \<le> p2 1023" by (rule powi_mono) simp
  finally show "\<bar>x\<bar> \<le> p2 1023" .
qed

lemma f64_of_u64_exact: "unat w < 2 ^ 53 \<Longrightarrow> f64_of_u64 w = Fin (of_nat (unat w))"
  unfolding f64_of_u64_def by (simp only: dbl.exact representable_of_nat)

lemma f64_of_u64_bounds:
  obtains x where "f64_of_u64 w = Fin x" "0 \<le> x" "x \<le> 2 ^ 64" "w = 0 \<or> 1 \<le> x" "x = 0 \<longleftrightarrow> w = 0"
proof -
  let ?x = "rnd (of_nat (unat w))"
  have "unat w < 2 ^ 64" using unsigned_less [of w] by simp
  then have "of_nat (unat w) \<le> (of_nat (2 ^ 64) :: rat)" by (simp only: of_nat_le_iff less_imp_le)
  then have "?x \<le> p2 64" by (intro dbl.le_rep representable_p2) simp_all
  moreover have "1 \<le> rnd (of_nat n)" if "n \<noteq> 0" for n
    using that representable_p2 [of 0] by (intro dbl.ge_rep) auto
  then have one: "w \<noteq> 0 \<Longrightarrow> 1 \<le> ?x" by (metis unat_eq_zero)
  moreover have "?x = 0 \<longleftrightarrow> w = 0"
  proof
    assume "?x = 0"
    then show "w = 0" using one by (metis not_one_le_zero)
  qed simp
  moreover have "0 \<le> ?x" by (rule rnd_nonneg) (rule of_nat_0_le_iff)
  ultimately show thesis by (intro that [of ?x]) (auto simp: f64_of_u64_def)
qed

lemma f64_of_u64_mono:
  assumes "a \<le> b" and "f64_of_u64 a = Fin x" and "f64_of_u64 b = Fin y"
  shows "x \<le> y"
proof -
  have "(of_nat (unat a) :: rat) \<le> of_nat (unat b)"
    using assms(1) by (simp only: of_nat_le_iff word_le_nat_alt)
  then show ?thesis using rnd_mono assms(2,3) unfolding f64_of_u64_def f64.inject by blast
qed

end
