(* ===== verification/GoTime.thy ===== *)
theory GoTime
  imports Prelude
begin

text \<open>
  The part of Go's \<open>time\<close> package the farmerbot uses. An instant is the number of nanoseconds
  since the zero \<open>time.Time\<close> (1 January of year 1, UTC), so the zero value is \<open>0\<close>; a
  duration is a signed number of nanoseconds held in 64 bits, and \<open>time.Since\<close> saturates as
  \<open>Time.Sub\<close> does. \<open>time.Local\<close> is a zone of fixed offset \<open>tz\<close> (daylight-saving
  changes are not modelled); the civil fields are computed from the shifted instant.
\<close>

type_synonym time = int
type_synonym duration = int

definition second :: duration where "second = 1000000000"
definition minute :: duration where "minute = 60 * second"
definition hour :: duration where "hour = 60 * minute"
definition day :: duration where "day = 24 * hour"

lemmas duration_defs = second_def minute_def hour_def day_def

definition max_duration :: duration where "max_duration = 2 ^ 63 - 1"
definition min_duration :: duration where "min_duration = - (2 ^ 63)"

definition time_sub :: "time \<Rightarrow> time \<Rightarrow> duration" where
  "time_sub t u = max min_duration (min max_duration (t - u))"

abbreviation (input) time_after :: "time \<Rightarrow> time \<Rightarrow> bool" where
  "time_after t u \<equiv> u < t"

section \<open>Civil fields in a zone of fixed offset\<close>

definition hour_of :: "duration \<Rightarrow> time \<Rightarrow> int" where
  "hour_of tz t = (t + tz) div hour mod 24"

definition minute_of :: "duration \<Rightarrow> time \<Rightarrow> int" where
  "minute_of tz t = (t + tz) div minute mod 60"

text \<open>
  The day of the month of a proleptic Gregorian date, by 400-year eras that start on
  1 March of year 0, 306 days before the zero instant.
\<close>

definition day_of :: "duration \<Rightarrow> time \<Rightarrow> int" where
  "day_of tz t =
     (let z = (t + tz) div day + 306;
          doe = z mod 146097;
          yoe = (doe - doe div 1460 + doe div 36524 - doe div 146096) div 365;
          doy = doe - (365 * yoe + yoe div 4 - yoe div 100);
          mp = (5 * doy + 2) div 153
      in doy - (153 * mp + 2) div 5 + 1)"

text \<open>\<open>time.Date(t.Year(), t.Month(), t.Day(), 0, 0, 0, 0, t.Location())\<close>.\<close>

definition start_of_day :: "duration \<Rightarrow> time \<Rightarrow> time" where
  "start_of_day tz t = t - (t + tz) mod day"

lemma hour_of_range: "0 \<le> hour_of tz t" "hour_of tz t < 24"
  by (simp_all add: hour_of_def)

lemma minute_of_range: "0 \<le> minute_of tz t" "minute_of tz t < 60"
  by (simp_all add: minute_of_def)

lemma start_of_day_le: "start_of_day tz t \<le> t" "t < start_of_day tz t + day"
  by (simp_all add: start_of_day_def duration_defs)

lemma start_of_day_mod: "(start_of_day tz t + tz) mod day = 0"
  by (simp add: start_of_day_def mod_diff_left_eq [symmetric] algebra_simps)

text \<open>Adding \<open>h\<close> hours and \<open>m\<close> minutes to a midnight gives the instant with that clock time.\<close>

lemma clock_of_midnight:
  assumes "(s + tz) mod day = 0" and "0 \<le> h" "h < 24" "0 \<le> m" "m < 60"
  shows "hour_of tz (s + (hour * h + minute * m)) = h"
    and "minute_of tz (s + (hour * h + minute * m)) = m"
proof -
  obtain k where k: "s + tz = day * k" using assms(1) by auto
  then have s: "s = day * k - tz" by simp
  have "(s + (hour * h + minute * m) + tz) div hour = 24 * k + h"
    using assms(2-) by (intro int_div_pos_eq [of _ _ _ "minute * m"]) (simp_all add: s duration_defs)
  then show "hour_of tz (s + (hour * h + minute * m)) = h"
    using assms(2,3) by (simp add: hour_of_def)
  have d: "(s + (hour * h + minute * m) + tz) div minute = 60 * (24 * k + h) + m"
    using assms(2-) by (intro int_div_pos_eq [of _ _ _ 0]) (simp_all add: s duration_defs)
  show "minute_of tz (s + (hour * h + minute * m)) = m"
    unfolding minute_of_def d mod_mult_self4 using assms(4,5) by simp
qed

end
