(* ===== verification/FarmTypes.thy ===== *)
theory FarmTypes
  imports Float64 GoTime
begin

text \<open>
  The data of the farmerbot (\<open>farmerbot/internal/types.go\<close>, \<open>farmerbot/pkg\<close>): capacities and
  their arithmetic on unsigned 64-bit words, nodes with their power state, the configuration,
  and the pure node operations (resources, claiming, unused). Lemmas: the saturating subtraction
  is subtraction of naturals cut at zero, a claim that passed \<open>canClaimResources\<close> neither
  wraps nor exceeds the node.
\<close>

section \<open>Capacities\<close>

record capacity =
  hru :: u64
  sru :: u64
  cru :: u64
  mru :: u64

definition zero_capacity :: capacity where
  "zero_capacity = \<lparr>hru = 0, sru = 0, cru = 0, mru = 0\<rparr>"

text \<open>\<open>pkg.Capacity\<close> and \<open>pkg.Counters\<close>, the statistics a node reports.\<close>

record pkg_capacity =
  CRU :: u64
  SRU :: u64
  HRU :: u64
  MRU :: u64
  IPV4U :: u64

record counters =
  Total :: pkg_capacity
  Used :: pkg_capacity
  System :: pkg_capacity

record pool_metrics =
  pool_name :: string
  pool_type :: string
  pool_size :: u64
  pool_used :: u64

record gpu =
  gpu_id :: string
  gpu_vendor :: string
  gpu_device :: string
  gpu_contract :: u64

definition is_empty_cap :: "capacity \<Rightarrow> bool" where
  "is_empty_cap cap \<longleftrightarrow> cru cap = 0 \<and> mru cap = 0 \<and> sru cap = 0 \<and> hru cap = 0"

definition update_cap :: "capacity \<Rightarrow> pkg_capacity \<Rightarrow> capacity" where
  "update_cap cap c = cap\<lparr>cru := CRU c, mru := MRU c, sru := SRU c, hru := HRU c\<rparr>"

definition add_cap :: "capacity \<Rightarrow> capacity \<Rightarrow> capacity" where
  "add_cap cap c = cap\<lparr>cru := cru cap + cru c, mru := mru cap + mru c,
                       sru := sru cap + sru c, hru := hru cap + hru c\<rparr>"

definition subtractOrZero :: "u64 \<Rightarrow> u64 \<Rightarrow> u64" where
  "subtractOrZero a b = (if b < a then a - b else 0)"

definition subtract_cap :: "capacity \<Rightarrow> capacity \<Rightarrow> capacity" where
  "subtract_cap cap c =
     \<lparr>hru = subtractOrZero (hru cap) (hru c), sru = subtractOrZero (sru cap) (sru c),
      cru = subtractOrZero (cru cap) (cru c), mru = subtractOrZero (mru cap) (mru c)\<rparr>"

named_theorems cap_simps "fields of computed capacities"

lemma unat_subtractOrZero [simp, cap_simps]: "unat (subtractOrZero a b) = unat a - unat b"
  by (auto simp: subtractOrZero_def unat_sub word_le_nat_alt word_less_nat_alt)

lemma subtractOrZero_eq_0 [simp, cap_simps]: "subtractOrZero a b = 0 \<longleftrightarrow> a \<le> b"
  by (metis diff_is_0_eq unat_eq_0 unat_subtractOrZero word_le_nat_alt)

lemma subtract_cap_fields [simp, cap_simps]:
  "hru (subtract_cap a b) = subtractOrZero (hru a) (hru b)"
  "sru (subtract_cap a b) = subtractOrZero (sru a) (sru b)"
  "cru (subtract_cap a b) = subtractOrZero (cru a) (cru b)"
  "mru (subtract_cap a b) = subtractOrZero (mru a) (mru b)"
  by (simp_all add: subtract_cap_def)

lemma add_cap_fields [simp, cap_simps]:
  "hru (add_cap a b) = hru a + hru b" "sru (add_cap a b) = sru a + sru b"
  "cru (add_cap a b) = cru a + cru b" "mru (add_cap a b) = mru a + mru b"
  by (simp_all add: add_cap_def)

text \<open>One capacity fits into another in every dimension.\<close>

definition cap_le :: "capacity \<Rightarrow> capacity \<Rightarrow> bool" where
  "cap_le a b \<longleftrightarrow> cru a \<le> cru b \<and> mru a \<le> mru b \<and> sru a \<le> sru b \<and> hru a \<le> hru b"

lemma subtract_is_empty: "is_empty_cap (subtract_cap a b) \<longleftrightarrow> cap_le a b"
  by (auto simp: is_empty_cap_def cap_le_def)

section \<open>Power states\<close>

text \<open>\<open>powerState\<close>, numbered by \<open>iota\<close> in this order; \<open>findNode\<close> sorts by the number.\<close>

datatype power_state = On | WakingUp | Off | ShuttingDown

fun power_num :: "power_state \<Rightarrow> nat" where
  "power_num On = 0"
| "power_num WakingUp = 1"
| "power_num Off = 2"
| "power_num ShuttingDown = 3"

lemma power_num_inj [simp]: "power_num a = power_num b \<longleftrightarrow> a = b"
  by (cases a; cases b) simp_all

instantiation power_state :: linorder
begin

definition less_eq_power_state :: "power_state \<Rightarrow> power_state \<Rightarrow> bool" where
  "less_eq_power_state a b \<longleftrightarrow> power_num a \<le> power_num b"

definition less_power_state :: "power_state \<Rightarrow> power_state \<Rightarrow> bool" where
  "less_power_state a b \<longleftrightarrow> power_num a < power_num b"

instance
  by intro_classes (auto simp: less_eq_power_state_def less_power_state_def)

end

lemma power_state_le_On [simp]: "s \<le> On \<longleftrightarrow> s = On"
  by (cases s) (simp_all add: less_eq_power_state_def)

section \<open>Nodes and the configuration\<close>

text \<open>The fields of \<open>substrate.Node\<close> and \<open>substrate.Farm\<close> that the farmerbot reads.\<close>

record sub_node =
  sn_id :: u32
  sn_twin :: u32
  sn_resources :: pkg_capacity
  sn_certified :: bool
  sn_public_config :: bool

record farm =
  farm_id :: u32
  farm_twin :: u32
  farm_dedicated :: bool
  farm_public_ips :: "string list"

record consumable_resources =
  total :: capacity
  used :: capacity
  system :: capacity

record node =
  nd :: sub_node
  resources :: consumable_resources
  public_ips_used :: u64
  pools :: "pool_metrics list"
  gpus :: "gpu list"
  has_active_rent_contract :: bool
  has_active_contracts :: bool
  dedicated :: bool
  never_shut_down :: bool
  power_state :: power_state
  timeout_claimed_resources :: time
  last_time_power_state_changed :: time
  last_time_awake :: time
  times_random_wake_ups :: int
  last_time_periodic_wake_up :: time

abbreviation node_id :: "node \<Rightarrow> u32" where "node_id n \<equiv> sn_id (nd n)"
abbreviation twin_id :: "node \<Rightarrow> u32" where "twin_id n \<equiv> sn_twin (nd n)"
abbreviation public_config :: "node \<Rightarrow> bool" where "public_config n \<equiv> sn_public_config (nd n)"

text \<open>\<open>node{}\<close>: Go's zero value.\<close>

definition zero_sub_node :: sub_node where
  "zero_sub_node = \<lparr>sn_id = 0, sn_twin = 0,
     sn_resources = \<lparr>CRU = 0, SRU = 0, HRU = 0, MRU = 0, IPV4U = 0\<rparr>,
     sn_certified = False, sn_public_config = False\<rparr>"

definition zero_node :: node where
  "zero_node = \<lparr>nd = zero_sub_node,
     resources = \<lparr>total = zero_capacity, used = zero_capacity, system = zero_capacity\<rparr>,
     public_ips_used = 0, pools = [], gpus = [], has_active_rent_contract = False,
     has_active_contracts = False, dedicated = False, never_shut_down = False,
     power_state = On, timeout_claimed_resources = 0, last_time_power_state_changed = 0,
     last_time_awake = 0, times_random_wake_ups = 0, last_time_periodic_wake_up = 0\<rparr>"

record node_filter_option =
  nodes_excluded :: "u32 list"
  num_gpu :: u8
  gpu_vendors :: "string list"
  gpu_devices :: "string list"
  opt_certified :: bool
  opt_dedicated :: bool
  opt_public_config :: bool
  opt_public_ips :: u64
  opt_hru :: u64
  opt_sru :: u64
  opt_cru :: u64
  opt_mru :: u64

record thresholds =
  th_cru :: f64
  th_sru :: f64
  th_mru :: f64
  th_hru :: f64

text \<open>\<open>wakeUpDate\<close> is a \<open>time.Time\<close> with its location, here an instant and a zone offset.\<close>

type_synonym wake_up_date = "time \<times> duration"

record power_config =
  wake_up_threshold :: thresholds
  periodic_wake_up_start :: wake_up_date
  periodic_wake_up_limit :: u8
  over_provision_cpu :: int

record config =
  cfg_farm_id :: u32
  included_nodes :: "u32 list"
  excluded_nodes :: "u32 list"
  priority_nodes :: "u32 list"
  never_shut_down_nodes :: "u32 list"
  power :: power_config
  continue_on_powering_on_err :: bool

section \<open>Pure node operations\<close>

definition update_resources :: "node \<Rightarrow> counters \<Rightarrow> node" where
  "update_resources n stats =
     n\<lparr>resources := \<lparr>total = update_cap (total (resources n)) (Total stats),
                     used = update_cap (used (resources n)) (Used stats),
                     system = update_cap (system (resources n)) (System stats)\<rparr>,
       public_ips_used := IPV4U (Used stats)\<rparr>"

definition is_unused :: "node \<Rightarrow> bool" where
  "is_unused n \<longleftrightarrow>
     is_empty_cap (subtract_cap (used (resources n)) (system (resources n)))
     \<and> \<not> has_active_rent_contract n"

definition free_capacity :: "(f64 \<Rightarrow> u64) \<Rightarrow> int \<Rightarrow> node \<Rightarrow> capacity" where
  "free_capacity impl overProvisionCPU n =
     (let t = total (resources n);
          t = t\<lparr>cru := u64_of_f64 impl (fceil (fmul (f64_of_u64 (cru t)) (f64_of_int overProvisionCPU)))\<rparr>
      in subtract_cap t (used (resources n)))"

definition can_claim_resources :: "(f64 \<Rightarrow> u64) \<Rightarrow> capacity \<Rightarrow> int \<Rightarrow> node \<Rightarrow> bool" where
  "can_claim_resources impl cap overProvisionCPU n =
     (let free = free_capacity impl overProvisionCPU n
      in cru cap \<le> cru (total (resources n)) \<and> cru cap \<le> cru free \<and> mru cap \<le> mru free
         \<and> hru cap \<le> hru free \<and> sru cap \<le> sru free)"

definition claim_resources :: "capacity \<Rightarrow> node \<Rightarrow> node" where
  "claim_resources c n = n\<lparr>resources := (resources n)\<lparr>used := add_cap (used (resources n)) c\<rparr>\<rparr>"

lemma is_unused_iff:
  "is_unused n \<longleftrightarrow> cap_le (used (resources n)) (system (resources n)) \<and> \<not> has_active_rent_contract n"
  by (simp add: is_unused_def subtract_is_empty)

lemma claim_resources_fields [simp]:
  "nd (claim_resources c n) = nd n"
  "used (resources (claim_resources c n)) = add_cap (used (resources n)) c"
  "total (resources (claim_resources c n)) = total (resources n)"
  "power_state (claim_resources c n) = power_state n"
  by (simp_all add: claim_resources_def)

text \<open>
  A dimension in which the request fits what is left: adding the request does not wrap and
  stays within the total.
\<close>

lemma claim_fits:
  assumes "c \<le> subtractOrZero t u" and "u \<le> t"
  shows "unat (u + c) = unat u + unat c" and "u + c \<le> t"
proof -
  have s: "unat u + unat c \<le> unat t"
    using assms by (simp add: word_le_nat_alt)
  then have "unat u + unat c < 2 ^ LENGTH(64)" using unat_less_u64 [of t] by simp
  then show eq: "unat (u + c) = unat u + unat c" by (simp add: unat_word_ariths)
  then show "u + c \<le> t" using s by (simp add: word_le_nat_alt)
qed

end
