(* ===== verification/FarmEnv.thy ===== *)
theory FarmEnv
  imports FarmTypes
begin

text \<open>
  The outside world of the farmerbot: the interfaces \<open>Substrate\<close>, \<open>RMB\<close> and
  \<open>ProxyClient\<close>, the clock and the random source. None of this code is in the repository,
  so it is a parameter: a record of functions over an arbitrary world type \<open>'w\<close>, each of
  which may answer anything and change the world. The errors of the bot are one datatype, a
  constructor for each message of the code.
\<close>

datatype ext_err = ErrNotFound | ErrAccountNotFound | ErrOther string

record node_power =
  state_is_up :: bool
  state_is_down :: bool
  target_is_up :: bool
  target_is_down :: bool

record 'w env =
  clk_now :: "'w \<Rightarrow> time \<times> 'w"
  rand_int31 :: "'w \<Rightarrow> int \<times> 'w"
  tz_off :: duration
  conv_impl :: "f64 \<Rightarrow> u64"
  sub_set_node_power_target :: "u32 \<Rightarrow> bool \<Rightarrow> 'w \<Rightarrow> ext_err option \<times> 'w"
  sub_get_power_target :: "u32 \<Rightarrow> 'w \<Rightarrow> (ext_err + node_power) \<times> 'w"
  sub_get_node_rent_contract :: "u32 \<Rightarrow> 'w \<Rightarrow> (u64 \<times> ext_err option) \<times> 'w"
  sub_get_node_contracts :: "u32 \<Rightarrow> 'w \<Rightarrow> (ext_err + u64 list) \<times> 'w"
  sub_get_node :: "u32 \<Rightarrow> 'w \<Rightarrow> (ext_err + sub_node) \<times> 'w"
  sub_get_farm :: "u32 \<Rightarrow> 'w \<Rightarrow> (ext_err + farm) \<times> 'w"
  sub_get_nodes :: "u32 \<Rightarrow> 'w \<Rightarrow> (ext_err + u32 list) \<times> 'w"
  sub_get_dedicated_node_price :: "u32 \<Rightarrow> 'w \<Rightarrow> (ext_err + u64) \<times> 'w"
  rmb_statistics :: "u32 \<Rightarrow> 'w \<Rightarrow> (ext_err + counters) \<times> 'w"
  rmb_get_storage_pools :: "u32 \<Rightarrow> 'w \<Rightarrow> (ext_err + pool_metrics list) \<times> 'w"
  rmb_list_gpus :: "u32 \<Rightarrow> 'w \<Rightarrow> (ext_err + gpu list) \<times> 'w"
  proxy_node_updated_at :: "u32 \<Rightarrow> 'w \<Rightarrow> (ext_err + int) \<times> 'w"
  sub_get_balance :: "'w \<Rightarrow> (int \<times> ext_err option) \<times> 'w"

datatype chain_call =
    CGetNode | CDedicatedPrice | CRentContract | CNodeContracts | CPowerTarget
  | CSetPowerUp | CSetPowerDown | CStatistics | CPools | CGpus

datatype refusal =
    RNeverShutDown | RPublicConfig | RClaimedResources | RRentContract | RActiveContracts
  | RUsed | RWakeupDuration | RLastNodeOn

datatype bad_config =
    BadNodeID u32 | BadTwinID u32 | BadCpuOverProvision int | NoFarmID | TooFewNodes nat
  | NoTotalSRU u32 | NoTotalCRU u32 | NoTotalMRU u32 | BadThreshold thresholds

datatype err_context =
    InAddNode u32 | InUpdateState u32 | InUpdateNode u32 | InGetNode u32 | InManagePower
  | InInclude u32 | InBalance | InPowerOff u32 | InPowerOn u32

datatype fb_err =
    CallFailed chain_call u32 ext_err
  | Refused refusal u32
  | Bad bad_config
  | NodeNotFound u32
  | SubstrateErr ext_err
  | NotAuthorized u32 u32
  | DemandNotMet
  | NotEnoughPublicIPs u32
  | NoSuitableNode node_filter_option
  | PowerOnFoundFailed u32
  | NodeExists u32
  | NodeExcluded u32
  | NotEnoughBalance f64
  | Wrapped err_context fb_err

text \<open>
  The documented behaviour of \<open>Substrate.GetNode\<close> that some properties rely on: the node
  it returns is the one asked for.
\<close>

definition node_ids_ok :: "'w env \<Rightarrow> bool" where
  "node_ids_ok env \<longleftrightarrow> (\<forall>i w n w'. sub_get_node env i w = (Inr n, w') \<longrightarrow> sn_id n = i)"

text \<open>The clock never goes back (Go's monotonic readings).\<close>

definition clock_monotone :: "'w env \<Rightarrow> ('w \<Rightarrow> time) \<Rightarrow> bool" where
  "clock_monotone env c \<longleftrightarrow> (\<forall>w. c w \<le> fst (clk_now env w) \<and> c (snd (clk_now env w)) = fst (clk_now env w))"

text \<open>\<open>periodicWakeUpDuration\<close>, \<open>timeoutPowerStateChange\<close>, \<open>timeoutUpdate\<close> and the other
  constants of \<open>constants.go\<close>.\<close>

definition periodic_wake_up_duration :: duration where "periodic_wake_up_duration = 30 * minute"
definition timeout_power_state_change :: duration where "timeout_power_state_change = 30 * minute"
definition timeout_update_minutes :: int where "timeout_update_minutes = 5"
definition default_random_wake_ups_a_month :: int where "default_random_wake_ups_a_month = 10"
definition default_periodic_wake_up_limit :: u8 where "default_periodic_wake_up_limit = 1"
definition default_cpu_provision :: int where "default_cpu_provision = 2"
definition default_wake_up_threshold :: f64 where "default_wake_up_threshold = Fin 80"
definition min_wake_up_threshold :: f64 where "min_wake_up_threshold = Fin 50"
definition max_wake_up_threshold :: f64 where "max_wake_up_threshold = Fin 80"
definition min_balance_to_run :: f64 where "min_balance_to_run = Fin 5"

section \<open>Reading the clock for a node\<close>

definition can_shut_down :: "'w env \<Rightarrow> node \<Rightarrow> 'w \<Rightarrow> bool \<times> 'w" where
  "can_shut_down env n w =
     (if power_state n \<noteq> On \<or> \<not> is_unused n \<or> public_config n \<or> never_shut_down n
         \<or> has_active_rent_contract n \<or> has_active_contracts n
      then (False, w)
      else case clk_now env w of (t, w) \<Rightarrow>
        if time_after (timeout_claimed_resources n) t then (False, w)
        else case clk_now env w of (t, w) \<Rightarrow>
          (\<not> time_sub t (last_time_power_state_changed n) < periodic_wake_up_duration, w))"

text \<open>The state of a node that the bot may shut down, without the two time conditions.\<close>

definition idle_node :: "node \<Rightarrow> bool" where
  "idle_node n \<longleftrightarrow> is_unused n \<and> \<not> public_config n \<and> \<not> never_shut_down n
     \<and> \<not> has_active_rent_contract n \<and> \<not> has_active_contracts n"

lemma can_shut_down_idle: "can_shut_down env n w = (True, w') \<Longrightarrow> power_state n = On \<and> idle_node n"
  by (auto simp: can_shut_down_def idle_node_def split: if_splits prod.splits)

section \<open>Updating a node from the chain and from the node itself\<close>

text \<open>
  The four tests on the power target. \<open>node.update\<close> reads the clock twice when the node turns
  out to be on, \<open>getNode\<close> once.
\<close>

definition retarget :: "'w env \<Rightarrow> bool \<Rightarrow> power_state \<Rightarrow> node \<Rightarrow> 'w \<Rightarrow> node \<times> 'w" where
  "retarget env c s n w =
     (if c \<and> power_state n \<noteq> s
      then case clk_now env w of (t, w) \<Rightarrow> (n\<lparr>power_state := s, last_time_power_state_changed := t\<rparr>, w)
      else (n, w))"

definition retarget_on :: "'w env \<Rightarrow> bool \<Rightarrow> bool \<Rightarrow> node \<Rightarrow> 'w \<Rightarrow> node \<times> 'w" where
  "retarget_on env twice c n w =
     (if c \<and> power_state n \<noteq> On
      then case clk_now env w of (t1, w) \<Rightarrow>
        case (if twice then clk_now env w else (t1, w)) of (t2, w) \<Rightarrow>
          (n\<lparr>power_state := On, last_time_awake := t1, last_time_power_state_changed := t2\<rparr>, w)
      else (n, w))"

definition power_tests :: "'w env \<Rightarrow> bool \<Rightarrow> node_power \<Rightarrow> node \<Rightarrow> 'w \<Rightarrow> node \<times> 'w" where
  "power_tests env twice p n w =
     (case retarget env (state_is_down p \<and> target_is_up p) WakingUp n w of (n, w) \<Rightarrow>
      case retarget_on env twice (state_is_up p \<and> target_is_up p) n w of (n, w) \<Rightarrow>
      case retarget env (state_is_up p \<and> target_is_down p) ShuttingDown n w of (n, w) \<Rightarrow>
      retarget env (state_is_down p \<and> target_is_down p) Off n w)"

definition update_power :: "'w env \<Rightarrow> node_power \<Rightarrow> node \<Rightarrow> 'w \<Rightarrow> node \<times> 'w" where
  "update_power env = power_tests env True"

definition get_power :: "'w env \<Rightarrow> node_power \<Rightarrow> node \<Rightarrow> 'w \<Rightarrow> node \<times> 'w" where
  "get_power env = power_tests env False"

text \<open>The power state that a decoded power target stands for.\<close>

definition well_formed_power :: "node_power \<Rightarrow> bool" where
  "well_formed_power p \<longleftrightarrow> state_is_up p \<noteq> state_is_down p \<and> target_is_up p \<noteq> target_is_down p"

definition power_of :: "node_power \<Rightarrow> power_state" where
  "power_of p = (if state_is_up p then (if target_is_up p then On else ShuttingDown)
                 else (if target_is_up p then WakingUp else Off))"

text \<open>The power tests write the power state and its times, nothing else.\<close>

definition frame_power :: "node \<Rightarrow> node \<Rightarrow> bool" where
  "frame_power n m \<longleftrightarrow> nd m = nd n \<and> resources m = resources n \<and> never_shut_down m = never_shut_down n
     \<and> dedicated m = dedicated n \<and> has_active_rent_contract m = has_active_rent_contract n
     \<and> has_active_contracts m = has_active_contracts n
     \<and> timeout_claimed_resources m = timeout_claimed_resources n"

lemma frame_power_trans: "frame_power a b \<Longrightarrow> frame_power b c \<Longrightarrow> frame_power a c"
  by (simp add: frame_power_def)

lemma frame_retarget: "retarget env c s n w = (m, w') \<Longrightarrow> frame_power n m"
  by (auto simp: retarget_def frame_power_def split: if_splits prod.splits)

lemma frame_retarget_on: "retarget_on env twice c n w = (m, w') \<Longrightarrow> frame_power n m"
  by (auto simp: retarget_on_def frame_power_def split: if_splits prod.splits)

lemma state_retarget:
  "retarget env c s n w = (m, w') \<Longrightarrow> power_state m = (if c then s else power_state n)"
  by (auto simp: retarget_def split: if_splits prod.splits)

lemma state_retarget_on:
  "retarget_on env twice c n w = (m, w') \<Longrightarrow> power_state m = (if c then On else power_state n)"
  by (auto simp: retarget_on_def split: if_splits prod.splits)

lemma frame_power_tests: "power_tests env twice p n w = (m, w') \<Longrightarrow> frame_power n m"
  unfolding power_tests_def
  by (auto split: prod.splits dest!: frame_retarget frame_retarget_on intro: frame_power_trans)

lemma state_power_tests:
  assumes "power_tests env twice p n w = (m, w')" and "well_formed_power p"
  shows "power_state m = power_of p"
proof -
  obtain n1 w1 where 1: "retarget env (state_is_down p \<and> target_is_up p) WakingUp n w = (n1, w1)" by fastforce
  obtain n2 w2 where 2: "retarget_on env twice (state_is_up p \<and> target_is_up p) n1 w1 = (n2, w2)" by fastforce
  obtain n3 w3 where 3: "retarget env (state_is_up p \<and> target_is_down p) ShuttingDown n2 w2 = (n3, w3)" by fastforce
  have 4: "retarget env (state_is_down p \<and> target_is_down p) Off n3 w3 = (m, w')"
    using assms(1) by (simp add: power_tests_def 1 2 3)
  show ?thesis
    using state_retarget [OF 1] state_retarget_on [OF 2] state_retarget [OF 3] state_retarget [OF 4] assms(2)
    by (auto simp: well_formed_power_def power_of_def)
qed

text \<open>
  \<open>node.update\<close>: the node is a local copy which the caller stores even when the update fails
  half-way, so an error carries the node as it then is.
\<close>

definition update_node_info ::
  "'w env \<Rightarrow> bool \<Rightarrow> bool \<Rightarrow> bool \<Rightarrow> node \<Rightarrow> 'w \<Rightarrow> (fb_err \<times> node + node) \<times> 'w" where
  "update_node_info env neverShutDown dedicatedFarm continueOnErr n w =
    (let nodeID = node_id n; twinID = twin_id n in
     if nodeID = 0 then (Inl (Bad (BadNodeID nodeID), n), w)
     else if twinID = 0 then (Inl (Bad (BadTwinID nodeID), n), w)
     else bindE (wrapE (\<lambda>e. (CallFailed CGetNode nodeID e, n)) (sub_get_node env nodeID w)) (\<lambda>nodeObj w.
     let n = n\<lparr>nd := nodeObj, never_shut_down := neverShutDown\<rparr> in
     bindE (wrapE (\<lambda>e. (CallFailed CDedicatedPrice nodeID e, n)) (sub_get_dedicated_node_price env nodeID w)) (\<lambda>price w.
     let n = (if price \<noteq> 0 \<or> dedicatedFarm then n\<lparr>dedicated := True\<rparr> else n) in
     case sub_get_node_rent_contract env nodeID w of ((rentContract, err), w) \<Rightarrow>
     let n = (if err = Some ErrNotFound then n\<lparr>has_active_rent_contract := False\<rparr> else n) in
     case (case err of None \<Rightarrow> None | Some ErrNotFound \<Rightarrow> None | Some e \<Rightarrow> Some e) of
       Some e \<Rightarrow> (Inl (CallFailed CRentContract nodeID e, n), w)
     | None \<Rightarrow>
     let n = n\<lparr>has_active_rent_contract := rentContract \<noteq> 0\<rparr> in
     bindE (wrapE (\<lambda>e. (CallFailed CNodeContracts nodeID e, n)) (sub_get_node_contracts env nodeID w)) (\<lambda>activeContracts w.
     let n = n\<lparr>has_active_contracts := 0 < length activeContracts\<rparr> in
     bindE (wrapE (\<lambda>e. (CallFailed CPowerTarget nodeID e, n)) (sub_get_power_target env nodeID w)) (\<lambda>powerTarget w.
     case update_power env powerTarget n w of (n, w) \<Rightarrow>
     if (power_state n = Off \<or> power_state n = WakingUp) \<and> continueOnErr then (Inr n, w)
     else case clk_now env w of (t, w) \<Rightarrow>
     bindE (if time_after (timeout_claimed_resources n) t then (Inr n, w)
            else bindE (wrapE (\<lambda>e. (CallFailed CStatistics nodeID e, n)) (rmb_statistics env twinID w))
                   (\<lambda>stats w. (Inr (update_resources n stats), w))) (\<lambda>n w.
     bindE (wrapE (\<lambda>e. (CallFailed CPools nodeID e, n)) (rmb_get_storage_pools env twinID w)) (\<lambda>ps w.
     let n = n\<lparr>pools := ps\<rparr> in
     bindE (wrapE (\<lambda>e. (CallFailed CGpus nodeID e, n)) (rmb_list_gpus env twinID w)) (\<lambda>gs w.
     (Inr (n\<lparr>gpus := gs\<rparr>), w)))))))))"

text \<open>\<open>getNode\<close>: a fresh node from the chain and the node's statistics.\<close>

definition get_node_info ::
  "'w env \<Rightarrow> u32 \<Rightarrow> bool \<Rightarrow> bool \<Rightarrow> bool \<Rightarrow> bool \<Rightarrow> power_state \<Rightarrow> 'w \<Rightarrow> (fb_err + node) \<times> 'w" where
  "get_node_info env nodeID continueOnErr neverShutDown hasClaimedResources dedicatedFarm oldPowerState w =
    bindE (wrapE (CallFailed CGetNode nodeID) (sub_get_node env nodeID w)) (\<lambda>nodeObj w.
    let n = zero_node\<lparr>nd := nodeObj, never_shut_down := neverShutDown\<rparr> in
    bindE (wrapE (CallFailed CDedicatedPrice nodeID) (sub_get_dedicated_node_price env nodeID w)) (\<lambda>price w.
    let n = (if price \<noteq> 0 \<or> dedicatedFarm then n\<lparr>dedicated := True\<rparr> else n) in
    case sub_get_node_rent_contract env nodeID w of ((rentContract, err), w) \<Rightarrow>
    case (case err of None \<Rightarrow> None | Some ErrNotFound \<Rightarrow> None | Some e \<Rightarrow> Some e) of
      Some e \<Rightarrow> (Inl (CallFailed CRentContract nodeID e), w)
    | None \<Rightarrow>
    let n = n\<lparr>has_active_rent_contract := rentContract \<noteq> 0\<rparr> in
    bindE (wrapE (CallFailed CNodeContracts nodeID) (sub_get_node_contracts env nodeID w)) (\<lambda>activeContracts w.
    let n = n\<lparr>has_active_contracts := 0 < length activeContracts\<rparr> in
    bindE (wrapE (CallFailed CPowerTarget nodeID) (sub_get_power_target env nodeID w)) (\<lambda>powerTarget w.
    case get_power env powerTarget (n\<lparr>power_state := oldPowerState\<rparr>) w of (n, w) \<Rightarrow>
    if (power_state n = Off \<or> power_state n = WakingUp) \<and> continueOnErr
    then (Inr (n\<lparr>resources := (resources n)\<lparr>total :=
                 update_cap (total (resources n)) ((sn_resources (nd n))\<lparr>IPV4U := 0\<rparr>)\<rparr>\<rparr>), w)
    else
    bindE (if hasClaimedResources then (Inr n, w)
           else bindE (wrapE (CallFailed CStatistics nodeID) (rmb_statistics env (twin_id n) w))
                  (\<lambda>stats w. (Inr (update_resources n stats), w))) (\<lambda>n w.
    bindE (wrapE (CallFailed CPools nodeID) (rmb_get_storage_pools env (twin_id n) w)) (\<lambda>ps w.
    let n = n\<lparr>pools := ps\<rparr> in
    bindE (wrapE (CallFailed CGpus nodeID) (rmb_list_gpus env (twin_id n) w)) (\<lambda>gs w.
    (Inr (n\<lparr>gpus := gs\<rparr>), w))))))))"

end
