(* ===== verification/FarmState.thy ===== *)
theory FarmState
  imports FarmEnv
begin

text \<open>
  \<open>farmerbot/internal/state.go\<close>: the farm, its nodes and the configuration, with the operations
  on the node list, the construction of the first state and its validation. The interface of
  the node list is the locale \<open>keyed_store\<close> (what a lookup returns after an insertion, a
  replacement and a deletion); it is interpreted by the operations of the state.
\<close>

record state =
  st_farm :: farm
  st_nodes :: "node list"
  st_config :: config

section \<open>The interface of a keyed store\<close>

locale keyed_store =
  fixes key :: "'v \<Rightarrow> 'k"
    and ids :: "'s \<Rightarrow> 'k list"
    and lookup :: "'s \<Rightarrow> 'k \<Rightarrow> 'v option"
    and add :: "'v \<Rightarrow> 's \<Rightarrow> 's"
    and upd :: "'v \<Rightarrow> 's \<Rightarrow> 's option"
    and del :: "'k \<Rightarrow> 's \<Rightarrow> 's"
  assumes lookup_key: "lookup s k = Some v \<Longrightarrow> key v = k"
    and lookup_None: "lookup s k = None \<longleftrightarrow> k \<notin> set (ids s)"
    and ids_add: "ids (add v s) = ids s @ [key v]"
    and lookup_add: "key v \<notin> set (ids s) \<Longrightarrow> lookup (add v s) k = (if k = key v then Some v else lookup s k)"
    and upd_None: "upd v s = None \<longleftrightarrow> key v \<notin> set (ids s)"
    and ids_upd: "upd v s = Some s' \<Longrightarrow> ids s' = ids s"
    and lookup_upd: "upd v s = Some s' \<Longrightarrow> lookup s' k = (if k = key v then Some v else lookup s k)"
    and ids_del: "ids (del k s) = remove1 k (ids s)"
    and lookup_del_other: "k' \<noteq> k \<Longrightarrow> lookup (del k s) k' = lookup s k'"
begin

lemma lookup_ex: "k \<in> set (ids s) \<Longrightarrow> \<exists>v. lookup s k = Some v \<and> key v = k"
  by (metis lookup_None lookup_key not_None_eq)

text \<open>Writing back a modified copy of what was read: always possible, and local.\<close>

lemma write_back:
  assumes "lookup s k = Some v" and "key v' = k"
  obtains s' where "upd v' s = Some s'" "ids s' = ids s"
    "\<And>j. lookup s' j = (if j = k then Some v' else lookup s j)"
proof -
  have "k \<in> set (ids s)" using assms(1) lookup_None by (metis option.distinct(1))
  then obtain s' where s': "upd v' s = Some s'" using assms(2) upd_None by (metis not_None_eq)
  show thesis by (rule that [OF s']) (use s' ids_upd lookup_upd assms(2) in auto)
qed

lemma distinct_add: "distinct (ids s) \<Longrightarrow> lookup s (key v) = None \<Longrightarrow> distinct (ids (add v s))"
  by (simp add: ids_add lookup_None)

lemma distinct_upd: "distinct (ids s) \<Longrightarrow> upd v s = Some s' \<Longrightarrow> distinct (ids s')"
  by (simp add: ids_upd)

lemma distinct_del: "distinct (ids s) \<Longrightarrow> distinct (ids (del k s))"
  by (simp add: ids_del)

lemma lookup_del: "distinct (ids s) \<Longrightarrow> lookup (del k s) j = (if j = k then None else lookup s j)"
  by (auto simp: lookup_del_other lookup_None ids_del)

lemma del_absent: "lookup s k = None \<Longrightarrow> ids (del k s) = ids s"
  by (simp add: ids_del lookup_None remove1_idem)

end

section \<open>Operations on the node list\<close>

definition get_node :: "state \<Rightarrow> u32 \<Rightarrow> fb_err + nat \<times> node" where
  "get_node s nodeID =
     (case find_first (\<lambda>n. node_id n = nodeID) (st_nodes s) of
        Some (i, n) \<Rightarrow> Inr (i, n)
      | None \<Rightarrow> Inl (NodeNotFound nodeID))"

definition add_node :: "node \<Rightarrow> state \<Rightarrow> state" where
  "add_node n s = s\<lparr>st_nodes := st_nodes s @ [n]\<rparr>"

definition delete_node :: "u32 \<Rightarrow> state \<Rightarrow> state" where
  "delete_node nodeID s = s\<lparr>st_nodes := delete_first (\<lambda>n. node_id n = nodeID) (st_nodes s)\<rparr>"

definition update_node :: "node \<Rightarrow> state \<Rightarrow> fb_err + state" where
  "update_node n s =
     (case replace_first (\<lambda>m. node_id m = node_id n) n (st_nodes s) of
        Some ns \<Rightarrow> Inr (s\<lparr>st_nodes := ns\<rparr>)
      | None \<Rightarrow> Inl (NodeNotFound (node_id n)))"

definition filter_nodes_power :: "power_state list \<Rightarrow> state \<Rightarrow> node list" where
  "filter_nodes_power states s = filter (\<lambda>n. power_state n \<in> set states) (st_nodes s)"

fun filter_can_shut_down :: "'w env \<Rightarrow> node list \<Rightarrow> 'w \<Rightarrow> node list \<times> 'w" where
  "filter_can_shut_down env [] w = ([], w)"
| "filter_can_shut_down env (n # ns) w =
     (case can_shut_down env n w of (ok, w) \<Rightarrow>
      case filter_can_shut_down env ns w of (rest, w) \<Rightarrow> (if ok then n # rest else rest, w))"

definition filter_allowed_nodes_to_shut_down :: "'w env \<Rightarrow> state \<Rightarrow> 'w \<Rightarrow> node list \<times> 'w" where
  "filter_allowed_nodes_to_shut_down env s w = filter_can_shut_down env (st_nodes s) w"

text \<open>The store seen through optional values, for the interface.\<close>

abbreviation state_ids :: "state \<Rightarrow> u32 list" where
  "state_ids s \<equiv> map node_id (st_nodes s)"

definition lookup_node :: "state \<Rightarrow> u32 \<Rightarrow> node option" where
  "lookup_node s i = (case get_node s i of Inl _ \<Rightarrow> None | Inr (_, n) \<Rightarrow> Some n)"

definition replace_node :: "node \<Rightarrow> state \<Rightarrow> state option" where
  "replace_node n s = (case update_node n s of Inl _ \<Rightarrow> None | Inr s' \<Rightarrow> Some s')"

lemma lookup_node_find: "lookup_node s i = map_option snd (find_first (\<lambda>n. node_id n = i) (st_nodes s))"
  by (auto simp: lookup_node_def get_node_def split: option.splits)

lemma get_node_Inr: "get_node s i = Inr (k, n) \<Longrightarrow> lookup_node s i = Some n"
  by (simp add: lookup_node_def)

lemma get_node_Inl: "get_node s i = Inl e \<longleftrightarrow> lookup_node s i = None \<and> e = NodeNotFound i"
  by (auto simp: lookup_node_def get_node_def split: option.splits)

lemma lookup_get_node: "lookup_node s i = Some n \<Longrightarrow> \<exists>k. get_node s i = Inr (k, n)"
  by (auto simp: lookup_node_def split: sum.splits prod.splits)

lemma update_node_Inr: "update_node n s = Inr s' \<longleftrightarrow> replace_node n s = Some s'"
  by (auto simp: replace_node_def split: sum.splits)

lemma find_first_append:
  "map_option snd (find_first p (xs @ ys)) =
     (case find_first p xs of Some (_, x) \<Rightarrow> Some x | None \<Rightarrow> map_option snd (find_first p ys))"
  by (induction xs) (auto split: option.splits simp: option.map_comp o_def)

interpretation store: keyed_store node_id state_ids lookup_node add_node replace_node delete_node
proof
  fix s s' :: state and k k' :: u32 and v :: node
  show "lookup_node s k = Some v \<Longrightarrow> node_id v = k"
    by (auto simp: lookup_node_find dest: find_first_in_set)
  show "lookup_node s k = None \<longleftrightarrow> k \<notin> set (state_ids s)"
    by (auto simp: lookup_node_find find_first_None_iff)
  show "state_ids (add_node v s) = state_ids s @ [node_id v]"
    by (simp add: add_node_def)
  show "node_id v \<notin> set (state_ids s) \<Longrightarrow>
      lookup_node (add_node v s) k = (if k = node_id v then Some v else lookup_node s k)"
    by (auto simp: lookup_node_find add_node_def find_first_append split: option.splits
        dest!: find_first_in_set) (metis imageI)+
  show "replace_node v s = None \<longleftrightarrow> node_id v \<notin> set (state_ids s)"
  proof -
    have "replace_node v s = None \<longleftrightarrow> replace_first (\<lambda>m. node_id m = node_id v) v (st_nodes s) = None"
      by (simp add: replace_node_def update_node_def split: option.split)
    also have "\<dots> \<longleftrightarrow> (\<forall>m \<in> set (st_nodes s). node_id m \<noteq> node_id v)"
      by (rule replace_first_None_iff)
    also have "\<dots> \<longleftrightarrow> node_id v \<notin> set (state_ids s)" by (simp add: image_iff) metis
    finally show ?thesis .
  qed
  show "replace_node v s = Some s' \<Longrightarrow> state_ids s' = state_ids s"
    by (auto simp: replace_node_def update_node_def split: option.splits intro: replace_first_map)
  show "replace_node v s = Some s' \<Longrightarrow>
      lookup_node s' k = (if k = node_id v then Some v else lookup_node s k)"
  proof -
    assume "replace_node v s = Some s'"
    then obtain ns where ns: "replace_first (\<lambda>m. node_id m = node_id v) v (st_nodes s) = Some ns"
      and s': "s' = s\<lparr>st_nodes := ns\<rparr>"
      by (auto simp: replace_node_def update_node_def split: option.splits)
    show ?thesis
    proof (cases "k = node_id v")
      case True
      then show ?thesis using find_first_replace [OF ns] by (auto simp: lookup_node_find s')
    next
      case False
      then have "find_first (\<lambda>n. node_id n = k) ns = find_first (\<lambda>n. node_id n = k) (st_nodes s)"
        by (intro find_first_replace_other [OF ns]) auto
      then show ?thesis using False by (simp add: lookup_node_find s')
    qed
  qed
  show "state_ids (delete_node k s) = remove1 k (state_ids s)"
  proof -
    have "map node_id (delete_first (\<lambda>n. node_id n = k) ns) = remove1 k (map node_id ns)" for ns
      by (induction ns) auto
    then show ?thesis by (simp add: delete_node_def)
  qed
  show "k' \<noteq> k \<Longrightarrow> lookup_node (delete_node k s) k' = lookup_node s k'"
    by (auto simp: lookup_node_find delete_node_def intro: find_first_delete_other)
qed

section \<open>Selecting nodes\<close>

lemma filter_can_shut_down_idle:
  "filter_can_shut_down env ns w = (ms, w') \<Longrightarrow> n \<in> set ms \<Longrightarrow>
     n \<in> set ns \<and> power_state n = On \<and> idle_node n"
proof (induction ns arbitrary: w ms w')
  case (Cons m ns)
  then show ?case by (fastforce split: prod.splits if_splits dest: can_shut_down_idle)
qed simp

section \<open>Order of the farm's nodes\<close>

text \<open>\<open>addPriorityToNodes\<close>: two loops that append to the result.\<close>

fun add_valid_priority :: "u32 list \<Rightarrow> u32 list \<Rightarrow> u32 list \<Rightarrow> u32 list" where
  "add_valid_priority [] farmNodes acc = acc"
| "add_valid_priority (p # ps) farmNodes acc =
     add_valid_priority ps farmNodes (if p \<in> set farmNodes \<and> p \<notin> set acc then acc @ [p] else acc)"

fun add_missing :: "u32 list \<Rightarrow> u32 list \<Rightarrow> u32 list" where
  "add_missing [] acc = acc"
| "add_missing (x # xs) acc = add_missing xs (if x \<notin> set acc then acc @ [x] else acc)"

definition add_priority_to_nodes :: "u32 list \<Rightarrow> u32 list \<Rightarrow> u32 list" where
  "add_priority_to_nodes priorityNodes farmNodes =
     add_missing farmNodes (add_valid_priority priorityNodes farmNodes [])"

lemma set_add_missing [simp]: "set (add_missing xs acc) = set acc \<union> set xs"
  by (induction xs arbitrary: acc) auto

lemma distinct_add_missing: "distinct acc \<Longrightarrow> distinct (add_missing xs acc)"
  by (induction xs arbitrary: acc) auto

lemma add_missing_prefix: "\<exists>rest. add_missing xs acc = acc @ rest"
proof (induction xs arbitrary: acc)
  case (Cons x xs)
  obtain rest where "add_missing (x # xs) acc = (if x \<notin> set acc then acc @ [x] else acc) @ rest"
    using Cons [of "if x \<notin> set acc then acc @ [x] else acc"] by auto
  then show ?case by (cases "x \<in> set acc") simp_all
qed simp

lemma set_add_valid_priority [simp]:
  "set (add_valid_priority ps farmNodes acc) = set acc \<union> (set ps \<inter> set farmNodes)"
  by (induction ps arbitrary: acc) auto

lemma distinct_add_valid_priority:
  "distinct acc \<Longrightarrow> distinct (add_valid_priority ps farmNodes acc)"
  by (induction ps arbitrary: acc) auto

section \<open>Construction and validation of the state\<close>

text \<open>\<open>wakeUpDate.PeriodicWakeUpTime\<close>: today at the configured hour and minute.\<close>

definition periodic_wake_up_time :: "'w env \<Rightarrow> wake_up_date \<Rightarrow> 'w \<Rightarrow> time \<times> 'w" where
  "periodic_wake_up_time env d w =
     (case clk_now env w of (now, w) \<Rightarrow>
        (start_of_day (tz_off env) now
           + (hour * hour_of (snd d) (fst d) + minute * minute_of (snd d) (fst d)), w))"

fun check_nodes :: "node list \<Rightarrow> fb_err + unit" where
  "check_nodes [] = Inr ()"
| "check_nodes (n # ns) =
     (if node_id n = 0 then Inl (Bad (BadNodeID (node_id n)))
      else if twin_id n = 0 then Inl (Bad (BadTwinID (node_id n)))
      else if sru (total (resources n)) = 0 then Inl (Bad (NoTotalSRU (node_id n)))
      else if cru (total (resources n)) = 0 then Inl (Bad (NoTotalCRU (node_id n)))
      else if mru (total (resources n)) = 0 then Inl (Bad (NoTotalMRU (node_id n)))
      else check_nodes ns)"

definition default_threshold :: "f64 \<Rightarrow> f64" where
  "default_threshold t = (if feq t (Fin 0) then default_wake_up_threshold else t)"

definition threshold_out_of_range :: "f64 \<Rightarrow> bool" where
  "threshold_out_of_range t \<longleftrightarrow> flt t (Fin 1) \<or> flt (Fin 100) t"

definition clamp_threshold :: "f64 \<Rightarrow> f64" where
  "clamp_threshold t =
     (let t = (if flt t min_wake_up_threshold then min_wake_up_threshold else t)
      in if flt max_wake_up_threshold t then max_wake_up_threshold else t)"

definition map_thresholds :: "(f64 \<Rightarrow> f64) \<Rightarrow> thresholds \<Rightarrow> thresholds" where
  "map_thresholds f t = \<lparr>th_cru = f (th_cru t), th_sru = f (th_sru t), th_mru = f (th_mru t), th_hru = f (th_hru t)\<rparr>"

definition any_threshold :: "(f64 \<Rightarrow> bool) \<Rightarrow> thresholds \<Rightarrow> bool" where
  "any_threshold p t \<longleftrightarrow> p (th_cru t) \<or> p (th_hru t) \<or> p (th_sru t) \<or> p (th_mru t)"

definition validate_power :: "'w env \<Rightarrow> power_config \<Rightarrow> 'w \<Rightarrow> (fb_err + power_config) \<times> 'w" where
  "validate_power env p w =
     (let th = map_thresholds default_threshold (wake_up_threshold p) in
      if any_threshold threshold_out_of_range th then (Inl (Bad (BadThreshold th)), w)
      else let p = p\<lparr>wake_up_threshold := map_thresholds clamp_threshold th\<rparr> in
      case periodic_wake_up_time env (periodic_wake_up_start p) w of (t1, w) \<Rightarrow>
      case (if hour_of (tz_off env) t1 = 0
            then case periodic_wake_up_time env (periodic_wake_up_start p) w of
                   (t2, w) \<Rightarrow> (minute_of (tz_off env) t2 = 0, w)
            else (False, w)) of (unset, w) \<Rightarrow>
      case (if unset
            then case clk_now env w of
                   (now, w) \<Rightarrow> (p\<lparr>periodic_wake_up_start := (now, tz_off env)\<rparr>, w)
            else (p, w)) of (p, w) \<Rightarrow>
      case periodic_wake_up_time env (periodic_wake_up_start p) w of (t3, w) \<Rightarrow>
      let p = p\<lparr>periodic_wake_up_start := (t3, tz_off env)\<rparr> in
      (Inr (if periodic_wake_up_limit p = 0
            then p\<lparr>periodic_wake_up_limit := default_periodic_wake_up_limit\<rparr> else p), w))"

definition validate :: "'w env \<Rightarrow> state \<Rightarrow> 'w \<Rightarrow> (fb_err + state) \<times> 'w" where
  "validate env s w =
     (if farm_id (st_farm s) = 0 then (Inl (Bad NoFarmID), w)
      else if length (st_nodes s) < 2 then (Inl (Bad (TooFewNodes (length (st_nodes s)))), w)
      else bindE (check_nodes (st_nodes s), w) (\<lambda>_ w.
      bindE (validate_power env (power (st_config s)) w) (\<lambda>p w.
      (Inr (s\<lparr>st_config := (st_config s)\<lparr>power := p\<rparr>\<rparr>), w))))"

fun fetch_loop :: "'w env \<Rightarrow> config \<Rightarrow> bool \<Rightarrow> u32 list \<Rightarrow> node list \<Rightarrow> 'w \<Rightarrow> (fb_err + node list) \<times> 'w" where
  "fetch_loop env cfg dedicatedFarm [] acc w = (Inr acc, w)"
| "fetch_loop env cfg dedicatedFarm (nodeID # ids) acc w =
     (if nodeID \<in> set (excluded_nodes cfg) then fetch_loop env cfg dedicatedFarm ids acc w
      else if nodeID \<in> set (included_nodes cfg) \<or> length (included_nodes cfg) = 0
      then bindE (wrapE (Wrapped (InAddNode nodeID))
             (get_node_info env nodeID (continue_on_powering_on_err cfg)
                (nodeID \<in> set (never_shut_down_nodes cfg)) False dedicatedFarm On w))
             (\<lambda>n w. fetch_loop env cfg dedicatedFarm ids (acc @ [n]) w)
      else fetch_loop env cfg dedicatedFarm ids acc w)"

definition fetch_nodes :: "'w env \<Rightarrow> config \<Rightarrow> bool \<Rightarrow> 'w \<Rightarrow> (fb_err + node list) \<times> 'w" where
  "fetch_nodes env cfg dedicatedFarm w =
     bindE (wrapE SubstrateErr (sub_get_nodes env (cfg_farm_id cfg) w)) (\<lambda>farmNodes w.
       fetch_loop env cfg dedicatedFarm (add_priority_to_nodes (priority_nodes cfg) farmNodes) [] w)"

definition new_state :: "'w env \<Rightarrow> config \<Rightarrow> u32 \<Rightarrow> 'w \<Rightarrow> (fb_err + state) \<times> 'w" where
  "new_state env cfg twinID w =
     (let over = (if over_provision_cpu (power cfg) = 0 then default_cpu_provision
                  else over_provision_cpu (power cfg));
          cfg' = cfg\<lparr>power := (power cfg)\<lparr>over_provision_cpu := over\<rparr>\<rparr>
      in if over < 1 \<or> 4 < over then (Inl (Bad (BadCpuOverProvision over)), w)
      else bindE (wrapE SubstrateErr (sub_get_farm env (cfg_farm_id cfg) w)) (\<lambda>farm w.
        if twinID \<noteq> farm_twin farm then (Inl (NotAuthorized twinID (farm_twin farm)), w)
        else bindE (fetch_nodes env cfg (farm_dedicated farm) w) (\<lambda>nodes w.
          validate env \<lparr>st_farm = farm, st_nodes = nodes, st_config = cfg'\<rparr> w)))"

end
