(* ===== verification/FarmPower.thy ===== *)
theory FarmPower
  imports FarmState
begin

text \<open>
  \<open>farmerbot/internal/power.go\<close>: powering nodes on and off, and the power management of a
  round (usage, demand above the thresholds, selection of nodes to wake up, shutting down of
  idle nodes). An operation takes the state and the world and returns an optional error, the
  state and the world; the state can change although an error is returned.

  Lemmas: what a successful or failed \<open>powerOff\<close> did (\<open>power_off_effect\<close>), that some node
  stays on, when a selection of nodes meets a demand, when a demand is zero.
\<close>

section \<open>Powering on and off\<close>

definition store_node :: "node \<Rightarrow> state \<Rightarrow> 'w \<Rightarrow> fb_err option \<times> state \<times> 'w" where
  "store_node n s w = (case update_node n s of Inl e \<Rightarrow> (Some e, s, w) | Inr s' \<Rightarrow> (None, s', w))"

definition wake :: "node \<Rightarrow> time \<Rightarrow> time \<Rightarrow> node" where
  "wake n t1 t2 = n\<lparr>power_state := WakingUp, last_time_awake := t1, last_time_power_state_changed := t2\<rparr>"

definition power_on :: "'w env \<Rightarrow> u32 \<Rightarrow> state \<Rightarrow> 'w \<Rightarrow> fb_err option \<times> state \<times> 'w" where
  "power_on env nodeID s w =
     (case get_node s nodeID of
        Inl e \<Rightarrow> (Some e, s, w)
      | Inr (_, n) \<Rightarrow>
          if power_state n = On \<or> power_state n = WakingUp then (None, s, w)
          else case sub_set_node_power_target env nodeID True w of
            (Some e, w) \<Rightarrow> (Some (CallFailed CSetPowerUp nodeID e), s, w)
          | (None, w) \<Rightarrow>
              case clk_now env w of (t1, w) \<Rightarrow> case clk_now env w of (t2, w) \<Rightarrow>
              store_node (wake n t1 t2) s w)"

definition shut :: "node \<Rightarrow> time \<Rightarrow> node" where
  "shut n t = n\<lparr>power_state := ShuttingDown, last_time_power_state_changed := t\<rparr>"

definition power_off_call :: "'w env \<Rightarrow> u32 \<Rightarrow> node \<Rightarrow> state \<Rightarrow> 'w \<Rightarrow> fb_err option \<times> state \<times> 'w" where
  "power_off_call env nodeID n s w =
     (case sub_set_node_power_target env nodeID False w of
        (None, w) \<Rightarrow> (case clk_now env w of (t, w) \<Rightarrow> store_node (shut n t) s w)
      | (Some e, w) \<Rightarrow>
          case sub_get_power_target env nodeID w of
            (Inl getErr, w) \<Rightarrow> (Some (CallFailed CPowerTarget nodeID getErr), s, w)
          | (Inr p, w) \<Rightarrow>
              if state_is_down p \<or> target_is_down p
              then case clk_now env w of (t, w) \<Rightarrow>
                case store_node (shut n t) s w of
                  (Some updateErr, s, w) \<Rightarrow> (Some updateErr, s, w)
                | (None, s, w) \<Rightarrow> (Some (CallFailed CSetPowerDown nodeID e), s, w)
              else (Some (CallFailed CSetPowerDown nodeID e), s, w))"

definition power_off :: "'w env \<Rightarrow> u32 \<Rightarrow> state \<Rightarrow> 'w \<Rightarrow> fb_err option \<times> state \<times> 'w" where
  "power_off env nodeID s w =
     (case get_node s nodeID of
        Inl e \<Rightarrow> (Some e, s, w)
      | Inr (_, n) \<Rightarrow>
          if power_state n = Off \<or> power_state n = ShuttingDown then (None, s, w)
          else if never_shut_down n then (Some (Refused RNeverShutDown nodeID), s, w)
          else if public_config n then (Some (Refused RPublicConfig nodeID), s, w)
          else case clk_now env w of (t1, w) \<Rightarrow>
          if time_after (timeout_claimed_resources n) t1
          then (Some (Refused RClaimedResources nodeID), s, w)
          else if has_active_rent_contract n then (Some (Refused RRentContract nodeID), s, w)
          else if has_active_contracts n then (Some (Refused RActiveContracts nodeID), s, w)
          else if \<not> is_unused n then (Some (Refused RUsed nodeID), s, w)
          else case clk_now env w of (t2, w) \<Rightarrow>
          if time_sub t2 (last_time_power_state_changed n) < periodic_wake_up_duration
          then (Some (Refused RWakeupDuration nodeID), s, w)
          else if length (filter_nodes_power [On] s) < 2
          then (Some (Refused RLastNodeOn nodeID), s, w)
          else power_off_call env nodeID n s w)"

lemma shut_fields [simp]:
  "power_state (shut n t) = ShuttingDown" "nd (shut n t) = nd n"
  by (simp_all add: shut_def)

lemma wake_fields [simp]:
  "power_state (wake n a t) = WakingUp" "nd (wake n a t) = nd n"
  by (simp_all add: wake_def)

subsection \<open>What the operations do to the node list\<close>

text \<open>\<open>set_node s n s'\<close>: the state with its node of the same id replaced by \<open>n\<close>.\<close>

definition set_node :: "state \<Rightarrow> node \<Rightarrow> state \<Rightarrow> bool" where
  "set_node s n s' \<longleftrightarrow> update_node n s = Inr s'"

lemma set_node_lookup:
  assumes "set_node s n s'"
  shows "lookup_node s' i = (if i = node_id n then Some n else lookup_node s i)"
    and "state_ids s' = state_ids s"
  using assms store.lookup_upd store.ids_upd by (auto simp: set_node_def update_node_Inr)

lemma set_node_frame: "set_node s n s' \<Longrightarrow> st_farm s' = st_farm s \<and> st_config s' = st_config s"
  by (auto simp: set_node_def update_node_def split: option.splits)

lemma store_node_known:
  assumes "lookup_node s i = Some n" and "node_id n' = node_id n"
  obtains s' where "store_node n' s w = (None, s', w)" and "set_node s n' s'"
proof -
  have "node_id n = i" using assms(1) by (rule store.lookup_key)
  then obtain s' where "replace_node n' s = Some s'"
    using store.write_back [OF assms(1), of n'] assms(2) by auto
  then have "update_node n' s = Inr s'" by (simp add: update_node_Inr)
  then show thesis by (intro that [of s']) (simp_all add: store_node_def set_node_def)
qed

lemma store_node_cases:
  "store_node n s w = (r, s', w') \<Longrightarrow> s' = s \<or> set_node s n s'"
  by (auto simp: store_node_def set_node_def split: sum.splits)

lemma power_on_cases:
  assumes "power_on env i s w = (r, s', w')"
  obtains (same) "s' = s"
  | (woken) n t1 t2 where "lookup_node s i = Some n" "power_state n = Off \<or> power_state n = ShuttingDown"
      "set_node s (wake n t1 t2) s'"
      "r = None"
proof (cases "get_node s i")
  case (Inl e)
  then show thesis using assms same by (simp add: power_on_def)
next
  case (Inr p)
  obtain k n where g: "get_node s i = Inr (k, n)" using Inr by (cases p) auto
  then have l: "lookup_node s i = Some n" by (rule get_node_Inr)
  show thesis
  proof (cases "power_state n = On \<or> power_state n = WakingUp")
    case True
    then show thesis using assms g same by (auto simp: power_on_def)
  next
    case False
    then have off: "power_state n = Off \<or> power_state n = ShuttingDown" by (cases "power_state n") auto
    obtain r1 w1 where c: "sub_set_node_power_target env i True w = (r1, w1)" by fastforce
    show thesis
    proof (cases r1)
      case None
      obtain t1 w2 where t1: "clk_now env w1 = (t1, w2)" by fastforce
      obtain t2 w3 where t2: "clk_now env w2 = (t2, w3)" by fastforce
      let ?m = "wake n t1 t2"
      obtain s'' where "store_node ?m s w3 = (None, s'', w3)" "set_node s ?m s''"
        by (rule store_node_known [OF l, where n' = ?m and w = w3]) auto
      then show thesis using assms g False c None t1 t2 l off woken by (auto simp: power_on_def)
    next
      case (Some e)
      then show thesis using assms g False c same by (auto simp: power_on_def)
    qed
  qed
qed

lemma power_off_call_cases:
  assumes "power_off_call env i n s w = (r, s', w')"
  shows "s' = s \<or> (\<exists>t. set_node s (shut n t) s')"
  using assms by (auto simp: power_off_call_def split: prod.splits option.splits sum.splits if_splits
      dest!: store_node_cases)

text \<open>The conditions under which the state can come out changed.\<close>

definition may_power_off :: "state \<Rightarrow> node \<Rightarrow> bool" where
  "may_power_off s n \<longleftrightarrow> idle_node n \<and> (power_state n = On \<or> power_state n = WakingUp)
     \<and> 2 \<le> length (filter_nodes_power [On] s)"

lemma power_off_effect:
  assumes "power_off env i s w = (r, s', w')"
  obtains (same) "s' = s"
  | (shut) n t where "lookup_node s i = Some n" "may_power_off s n" "set_node s (shut n t) s'"
proof (cases "get_node s i")
  case (Inl e)
  then show thesis using assms same by (simp add: power_off_def)
next
  case (Inr p)
  obtain k n where g: "get_node s i = Inr (k, n)" using Inr by (cases p) auto
  then have l: "lookup_node s i = Some n" by (rule get_node_Inr)
  obtain t1 w1 where t1: "clk_now env w = (t1, w1)" by fastforce
  obtain t2 w2 where t2: "clk_now env w1 = (t2, w2)" by fastforce
  have "s' = s \<or> may_power_off s n \<and> power_off_call env i n s w2 = (r, s', w')"
    using assms by (cases "power_state n")
      (auto simp: power_off_def g t1 t2 may_power_off_def idle_node_def split: if_splits)
  then consider "s' = s" | t where "may_power_off s n" "set_node s (shut n t) s'"
    by (elim disjE conjE) (auto dest: power_off_call_cases)
  then show thesis by cases (use same shut l in blast)+
qed

lemma power_on_frame:
  assumes "power_on env i s w = (r, s', w')"
  shows "state_ids s' = state_ids s" "st_farm s' = st_farm s" "st_config s' = st_config s"
  using assms by (cases rule: power_on_cases; use set_node_lookup set_node_frame in auto)+

lemma power_off_frame:
  assumes "power_off env i s w = (r, s', w')"
  shows "state_ids s' = state_ids s" "st_farm s' = st_farm s" "st_config s' = st_config s"
  using assms by (cases rule: power_off_effect; use set_node_lookup set_node_frame in auto)+

end
