(* ===== verification/FarmManage.thy ===== *)
theory FarmManage
  imports FarmPower
begin

text \<open>
  The power management of a round (\<open>manageNodesPower\<close> and its helpers, \<open>power.go\<close>).
  Lemmas: a demand is zero exactly when the usage does not exceed the threshold; which demands
  a selection of nodes meets; the shutting-down loop only shuts idle nodes and leaves one on.
\<close>

section \<open>Usage and demand\<close>

fun usage_loop :: "node list \<Rightarrow> capacity \<Rightarrow> capacity \<Rightarrow> capacity \<times> capacity" where
  "usage_loop [] usedResources totalResources = (usedResources, totalResources)"
| "usage_loop (n # ns) usedResources totalResources =
     usage_loop ns
       (add_cap usedResources (if has_active_rent_contract n then total (resources n) else used (resources n)))
       (add_cap totalResources (total (resources n)))"

definition calculate_resource_usage :: "node list \<Rightarrow> capacity \<times> capacity" where
  "calculate_resource_usage nodes = usage_loop nodes zero_capacity zero_capacity"

definition usage_percent :: "u64 \<Rightarrow> u64 \<Rightarrow> f64" where
  "usage_percent u t = fmul (fdiv (f64_of_u64 u) (f64_of_u64 t)) (Fin 100)"

definition demand_for :: "(f64 \<Rightarrow> u64) \<Rightarrow> u64 \<Rightarrow> u64 \<Rightarrow> f64 \<Rightarrow> u64" where
  "demand_for impl t u th =
     (if flt th (usage_percent u t)
      then u64_of_f64 impl (fceil (fmul (fdiv (fsub (usage_percent u t) th) (Fin 100)) (f64_of_u64 t)))
      else 0)"

definition calculate_demand :: "(f64 \<Rightarrow> u64) \<Rightarrow> capacity \<Rightarrow> capacity \<Rightarrow> thresholds \<Rightarrow> capacity" where
  "calculate_demand impl tot us th =
     \<lparr>hru = (if 0 < hru tot then demand_for impl (hru tot) (hru us) (th_hru th) else 0),
      sru = demand_for impl (sru tot) (sru us) (th_sru th),
      cru = demand_for impl (cru tot) (cru us) (th_cru th),
      mru = demand_for impl (mru tot) (mru us) (th_mru th)\<rparr>"

definition check_resources_meet_demand :: "capacity \<Rightarrow> capacity \<Rightarrow> capacity \<Rightarrow> bool" where
  "check_resources_meet_demand tot us demand \<longleftrightarrow>
     cru demand \<le> cru tot - cru us \<and> sru demand \<le> sru tot - sru us
     \<and> mru demand \<le> mru tot - mru us \<and> hru demand \<le> hru tot - hru us"

section \<open>Waking nodes up\<close>

definition take_dim :: "u64 \<Rightarrow> u64 \<Rightarrow> bool \<times> u64" where
  "take_dim need have =
     (if 0 < need \<and> need \<le> have then (True, subtractOrZero need have) else (False, need))"

fun select_loop :: "node list \<Rightarrow> capacity \<Rightarrow> node list \<Rightarrow> capacity \<times> node list" where
  "select_loop [] remaining selected = (remaining, selected)"
| "select_loop (n # ns) remaining selected =
     (if power_state n \<noteq> Off then select_loop ns remaining selected
      else
        let (c1, rc) = take_dim (cru remaining) (CRU (sn_resources (nd n)));
            (c2, rs) = take_dim (sru remaining) (SRU (sn_resources (nd n)));
            (c3, rm) = take_dim (mru remaining) (MRU (sn_resources (nd n)));
            (c4, rh) = take_dim (hru remaining) (HRU (sn_resources (nd n)));
            remaining = \<lparr>hru = rh, sru = rs, cru = rc, mru = rm\<rparr>;
            selected = (if c1 \<or> c2 \<or> c3 \<or> c4 then selected @ [n] else selected)
        in if is_empty_cap remaining then (remaining, selected)
           else select_loop ns remaining selected)"

definition select_nodes_to_power_on :: "capacity \<Rightarrow> node list \<Rightarrow> fb_err + node list" where
  "select_nodes_to_power_on demand nodes =
     (case select_loop nodes demand [] of (remaining, selected) \<Rightarrow>
        if 0 < cru remaining \<or> 0 < sru remaining \<or> 0 < mru remaining \<or> 0 < hru remaining
        then Inl DemandNotMet else Inr selected)"

fun power_on_all :: "'w env \<Rightarrow> node list \<Rightarrow> state \<Rightarrow> 'w \<Rightarrow> state \<times> 'w" where
  "power_on_all env [] s w = (s, w)"
| "power_on_all env (n # ns) s w =
     (case power_on env (node_id n) s w of (_, s, w) \<Rightarrow> power_on_all env ns s w)"

definition resource_usage_too_high :: "'w env \<Rightarrow> capacity \<Rightarrow> state \<Rightarrow> 'w \<Rightarrow> fb_err option \<times> state \<times> 'w" where
  "resource_usage_too_high env demand s w =
     (case select_nodes_to_power_on demand (st_nodes s) of
        Inl e \<Rightarrow> (Some e, s, w)
      | Inr nodes \<Rightarrow> (case power_on_all env nodes s w of (s, w) \<Rightarrow> (None, s, w)))"

section \<open>Shutting idle nodes down\<close>

fun shut_down_loop ::
  "'w env \<Rightarrow> thresholds \<Rightarrow> node list \<Rightarrow> capacity \<Rightarrow> capacity \<Rightarrow> nat \<Rightarrow> state \<Rightarrow> 'w \<Rightarrow> state \<times> 'w" where
  "shut_down_loop env th [] newUsed newTotal nodesLeftOnline s w = (s, w)"
| "shut_down_loop env th (n # ns) newUsed newTotal nodesLeftOnline s w =
     (if nodesLeftOnline = 1 then (s, w)
      else
        let nodesLeftOnline = nodesLeftOnline - 1;
            cpUsed = newUsed; cpTotal = newTotal;
            newUsed = subtract_cap newUsed (used (resources n));
            newTotal = subtract_cap newTotal (total (resources n))
        in if is_empty_cap newTotal then (s, w)
           else if check_resources_meet_demand newTotal newUsed
                     (calculate_demand (conv_impl env) newTotal newUsed th)
           then case power_off env (node_id n) s w of
               (None, s, w) \<Rightarrow> shut_down_loop env th ns newUsed newTotal nodesLeftOnline s w
             | (Some e, s, w) \<Rightarrow>
                 if power_state n = ShuttingDown
                 then shut_down_loop env th ns newUsed newTotal nodesLeftOnline s w
                 else shut_down_loop env th ns cpUsed cpTotal (nodesLeftOnline + 1) s w
           else shut_down_loop env th ns newUsed newTotal nodesLeftOnline s w)"

definition resource_usage_too_low ::
  "'w env \<Rightarrow> capacity \<Rightarrow> capacity \<Rightarrow> state \<Rightarrow> 'w \<Rightarrow> fb_err option \<times> state \<times> 'w" where
  "resource_usage_too_low env usedResources totalResources s w =
     (let onNodes = filter_nodes_power [On] s in
      case filter_allowed_nodes_to_shut_down env s w of (allowed, w) \<Rightarrow>
      if length onNodes \<le> 1 then (None, s, w)
      else if length allowed = 0 then (None, s, w)
      else case shut_down_loop env (wake_up_threshold (power (st_config s))) allowed
                  usedResources totalResources (length onNodes) s w of
             (s, w) \<Rightarrow> (None, s, w))"

definition manage_nodes_power :: "'w env \<Rightarrow> state \<Rightarrow> 'w \<Rightarrow> fb_err option \<times> state \<times> 'w" where
  "manage_nodes_power env s w =
     (let nodes = filter_nodes_power [On, WakingUp] s;
          (usedResources, totalResources) = calculate_resource_usage nodes;
          demand = calculate_demand (conv_impl env) totalResources usedResources
                     (wake_up_threshold (power (st_config s)))
      in if 0 < cru demand \<or> 0 < mru demand \<or> 0 < sru demand \<or> 0 < hru demand
         then resource_usage_too_high env demand s w
         else resource_usage_too_low env usedResources totalResources s w)"


section \<open>When a demand is zero\<close>

lemma ceil_to_u64:
  assumes "0 < y" and "y \<le> 2 ^ 63"
  shows "u64_of_f64 impl (fceil (Fin y)) = of_int \<lceil>y\<rceil>" and "1 \<le> \<lceil>y\<rceil>" and "\<lceil>y\<rceil> \<le> 2 ^ 63"
proof -
  show 1: "1 \<le> \<lceil>y\<rceil>" using assms(1) by linarith
  have "y \<le> of_int (2 ^ 63)" using assms(2) by simp
  then show 2: "\<lceil>y\<rceil> \<le> 2 ^ 63" by (simp only: ceiling_le_iff)
  have "trunc_rat (of_int \<lceil>y\<rceil>) = \<lceil>y\<rceil>" by (simp add: trunc_rat_def)
  then show "u64_of_f64 impl (fceil (Fin y)) = of_int \<lceil>y\<rceil>" using 1 2 by simp
qed

text \<open>
  The exact chain of the code, for a use that does not exceed the total: the percentage is a
  double between 0 and 100, and above the threshold the shortfall is at least \<open>2^(-47)\<close>, so
  neither the division by 100 nor the product with the total can round it to zero.
\<close>

lemma usage_percent_range:
  assumes "u \<le> t" and "t \<noteq> 0"
  obtains p where "usage_percent u t = Fin p" "representable p" "0 \<le> p" "p \<le> 100"
proof -
  obtain U where U: "f64_of_u64 u = Fin U" "0 \<le> U" using f64_of_u64_bounds [of u] by metis
  obtain T where T: "f64_of_u64 t = Fin T" "0 \<le> T" "T \<le> 2 ^ 64" "t = 0 \<or> 1 \<le> T" "T = 0 \<longleftrightarrow> t = 0"
    by (rule f64_of_u64_bounds [of t])
  have UT: "U \<le> T" using assms(1) U(1) T(1) by (rule f64_of_u64_mono)
  have T0: "0 < T" using T assms(2) by force
  have q: "0 \<le> U / T" "U / T \<le> 1" using U(2) UT T0 by (simp_all add: divide_le_eq)
  then have q': "0 \<le> rnd (U / T)" "rnd (U / T) \<le> 1"
    using dbl.le_rep [of 1 "U / T"] representable_p2 [of 0] by (simp_all add: rnd_nonneg)
  have "\<bar>U / T\<bar> \<le> 1" using q by (simp only: abs_of_nonneg)
  then have "\<bar>U / T\<bar> \<le> 2 ^ 200" by (rule order_trans) simp
  then have "fround (U / T) = Fin (rnd (U / T))" by (rule fround_fin_small)
  then have div: "fdiv (f64_of_u64 u) (f64_of_u64 t) = Fin (rnd (U / T))"
    using T0 U(1) T(1) by simp
  let ?p = "rnd (rnd (U / T) * 100)"
  have "usage_percent u t = Fin ?p"
    unfolding usage_percent_def div using q' by (simp add: fround_fin_small)
  moreover have "0 \<le> ?p" using q' by (simp add: rnd_nonneg)
  moreover have "?p \<le> 100"
    using q' representable_of_nat [of 100] by (intro dbl.le_rep) simp_all
  ultimately show thesis using that representable_rnd by blast
qed

lemma demand_for_positive:
  assumes "u \<le> t" and "t \<noteq> 0" and "representable x" and "50 \<le> x" and "x \<le> 100"
    and "usage_percent u t = Fin p" and "x < p"
  shows "demand_for impl t u (Fin x) \<noteq> 0"
proof -
  obtain p' where "usage_percent u t = Fin p'" "representable p'" "p' \<le> 100"
    using usage_percent_range [OF assms(1,2)] by metis
  then have p: "representable p" "p \<le> 100" using assms(6) by auto
  have big: "p2 5 \<le> x" using assms(4) by simp
  obtain m where m: "x = of_int m * p2 (-47)" using representable_grid [OF assms(3) big] by auto
  obtain k where k: "p = of_int k * p2 (-47)" using representable_grid [OF p(1), of 5] big assms(7) by auto
  have "of_int m * p2 (-47) < of_int k * p2 (-47)" using m k assms(7) by simp
  then have "m < k" by (simp add: mult_less_cancel_right)
  then have "1 * p2 (-47) \<le> of_int (k - m) * p2 (-47)" by (intro mult_right_mono) simp_all
  then have gap: "p2 (-47) \<le> p - x" using m k by (simp add: algebra_simps)
  obtain T where T: "f64_of_u64 t = Fin T" "0 \<le> T" "T \<le> 2 ^ 64" "t = 0 \<or> 1 \<le> T" "T = 0 \<longleftrightarrow> t = 0"
    by (rule f64_of_u64_bounds [of t])
  have T1: "1 \<le> T" using T(4) assms(2) by simp
  let ?d = "rnd (p - x)"
  have d: "p2 (-47) \<le> ?d" "?d \<le> 50"
    using gap assms(4) p(2) representable_of_nat [of 50]
    by (intro dbl.ge_rep dbl.le_rep representable_p2; simp)+
  let ?e = "rnd (?d / 100)"
  have "p2 (-54) \<le> ?d / 100"
  proof -
    have "100 * p2 (-54) \<le> p2 7 * p2 (-54)" by simp
    also have "\<dots> = p2 (7 + -54)" by (rule p2_add [symmetric])
    also have "\<dots> = p2 (-47)" by simp
    finally show ?thesis using d(1) by simp
  qed
  then have e: "p2 (-54) \<le> ?e" by (intro dbl.ge_rep representable_p2) simp_all
  have e2: "?e \<le> p2 (-1)" using d(2) by (intro dbl.le_rep representable_p2) simp_all
  let ?r = "rnd (?e * T)"
  have "p2 (-54) * 1 \<le> ?e * T" using e T1 by (intro mult_mono) simp_all
  then have r: "p2 (-54) \<le> ?r" by (intro dbl.ge_rep representable_p2) simp_all
  have "?e * T \<le> p2 (-1) * 2 ^ 64" using e e2 T by (intro mult_mono) simp_all
  then have r2: "?r \<le> p2 63" by (intro dbl.le_rep representable_p2) simp_all
  have p54: "0 < p2 (-54)" and p47: "0 < p2 (-47)" by simp_all
  have s: "fsub (Fin p) (Fin x) = Fin ?d"
    using gap assms(4) p p47 by (simp add: fsub_def fround_fin_small)
  have v: "fdiv (Fin ?d) (Fin 100) = Fin ?e"
    using d p47 by (simp add: fround_fin_small)
  have x: "fmul (Fin ?e) (Fin T) = Fin ?r"
  proof -
    have "0 \<le> ?e * T" using e p54 T(2) by (intro mult_nonneg_nonneg) linarith+
    then show ?thesis using \<open>?e * T \<le> p2 (-1) * 2 ^ 64\<close> by (simp add: fround_fin_small)
  qed
  have rpos: "0 < ?r" using r p54 by linarith
  have r63: "?r \<le> 2 ^ 63" using r2 by simp
  have "demand_for impl t u (Fin x) = of_int \<lceil>?r\<rceil>"
    unfolding demand_for_def assms(6) T(1) s v x using assms(7) ceil_to_u64(1) [OF rpos r63] by simp
  moreover have "(of_int \<lceil>?r\<rceil> :: u64) \<noteq> 0"
  proof -
    have "0 < \<lceil>?r\<rceil>" "\<lceil>?r\<rceil> < 2 ^ 64" using ceil_to_u64(2,3) [OF rpos r63] by simp_all
    then have "uint (of_int \<lceil>?r\<rceil> :: u64) = \<lceil>?r\<rceil>"
      by (simp add: uint_word_of_int)
    then show ?thesis using \<open>0 < \<lceil>?r\<rceil>\<close> by (metis less_irrefl unsigned_0)
  qed
  ultimately show ?thesis by simp
qed


lemma usage_percent_zero [simp]: "usage_percent 0 0 = NaN"
  by (simp add: usage_percent_def f64_of_u64_def inf_sgn_def)

section \<open>Which demands a selection meets\<close>

lemma take_dim_rem: "snd (take_dim need have) = (if need \<le> have then 0 else need)"
  by (auto simp: take_dim_def word_gt_0)

lemma take_dim_contributes: "fst (take_dim need have) \<longleftrightarrow> need \<noteq> 0 \<and> need \<le> have"
  by (auto simp: take_dim_def word_gt_0)

text \<open>The four dimensions of a demand with the capacity of a node that answers them.\<close>

definition dims :: "((capacity \<Rightarrow> u64) \<times> (pkg_capacity \<Rightarrow> u64)) set" where
  "dims = {(cru, CRU), (sru, SRU), (mru, MRU), (hru, HRU)}"

lemma dims_cases [consumes 1]:
  "(d, c) \<in> dims \<Longrightarrow> (d = cru \<Longrightarrow> c = CRU \<Longrightarrow> P) \<Longrightarrow> (d = sru \<Longrightarrow> c = SRU \<Longrightarrow> P) \<Longrightarrow>
   (d = mru \<Longrightarrow> c = MRU \<Longrightarrow> P) \<Longrightarrow> (d = hru \<Longrightarrow> c = HRU \<Longrightarrow> P) \<Longrightarrow> P"
  by (auto simp: dims_def)

definition node_cap :: "(pkg_capacity \<Rightarrow> u64) \<Rightarrow> node \<Rightarrow> u64" where
  "node_cap c n = c (sn_resources (nd n))"

definition take_node :: "capacity \<Rightarrow> node \<Rightarrow> capacity" where
  "take_node rem n = \<lparr>hru = snd (take_dim (hru rem) (node_cap HRU n)),
     sru = snd (take_dim (sru rem) (node_cap SRU n)), cru = snd (take_dim (cru rem) (node_cap CRU n)),
     mru = snd (take_dim (mru rem) (node_cap MRU n))\<rparr>"

definition contributes :: "capacity \<Rightarrow> node \<Rightarrow> bool" where
  "contributes rem n \<longleftrightarrow> (\<exists>(d, c) \<in> dims. d rem \<noteq> 0 \<and> d rem \<le> node_cap c n)"

lemma take_node_dim: "(d, c) \<in> dims \<Longrightarrow> d (take_node rem n) = (if d rem \<le> node_cap c n then 0 else d rem)"
  by (erule dims_cases) (auto simp: take_node_def take_dim_rem)

lemma select_loop_Cons:
  "select_loop (n # ns) rem sel =
     (if power_state n \<noteq> Off then select_loop ns rem sel
      else let sel' = (if contributes rem n then sel @ [n] else sel)
           in if is_empty_cap (take_node rem n) then (take_node rem n, sel')
              else select_loop ns (take_node rem n) sel')"
  by (auto simp: take_node_def node_cap_def contributes_def dims_def Let_def take_dim_contributes [symmetric]
      split: prod.splits)

declare select_loop.simps(2) [simp del]

lemma empty_dims: "is_empty_cap c \<longleftrightarrow> (\<forall>(d, x) \<in> dims. d c = 0)"
  by (auto simp: is_empty_cap_def dims_def)

lemma select_loop_remaining:
  assumes "(d, c) \<in> dims"
  shows "d (fst (select_loop ns rem sel)) =
    (if \<exists>n \<in> set ns. power_state n = Off \<and> d rem \<le> node_cap c n then 0 else d rem)"
proof (induction ns arbitrary: rem sel)
  case (Cons n ns)
  have t: "d (take_node rem n) = (if d rem \<le> node_cap c n then 0 else d rem)"
    using assms by (rule take_node_dim)
  show ?case
  proof (cases "power_state n = Off")
    case True
    show ?thesis
    proof (cases "is_empty_cap (take_node rem n)")
      case emp: True
      then have z: "d (take_node rem n) = 0" using assms by (auto simp: empty_dims)
      then have "d rem \<le> node_cap c n" using t by (auto split: if_splits)
      then show ?thesis using True emp z by (auto simp: select_loop_Cons Let_def)
    next
      case False
      then show ?thesis using True t by (auto simp: select_loop_Cons Let_def Cons)
    qed
  next
    case False
    then show ?thesis by (auto simp: select_loop_Cons Cons)
  qed
qed simp

lemma select_nodes_ok:
  "(\<exists>sel. select_nodes_to_power_on demand nodes = Inr sel) \<longleftrightarrow>
     (\<forall>(d, c) \<in> dims. d demand \<noteq> 0 \<longrightarrow> (\<exists>n \<in> set nodes. power_state n = Off \<and> d demand \<le> node_cap c n))"
proof -
  let ?rem = "fst (select_loop nodes demand [])"
  have "(\<exists>sel. select_nodes_to_power_on demand nodes = Inr sel) \<longleftrightarrow> (\<forall>(d, c) \<in> dims. d ?rem = 0)"
    by (auto simp: select_nodes_to_power_on_def dims_def word_gt_0 split: prod.splits)
  also have "\<dots> \<longleftrightarrow> (\<forall>(d, c) \<in> dims. d demand \<noteq> 0 \<longrightarrow>
      (\<exists>n \<in> set nodes. power_state n = Off \<and> d demand \<le> node_cap c n))"
    by (intro ball_cong refl) (auto simp: select_loop_remaining split: if_splits)
  finally show ?thesis .
qed

text \<open>Every selected node is off, and one selected node alone covers each demanded dimension.\<close>

lemma select_loop_selected:
  "set (snd (select_loop ns rem sel)) \<subseteq> set sel \<union> {n \<in> set ns. power_state n = Off}"
proof (induction ns arbitrary: rem sel)
  case (Cons n ns)
  show ?case
    using Cons [of "take_node rem n" "if contributes rem n then sel @ [n] else sel"] Cons [of rem sel]
    by (auto simp: select_loop_Cons Let_def)
qed simp

lemma select_loop_keeps: "set sel \<subseteq> set (snd (select_loop ns rem sel))"
proof (induction ns arbitrary: rem sel)
  case (Cons n ns)
  show ?case
    using Cons [of "if contributes rem n then sel @ [n] else sel" "take_node rem n"] Cons [of sel rem]
    by (auto simp: select_loop_Cons Let_def)
qed simp

lemma select_loop_covers:
  assumes "(d, c) \<in> dims" and "d rem \<noteq> 0" and "d (fst (select_loop ns rem sel)) = 0"
  shows "\<exists>n \<in> set (snd (select_loop ns rem sel)). d rem \<le> node_cap c n"
  using assms(2,3)
proof (induction ns arbitrary: rem sel)
  case (Cons n ns)
  let ?sel = "if contributes rem n then sel @ [n] else sel"
  show ?case
  proof (cases "power_state n = Off \<and> d rem \<le> node_cap c n")
    case True
    then have "contributes rem n" using assms(1) Cons.prems(1) by (auto simp: contributes_def)
    then have "n \<in> set (snd (select_loop (n # ns) rem sel))"
      using True select_loop_keeps [of ?sel ns "take_node rem n"] by (auto simp: select_loop_Cons Let_def)
    then show ?thesis using True by blast
  next
    case False
    then have "power_state n = Off \<Longrightarrow> d (take_node rem n) = d rem"
      using take_node_dim [OF assms(1)] by simp
    then show ?thesis
      using Cons.IH [of "take_node rem n" ?sel] Cons.IH [of rem sel] Cons.prems assms(1)
      by (auto simp: select_loop_Cons Let_def empty_dims split: if_splits)
  qed
qed simp


text \<open>A node is selected only if it zeroes a dimension, so at most four are.\<close>

definition open_dims :: "capacity \<Rightarrow> nat" where
  "open_dims c = (if cru c = 0 then 0 else 1) + (if sru c = 0 then 0 else 1)
     + (if mru c = 0 then 0 else 1) + (if hru c = 0 then 0 else 1)"

lemma open_dims_take:
  "open_dims (take_node rem n) + (if contributes rem n then 1 else 0) \<le> open_dims rem"
  by (auto simp: open_dims_def contributes_def dims_def take_node_def take_dim_rem)

lemma select_loop_length:
  "length (snd (select_loop ns rem sel)) + open_dims (fst (select_loop ns rem sel))
     \<le> length sel + open_dims rem"
proof (induction ns arbitrary: rem sel)
  case (Cons n ns)
  let ?sel = "if contributes rem n then sel @ [n] else sel"
  show ?case
    using Cons [of "take_node rem n" ?sel] Cons [of rem sel] open_dims_take [of rem n]
    by (auto simp: select_loop_Cons Let_def split: if_splits)
qed simp

section \<open>The effect of a round of power management\<close>

definition on_count :: "state \<Rightarrow> nat" where
  "on_count s = length (filter_nodes_power [On] s)"

text \<open>
  Between two states, every node is untouched, or satisfied \<open>P\<close> and was changed by \<open>R\<close>.
  Changes compose when a changed node no longer satisfies \<open>P\<close>.
\<close>

definition guarded_change :: "(node \<Rightarrow> bool) \<Rightarrow> (node \<Rightarrow> node \<Rightarrow> bool) \<Rightarrow> state \<Rightarrow> state \<Rightarrow> bool" where
  "guarded_change P R s s' \<longleftrightarrow> (\<forall>i. lookup_node s' i = lookup_node s i \<or>
     (\<exists>n m. lookup_node s i = Some n \<and> P n \<and> R n m \<and> lookup_node s' i = Some m))"

lemma guarded_change_refl [simp]: "guarded_change P R s s"
  by (simp add: guarded_change_def)

lemma guarded_change_trans:
  assumes "guarded_change P R a b" and "guarded_change P R b c" and "\<And>n m. R n m \<Longrightarrow> \<not> P m"
  shows "guarded_change P R a c"
  unfolding guarded_change_def
proof
  fix i
  consider "lookup_node b i = lookup_node a i" |
    n m where "lookup_node a i = Some n" "P n" "R n m" "lookup_node b i = Some m"
    using assms(1) unfolding guarded_change_def by metis
  then show "lookup_node c i = lookup_node a i \<or>
     (\<exists>n m. lookup_node a i = Some n \<and> P n \<and> R n m \<and> lookup_node c i = Some m)"
  proof cases
    case 1
    then show ?thesis using assms(2) unfolding guarded_change_def by metis
  next
    case (2 n m)
    then have "lookup_node c i = Some m"
      using assms(2,3) unfolding guarded_change_def by (metis option.inject)
    then show ?thesis using 2 by auto
  qed
qed

lemma guarded_change_set_node:
  assumes "lookup_node s i = Some n" and "P n" and "R n m" and "nd m = nd n" and "set_node s m s'"
  shows "guarded_change P R s s'"
proof -
  have "node_id n = i" using assms(1) by (rule store.lookup_key)
  then show ?thesis using assms set_node_lookup [OF assms(5)] by (auto simp: guarded_change_def)
qed

text \<open>Some idle nodes were told to shut down, all others are untouched.\<close>

definition only_idle_shut :: "state \<Rightarrow> state \<Rightarrow> bool" where
  "only_idle_shut = guarded_change
     (\<lambda>n. idle_node n \<and> (power_state n = On \<or> power_state n = WakingUp)) (\<lambda>n m. \<exists>t. m = shut n t)"

text \<open>Some nodes that were off or going off were told to wake up, all others are untouched.\<close>

definition only_off_woken :: "state \<Rightarrow> state \<Rightarrow> bool" where
  "only_off_woken = guarded_change
     (\<lambda>n. power_state n = Off \<or> power_state n = ShuttingDown) (\<lambda>n m. \<exists>a t. m = wake n a t)"

lemma only_refl [simp]: "only_idle_shut s s" "only_off_woken s s"
  by (simp_all add: only_idle_shut_def only_off_woken_def)

lemma only_idle_shut_trans: "only_idle_shut a b \<Longrightarrow> only_idle_shut b c \<Longrightarrow> only_idle_shut a c"
  unfolding only_idle_shut_def by (rule guarded_change_trans) auto

lemma only_off_woken_trans: "only_off_woken a b \<Longrightarrow> only_off_woken b c \<Longrightarrow> only_off_woken a c"
  unfolding only_off_woken_def by (rule guarded_change_trans) auto

definition same_frame :: "state \<Rightarrow> state \<Rightarrow> bool" where
  "same_frame s s' \<longleftrightarrow> state_ids s' = state_ids s \<and> st_farm s' = st_farm s \<and> st_config s' = st_config s"

lemma same_frame_refl [simp]: "same_frame s s"
  by (simp add: same_frame_def)

lemma same_frame_trans: "same_frame a b \<Longrightarrow> same_frame b c \<Longrightarrow> same_frame a c"
  by (simp add: same_frame_def)

lemma on_count_replace:
  "replace_first p n xs = Some ys \<Longrightarrow> length (filter q xs) \<le> Suc (length (filter q ys))"
  by (induction xs arbitrary: ys) (auto split: if_splits)

lemma on_count_set_node:
  assumes "set_node s n s'"
  shows "on_count s \<le> Suc (on_count s')"
  using assms by (auto simp: set_node_def update_node_def on_count_def filter_nodes_power_def
      split: option.splits dest: on_count_replace)

lemma power_off_round:
  assumes "power_off env i s w = (r, s', w')"
  shows "same_frame s s'" and "only_idle_shut s s'" and "1 \<le> on_count s \<Longrightarrow> 1 \<le> on_count s'"
proof -
  show "same_frame s s'" using power_off_frame [OF assms] by (simp add: same_frame_def)
  show "only_idle_shut s s'"
    using assms
  proof (cases rule: power_off_effect)
    case (shut n t)
    then show ?thesis unfolding only_idle_shut_def
      by (intro guarded_change_set_node [OF shut(1) _ _ _ shut(3)]) (auto simp: may_power_off_def)
  qed simp
  show "1 \<le> on_count s'" if "1 \<le> on_count s"
    using assms
  proof (cases rule: power_off_effect)
    case (shut n t)
    then show ?thesis using on_count_set_node [OF shut(3)]
      by (simp add: may_power_off_def on_count_def)
  qed (use that in simp)
qed

lemma shut_down_loop_round:
  assumes "shut_down_loop env th ns us tot k s w = (s', w')"
  shows "same_frame s s' \<and> only_idle_shut s s' \<and> (1 \<le> on_count s \<longrightarrow> 1 \<le> on_count s')"
  using assms
proof (induction ns arbitrary: us tot k s w)
  case (Cons n ns)
  let ?us = "subtract_cap us (used (resources n))" and ?tot = "subtract_cap tot (total (resources n))"
  obtain r s1 w1 where p: "power_off env (node_id n) s w = (r, s1, w1)" by (metis prod_cases3)
  note pr = power_off_round [OF p]
  have "s' = s \<or> (\<exists>us tot k w. shut_down_loop env th ns us tot k s w = (s', w')) \<or>
        (\<exists>us tot k. shut_down_loop env th ns us tot k s1 w1 = (s', w'))"
    using Cons.prems by (cases r) (auto simp: Let_def p split: if_splits)
  then consider "s' = s" | us tot k w where "shut_down_loop env th ns us tot k s w = (s', w')"
    | us tot k where "shut_down_loop env th ns us tot k s1 w1 = (s', w')" by blast
  then show ?case
  proof cases
    case 2
    then show ?thesis by (rule Cons.IH)
  next
    case 3
    from Cons.IH [OF this] show ?thesis
      using pr same_frame_trans only_idle_shut_trans by auto
  qed simp
qed simp

lemma power_on_round:
  assumes "power_on env i s w = (r, s', w')"
  shows "same_frame s s' \<and> only_off_woken s s'"
proof -
  have "only_off_woken s s'"
    using assms
  proof (cases rule: power_on_cases)
    case (woken n t1 t2)
    then show ?thesis unfolding only_off_woken_def
      by (intro guarded_change_set_node [OF woken(1) _ _ _ woken(3)]) auto
  qed simp
  then show ?thesis using power_on_frame [OF assms] by (simp add: same_frame_def)
qed

lemma power_on_all_round:
  "power_on_all env ns s w = (s', w') \<Longrightarrow> same_frame s s' \<and> only_off_woken s s'"
proof (induction ns arbitrary: s w)
  case (Cons n ns)
  obtain r s1 w1 where p: "power_on env (node_id n) s w = (r, s1, w1)" by (metis prod_cases3)
  then have "power_on_all env ns s1 w1 = (s', w')" using Cons.prems by simp
  then show ?case
    using Cons.IH power_on_round [OF p] same_frame_trans only_off_woken_trans by blast
qed simp


lemma resource_usage_too_low_round:
  assumes "resource_usage_too_low env us tot s w = (r, s', w')"
  shows "same_frame s s' \<and> only_idle_shut s s' \<and> (1 \<le> on_count s \<longrightarrow> 1 \<le> on_count s')"
  using assms shut_down_loop_round
  by (fastforce simp: resource_usage_too_low_def Let_def split: prod.splits if_splits)

lemma resource_usage_too_high_round:
  assumes "resource_usage_too_high env demand s w = (r, s', w')"
  shows "same_frame s s' \<and> only_off_woken s s'"
  using assms power_on_all_round
  by (fastforce simp: resource_usage_too_high_def split: prod.splits sum.splits)

text \<open>Waking nodes up does not touch the ones that are on.\<close>

lemma manage_nodes_power_round:
  assumes "manage_nodes_power env s w = (r, s', w')"
  shows "same_frame s s' \<and> (only_off_woken s s' \<or> only_idle_shut s s')"
  using assms resource_usage_too_low_round resource_usage_too_high_round
  by (fastforce simp: manage_nodes_power_def Let_def split: prod.splits if_splits)

section \<open>Membership and lookup\<close>

lemma lookup_node_mem: "lookup_node s i = Some n \<Longrightarrow> n \<in> set (st_nodes s) \<and> node_id n = i"
  by (auto simp: lookup_node_find dest: find_first_in_set)

lemma lookup_node_distinct:
  assumes "distinct (state_ids s)" and "n \<in> set (st_nodes s)"
  shows "lookup_node s (node_id n) = Some n"
proof -
  obtain m where m: "lookup_node s (node_id n) = Some m"
    using store.lookup_ex [of "node_id n" s] assms(2) by auto
  then have "m \<in> set (st_nodes s)" "node_id m = node_id n" by (auto dest: lookup_node_mem)
  then have "m = n" using assms by (auto simp: distinct_map dest: inj_onD)
  then show ?thesis using m by simp
qed

lemma on_count_ex: "1 \<le> on_count s \<longleftrightarrow> (\<exists>n \<in> set (st_nodes s). power_state n = On)"
proof -
  have "1 \<le> length (filter p xs) \<longleftrightarrow> (\<exists>x \<in> set xs. p x)" for p :: "node \<Rightarrow> bool" and xs
    by (induction xs) auto
  then show ?thesis by (simp add: on_count_def filter_nodes_power_def del: One_nat_def)
qed

lemma woken_keeps_on:
  assumes "distinct (state_ids s)" and "only_off_woken s s'" and "1 \<le> on_count s"
  shows "1 \<le> on_count s'"
proof -
  obtain n where n: "n \<in> set (st_nodes s)" "power_state n = On" using assms(3) on_count_ex by blast
  have l: "lookup_node s (node_id n) = Some n" using assms(1) n(1) by (rule lookup_node_distinct)
  have "lookup_node s' (node_id n) = lookup_node s (node_id n)"
    using assms(2) l n(2) unfolding only_off_woken_def guarded_change_def
    by (metis option.inject power_state.distinct(3) power_state.distinct(5))
  then have "n \<in> set (st_nodes s')" using l lookup_node_mem by metis
  then show ?thesis using n(2) on_count_ex by blast
qed

lemma manage_nodes_power_on:
  assumes "manage_nodes_power env s w = (r, s', w')" and "distinct (state_ids s)" and "1 \<le> on_count s"
  shows "1 \<le> on_count s'"
proof -
  consider demand where "resource_usage_too_high env demand s w = (r, s', w')"
    | us tot where "resource_usage_too_low env us tot s w = (r, s', w')"
    using assms(1) by (auto simp: manage_nodes_power_def Let_def split: prod.splits if_splits)
  then show ?thesis
  proof cases
    case 1
    then show ?thesis using resource_usage_too_high_round [OF 1] woken_keeps_on assms(2,3) by auto
  next
    case 2
    then show ?thesis using resource_usage_too_low_round [OF 2] assms(3) by auto
  qed
qed

section \<open>Room for a demand\<close>

lemma u64_room:
  assumes "(u::u64) \<le> t"
  shows "d \<le> t - u \<longleftrightarrow> unat u + unat d \<le> unat t"
  using assms by (simp add: word_le_nat_alt unat_sub) arith

end
