(* ===== verification/FarmFind.thy ===== *)
theory FarmFind
  imports FarmManage
begin

text \<open>
  \<open>farmerbot/internal/find_node.go\<close>: a node that fits the options, preferring the ones that are
  on, with the claim of its resources. \<open>sort.Slice\<close> is not stable and the code uses only its
  first element, so the sort is a parameter constrained by the locale \<open>slice_sort\<close> (a sorted
  permutation), which Isabelle's stable sort satisfies.
\<close>

interpretation stable_sort: slice_sort "sort_key power_state" power_state
  by unfold_locales simp_all

section \<open>Finding a node\<close>

definition convert_gb_to_bytes :: "u64 \<Rightarrow> u64" where
  "convert_gb_to_bytes gb = gb * 1024 * 1024 * 1024"

fun filter_gpus_by_vendors :: "gpu list \<Rightarrow> string list \<Rightarrow> gpu list" where
  "filter_gpus_by_vendors [] vs = []"
| "filter_gpus_by_vendors (g # gs) vs =
     map (\<lambda>_. g) (filter (\<lambda>f. gpu_vendor g = f) vs) @ filter_gpus_by_vendors gs vs"

fun filter_gpus_by_devices :: "gpu list \<Rightarrow> string list \<Rightarrow> gpu list" where
  "filter_gpus_by_devices [] vs = []"
| "filter_gpus_by_devices (g # gs) vs =
     map (\<lambda>_. g) (filter (\<lambda>f. gpu_device g = f) vs) @ filter_gpus_by_devices gs vs"

definition options_capacity :: "node_filter_option \<Rightarrow> capacity" where
  "options_capacity opts =
     \<lparr>hru = convert_gb_to_bytes (opt_hru opts), sru = convert_gb_to_bytes (opt_sru opts),
      cru = opt_cru opts, mru = convert_gb_to_bytes (opt_mru opts)\<rparr>"

definition with_default_gpu :: "node_filter_option \<Rightarrow> node_filter_option" where
  "with_default_gpu opts =
     (if (0 < length (gpu_vendors opts) \<or> 0 < length (gpu_devices opts)) \<and> num_gpu opts = 0
      then opts\<lparr>num_gpu := 1\<rparr> else opts)"

definition enough_gpus :: "node_filter_option \<Rightarrow> node \<Rightarrow> bool" where
  "enough_gpus opts n =
     (if 0 < num_gpu opts
      then let gs = gpus n;
               gs = (if 0 < length (gpu_vendors opts) then filter_gpus_by_vendors gs (gpu_vendors opts) else gs);
               gs = (if 0 < length (gpu_devices opts) then filter_gpus_by_devices gs (gpu_devices opts) else gs)
           in unat (num_gpu opts) \<le> length gs
      else True)"

definition node_matches :: "(f64 \<Rightarrow> u64) \<Rightarrow> int \<Rightarrow> capacity \<Rightarrow> node_filter_option \<Rightarrow> node \<Rightarrow> bool" where
  "node_matches impl overProvisionCPU cap opts n \<longleftrightarrow>
     enough_gpus opts n
     \<and> \<not> (opt_certified opts \<and> \<not> sn_certified (nd n))
     \<and> \<not> (opt_public_config opts \<and> \<not> public_config n)
     \<and> \<not> has_active_rent_contract n
     \<and> (if opt_dedicated opts then dedicated n \<and> is_unused n
        else \<not> (dedicated n \<and> cap \<noteq> total (resources n)))
     \<and> node_id n \<notin> set (nodes_excluded opts)
     \<and> can_claim_resources impl cap overProvisionCPU n"

definition claimed :: "node_filter_option \<Rightarrow> capacity \<Rightarrow> time \<Rightarrow> node \<Rightarrow> node" where
  "claimed opts cap now n =
     (let n = n\<lparr>timeout_claimed_resources := now + timeout_power_state_change\<rparr>;
          n = claim_resources (if opt_dedicated opts \<or> 0 < num_gpu opts then total (resources n) else cap) n
      in if 0 < opt_public_ips opts
         then n\<lparr>public_ips_used := public_ips_used n + opt_public_ips opts\<rparr> else n)"

definition public_ips_missing :: "node_filter_option \<Rightarrow> state \<Rightarrow> bool" where
  "public_ips_missing opts s \<longleftrightarrow>
     0 < opt_public_ips opts
     \<and> of_nat (length (farm_public_ips (st_farm s)))
         < fold (\<lambda>n acc. acc + public_ips_used n) (st_nodes s) 0 + opt_public_ips opts"

definition find_node ::
  "'w env \<Rightarrow> (node list \<Rightarrow> node list) \<Rightarrow> node_filter_option \<Rightarrow> state \<Rightarrow> 'w \<Rightarrow> (fb_err + u32) \<times> state \<times> 'w" where
  "find_node env srt opts s w =
     (let cap = options_capacity opts;
          opts = with_default_gpu opts
      in if public_ips_missing opts s then (Inl (NotEnoughPublicIPs (farm_id (st_farm s))), s, w)
         else
         let possibleNodes = filter (node_matches (conv_impl env)
               (over_provision_cpu (power (st_config s))) cap opts) (st_nodes s)
         in case srt possibleNodes of
              [] \<Rightarrow> (Inl (NoSuitableNode opts), s, w)
            | nodeFound # _ \<Rightarrow>
                case clk_now env w of (now, w) \<Rightarrow>
                let nodeFound = claimed opts cap now nodeFound in
                case (if power_state nodeFound = Off \<or> power_state nodeFound = ShuttingDown
                      then power_on env (node_id nodeFound) s w else (None, s, w)) of
                  (Some e, s, w) \<Rightarrow> (Inl (PowerOnFoundFailed (node_id nodeFound)), s, w)
                | (None, s, w) \<Rightarrow>
                    case update_node nodeFound s of
                      Inl e \<Rightarrow> (Inl (PowerOnFoundFailed (node_id nodeFound)), s, w)
                    | Inr s \<Rightarrow> (Inr (node_id nodeFound), s, w))"

section \<open>What a successful search gives\<close>

lemma claimed_fields [simp]:
  "nd (claimed opts cap now n) = nd n"
  "power_state (claimed opts cap now n) = power_state n"
  "total (resources (claimed opts cap now n)) = total (resources n)"
  "timeout_claimed_resources (claimed opts cap now n) = now + timeout_power_state_change"
  "used (resources (claimed opts cap now n)) = add_cap (used (resources n))
     (if opt_dedicated opts \<or> 0 < num_gpu opts then total (resources n) else cap)"
  by (simp_all add: claimed_def claim_resources_def Let_def)

abbreviation matches :: "'w env \<Rightarrow> node_filter_option \<Rightarrow> state \<Rightarrow> node \<Rightarrow> bool" where
  "matches env opts s \<equiv> node_matches (conv_impl env) (over_provision_cpu (power (st_config s)))
     (options_capacity opts) (with_default_gpu opts)"

lemma power_on_other:
  assumes "power_on env i s w = (r, s', w')" and "j \<noteq> i"
  shows "lookup_node s' j = lookup_node s j"
  using assms(1)
proof (cases rule: power_on_cases)
  case (woken n t1 t2)
  then show ?thesis using assms(2) set_node_lookup(1) [OF woken(3), of j] store.lookup_key [OF woken(1)] by simp
qed simp

lemma find_node_cases:
  assumes "find_node env srt opts s w = (r, s', w')" and "slice_sort srt power_state"
    and "distinct (state_ids s)"
  obtains (ips) e where "public_ips_missing (with_default_gpu opts) s" "r = Inl (NotEnoughPublicIPs e)" "s' = s"
  | (none) "\<forall>n \<in> set (st_nodes s). \<not> matches env opts s n" "r = Inl (NoSuitableNode (with_default_gpu opts))" "s' = s"
  | (power) n where "n \<in> set (st_nodes s)" "matches env opts s n" "r = Inl (PowerOnFoundFailed (node_id n))"
      "same_frame s s'" "only_off_woken s s'"
  | (found) n now s1 where "n \<in> set (st_nodes s)" "matches env opts s n" "r = Inr (node_id n)"
      "\<forall>m \<in> set (st_nodes s). matches env opts s m \<longrightarrow> power_state n \<le> power_state m"
      "same_frame s s1" "only_off_woken s s1" "\<forall>j. j \<noteq> node_id n \<longrightarrow> lookup_node s1 j = lookup_node s j"
      "set_node s1 (claimed (with_default_gpu opts) (options_capacity opts) now n) s'"
proof (cases "public_ips_missing (with_default_gpu opts) s")
  case True
  then show thesis using assms(1) by (intro ips) (auto simp: find_node_def)
next
  case enough: False
  let ?ms = "filter (matches env opts s) (st_nodes s)"

  show thesis
  proof (cases "srt ?ms")
    case Nil
    then have "?ms = []" using slice_sort.srt_Nil_iff [OF assms(2)] by blast
    then have "\<forall>n \<in> set (st_nodes s). \<not> matches env opts s n" by (simp add: filter_empty_conv)
    moreover have "r = Inl (NoSuitableNode (with_default_gpu opts))" "s' = s"
      using assms(1) enough Nil by (auto simp: find_node_def Let_def)
    ultimately show thesis by (rule none)
  next
    case (Cons n rest)
    have n: "n \<in> set (st_nodes s)" "matches env opts s n"
      and min: "\<forall>m \<in> set (st_nodes s). matches env opts s m \<longrightarrow> power_state n \<le> power_state m"
      using slice_sort.first_min [OF assms(2) Cons] by auto
    obtain now w1 where t: "clk_now env w = (now, w1)" by fastforce
    let ?c = "claimed (with_default_gpu opts) (options_capacity opts) now n"
    obtain r1 s1 w2 where p: "(if power_state n = Off \<or> power_state n = ShuttingDown
        then power_on env (node_id n) s w1 else (None, s, w1)) = (r1, s1, w2)" by (metis prod_cases3)
    have "s1 = s \<or> power_on env (node_id n) s w1 = (r1, s1, w2)"
      using p by (simp split: if_splits)
    then have frame: "same_frame s s1 \<and> only_off_woken s s1 \<and>
        (\<forall>j. j \<noteq> node_id n \<longrightarrow> lookup_node s1 j = lookup_node s j)"
      using power_on_round [of env "node_id n" s w1 r1 s1 w2]
        power_on_other [of env "node_id n" s w1 r1 s1 w2] by auto
    then have fr: "same_frame s s1" and wk: "only_off_woken s s1"
      and other: "\<forall>j. j \<noteq> node_id n \<longrightarrow> lookup_node s1 j = lookup_node s j" by auto
    have body: "(r, s', w') = (case (r1, s1, w2) of
          (Some e, s, w) \<Rightarrow> (Inl (PowerOnFoundFailed (node_id n)), s, w)
        | (None, s, w) \<Rightarrow> (case update_node ?c s of
              Inl e \<Rightarrow> (Inl (PowerOnFoundFailed (node_id n)), s, w)
            | Inr s \<Rightarrow> (Inr (node_id n), s, w)))"
      unfolding p [symmetric] assms(1) [symmetric] using enough Cons t
      by (auto simp: find_node_def Let_def cong: if_cong split: prod.splits option.splits sum.splits)
    show thesis
    proof (cases r1)
      case (Some e)
      then show thesis using body fr wk by (intro power [OF n]) simp_all
    next
      case None
      have "node_id n \<in> set (state_ids s1)" using n(1) fr by (auto simp: same_frame_def)
      then obtain s2 where u: "update_node ?c s1 = Inr s2"
        using store.upd_None [of ?c s1] by (auto simp: update_node_Inr)
      then show thesis using body None
        by (intro found [OF n _ min fr wk other, of now]) (simp_all add: set_node_def)
    qed
  qed
qed


lemma NoSuitable_iff:
  assumes "slice_sort srt power_state"
  shows "fst (find_node env srt opts s w) = Inl (NoSuitableNode (with_default_gpu opts)) \<longleftrightarrow>
     \<not> public_ips_missing (with_default_gpu opts) s \<and> (\<forall>n \<in> set (st_nodes s). \<not> matches env opts s n)"
proof (cases "public_ips_missing (with_default_gpu opts) s")
  case False
  let ?ms = "filter (matches env opts s) (st_nodes s)"
  show ?thesis
  proof (cases "srt ?ms")
    case Nil
    then have "?ms = []" using slice_sort.srt_Nil_iff [OF assms] by blast
    then have "\<forall>n \<in> set (st_nodes s). \<not> matches env opts s n" by (simp add: filter_empty_conv)
    then show ?thesis using False Nil by (simp add: find_node_def Let_def)
  next
    case (Cons n rest)
    then have "n \<in> set (st_nodes s)" "matches env opts s n" using slice_sort.first_min [OF assms Cons] by auto
    moreover have "fst (find_node env srt opts s w) \<noteq> Inl (NoSuitableNode (with_default_gpu opts))"
      using False Cons by (simp add: find_node_def Let_def split: prod.split option.split sum.split)
    ultimately show ?thesis using False by blast
  qed
qed (simp add: find_node_def Let_def)

text \<open>Filtering by a list without repetitions keeps exactly the GPUs whose key is listed.\<close>

lemma map_const_filter_distinct:
  "distinct vs \<Longrightarrow> map (\<lambda>_. g) (filter (\<lambda>f. k = f) vs) = (if k \<in> set vs then [g] else [])"
  by (induction vs) auto

lemma filter_gpus_by_vendors_distinct:
  "distinct vs \<Longrightarrow> filter_gpus_by_vendors gs vs = filter (\<lambda>g. gpu_vendor g \<in> set vs) gs"
  by (induction gs) (simp_all add: map_const_filter_distinct)

lemma filter_gpus_by_devices_distinct:
  "distinct vs \<Longrightarrow> filter_gpus_by_devices gs vs = filter (\<lambda>g. gpu_device g \<in> set vs) gs"
  by (induction gs) (simp_all add: map_const_filter_distinct)

lemma length_filter_gpus_by_vendors:
  "length (filter_gpus_by_vendors gs vs) = (\<Sum>g \<leftarrow> gs. count_list vs (gpu_vendor g))"
proof (induction gs)
  case (Cons g gs)
  have "length (filter (\<lambda>f. gpu_vendor g = f) vs) = count_list vs (gpu_vendor g)" by (induction vs) auto
  then show ?case using Cons by simp
qed simp

text \<open>The claim of a request that fits, in the three dimensions that are not over-provisioned.\<close>

definition not_overbooked :: "node \<Rightarrow> bool" where
  "not_overbooked n \<longleftrightarrow> mru (used (resources n)) \<le> mru (total (resources n))
     \<and> sru (used (resources n)) \<le> sru (total (resources n))
     \<and> hru (used (resources n)) \<le> hru (total (resources n))"

lemma node_matches_fits:
  assumes "node_matches impl p cap opts n"
  shows "mru cap \<le> subtractOrZero (mru (total (resources n))) (mru (used (resources n)))"
    and "sru cap \<le> subtractOrZero (sru (total (resources n))) (sru (used (resources n)))"
    and "hru cap \<le> subtractOrZero (hru (total (resources n))) (hru (used (resources n)))"
    and "cru cap \<le> cru (total (resources n))"
  using assms by (simp_all add: node_matches_def can_claim_resources_def free_capacity_def Let_def)

lemma claimed_not_overbooked:
  assumes "node_matches impl p cap opts n" and "not_overbooked n" and "\<not> opt_dedicated opts" and "num_gpu opts = 0"
  shows "not_overbooked (claimed opts cap now n)"
  using assms claim_fits(2) node_matches_fits [OF assms(1)]
  by (simp add: not_overbooked_def)

end
