(* ===== verification/FarmConfig.thy ===== *)
theory FarmConfig
  imports FarmState
begin

text \<open>
  Reading the configuration: the wake-up date of \<open>internal/types.go\<close> (its text form), the
  checks of \<open>parser/parser.go\<close> and \<open>parser/validator.go\<close>. YAML decoding, the reading of the
  environment file, the mnemonic check and the hexadecimal check are third-party code: their
  results are arguments. A character stands for a code point below 256. The main lemma is the
  round trip of the wake-up date through its text.
\<close>

section \<open>The wake-up date\<close>

definition digit :: "int \<Rightarrow> char" where
  "digit n = char_of (48 + nat n)"

definition two_digits :: "int \<Rightarrow> string" where
  "two_digits n = [digit (n div 10), digit (n mod 10)]"

definition marshal_text :: "wake_up_date \<Rightarrow> string" where
  "marshal_text d =
     (let (date, zone) = d;
          pm = 12 \<le> hour_of zone date;
          date = (if pm then date - 12 * hour else date)
      in two_digits (hour_of zone date) @ '':'' @ two_digits (minute_of zone date)
           @ (if pm then ''PM'' else ''AM''))"

text \<open>\<open>time.Parse\<close> on the layout \<open>03:04PM\<close>: two digits, a colon, two digits, AM or PM.\<close>

definition digit_val :: "char \<Rightarrow> int option" where
  "digit_val c = (if 48 \<le> (of_char c :: nat) \<and> (of_char c :: nat) \<le> 57 then Some (int (of_char c) - 48) else None)"

fun get_num :: "string \<Rightarrow> (int \<times> string) option" where
  "get_num (a # b # rest) =
     (case (digit_val a, digit_val b) of
        (Some x, Some y) \<Rightarrow> Some (10 * x + y, rest)
      | _ \<Rightarrow> None)"
| "get_num _ = None"

definition year_zero :: time where
  "year_zero = - (366 * day)"

definition parse_clock :: "string \<Rightarrow> time option" where
  "parse_clock s =
     (case get_num s of None \<Rightarrow> None
      | Some (h, s) \<Rightarrow>
        if 12 < h then None
        else case s of [] \<Rightarrow> None
        | c # s \<Rightarrow>
          if c \<noteq> CHR '':'' then None
          else case get_num s of None \<Rightarrow> None
          | Some (m, s) \<Rightarrow>
            if 60 \<le> m then None
            else if s = ''PM'' then Some (year_zero + ((if h < 12 then h + 12 else h) * hour + m * minute))
            else if s = ''AM'' then Some (year_zero + ((if h = 12 then 0 else h) * hour + m * minute))
            else None)"

text \<open>\<open>strings.Trim(s, "\"")\<close>.\<close>

definition trim_quotes :: "string \<Rightarrow> string" where
  "trim_quotes s = rev (dropWhile (\<lambda>c. c = CHR 0x22) (rev (dropWhile (\<lambda>c. c = CHR 0x22) s)))"

definition unmarshal_text :: "string \<Rightarrow> wake_up_date option" where
  "unmarshal_text b = map_option (\<lambda>t. (t, 0)) (parse_clock (trim_quotes b))"

lemma digit_val_digit: "0 \<le> n \<Longrightarrow> n < 10 \<Longrightarrow> digit_val (digit n) = Some n"
  by (simp add: digit_val_def digit_def)

lemma get_num_two_digits: "0 \<le> n \<Longrightarrow> n < 100 \<Longrightarrow> get_num (two_digits n @ s) = Some (n, s)"
  by (simp add: two_digits_def digit_val_digit)

lemma digit_not_quote: "0 \<le> n \<Longrightarrow> n < 10 \<Longrightarrow> digit n \<noteq> CHR 0x22"
proof
  assume n: "0 \<le> n" "n < 10" and "digit n = CHR 0x22"
  then have "digit_val (digit n) = None" by (simp add: digit_val_def)
  then show False using digit_val_digit [OF n] by simp
qed

lemma trim_quotes_plain:
  assumes "s \<noteq> []" "hd s \<noteq> CHR 0x22" "last s \<noteq> CHR 0x22"
  shows "trim_quotes s = s" and "trim_quotes (CHR 0x22 # s @ [CHR 0x22]) = s"
proof -
  have a: "dropWhile (\<lambda>c. c = CHR 0x22) (s @ xs) = s @ xs" for xs
    using assms(1,2) by (cases s) auto
  have b: "dropWhile (\<lambda>c. c = CHR 0x22) (rev s) = rev s"
    using assms(1,3) by (cases s rule: rev_cases) auto
  show "trim_quotes s = s" using a [of "[]"] b by (simp add: trim_quotes_def)
  show "trim_quotes (CHR 0x22 # s @ [CHR 0x22]) = s"
    using a [of "[CHR 0x22]"] b by (simp add: trim_quotes_def)
qed

lemma clock_of_year_zero:
  assumes "0 \<le> h" "h < 24" "0 \<le> m" "m < 60"
  shows "hour_of 0 (year_zero + (h * hour + m * minute)) = h"
    and "minute_of 0 (year_zero + (h * hour + m * minute)) = m"
proof -
  have "(year_zero + 0) mod day = 0" by (simp add: year_zero_def duration_defs)
  from clock_of_midnight [OF this assms]
  show "hour_of 0 (year_zero + (h * hour + m * minute)) = h"
    and "minute_of 0 (year_zero + (h * hour + m * minute)) = m"
    by (simp_all add: mult.commute)
qed

text \<open>Twelve hours earlier the clock shows the hour minus twelve and the same minute.\<close>

lemma mod_minus_12:
  fixes q :: int
  assumes "12 \<le> q mod 24"
  shows "(q - 12) mod 24 = q mod 24 - 12"
proof (rule int_mod_pos_eq)
  show "q - 12 = 24 * (q div 24) + (q mod 24 - 12)" by simp
  show "0 \<le> q mod 24 - 12" using assms by simp
  show "q mod 24 - 12 < 24" using pos_mod_bound [of 24 q] by linarith
qed

lemma mod_minus_720: "(q - 720) mod 60 = q mod 60" for q :: int
  using mod_mult_self1 [of q "-12" 60] by simp

lemma clock_minus_12:
  assumes "12 \<le> hour_of tz t"
  shows "hour_of tz (t - 12 * hour) = hour_of tz t - 12"
    and "minute_of tz (t - 12 * hour) = minute_of tz t"
proof -
  have h: "0 < hour" by (simp add: duration_defs)
  have "(t - 12 * hour + tz) div hour = (t + tz + (- 12) * hour) div hour" by (simp add: algebra_simps)
  also have "\<dots> = (t + tz) div hour - 12" using h by (subst div_mult_self1) auto
  finally show "hour_of tz (t - 12 * hour) = hour_of tz t - 12"
    using assms mod_minus_12 [of "(t + tz) div hour"] unfolding hour_of_def by simp
  have m: "0 < minute" by (simp add: duration_defs)
  have "(t - 12 * hour + tz) div minute = (t + tz + (- 720) * minute) div minute"
    by (simp add: algebra_simps duration_defs)
  also have "\<dots> = (t + tz) div minute - 720" using m by (subst div_mult_self1) auto
  finally show "minute_of tz (t - 12 * hour) = minute_of tz t"
    unfolding minute_of_def by (simp only: mod_minus_720)
qed

lemma parse_clock_two_digits:
  assumes "0 \<le> h" "h < 12" "0 \<le> m" "m < 60"
  shows "parse_clock (two_digits h @ '':'' @ two_digits m @ (if pm then ''PM'' else ''AM''))
    = Some (year_zero + ((if pm then h + 12 else h) * hour + m * minute))"
  using assms by (simp add: parse_clock_def get_num_two_digits)


text \<open>The text of a date: its hour below twelve, its minute and the half of the day.\<close>

lemma marshal_text_clock:
  "marshal_text (t, tz) =
     (let h = hour_of tz t
      in two_digits (if 12 \<le> h then h - 12 else h) @ '':'' @ two_digits (minute_of tz t)
           @ (if 12 \<le> h then ''PM'' else ''AM''))"
  using clock_minus_12 [of tz t] by (simp add: marshal_text_def Let_def)

lemma marshal_text_ends:
  "marshal_text d \<noteq> [] \<and> hd (marshal_text d) \<noteq> CHR 0x22 \<and> last (marshal_text d) \<noteq> CHR 0x22"
proof -
  obtain t tz where d: "d = (t, tz)" by (cases d)
  show ?thesis
    using hour_of_range [of tz t] digit_not_quote [of "hour_of tz t div 10"]
      digit_not_quote [of "(hour_of tz t - 12) div 10"]
    by (auto simp: d marshal_text_clock Let_def two_digits_def)
qed

lemma parse_marshal:
  "\<exists>t'. parse_clock (marshal_text (t, tz)) = Some t'
     \<and> hour_of 0 t' = hour_of tz t \<and> minute_of 0 t' = minute_of tz t"
proof -
  let ?h = "hour_of tz t" and ?m = "minute_of tz t"
  let ?g = "if 12 \<le> ?h then ?h - 12 else ?h"
  have g: "0 \<le> ?g" "?g < 12" using hour_of_range [of tz t] by auto
  have "parse_clock (marshal_text (t, tz)) = Some (year_zero + (?h * hour + ?m * minute))"
    using parse_clock_two_digits [OF g minute_of_range, of tz t "12 \<le> ?h"]
    by (simp add: marshal_text_clock Let_def split: if_splits)
  then show ?thesis using clock_of_year_zero [OF hour_of_range minute_of_range] by simp
qed

section \<open>The checks of the configuration file\<close>

datatype config_err =
    IncludedAndExcluded u32 | NotInFarm string u32 | NotIncluded string u32 | NodesFailed ext_err
  | EnvParse string | InvalidKey string | SeedRequired | BadNetwork string | BadSeed string | BadKeyType string

text \<open>\<open>ParseIntoConfig\<close> after the decoding of the YAML text.\<close>

fun first_both :: "u32 list \<Rightarrow> u32 list \<Rightarrow> u32 option" where
  "first_both [] ex = None"
| "first_both (i # is) ex = (if i \<in> set ex then Some i else first_both is ex)"

definition parse_into_config :: "string + config \<Rightarrow> config_err + config" where
  "parse_into_config decoded =
     (case decoded of Inl e \<Rightarrow> Inl (EnvParse e)
      | Inr input \<Rightarrow>
          case first_both (included_nodes input) (excluded_nodes input) of
            Some i \<Rightarrow> Inl (IncludedAndExcluded i)
          | None \<Rightarrow> Inr input)"

fun validate_included_nodes :: "u32 list \<Rightarrow> u32 list \<Rightarrow> (u32 \<Rightarrow> bool option) \<Rightarrow> config_err option" where
  "validate_included_nodes [] excluded farmNodes = None"
| "validate_included_nodes (n # ns) excluded farmNodes =
     (if farmNodes n = None then Some (NotInFarm ''included'' n)
      else if n \<in> set excluded then Some (IncludedAndExcluded n)
      else validate_included_nodes ns excluded farmNodes)"

fun validate_priority_or_never_shutdown :: "string \<Rightarrow> u32 list \<Rightarrow> (u32 \<Rightarrow> bool option) \<Rightarrow> config_err option" where
  "validate_priority_or_never_shutdown what [] includedNodes = None"
| "validate_priority_or_never_shutdown what (n # ns) includedNodes =
     (if includedNodes n = None then Some (NotIncluded what n)
      else validate_priority_or_never_shutdown what ns includedNodes)"

fun validate_excluded_nodes :: "u32 list \<Rightarrow> (u32 \<Rightarrow> bool option) \<Rightarrow> config_err option" where
  "validate_excluded_nodes [] farmNodes = None"
| "validate_excluded_nodes (n # ns) farmNodes =
     (if farmNodes n = None then Some (NotInFarm ''excluded'' n)
      else validate_excluded_nodes ns farmNodes)"

text \<open>A Go map filled by a loop over a slice, with the value \<open>true\<close> at every key.\<close>

definition true_map :: "u32 list \<Rightarrow> u32 \<Rightarrow> bool option" where
  "true_map ks = (\<lambda>k. if k \<in> set ks then Some True else None)"

definition included_map :: "config \<Rightarrow> u32 list \<Rightarrow> u32 \<Rightarrow> bool option" where
  "included_map input nodes =
     (if set (included_nodes input) = {}
      then (\<lambda>k. if k \<notin> set (excluded_nodes input) then true_map nodes k else None)
      else true_map (included_nodes input))"

fun first_error :: "'e option list \<Rightarrow> 'e option" where
  "first_error [] = None"
| "first_error (None # rest) = first_error rest"
| "first_error (Some e # rest) = Some e"

definition validate_input :: "config \<Rightarrow> ext_err + u32 list \<Rightarrow> config_err option" where
  "validate_input input nodes =
     (case nodes of Inl e \<Rightarrow> Some (NodesFailed e)
      | Inr nodes \<Rightarrow>
          let farmNodes = true_map nodes; includedNodes = included_map input nodes
          in first_error
               [validate_included_nodes (included_nodes input) (excluded_nodes input) farmNodes,
                validate_excluded_nodes (excluded_nodes input) farmNodes,
                validate_priority_or_never_shutdown ''priority'' (priority_nodes input) includedNodes,
                validate_priority_or_never_shutdown ''never shutdown'' (never_shut_down_nodes input) includedNodes])"

lemma first_both_None [simp]: "first_both is ex = None \<longleftrightarrow> set is \<inter> set ex = {}"
  by (induction "is") auto

lemma first_error_None [simp]: "first_error es = None \<longleftrightarrow> (\<forall>e \<in> set es. e = None)"
  by (induction es rule: first_error.induct) auto

lemma validate_included_nodes_None [simp]:
  "validate_included_nodes ns ex farm = None \<longleftrightarrow> set ns \<subseteq> dom farm \<and> set ns \<inter> set ex = {}"
  by (induction ns) auto

lemma validate_priority_None [simp]:
  "validate_priority_or_never_shutdown what ns inc = None \<longleftrightarrow> set ns \<subseteq> dom inc"
  by (induction ns) auto

lemma validate_excluded_None [simp]: "validate_excluded_nodes ns farm = None \<longleftrightarrow> set ns \<subseteq> dom farm"
  by (induction ns) auto

lemma dom_true_map [simp]: "dom (true_map ks) = set ks"
  by (auto simp: true_map_def split: if_splits)

text \<open>The nodes the bot will manage, of the nodes of the farm.\<close>

definition managed_ids :: "config \<Rightarrow> u32 list \<Rightarrow> u32 set" where
  "managed_ids cfg nodes = {i \<in> set nodes. i \<notin> set (excluded_nodes cfg)
     \<and> (i \<in> set (included_nodes cfg) \<or> included_nodes cfg = [])}"

lemma dom_included_map:
  assumes "set (included_nodes cfg) \<subseteq> set nodes" and "set (included_nodes cfg) \<inter> set (excluded_nodes cfg) = {}"
  shows "dom (included_map cfg nodes) = managed_ids cfg nodes"
  using assms by (auto simp: included_map_def managed_ids_def true_map_def split: if_splits)

lemma validate_input_None:
  "validate_input cfg (Inr nodes) = None \<longleftrightarrow>
     set (included_nodes cfg) \<subseteq> set nodes \<and> set (excluded_nodes cfg) \<subseteq> set nodes
     \<and> set (included_nodes cfg) \<inter> set (excluded_nodes cfg) = {}
     \<and> set (priority_nodes cfg) \<subseteq> managed_ids cfg nodes
     \<and> set (never_shut_down_nodes cfg) \<subseteq> managed_ids cfg nodes"
proof -
  have iff: "validate_input cfg (Inr nodes) = None \<longleftrightarrow>
     set (included_nodes cfg) \<subseteq> set nodes \<and> set (included_nodes cfg) \<inter> set (excluded_nodes cfg) = {}
     \<and> set (excluded_nodes cfg) \<subseteq> set nodes
     \<and> set (priority_nodes cfg) \<subseteq> dom (included_map cfg nodes)
     \<and> set (never_shut_down_nodes cfg) \<subseteq> dom (included_map cfg nodes)"
    by (simp add: validate_input_def Let_def)
  show ?thesis
  proof (cases "set (included_nodes cfg) \<subseteq> set nodes \<and> set (included_nodes cfg) \<inter> set (excluded_nodes cfg) = {}")
    case True
    then show ?thesis using iff dom_included_map [of cfg nodes] by (simp only:) blast
  next
    case False
    then show ?thesis using iff by blast
  qed
qed


section \<open>The environment file\<close>

text \<open>
  \<open>ParseEnv\<close>: the pairs of the file in the order the loop over the map visits them. The mnemonic
  check (\<open>bip39\<close>) and the hexadecimal check (\<open>subkey.DecodeHex\<close>) are third-party.
\<close>

fun env_loop :: "(string \<times> string) list \<Rightarrow> string \<times> string \<times> string \<Rightarrow> config_err + string \<times> string \<times> string" where
  "env_loop [] r = Inr r"
| "env_loop ((k, v) # rest) (network, mnemonicOrSeed, keyType) =
     (if k = ''NETWORK'' then env_loop rest (v, mnemonicOrSeed, keyType)
      else if k = ''MNEMONIC_OR_SEED'' then env_loop rest (network, v, keyType)
      else if k = ''KEY_TYPE'' then env_loop rest (network, mnemonicOrSeed, v)
      else Inl (InvalidKey k))"

definition is_space :: "char \<Rightarrow> bool" where
  "is_space c \<longleftrightarrow> (of_char c :: nat) \<in> {9, 10, 11, 12, 13, 32, 133, 160}"

definition blank :: "string \<Rightarrow> bool" where
  "blank s \<longleftrightarrow> list_all is_space s"

definition networks :: "string list" where
  "networks = [''dev'', ''qa'', ''test'', ''main'']"

definition parse_env ::
  "(string \<Rightarrow> bool) \<Rightarrow> (string \<Rightarrow> bool) \<Rightarrow> string + (string \<times> string) list
     \<Rightarrow> config_err + string \<times> string \<times> string" where
  "parse_env mnemonicValid hexValid parsed =
     (case parsed of Inl e \<Rightarrow> Inl (EnvParse e)
      | Inr envMap \<Rightarrow>
      case env_loop envMap ([], [], []) of Inl e \<Rightarrow> Inl e
      | Inr (network, mnemonicOrSeed, keyType) \<Rightarrow>
          let network = (if blank network then ''main'' else network)
          in if blank mnemonicOrSeed then Inl SeedRequired
             else if network \<notin> set networks then Inl (BadNetwork network)
             else if \<not> mnemonicValid mnemonicOrSeed \<and> \<not> hexValid mnemonicOrSeed then Inl (BadSeed mnemonicOrSeed)
             else
               let keyType = (if blank keyType then ''sr25519'' else keyType)
               in if keyType \<noteq> ''ed25519'' \<and> keyType \<noteq> ''sr25519'' then Inl (BadKeyType keyType)
                  else Inr (network, mnemonicOrSeed, keyType))"

lemma parse_env_Inr:
  assumes "parse_env mnemonicValid hexValid parsed = Inr (network, seed, keyType)"
  shows "network \<in> set networks \<and> \<not> blank seed \<and> (mnemonicValid seed \<or> hexValid seed)
     \<and> (keyType = ''ed25519'' \<or> keyType = ''sr25519'')"
  using assms by (auto simp: parse_env_def Let_def split: sum.splits if_splits)

end
