(* ===== verification/FarmReport.thy ===== *)
theory FarmReport
  imports FarmManage FarmConfig
begin

text \<open>
  \<open>farmerbot/internal/report.go\<close>. A division by a zero total panics in Go, so the report of a node is
  an option: \<open>None\<close> is the panic.
\<close>

record node_report =
  rep_id :: u32
  rep_state :: string
  rep_rented :: bool
  rep_active_contracts :: bool
  rep_dedicated :: bool
  rep_public_config :: bool
  rep_cru_usage :: u8
  rep_sru_usage :: u8
  rep_mru_usage :: u8
  rep_hru_usage :: u8
  rep_random_wake_ups :: int
  rep_since_power_state_changed :: duration
  rep_since_last_time_awake :: duration
  rep_last_time_periodic_wake_up :: time
  rep_until_claimed_resources_timeout :: duration

fun state_text :: "power_state \<Rightarrow> string" where
  "state_text On = ''ON''"
| "state_text Off = ''OFF''"
| "state_text ShuttingDown = ''Shutting down''"
| "state_text WakingUp = ''Waking up''"

definition usage_u8 :: "u64 \<Rightarrow> u64 \<Rightarrow> u8" where
  "usage_u8 us tot = ucast (100 * us div tot)"

definition since_unless_zero :: "'w env \<Rightarrow> time \<Rightarrow> 'w \<Rightarrow> duration \<times> 'w" where
  "since_unless_zero env t w =
     (if t = 0 then (0, w) else case clk_now env w of (now, w) \<Rightarrow> (time_sub now t, w))"

definition create_node_report :: "'w env \<Rightarrow> node \<Rightarrow> 'w \<Rightarrow> node_report option \<times> 'w" where
  "create_node_report env n w =
     (case clk_now env w of (now, w) \<Rightarrow>
      case (if 0 < time_sub (timeout_claimed_resources n) now
            then case clk_now env w of (now, w) \<Rightarrow> (time_sub (timeout_claimed_resources n) now, w)
            else (0, w)) of (untilClaimed, w) \<Rightarrow>
      case since_unless_zero env (last_time_power_state_changed n) w of (sinceChanged, w) \<Rightarrow>
      case since_unless_zero env (last_time_awake n) w of (sinceAwake, w) \<Rightarrow>
      let (us, tot) = calculate_resource_usage [n];
          hruUsage = (if hru tot \<noteq> 0 then usage_u8 (hru us) (hru tot) else 0)
      in if cru tot = 0 \<or> sru tot = 0 \<or> mru tot = 0 then (None, w)
         else (Some \<lparr>rep_id = node_id n, rep_state = state_text (power_state n),
                 rep_rented = has_active_rent_contract n,
                 rep_active_contracts = has_active_contracts n, rep_dedicated = dedicated n,
                 rep_public_config = public_config n,
                 rep_cru_usage = usage_u8 (cru us) (cru tot), rep_sru_usage = usage_u8 (sru us) (sru tot),
                 rep_mru_usage = usage_u8 (mru us) (mru tot), rep_hru_usage = hruUsage,
                 rep_random_wake_ups = times_random_wake_ups n,
                 rep_since_power_state_changed = sinceChanged,
                 rep_since_last_time_awake = sinceAwake,
                 rep_last_time_periodic_wake_up = last_time_periodic_wake_up n,
                 rep_until_claimed_resources_timeout = untilClaimed\<rparr>, w))"

text \<open>The \<open>report\<close> handler: the report of every node.\<close>

fun node_reports :: "'w env \<Rightarrow> node list \<Rightarrow> 'w \<Rightarrow> node_report list option \<times> 'w" where
  "node_reports env [] w = (Some [], w)"
| "node_reports env (n # ns) w =
     (case create_node_report env n w of
        (None, w) \<Rightarrow> (None, w)
      | (Some r, w) \<Rightarrow>
          case node_reports env ns w of
            (None, w) \<Rightarrow> (None, w)
          | (Some rs, w) \<Rightarrow> (Some (r # rs), w))"

text \<open>
  \<open>FarmerBot.report\<close>: the rows of the table, as the report of a node with the text of its periodic
  wake-up; the rendering by the table library is left out. The zero time is in UTC.
\<close>

definition wake_zone :: "'w env \<Rightarrow> time \<Rightarrow> duration" where
  "wake_zone env t = (if t = 0 then 0 else tz_off env)"

definition periodic_wakeup_text :: "'w env \<Rightarrow> time \<Rightarrow> 'w \<Rightarrow> string \<times> 'w" where
  "periodic_wakeup_text env t w =
     (case clk_now env w of (now, w) \<Rightarrow>
        (if day_of (wake_zone env t) t = day_of (tz_off env) now
         then CHR 0x22 # marshal_text (t, wake_zone env t) @ [CHR 0x22] else ''-'', w))"

fun report_rows :: "'w env \<Rightarrow> node list \<Rightarrow> 'w \<Rightarrow> (node_report \<times> string) list option \<times> 'w" where
  "report_rows env [] w = (Some [], w)"
| "report_rows env (n # ns) w =
     (case create_node_report env n w of
        (None, w) \<Rightarrow> (None, w)
      | (Some r, w) \<Rightarrow>
          case periodic_wakeup_text env (rep_last_time_periodic_wake_up r) w of (p, w) \<Rightarrow>
          case report_rows env ns w of
            (None, w) \<Rightarrow> (None, w)
          | (Some rs, w) \<Rightarrow> (Some ((r, p) # rs), w))"

section \<open>When a report succeeds, and what it shows\<close>

definition reportable :: "node \<Rightarrow> bool" where
  "reportable n \<longleftrightarrow> cru (total (resources n)) \<noteq> 0 \<and> sru (total (resources n)) \<noteq> 0 \<and> mru (total (resources n)) \<noteq> 0"

lemma usage_of_one:
  "calculate_resource_usage [n] =
     ((if has_active_rent_contract n then total (resources n) else used (resources n)), total (resources n))"
  by (simp add: calculate_resource_usage_def zero_capacity_def add_cap_def)

lemma create_node_report_Some:
  "(\<exists>r w'. create_node_report env n w = (Some r, w')) \<longleftrightarrow> reportable n"
  by (auto simp: create_node_report_def usage_of_one reportable_def Let_def split: prod.splits)

lemma create_node_report_fields:
  assumes "create_node_report env n w = (Some r, w')"
  shows "rep_id r = node_id n \<and> rep_state r = state_text (power_state n)
     \<and> rep_last_time_periodic_wake_up r = last_time_periodic_wake_up n
     \<and> rep_cru_usage r = usage_u8 (cru (if has_active_rent_contract n then total (resources n)
          else used (resources n))) (cru (total (resources n)))"
  using assms by (auto simp: create_node_report_def usage_of_one Let_def split: prod.splits if_splits)

text \<open>The percentage is the exact one as long as the product does not wrap.\<close>

lemma usage_u8_exact:
  assumes "us \<le> tot" and "unat tot < 2 ^ 57" and "tot \<noteq> 0"
  shows "unat (usage_u8 us tot) = 100 * unat us div unat tot" and "unat (usage_u8 us tot) \<le> 100"
proof -
  have le: "unat us \<le> unat tot" using assms(1) by (simp add: word_le_nat_alt)
  have t: "0 < unat tot" using assms(3) by (simp add: unat_gt_0)
  have "100 * unat us < 2 ^ LENGTH(64)" using le assms(2) by simp
  then have m: "unat (100 * us) = 100 * unat us" by (simp add: unat_word_ariths)
  have "100 * unat us div unat tot \<le> 100 * unat tot div unat tot" using le by (intro div_le_mono) simp
  then have b: "100 * unat us div unat tot \<le> 100" using t by simp
  then show e: "unat (usage_u8 us tot) = 100 * unat us div unat tot"
    by (simp add: usage_u8_def unsigned_ucast_eq unat_div m take_bit_nat_eq_self)
  then show "unat (usage_u8 us tot) \<le> 100" using b by simp
qed

lemma node_reports_Some:
  "(\<exists>rs w'. node_reports env ns w = (Some rs, w')) \<longleftrightarrow> (\<forall>n \<in> set ns. reportable n)"
proof (induction ns arbitrary: w)
  case (Cons n ns)
  show ?case
  proof (cases "create_node_report env n w")
    case (Pair r w1)
    then show ?thesis
      using Cons [of w1] create_node_report_Some [of env n w]
      by (cases r; cases "node_reports env ns w1"; cases "fst (node_reports env ns w1)") auto
  qed
qed simp

lemma node_reports_length: "node_reports env ns w = (Some rs, w') \<Longrightarrow> map rep_id rs = map node_id ns"
  by (induction ns arbitrary: w rs)
    (auto split: prod.splits option.splits dest: create_node_report_fields)

lemma report_rows_Some:
  "(\<exists>rs w'. report_rows env ns w = (Some rs, w')) \<longleftrightarrow> (\<forall>n \<in> set ns. reportable n)"
proof (induction ns arbitrary: w)
  case (Cons n ns)
  show ?case
  proof (cases "create_node_report env n w")
    case (Pair r w1)
    show ?thesis
    proof (cases r)
      case None
      then show ?thesis using Pair create_node_report_Some [of env n w] by auto
    next
      case (Some q)
      obtain p w2 where "periodic_wakeup_text env (rep_last_time_periodic_wake_up q) w1 = (p, w2)" by fastforce
      then show ?thesis
        using Pair Some Cons [of w2] create_node_report_Some [of env n w]
        by (cases "report_rows env ns w2"; cases "fst (report_rows env ns w2)") auto
    qed
  qed
qed simp

end
