(* ===== verification/FarmBot.thy ===== *)
theory FarmBot
  imports FarmFind FarmReport
begin

text \<open>
  \<open>farmerbot/internal/farmerbot.go\<close>: a round of the bot (\<open>iterateOnNodes\<close>), the handlers and their
  authorization, the balance checks. A round can panic (a division by zero in \<open>shouldWakeUp\<close> or in
  the report), so it is an option, \<open>None\<close> the panic. Handlers and rounds are atomic steps; their
  interleaving is the relation \<open>bot_step\<close> of \<open>FarmSystem\<close>.
\<close>

section \<open>Removing the nodes that left the farm\<close>

text \<open>
  The loop ranges over the slice it shortens: \<open>range\<close> keeps the original length and reads the
  backing array, which \<open>slices.Delete\<close> shifts left, leaving the tail in place. The state of the
  loop is the backing array and the current length.
\<close>

definition shift_left :: "nat \<Rightarrow> nat \<Rightarrow> 'a list \<Rightarrow> 'a list" where
  "shift_left i len arr = take i arr @ take (len - Suc i) (drop (Suc i) arr) @ drop (len - 1) arr"

definition remove_gone_step :: "u32 list \<Rightarrow> nat \<Rightarrow> node list \<times> nat \<Rightarrow> node list \<times> nat" where
  "remove_gone_step farmNodes k st =
     (case st of (arr, len) \<Rightarrow>
        let n = arr ! k in
        if node_id n \<in> set farmNodes then (arr, len)
        else case find_first (\<lambda>m. node_id m = node_id n) (take len arr) of
               None \<Rightarrow> (arr, len)
             | Some (i, _) \<Rightarrow> (shift_left i len arr, len - 1))"

definition remove_gone :: "u32 list \<Rightarrow> node list \<Rightarrow> node list" where
  "remove_gone farmNodes nodes =
     (case fold (remove_gone_step farmNodes) [0..<length nodes] (nodes, length nodes) of
        (arr, len) \<Rightarrow> take len arr)"

section \<open>Adding and updating a node\<close>

definition add_or_update_node :: "'w env \<Rightarrow> u32 \<Rightarrow> state \<Rightarrow> 'w \<Rightarrow> fb_err option \<times> state \<times> 'w" where
  "add_or_update_node env nodeID s w =
     (let neverShutDown = nodeID \<in> set (never_shut_down_nodes (st_config s));
          continueOnErr = continue_on_powering_on_err (st_config s);
          dedicatedFarm = farm_dedicated (st_farm s)
      in case get_node s nodeID of
        Inr (_, oldNode) \<Rightarrow>
          (case update_node_info env neverShutDown dedicatedFarm continueOnErr oldNode w of (res, w) \<Rightarrow>
           let (updateErr, oldNode) = (case res of Inl (e, n) \<Rightarrow> (Some e, n) | Inr n \<Rightarrow> (None, n))
           in case update_node oldNode s of
                Inl e \<Rightarrow> (Some (Wrapped (InUpdateState (node_id oldNode)) e), s, w)
              | Inr s \<Rightarrow>
                  (case updateErr of
                     Some e \<Rightarrow> (Some (Wrapped (InUpdateNode (node_id oldNode)) e), s, w)
                   | None \<Rightarrow> (None, s, w)))
      | Inl _ \<Rightarrow>
          case get_node_info env nodeID continueOnErr neverShutDown False dedicatedFarm On w of
            (Inl e, w) \<Rightarrow> (Some (Wrapped (InGetNode nodeID) e), s, w)
          | (Inr n, w) \<Rightarrow> (None, add_node n s, w))"

section \<open>Waking up\<close>

text \<open>\<open>time.Unix(sec, 0)\<close>: the Unix epoch is 62135596800 seconds after year 1.\<close>

definition time_unix :: "int \<Rightarrow> time" where
  "time_unix sec = (sec + 62135596800) * second"

text \<open>Go's \<open>/\<close> and \<open>%\<close> on \<open>int\<close>: truncating, and a panic on a zero divisor.\<close>

definition go_div :: "int \<Rightarrow> int \<Rightarrow> int option" where
  "go_div a b = (if b = 0 then None else Some (a sdiv b))"

definition go_mod :: "int \<Rightarrow> int \<Rightarrow> int option" where
  "go_mod a b = (if b = 0 then None else Some (a smod b))"

definition random_divisor :: "u8 \<Rightarrow> nat \<Rightarrow> int option" where
  "random_divisor limit nodesLen =
     (case go_div (default_random_wake_ups_a_month * (int nodesLen - 1)) (min (uint limit) (int nodesLen)) of
        None \<Rightarrow> None
      | Some q \<Rightarrow> go_div (8460 - default_random_wake_ups_a_month * 6 - q) default_random_wake_ups_a_month)"

definition random_wake_up :: "'w env \<Rightarrow> u8 \<Rightarrow> nat \<Rightarrow> node \<Rightarrow> 'w \<Rightarrow> (bool \<times> node) option \<times> 'w" where
  "random_wake_up env limit nodesLen n w =
     (if times_random_wake_ups n < default_random_wake_ups_a_month
      then case rand_int31 env w of (r, w) \<Rightarrow>
        case (case random_divisor limit nodesLen of None \<Rightarrow> None | Some d \<Rightarrow> go_mod r d) of
          None \<Rightarrow> (None, w)
        | Some x \<Rightarrow>
            (if x = 0
             then (Some (True, n\<lparr>times_random_wake_ups := times_random_wake_ups n + 1\<rparr>), w)
             else (Some (False, n), w))
      else (Some (False, n), w))"

definition should_wake_up ::
  "'w env \<Rightarrow> state \<Rightarrow> node \<Rightarrow> time \<Rightarrow> u8 \<Rightarrow> 'w \<Rightarrow> (bool \<times> node) option \<times> 'w" where
  "should_wake_up env s n roundStart wakeUpCalls w =
     (if power_state n \<noteq> Off \<or> periodic_wake_up_limit (power (st_config s)) \<le> wakeUpCalls
      then (Some (False, n), w)
      else case proxy_node_updated_at env (node_id n) w of
        (Inl e, w) \<Rightarrow> (Some (False, n), w)
      | (Inr updatedAt, w) \<Rightarrow>
          case clk_now env w of (now, w) \<Rightarrow>
          if 24 * hour < time_sub now (time_unix updatedAt)
          then case clk_now env w of (_, w) \<Rightarrow> case clk_now env w of (now, w) \<Rightarrow>
                 (Some (True, n\<lparr>last_time_periodic_wake_up := now\<rparr>), w)
          else case clk_now env w of (now, w) \<Rightarrow>
          if time_sub now (last_time_power_state_changed n) < periodic_wake_up_duration
          then (Some (False, n), w)
          else case periodic_wake_up_time env (periodic_wake_up_start (power (st_config s))) w of (start, w) \<Rightarrow>
          if start < roundStart \<and> last_time_awake n < start
          then case clk_now env w of (now, w) \<Rightarrow>
                 (Some (True, n\<lparr>last_time_periodic_wake_up := now\<rparr>), w)
          else random_wake_up env (periodic_wake_up_limit (power (st_config s))) (length (st_nodes s)) n w)"

section \<open>A round\<close>

text \<open>An error of \<open>updateNode\<close> and \<open>powerOn\<close> is only logged in the loop.\<close>

definition try_update :: "node \<Rightarrow> state \<Rightarrow> state" where
  "try_update n s = (case update_node n s of Inl _ \<Rightarrow> s | Inr s' \<Rightarrow> s')"

definition visit_node ::
  "'w env \<Rightarrow> time \<Rightarrow> u32 \<Rightarrow> state \<Rightarrow> u8 \<Rightarrow> 'w \<Rightarrow> (state \<times> u8) option \<times> 'w" where
  "visit_node env roundStart nodeID s calls w =
     (case add_or_update_node env nodeID s w of (_, s, w) \<Rightarrow>
      let n = (case get_node s nodeID of Inl _ \<Rightarrow> zero_node | Inr (_, n) \<Rightarrow> n) in
      case (if power_state n = Off \<and> (never_shut_down n \<or> has_active_rent_contract n)
            then power_on env nodeID s w else (None, s, w)) of (_, s, w) \<Rightarrow>
      let reset = day_of (tz_off env) roundStart = 1 \<and> hour_of (tz_off env) roundStart = 1
                  \<and> minute_of (tz_off env) roundStart < timeout_update_minutes;
          n = (if reset then n\<lparr>times_random_wake_ups := 0\<rparr> else n);
          s = (if reset then try_update n s else s)
      in case should_wake_up env s n roundStart calls w of
           (None, w) \<Rightarrow> (None, w)
         | (Some (False, n), w) \<Rightarrow> (Some (s, calls), w)
         | (Some (True, n), w) \<Rightarrow>
             case power_on env nodeID (try_update n s) w of (err, s, w) \<Rightarrow>
               (Some (s, if err = None then calls + 1 else calls), w))"

fun visit_nodes ::
  "'w env \<Rightarrow> time \<Rightarrow> u32 list \<Rightarrow> state \<Rightarrow> u8 \<Rightarrow> 'w \<Rightarrow> (state \<times> u8) option \<times> 'w" where
  "visit_nodes env roundStart [] s calls w = (Some (s, calls), w)"
| "visit_nodes env roundStart (i # ids) s calls w =
     (if i \<in> set (excluded_nodes (st_config s)) then visit_nodes env roundStart ids s calls w
      else if i \<notin> set (included_nodes (st_config s)) \<and> 0 < length (included_nodes (st_config s))
      then visit_nodes env roundStart ids s calls w
      else case visit_node env roundStart i s calls w of
             (None, w) \<Rightarrow> (None, w)
           | (Some (s, calls), w) \<Rightarrow> visit_nodes env roundStart ids s calls w)"

definition iterate_on_nodes :: "'w env \<Rightarrow> state \<Rightarrow> 'w \<Rightarrow> (fb_err option \<times> state) option \<times> 'w" where
  "iterate_on_nodes env s w =
     (case clk_now env w of (roundStart, w) \<Rightarrow>
      case sub_get_nodes env (farm_id (st_farm s)) w of
        (Inl e, w) \<Rightarrow> (Some (Some (SubstrateErr e), s), w)
      | (Inr farmNodes, w) \<Rightarrow>
          let s = s\<lparr>st_nodes := remove_gone farmNodes (st_nodes s)\<rparr>;
              order = add_priority_to_nodes (priority_nodes (st_config s)) farmNodes
          in case visit_nodes env roundStart order s 0 w of
               (None, w) \<Rightarrow> (None, w)
             | (Some (s, _), w) \<Rightarrow>
                 case manage_nodes_power env s w of
                   (Some e, s, w) \<Rightarrow> (Some (Some (Wrapped InManagePower e), s), w)
                 | (None, s, w) \<Rightarrow>
                     case report_rows env (st_nodes s) w of
                       (None, w) \<Rightarrow> (None, w)
                     | (Some _, w) \<Rightarrow> (Some (None, s), w))"

section \<open>Balance and authorization\<close>

definition account_balance_in_tft :: "'w env \<Rightarrow> 'w \<Rightarrow> (fb_err + f64) \<times> 'w" where
  "account_balance_in_tft env w =
     (case sub_get_balance env w of ((free, err), w) \<Rightarrow>
        case (case err of None \<Rightarrow> None | Some ErrAccountNotFound \<Rightarrow> None | Some e \<Rightarrow> Some e) of
          Some e \<Rightarrow> (Inl (SubstrateErr e), w)
        | None \<Rightarrow> (Inr (fdiv (f64_of_int free) (Fin (10 ^ 7))), w))"

definition validate_account_enough_balance :: "'w env \<Rightarrow> 'w \<Rightarrow> fb_err option \<times> 'w" where
  "validate_account_enough_balance env w =
     (case account_balance_in_tft env w of
        (Inl e, w) \<Rightarrow> (Some e, w)
      | (Inr balance, w) \<Rightarrow>
          (if flt balance (fround (2 / 1000)) then Some (NotEnoughBalance balance) else None, w))"

text \<open>The check of \<open>serve\<close> before the handlers are installed.\<close>

definition serve_check :: "'w env \<Rightarrow> 'w \<Rightarrow> fb_err option \<times> 'w" where
  "serve_check env w =
     (case account_balance_in_tft env w of
        (Inl e, w) \<Rightarrow> (Some e, w)
      | (Inr balance, w) \<Rightarrow>
          (if flt balance min_balance_to_run then Some (NotEnoughBalance balance) else None, w))"

definition authorize :: "u32 \<Rightarrow> u32 \<Rightarrow> fb_err option" where
  "authorize botTwin callerTwin = (if callerTwin \<noteq> botTwin then Some (NotAuthorized callerTwin botTwin) else None)"

section \<open>The handlers\<close>

text \<open>A request with its JSON payload decoded, \<open>None\<close> when the decoding failed.\<close>

datatype request =
    ReqVersion | ReqReport | ReqFindNode "node_filter_option option"
  | ReqIncludeNode "u32 option" | ReqPowerOff "u32 option" | ReqPowerOn "u32 option"

datatype reply = RepVersion | RepReport "node_report list" | RepNode u32 | RepNothing

datatype request_err = BadPayload | Failed fb_err

definition include_node :: "'w env \<Rightarrow> u32 \<Rightarrow> state \<Rightarrow> 'w \<Rightarrow> fb_err option \<times> state \<times> 'w" where
  "include_node env nodeID s w =
     (let cfg = st_config s in
      case get_node s nodeID of
        Inr _ \<Rightarrow> (Some (NodeExists nodeID), s, w)
      | Inl _ \<Rightarrow>
          if nodeID \<in> set (excluded_nodes cfg)
             \<or> length (excluded_nodes cfg) = 0 \<and> nodeID \<notin> set (included_nodes cfg)
          then (Some (NodeExcluded nodeID), s, w)
          else case get_node_info env nodeID (continue_on_powering_on_err cfg)
                      (nodeID \<in> set (never_shut_down_nodes cfg)) False (farm_dedicated (st_farm s)) On w of
                 (Inl e, w) \<Rightarrow> (Some (Wrapped (InInclude nodeID) e), s, w)
               | (Inr n, w) \<Rightarrow> (None, add_node n s, w))"

definition power_request ::
  "('w env \<Rightarrow> u32 \<Rightarrow> state \<Rightarrow> 'w \<Rightarrow> fb_err option \<times> state \<times> 'w) \<Rightarrow> (u32 \<Rightarrow> err_context)
     \<Rightarrow> 'w env \<Rightarrow> u32 option \<Rightarrow> state \<Rightarrow> 'w \<Rightarrow> (request_err + reply) \<times> state \<times> 'w" where
  "power_request switch ctxt env payload s w =
     (case validate_account_enough_balance env w of
        (Some e, w) \<Rightarrow> (Inl (Failed (Wrapped InBalance e)), s, w)
      | (None, w) \<Rightarrow>
          case payload of None \<Rightarrow> (Inl BadPayload, s, w)
          | Some nodeID \<Rightarrow>
              case switch env nodeID s w of
                (Some e, s, w) \<Rightarrow> (Inl (Failed (Wrapped (ctxt nodeID) e)), s, w)
              | (None, s, w) \<Rightarrow> (Inr RepNothing, delete_node nodeID s, w))"

definition needs_owner :: "request \<Rightarrow> bool" where
  "needs_owner r = (case r of ReqIncludeNode _ \<Rightarrow> True | ReqPowerOff _ \<Rightarrow> True | ReqPowerOn _ \<Rightarrow> True | _ \<Rightarrow> False)"

definition serve_request ::
  "'w env \<Rightarrow> (node list \<Rightarrow> node list) \<Rightarrow> u32 \<Rightarrow> u32 \<Rightarrow> request \<Rightarrow> state \<Rightarrow> 'w
     \<Rightarrow> ((request_err + reply) \<times> state) option \<times> 'w" where
  "serve_request env srt botTwin callerTwin req s w =
     (case (if needs_owner req then authorize botTwin callerTwin else None) of
        Some e \<Rightarrow> (Some (Inl (Failed e), s), w)
      | None \<Rightarrow>
          case req of
            ReqVersion \<Rightarrow> (Some (Inr RepVersion, s), w)
          | ReqReport \<Rightarrow>
              (case node_reports env (st_nodes s) w of
                 (None, w) \<Rightarrow> (None, w)
               | (Some rs, w) \<Rightarrow> (Some (Inr (RepReport rs), s), w))
          | ReqFindNode None \<Rightarrow> (Some (Inl BadPayload, s), w)
          | ReqFindNode (Some opts) \<Rightarrow>
              (case find_node env srt opts s w of
                 (Inl e, s, w) \<Rightarrow> (Some (Inl (Failed e), s), w)
               | (Inr i, s, w) \<Rightarrow> (Some (Inr (RepNode i), s), w))
          | ReqIncludeNode None \<Rightarrow> (Some (Inl BadPayload, s), w)
          | ReqIncludeNode (Some i) \<Rightarrow>
              (case include_node env i s w of
                 (Some e, s, w) \<Rightarrow> (Some (Inl (Failed e), s), w)
               | (None, s, w) \<Rightarrow> (Some (Inr RepNothing, s), w))
          | ReqPowerOff p \<Rightarrow>
              (case power_request power_off InPowerOff env p s w of (r, s, w) \<Rightarrow> (Some (r, s), w))
          | ReqPowerOn p \<Rightarrow>
              (case power_request power_on InPowerOn env p s w of (r, s, w) \<Rightarrow> (Some (r, s), w)))"

end
