(* ===== verification/FarmSystem.thy ===== *)
theory FarmSystem
  imports FarmBot
begin

text \<open>
  The bot as a system: its reachable states under rounds, requests and changes of the outside
  world, and the invariants that hold in them. The lemmas before the step relation give the
  effect of the single operations on the list of nodes.
\<close>

section \<open>The removal loop\<close>

lemma take_shift_left:
  assumes "i < len" and "len \<le> length arr"
  shows "take (len - 1) (shift_left i len arr) = take i (take len arr) @ drop (Suc i) (take len arr)"
proof -
  have "length (take i arr @ take (len - Suc i) (drop (Suc i) arr)) = len - 1"
    using assms by simp
  then have "take (len - 1) (shift_left i len arr) = take i arr @ take (len - Suc i) (drop (Suc i) arr)"
    unfolding shift_left_def append_assoc [symmetric] by (metis append_eq_conv_conj)
  moreover have "min len i = i" using assms(1) by simp
  ultimately show ?thesis by (simp add: drop_take)
qed

lemma length_shift_left:
  assumes "i < len" and "len \<le> length arr"
  shows "length (shift_left i len arr) = length arr"
  using assms by (simp add: shift_left_def)

text \<open>What the state of the loop stands for.\<close>

definition visible :: "node list \<times> nat \<Rightarrow> node list" where
  "visible st = take (snd st) (fst st)"

definition loop_ok :: "nat \<Rightarrow> node list \<times> nat \<Rightarrow> bool" where
  "loop_ok m st \<longleftrightarrow> length (fst st) = m \<and> snd st \<le> m"

lemma remove_gone_step_cases:
  assumes "loop_ok m st" and "k < m"
  shows "loop_ok m (remove_gone_step farm k st)
    \<and> (node_id (fst st ! k) \<in> set farm \<and> remove_gone_step farm k st = st \<or>
       node_id (fst st ! k) \<notin> set farm \<and>
       visible (remove_gone_step farm k st) = delete_first (\<lambda>n. node_id n = node_id (fst st ! k)) (visible st))"
proof -
  obtain arr len where st: "st = (arr, len)" by (cases st)
  let ?p = "\<lambda>m. node_id m = node_id (arr ! k)"
  show ?thesis
  proof (cases "node_id (arr ! k) \<in> set farm")
    case True
    then show ?thesis using assms(1) by (simp add: st remove_gone_step_def Let_def)
  next
    case gone: False
    show ?thesis
    proof (cases "find_first ?p (take len arr)")
      case None
      then have "delete_first ?p (take len arr) = take len arr"
        by (intro delete_first_id) (simp add: find_first_None_iff)
      then show ?thesis using assms(1) gone None by (simp add: st remove_gone_step_def Let_def visible_def)
    next
      case (Some q)
      obtain i x where q: "q = (i, x)" by (cases q)
      have i: "i < len" "len \<le> length arr"
        using find_first_SomeD [of ?p "take len arr" i x] Some assms(1) by (auto simp: q loop_ok_def st)
      have "delete_first ?p (take len arr) = take i (take len arr) @ drop (Suc i) (take len arr)"
        using Some by (simp add: delete_first_mset q)
      then show ?thesis
        using assms(1) gone Some i(1) diff_le_self [of len 1, THEN le_trans, OF i(2)] take_shift_left [OF i] length_shift_left [OF i]
        by (simp add: st q remove_gone_step_def Let_def visible_def loop_ok_def)
    qed
  qed
qed

text \<open>An invariant of the visible list under deletions of nodes outside the farm holds at the end.\<close>

lemma remove_gone_induct:
  assumes "P nodes"
    and "\<And>xs i. P xs \<Longrightarrow> i \<notin> set farm \<Longrightarrow> P (delete_first (\<lambda>n. node_id n = i) xs)"
  shows "P (remove_gone farm nodes)"
proof -
  let ?m = "length nodes"
  have "loop_ok ?m st \<Longrightarrow> P (visible st) \<Longrightarrow> \<forall>k \<in> set ks. k < ?m \<Longrightarrow>
      P (visible (fold (remove_gone_step farm) ks st))" for ks st
  proof (induction ks arbitrary: st)
    case (Cons k ks)
    have "loop_ok ?m (remove_gone_step farm k st)" "P (visible (remove_gone_step farm k st))"
      using remove_gone_step_cases [OF Cons.prems(1), of k farm] Cons.prems assms(2) by auto
    then show ?case using Cons.IH Cons.prems(3) by simp
  qed simp
  from this [of "(nodes, ?m)" "[0..<?m]"] show ?thesis
    using assms(1) by (simp add: remove_gone_def visible_def loop_ok_def case_prod_beta)
qed

lemma remove_gone_subset: "set (remove_gone farm nodes) \<subseteq> set nodes"
proof (rule remove_gone_induct [where P = "\<lambda>xs. set xs \<subseteq> set nodes"])
  fix xs i
  assume "set xs \<subseteq> set nodes"
  then show "set (delete_first (\<lambda>n. node_id n = i) xs) \<subseteq> set nodes"
    using delete_first_set [of "\<lambda>n. node_id n = i" xs] by blast
qed simp

lemma remove_gone_distinct: "distinct (map node_id nodes) \<Longrightarrow> distinct (map node_id (remove_gone farm nodes))"
  by (rule remove_gone_induct [where P = "\<lambda>xs. distinct (map node_id xs)"]) (simp_all add: distinct_map_delete_first)

lemma remove_gone_keeps:
  "filter (\<lambda>n. node_id n \<in> set farm) (remove_gone farm nodes) = filter (\<lambda>n. node_id n \<in> set farm) nodes"
proof (rule remove_gone_induct [where P = "\<lambda>xs. filter (\<lambda>n. node_id n \<in> set farm) xs = filter (\<lambda>n. node_id n \<in> set farm) nodes"])
  fix xs i
  assume "filter (\<lambda>n. node_id n \<in> set farm) xs = filter (\<lambda>n. node_id n \<in> set farm) nodes" "i \<notin> set farm"
  then show "filter (\<lambda>n. node_id n \<in> set farm) (delete_first (\<lambda>n. node_id n = i) xs)
      = filter (\<lambda>n. node_id n \<in> set farm) nodes"
    by (subst delete_first_filter) auto
qed simp


text \<open>The first node outside the farm is always removed.\<close>

lemma fold_remove_gone_unchanged:
  assumes "\<forall>k \<in> set ks. node_id (fst st ! k) \<in> set farm"
  shows "fold (remove_gone_step farm) ks st = st"
  using assms
proof (induction ks)
  case (Cons k ks)
  then have "remove_gone_step farm k st = st"
    by (cases st) (simp add: remove_gone_step_def Let_def)
  then show ?case using Cons by simp
qed simp

lemma fold_remove_gone_shrinks:
  assumes "loop_ok m st" and "\<forall>k \<in> set ks. k < m"
  shows "snd (fold (remove_gone_step farm) ks st) \<le> snd st"
  using assms
proof (induction ks arbitrary: st)
  case (Cons k ks)
  have ok: "loop_ok m (remove_gone_step farm k st)"
    using remove_gone_step_cases [OF Cons.prems(1)] Cons.prems(2) by simp
  have "snd (remove_gone_step farm k st) \<le> snd st"
    by (auto simp: remove_gone_step_def Let_def split: prod.splits option.splits)
  then show ?case using Cons.IH [OF ok] Cons.prems(2) by simp
qed simp

lemma remove_gone_progress:
  assumes "n \<in> set nodes" and "node_id n \<notin> set farm"
  shows "length (remove_gone farm nodes) < length nodes"
proof -
  let ?m = "length nodes" and ?st = "(nodes, length nodes)"
  obtain k x where "find_first (\<lambda>n. node_id n \<notin> set farm) nodes = Some (k, x)"
    using find_first_Some_ex [of n nodes "\<lambda>n. node_id n \<notin> set farm"] assms by auto
  then have k: "k < ?m" "node_id (nodes ! k) \<notin> set farm" and before: "\<forall>j < k. node_id (nodes ! j) \<in> set farm"
    using find_first_SomeD [of "\<lambda>n. node_id n \<notin> set farm"] by auto
  have upt: "[0..<?m] = [0..<k] @ k # [Suc k..<?m]"
    using k(1) upt_add_eq_append [of 0 k "?m - k"] upt_conv_Cons [of k ?m] by simp
  have ok: "loop_ok ?m ?st" by (simp add: loop_ok_def)
  let ?st' = "remove_gone_step farm k ?st"
  obtain i y where "find_first (\<lambda>m. node_id m = node_id (nodes ! k)) (take ?m nodes) = Some (i, y)"
    using find_first_Some_ex [of "nodes ! k" nodes "\<lambda>m. node_id m = node_id (nodes ! k)"] k(1) by auto
  then have st': "snd ?st' = ?m - 1" using k by (simp add: remove_gone_step_def Let_def)
  have "loop_ok ?m ?st'" using remove_gone_step_cases [OF ok k(1)] by simp
  then have "snd (fold (remove_gone_step farm) [Suc k..<?m] ?st') \<le> ?m - 1"
    using fold_remove_gone_shrinks [of ?m ?st' "[Suc k..<?m]" farm] st' by simp
  moreover have "fold (remove_gone_step farm) [0..<k] ?st = ?st"
    using before by (intro fold_remove_gone_unchanged) simp
  ultimately have "snd (fold (remove_gone_step farm) [0..<?m] ?st) \<le> ?m - 1"
    by (simp add: upt del: upt_Suc)
  moreover have "length (remove_gone farm nodes) \<le> snd (fold (remove_gone_step farm) [0..<?m] ?st)"
    by (simp add: remove_gone_def case_prod_beta)
  ultimately show ?thesis using k(1) by linarith
qed

section \<open>What an update of a node can change\<close>

lemma call_post:
  assumes "\<And>e w. r = (Inl e, w) \<Longrightarrow> Q (Inl (g e))" and "\<And>a w. r = (Inr a, w) \<Longrightarrow> Q (fst (k a w))"
  shows "Q (fst (bindE (wrapE g r) k))"
  using assms by (cases r; cases "fst r") auto

lemma bindE_assoc: "bindE (bindE r f) g = bindE r (\<lambda>a w. bindE (f a w) g)"
  by (cases r; cases "fst r") auto

text \<open>The node in the result of \<open>update\<close>, also when it failed.\<close>

definition node_of :: "fb_err \<times> node + node \<Rightarrow> node" where
  "node_of r = (case r of Inl (e, n) \<Rightarrow> n | Inr n \<Rightarrow> n)"

lemma node_of_simps [simp]: "node_of (Inl (e, n)) = n" "node_of (Inr n) = n"
  by (simp_all add: node_of_def)

definition keeps_identity :: "bool \<Rightarrow> node \<Rightarrow> node \<Rightarrow> bool" where
  "keeps_identity never n m \<longleftrightarrow> node_id m = node_id n
     \<and> (never_shut_down m = never \<or> never_shut_down m = never_shut_down n)"

lemma update_power_identity:
  "update_power env p n w = (m, w') \<Longrightarrow> nd m = nd n \<and> never_shut_down m = never_shut_down n"
  using frame_power_tests [of env True p n w m w'] by (simp add: update_power_def frame_power_def)

lemma update_resources_fields [simp]:
  "nd (update_resources n st) = nd n" "never_shut_down (update_resources n st) = never_shut_down n"
  "dedicated (update_resources n st) = dedicated n" "power_state (update_resources n st) = power_state n"
  by (simp_all add: update_resources_def)

lemma get_power_identity:
  "get_power env p n w = (m, w') \<Longrightarrow> nd m = nd n \<and> never_shut_down m = never_shut_down n"
  using frame_power_tests [of env False p n w m w'] by (simp add: get_power_def frame_power_def)


lemma update_node_info_identity:
  assumes "node_ids_ok env"
  shows "keeps_identity never n (node_of (fst (update_node_info env never ded cont n w)))"
proof -
  have id: "sub_get_node env i w = (Inr m, w') \<Longrightarrow> sn_id m = i" for i w m w'
    using assms by (auto simp: node_ids_ok_def)
  show ?thesis
    unfolding update_node_info_def Let_def
    apply (cases "node_id n = 0 \<or> twin_id n = 0")
     apply (auto simp: keeps_identity_def) [1]
    apply (simp only: de_Morgan_disj if_False)
    apply (rule call_post)
     apply (simp add: keeps_identity_def)
    apply (rule call_post)
     apply (simp add: keeps_identity_def id)
    apply (split prod.split, intro allI impI)
    apply (split prod.split, intro allI impI)
    apply (split option.split, intro conjI allI impI)
     prefer 2 apply (simp add: keeps_identity_def id)
    apply (rule call_post)
     apply (simp add: keeps_identity_def id)
    apply (rule call_post)
     apply (simp add: keeps_identity_def id)
    apply (split prod.split, intro allI impI)
    apply (drule update_power_identity)
    apply (split if_split, intro conjI impI)
     apply (simp add: keeps_identity_def id)
    apply (split prod.split, intro allI impI)
    apply (split if_split, intro conjI impI)
     apply (simp only: bindE_simps)
     apply (rule call_post, simp add: keeps_identity_def id, rule call_post, simp add: keeps_identity_def id)
     apply (simp add: keeps_identity_def id)
    apply (simp only: bindE_assoc bindE_simps)
    apply (rule call_post, simp add: keeps_identity_def id)
    apply (rule call_post, simp add: keeps_identity_def id, rule call_post, simp add: keeps_identity_def id)
    apply (simp add: keeps_identity_def id)
    done
qed

text \<open>A successful update: the node as the chain has it, its resources kept while they are claimed.\<close>

definition updated_from :: "'w env \<Rightarrow> bool \<Rightarrow> node \<Rightarrow> node \<Rightarrow> bool" where
  "updated_from env never n m \<longleftrightarrow> node_id m = node_id n \<and> never_shut_down m = never
     \<and> (dedicated n \<longrightarrow> dedicated m)
     \<and> (\<exists>i w p w'. sub_get_power_target env i w = (Inr p, w') \<and> (well_formed_power p \<longrightarrow> power_state m = power_of p))
     \<and> ((\<forall>w t w'. clk_now env w = (t, w') \<longrightarrow> t < timeout_claimed_resources n) \<longrightarrow> resources m = resources n)"

lemma update_power_post:
  "update_power env p n w = (m, w') \<Longrightarrow> frame_power n m \<and> (well_formed_power p \<longrightarrow> power_state m = power_of p)"
  using frame_power_tests [of env True p n w m w'] state_power_tests [of env True p n w m w']
  by (simp add: update_power_def)

lemma node_if:
  "nd (if b then x else y) = (if b then nd x else nd y)"
  "never_shut_down (if b then x else y) = (if b then never_shut_down x else never_shut_down y)"
  "dedicated (if b then x else y) = (if b then dedicated x else dedicated y)"
  "resources (if b then x else y) = (if b then resources x else resources y)"
  "timeout_claimed_resources (if b then x else y)
     = (if b then timeout_claimed_resources x else timeout_claimed_resources y)"
  by simp_all

lemma update_node_info_post:
  assumes "node_ids_ok env" and "update_node_info env never ded cont n w = (Inr m, w')"
  shows "updated_from env never n m"
proof -
  have id: "sub_get_node env i w = (Inr m, w') \<Longrightarrow> sn_id m = i" for i w m w'
    using assms(1) by (auto simp: node_ids_ok_def)
  define Q where "Q r \<longleftrightarrow> (\<forall>m. r = Inr m \<longrightarrow> updated_from env never n m)" for r :: "fb_err \<times> node + node"
  have "Q (fst (update_node_info env never ded cont n w))"
    unfolding update_node_info_def Let_def
    apply (cases "node_id n = 0 \<or> twin_id n = 0")
     apply (auto simp: Q_def) [1]
    apply (simp only: de_Morgan_disj if_False)
    apply (rule call_post, simp add: Q_def, rule call_post, simp add: Q_def)
    apply (split prod.split, intro allI impI)
    apply (split prod.split, intro allI impI)
    apply (split option.split, intro conjI allI impI)
     prefer 2 apply (simp add: Q_def)
    apply (rule call_post, simp add: Q_def, rule call_post, simp add: Q_def)
    apply (split prod.split, intro allI impI)
    apply (drule update_power_post)
    apply (split if_split, intro conjI impI)
     apply (auto simp: Q_def updated_from_def frame_power_def id node_if cong: if_cong) [1]
    apply (split prod.split, intro allI impI)
    apply (split if_split, intro conjI impI)
     apply (simp only: bindE_simps)
     apply (rule call_post, simp add: Q_def, rule call_post, simp add: Q_def)
     apply (auto simp: Q_def updated_from_def frame_power_def id node_if cong: if_cong) [1]
    apply (simp only: bindE_assoc bindE_simps)
    apply (rule call_post, simp add: Q_def)
    apply (rule call_post, simp add: Q_def, rule call_post, simp add: Q_def)
    apply (clarsimp simp: Q_def updated_from_def frame_power_def id node_if cong: if_cong)
    apply blast
    done
  then show ?thesis using assms(2) by (simp add: Q_def)
qed

lemma get_node_info_post:
  assumes "node_ids_ok env" and "get_node_info env i cont never clm ded old w = (Inr m, w')"
  shows "node_id m = i \<and> never_shut_down m = never"
proof -
  have id: "sub_get_node env i w = (Inr m, w') \<Longrightarrow> sn_id m = i" for i w m w'
    using assms(1) by (auto simp: node_ids_ok_def)
  define Q where "Q r \<longleftrightarrow> (\<forall>m. r = Inr m \<longrightarrow> node_id m = i \<and> never_shut_down m = never)" for r :: "fb_err + node"
  have "Q (fst (get_node_info env i cont never clm ded old w))"
    unfolding get_node_info_def Let_def
    apply (rule call_post, simp add: Q_def, rule call_post, simp add: Q_def)
    apply (split prod.split, intro allI impI)
    apply (split prod.split, intro allI impI)
    apply (split option.split, intro conjI allI impI)
     prefer 2 apply (simp add: Q_def)
    apply (rule call_post, simp add: Q_def, rule call_post, simp add: Q_def)
    apply (split prod.split, intro allI impI)
    apply (drule get_power_identity)
    apply (split if_split, intro conjI impI)
     apply (simp add: Q_def id)
    apply (split if_split, intro conjI impI)
     apply (simp only: bindE_simps)
     apply (rule call_post, simp add: Q_def, rule call_post, simp add: Q_def)
     apply (simp add: Q_def id)
    apply (simp only: bindE_assoc bindE_simps)
    apply (rule call_post, simp add: Q_def)
    apply (rule call_post, simp add: Q_def, rule call_post, simp add: Q_def)
    apply (simp add: Q_def id)
    done
  then show ?thesis using assms(2) by (simp add: Q_def)
qed


section \<open>The invariant of the bot\<close>

text \<open>
  The ids are distinct, no managed node is excluded, and the flag that forbids shutting a node
  down is the one of the configuration (except for the id 0, which the zero value of a node has
  and the round can write); farm and configuration do not change.
\<close>

definition node_ok :: "config \<Rightarrow> node \<Rightarrow> bool" where
  "node_ok cfg n \<longleftrightarrow> node_id n \<notin> set (excluded_nodes cfg)
     \<and> (node_id n \<noteq> 0 \<longrightarrow> (never_shut_down n \<longleftrightarrow> node_id n \<in> set (never_shut_down_nodes cfg)))"

definition bot_inv :: "config \<Rightarrow> farm \<Rightarrow> state \<Rightarrow> bool" where
  "bot_inv cfg f s \<longleftrightarrow> st_config s = cfg \<and> st_farm s = f \<and> distinct (state_ids s)
     \<and> (\<forall>n \<in> set (st_nodes s). node_ok cfg n)"

named_theorems identity_simps "operations that keep the identity of a node"

lemma keep_identity [identity_simps]:
  "never_shut_down (shut n t) = never_shut_down n" "nd (shut n t) = nd n"
  "never_shut_down (wake n a t) = never_shut_down n" "nd (wake n a t) = nd n"
  "never_shut_down (claimed opts cap now n) = never_shut_down n"
  by (simp_all add: shut_def wake_def claimed_def claim_resources_def Let_def)

lemma node_ok_same: "nd m = nd n \<Longrightarrow> never_shut_down m = never_shut_down n \<Longrightarrow> node_ok cfg m = node_ok cfg n"
  by (simp add: node_ok_def)

lemma bot_inv_set_node:
  assumes "bot_inv cfg f s" and "set_node s m s'" and "node_ok cfg m"
  shows "bot_inv cfg f s'"
proof -
  have "set (st_nodes s') \<subseteq> insert m (set (st_nodes s))"
    using assms(2) replace_first_set
    by (fastforce simp: set_node_def update_node_def split: option.splits)
  then show ?thesis
    using assms set_node_frame [OF assms(2)] set_node_lookup(2) [OF assms(2)]
    by (auto simp: bot_inv_def)
qed

lemma bot_inv_guarded:
  assumes "bot_inv cfg f s" and "same_frame s s'" and "guarded_change P R s s'"
    and "\<And>n m. R n m \<Longrightarrow> nd m = nd n \<and> never_shut_down m = never_shut_down n"
  shows "bot_inv cfg f s'"
proof -
  have ids: "distinct (state_ids s')" using assms(1,2) by (simp add: bot_inv_def same_frame_def)
  have "node_ok cfg m" if m: "m \<in> set (st_nodes s')" for m
  proof -
    have "lookup_node s' (node_id m) = Some m" using ids m by (rule lookup_node_distinct)
    then consider "lookup_node s (node_id m) = Some m" | n where "lookup_node s (node_id m) = Some n" "R n m"
      using assms(3) unfolding guarded_change_def by (metis option.inject)
    then show ?thesis
    proof cases
      case 1
      then show ?thesis using assms(1) lookup_node_mem [OF 1] by (simp add: bot_inv_def)
    next
      case (2 n)
      have "node_ok cfg n" using assms(1) lookup_node_mem [OF 2(1)] by (simp add: bot_inv_def)
      then show ?thesis by (simp add: node_ok_def assms(4) [OF 2(2)])
    qed
  qed
  then show ?thesis using assms(1,2) ids by (simp add: bot_inv_def same_frame_def)
qed

lemma bot_inv_woken:
  "bot_inv cfg f s \<Longrightarrow> same_frame s s' \<Longrightarrow> only_off_woken s s' \<Longrightarrow> bot_inv cfg f s'"
  unfolding only_off_woken_def by (erule bot_inv_guarded, assumption, assumption) (auto simp: identity_simps)

lemma bot_inv_shut:
  "bot_inv cfg f s \<Longrightarrow> same_frame s s' \<Longrightarrow> only_idle_shut s s' \<Longrightarrow> bot_inv cfg f s'"
  unfolding only_idle_shut_def by (erule bot_inv_guarded, assumption, assumption) (auto simp: identity_simps)

lemma bot_inv_power_on: "power_on env i s w = (r, s', w') \<Longrightarrow> bot_inv cfg f s \<Longrightarrow> bot_inv cfg f s'"
  using power_on_round [of env i s w r s' w'] bot_inv_woken [of cfg f s s'] by blast

lemma bot_inv_power_off: "power_off env i s w = (r, s', w') \<Longrightarrow> bot_inv cfg f s \<Longrightarrow> bot_inv cfg f s'"
  using power_off_round(1,2) [of env i s w r s' w'] bot_inv_shut [of cfg f s s'] by blast

lemma bot_inv_manage:
  "manage_nodes_power env s w = (r, s', w') \<Longrightarrow> bot_inv cfg f s \<Longrightarrow> bot_inv cfg f s'"
  using manage_nodes_power_round [of env s w r s' w'] bot_inv_woken [of cfg f s s'] bot_inv_shut [of cfg f s s'] by blast

lemma bot_inv_delete: "bot_inv cfg f s \<Longrightarrow> bot_inv cfg f (delete_node i s)"
  using delete_first_set [of "\<lambda>n. node_id n = i" "st_nodes s"] store.distinct_del [of s i]
  by (auto simp: bot_inv_def delete_node_def)

lemma bot_inv_add:
  assumes "bot_inv cfg f s" and "lookup_node s (node_id n) = None" and "node_ok cfg n"
  shows "bot_inv cfg f (add_node n s)"
  using assms store.distinct_add [of s n] by (auto simp: bot_inv_def add_node_def)

lemma bot_inv_try_update: "bot_inv cfg f s \<Longrightarrow> node_ok cfg n \<Longrightarrow> bot_inv cfg f (try_update n s)"
  using bot_inv_set_node [of cfg f s n] by (auto simp: try_update_def set_node_def split: sum.splits)

lemma bot_inv_remove_gone:
  assumes "bot_inv cfg f s"
  shows "bot_inv cfg f (s\<lparr>st_nodes := remove_gone farm (st_nodes s)\<rparr>)"
  using assms remove_gone_subset [of farm "st_nodes s"] remove_gone_distinct [of "st_nodes s" farm]
  by (auto simp: bot_inv_def)

lemma bot_inv_find_node:
  assumes "find_node env srt opts s w = (r, s', w')" and "slice_sort srt power_state" and "bot_inv cfg f s"
  shows "bot_inv cfg f s'"
proof -
  have d: "distinct (state_ids s)" using assms(3) by (simp add: bot_inv_def)
  show ?thesis
    using assms(1,2) d
  proof (cases rule: find_node_cases)
    case (power n)
    then show ?thesis using assms(3) bot_inv_woken by blast
  next
    case (found n now s1)
    have "node_ok cfg n" using found(1) assms(3) by (simp add: bot_inv_def)
    then have "node_ok cfg (claimed (with_default_gpu opts) (options_capacity opts) now n)"
      by (simp add: node_ok_def identity_simps)
    then show ?thesis using bot_inv_set_node found(5,6,8) assms(3) bot_inv_woken by blast
  qed (use assms(3) in simp_all)
qed


section \<open>Rounds and requests keep the invariant\<close>

lemma bot_inv_add_or_update:
  assumes "add_or_update_node env i s w = (r, s', w')" and "node_ids_ok env" and "bot_inv cfg f s"
    and "i \<notin> set (excluded_nodes cfg)"
  shows "bot_inv cfg f s'"
proof (cases "get_node s i")
  case (Inr p)
  obtain k n where g: "get_node s i = Inr (k, n)" using Inr by (cases p) auto
  let ?never = "i \<in> set (never_shut_down_nodes (st_config s))"
  let ?u = "update_node_info env ?never (farm_dedicated (st_farm s)) (continue_on_powering_on_err (st_config s)) n w"
  have n: "n \<in> set (st_nodes s)" "node_id n = i" using lookup_node_mem [OF get_node_Inr [OF g]] by auto
  have "keeps_identity ?never n (node_of (fst ?u))" using assms(2) by (rule update_node_info_identity)
  then have ok: "node_ok cfg (node_of (fst ?u))"
    using n assms(3) by (auto simp: keeps_identity_def node_ok_def bot_inv_def)
  have "s' = s \<or> set_node s (node_of (fst ?u)) s'"
    using assms(1) g by (cases ?u; cases "fst ?u")
      (auto simp: add_or_update_node_def Let_def set_node_def split: sum.splits prod.splits option.splits)
  then show ?thesis using assms(3) bot_inv_set_node [OF assms(3) _ ok] by blast
next
  case (Inl e)
  then have none: "lookup_node s i = None" by (simp add: get_node_Inl)
  let ?g = "get_node_info env i (continue_on_powering_on_err (st_config s))
    (i \<in> set (never_shut_down_nodes (st_config s))) False (farm_dedicated (st_farm s)) On w"
  show ?thesis
  proof (cases "fst ?g")
    case (Inl e)
    then show ?thesis using assms(1,3) \<open>get_node s i = Inl _\<close>
      by (auto simp: add_or_update_node_def Let_def split: sum.splits prod.splits)
  next
    case (Inr n)
    then have n: "node_id n = i \<and> never_shut_down n = (i \<in> set (never_shut_down_nodes (st_config s)))"
      by (intro get_node_info_post [OF assms(2), where w' = "snd ?g"]) (simp add: prod_eq_iff)
    have "s' = add_node n s" using assms(1) Inr \<open>get_node s i = Inl _\<close>
      by (auto simp: add_or_update_node_def Let_def split: sum.splits prod.splits)
    then show ?thesis using bot_inv_add [OF assms(3), of n] none n assms(3,4)
      by (simp add: node_ok_def bot_inv_def)
  qed
qed

lemma random_wake_up_node:
  assumes "random_wake_up env l k n w = (Some (b, m), w')"
  shows "nd m = nd n \<and> never_shut_down m = never_shut_down n \<and> power_state m = power_state n"
  using assms by (auto simp: random_wake_up_def split: if_splits prod.splits option.splits)

lemma should_wake_up_node:
  assumes "should_wake_up env s n t c w = (Some (b, m), w')"
  shows "nd m = nd n \<and> never_shut_down m = never_shut_down n \<and> power_state m = power_state n"
  using assms by (auto simp: should_wake_up_def split: if_splits prod.splits sum.splits
      dest: random_wake_up_node)

lemma bot_inv_visit_node:
  assumes "visit_node env t i s c w = (Some (s', c'), w')" and "node_ids_ok env" and "bot_inv cfg f s"
    and "i \<notin> set (excluded_nodes cfg)"
  shows "bot_inv cfg f s'"
proof -
  obtain r1 s1 w1 where 1: "add_or_update_node env i s w = (r1, s1, w1)" by (metis prod_cases3)
  have i1: "bot_inv cfg f s1" using 1 assms(2-4) by (rule bot_inv_add_or_update)
  let ?n = "case get_node s1 i of Inl _ \<Rightarrow> zero_node | Inr (_, n) \<Rightarrow> n"
  obtain r2 s2 w2 where 2: "(if power_state ?n = Off \<and> (never_shut_down ?n \<or> has_active_rent_contract ?n)
      then power_on env i s1 w1 else (None, s1, w1)) = (r2, s2, w2)" by (metis prod_cases3)
  have i2: "bot_inv cfg f s2"
    using 2 i1 bot_inv_power_on [of env i s1 w1 r2 s2 w2] by (auto split: if_splits)
  define reset where "reset = (day_of (tz_off env) t = 1 \<and> hour_of (tz_off env) t = 1
      \<and> minute_of (tz_off env) t < timeout_update_minutes)"
  define n where "n = (if reset then ?n\<lparr>times_random_wake_ups := 0\<rparr> else ?n)"
  define s3 where "s3 = (if reset then try_update n s2 else s2)"
  have n_same: "nd n = nd ?n" "never_shut_down n = never_shut_down ?n" by (simp_all add: n_def)
  have cfg2: "state_ids s2 = state_ids s1"
    using 2 power_on_frame(1) [of env i s1 w1 r2 s2 w2] by (auto split: if_splits)
  have upd: "bot_inv cfg f (try_update m s3')"
    if "bot_inv cfg f s3'" "state_ids s3' = state_ids s1" "nd m = nd ?n" "never_shut_down m = never_shut_down ?n"
    for m s3'
  proof (cases "get_node s1 i")
    case (Inr p)
    obtain k x where g: "get_node s1 i = Inr (k, x)" using Inr by (cases p) auto
    then have "node_ok cfg x" using i1 lookup_node_mem [OF get_node_Inr [OF g]] by (simp add: bot_inv_def)
    then have "node_ok cfg m" using that(3,4) by (simp add: g node_ok_def)
    then show ?thesis using that(1) bot_inv_try_update by blast
  next
    case (Inl e)
    show ?thesis
    proof (cases "node_id m \<in> set (state_ids s3')")
      case True
      then have "node_id m \<notin> set (excluded_nodes cfg)" using that(1) by (auto simp: bot_inv_def node_ok_def)
      moreover have "node_id m = 0" using that(3) by (simp add: Inl zero_node_def zero_sub_node_def)
      ultimately show ?thesis using that(1) by (intro bot_inv_try_update) (simp_all add: node_ok_def)
    next
      case False
      then have "replace_node m s3' = None" using store.upd_None by blast
      then show ?thesis using that(1)
        by (auto simp: try_update_def replace_node_def split: sum.splits)
    qed
  qed
  have i3: "bot_inv cfg f s3" using upd [OF i2 cfg2 n_same] i2 by (cases reset) (simp_all add: s3_def)
  have ids3: "state_ids s3 = state_ids s1"
    using cfg2 store.ids_upd by (auto simp: s3_def try_update_def update_node_Inr split: sum.splits)
  have eq: "visit_node env t i s c w =
      (case should_wake_up env s3 n t c w2 of
         (None, w) \<Rightarrow> (None, w)
       | (Some (False, n), w) \<Rightarrow> (Some (s3, c), w)
       | (Some (True, n), w) \<Rightarrow>
           case power_on env i (try_update n s3) w of (err, s, w) \<Rightarrow>
             (Some (s, if err = None then c + 1 else c), w))"
    unfolding visit_node_def Let_def 1 prod.case 2 s3_def n_def reset_def by simp
  obtain q w3 where q: "should_wake_up env s3 n t c w2 = (q, w3)" by fastforce
  show ?thesis
  proof (cases q)
    case None
    then show ?thesis using assms(1) by (simp add: eq q)
  next
    case (Some bm)
    obtain b m where bm: "bm = (b, m)" by (cases bm)
    have m: "nd m = nd ?n" "never_shut_down m = never_shut_down ?n"
      using should_wake_up_node [of env s3 n t c w2 b m w3] q Some bm n_same by auto
    show ?thesis
    proof (cases b)
      case True
      obtain r4 s4 w4 where p: "power_on env i (try_update m s3) w3 = (r4, s4, w4)" by (metis prod_cases3)
      then have "s' = s4" using assms(1) True by (simp add: eq q Some bm)
      then show ?thesis using bot_inv_power_on [OF p upd [OF i3 ids3 m]] by simp
    next
      case False
      then show ?thesis using assms(1) i3 by (simp add: eq q Some bm)
    qed
  qed
qed

lemma bot_inv_visit_nodes:
  assumes "visit_nodes env t is s c w = (Some (s', c'), w')" and "node_ids_ok env" and "bot_inv cfg f s"
  shows "bot_inv cfg f s'"
  using assms(1,3)
proof (induction "is" arbitrary: s c w)
  case (Cons i "is")
  have cfg: "st_config s = cfg" using Cons.prems(2) by (simp add: bot_inv_def)
  consider (skip) "visit_nodes env t is s c w = (Some (s', c'), w')"
    | (visit) s1 c1 w1 where "i \<notin> set (excluded_nodes cfg)" "visit_node env t i s c w = (Some (s1, c1), w1)"
        "visit_nodes env t is s1 c1 w1 = (Some (s', c'), w')"
    using Cons.prems(1) by (auto simp: cfg split: if_splits prod.splits option.splits)
  then show ?case
  proof cases
    case skip
    then show ?thesis using Cons by blast
  next
    case visit
    then show ?thesis using Cons.IH bot_inv_visit_node [OF visit(2) assms(2) Cons.prems(2) visit(1)] by blast
  qed
qed simp

lemma bot_inv_iterate:
  assumes "iterate_on_nodes env s w = (Some (r, s'), w')" and "node_ids_ok env" and "bot_inv cfg f s"
  shows "bot_inv cfg f s'"
proof -
  obtain t w1 where t: "clk_now env w = (t, w1)" by fastforce
  obtain q w2 where q: "sub_get_nodes env (farm_id (st_farm s)) w1 = (q, w2)" by fastforce
  show ?thesis
  proof (cases q)
    case (Inl e)
    then show ?thesis using assms(1,3) by (simp add: iterate_on_nodes_def t q)
  next
    case (Inr farmNodes)
    let ?s1 = "s\<lparr>st_nodes := remove_gone farmNodes (st_nodes s)\<rparr>"
    let ?order = "add_priority_to_nodes (priority_nodes (st_config ?s1)) farmNodes"
    obtain s2 c w3 where v: "visit_nodes env t ?order ?s1 0 w2 = (Some (s2, c), w3)"
      using assms(1) by (auto simp: iterate_on_nodes_def t q Inr split: prod.splits option.splits)
    have i2: "bot_inv cfg f s2"
      using v assms(2) bot_inv_remove_gone [OF assms(3)] by (rule bot_inv_visit_nodes)
    obtain r4 s4 w4 where m: "manage_nodes_power env s2 w3 = (r4, s4, w4)" by (metis prod_cases3)
    have "s' = s4"
      using assms(1) v by (auto simp: iterate_on_nodes_def t q Inr m split: prod.splits option.splits)
    then show ?thesis using bot_inv_manage [OF m i2] by simp
  qed
qed

lemma bot_inv_include:
  assumes "include_node env i s w = (r, s', w')" and "node_ids_ok env" and "bot_inv cfg f s"
  shows "bot_inv cfg f s'"
proof -
  let ?g = "get_node_info env i (continue_on_powering_on_err (st_config s))
    (i \<in> set (never_shut_down_nodes (st_config s))) False (farm_dedicated (st_farm s)) On w"
  show ?thesis
  proof (cases "get_node s i = Inl (NodeNotFound i) \<and> i \<notin> set (excluded_nodes cfg) \<and> (\<exists>n. fst ?g = Inr n)")
    case True
    then obtain n where n: "fst ?g = Inr n" by blast
    have "s' = s \<or> s' = add_node n s"
      using assms(1) True n by (cases ?g) (simp add: include_node_def Let_def split: if_splits)
    moreover have "node_id n = i \<and> never_shut_down n = (i \<in> set (never_shut_down_nodes (st_config s)))"
      using n by (intro get_node_info_post [OF assms(2), where w' = "snd ?g"]) (simp add: prod_eq_iff)
    ultimately show ?thesis using bot_inv_add [OF assms(3), of n] True assms(3)
      by (auto simp: node_ok_def bot_inv_def get_node_Inl)
  next
    case False
    then have "s' = s"
      using assms(1,3) by (cases ?g; cases "fst ?g"; cases "get_node s i")
        (simp_all add: include_node_def Let_def bot_inv_def get_node_Inl split: if_splits prod.splits)
    then show ?thesis using assms(3) by simp
  qed
qed

lemma bot_inv_power_request:
  assumes "power_request sw ctxt env p s w = (r, s', w')" and "bot_inv cfg f s"
    and "\<And>i s w r s' w'. sw env i s w = (r, s', w') \<Longrightarrow> bot_inv cfg f s \<Longrightarrow> bot_inv cfg f s'"
  shows "bot_inv cfg f s'"
proof -
  obtain b w1 where b: "validate_account_enough_balance env w = (b, w1)" by fastforce
  show ?thesis
  proof (cases "b = None \<and> p \<noteq> None")
    case True
    then obtain i where i: "b = None" "p = Some i" by auto
    obtain r1 s1 w2 where sw: "sw env i s w1 = (r1, s1, w2)" by (metis prod_cases3)
    then have "bot_inv cfg f s1" using assms(2) by (rule assms(3))
    moreover have "s' = s1 \<or> s' = delete_node i s1"
      using assms(1) by (auto simp: power_request_def b i sw split: option.splits)
    ultimately show ?thesis using bot_inv_delete by blast
  next
    case False
    then have "s' = s" using assms(1) by (auto simp: power_request_def b split: option.splits)
    then show ?thesis using assms(2) by simp
  qed
qed


lemma bot_inv_serve_request:
  assumes "serve_request env srt twin caller req s w = (Some (r, s'), w')" and "node_ids_ok env"
    and "slice_sort srt power_state" and "bot_inv cfg f s"
  shows "bot_inv cfg f s'"
proof (cases "if needs_owner req then authorize twin caller else None")
  case (Some e)
  then show ?thesis using assms(1,4) by (simp add: serve_request_def)
next
  case pass: None
  show ?thesis
  proof (cases req)
    case (ReqFindNode p)
    show ?thesis
    proof (cases p)
      case (Some opts)
      obtain r1 s1 w1 where f: "find_node env srt opts s w = (r1, s1, w1)" by (metis prod_cases3)
      then have "s' = s1" using assms(1) pass by (simp add: serve_request_def ReqFindNode Some split: sum.splits)
      then show ?thesis using bot_inv_find_node [OF f assms(3,4)] by simp
    qed (use assms(1,4) pass ReqFindNode in \<open>simp add: serve_request_def\<close>)
  next
    case (ReqIncludeNode p)
    show ?thesis
    proof (cases p)
      case (Some i)
      obtain r1 s1 w1 where f: "include_node env i s w = (r1, s1, w1)" by (metis prod_cases3)
      then have "s' = s1" using assms(1) pass by (simp add: serve_request_def ReqIncludeNode Some split: option.splits)
      then show ?thesis using bot_inv_include [OF f assms(2,4)] by simp
    qed (use assms(1,4) pass ReqIncludeNode in \<open>simp add: serve_request_def\<close>)
  next
    case (ReqPowerOff p)
    obtain r1 s1 w1 where f: "power_request power_off InPowerOff env p s w = (r1, s1, w1)" by (metis prod_cases3)
    then have "s' = s1" using assms(1) pass by (simp add: serve_request_def ReqPowerOff)
    then show ?thesis using bot_inv_power_request [OF f assms(4)] bot_inv_power_off [of env] by blast
  next
    case (ReqPowerOn p)
    obtain r1 s1 w1 where f: "power_request power_on InPowerOn env p s w = (r1, s1, w1)" by (metis prod_cases3)
    then have "s' = s1" using assms(1) pass by (simp add: serve_request_def ReqPowerOn)
    then show ?thesis using bot_inv_power_request [OF f assms(4)] bot_inv_power_on [of env] by blast
  qed (use assms(1,4) pass in \<open>auto simp: serve_request_def split: prod.splits option.splits\<close>)
qed

section \<open>The first state\<close>

definition allowed_id :: "config \<Rightarrow> u32 \<Rightarrow> bool" where
  "allowed_id cfg i \<longleftrightarrow> i \<notin> set (excluded_nodes cfg) \<and> (i \<in> set (included_nodes cfg) \<or> included_nodes cfg = [])"

lemma fetch_loop_ids:
  assumes "fetch_loop env cfg ded ids acc w = (Inr ns, w')" and "node_ids_ok env"
    and "\<forall>n \<in> set acc. node_ok cfg n"
  shows "map node_id ns = map node_id acc @ filter (allowed_id cfg) ids \<and> (\<forall>n \<in> set ns. node_ok cfg n)"
  using assms(1,3)
proof (induction ids arbitrary: acc w)
  case (Cons i ids)
  show ?case
  proof (cases "allowed_id cfg i")
    case True
    let ?g = "get_node_info env i (continue_on_powering_on_err cfg) (i \<in> set (never_shut_down_nodes cfg)) False ded On w"
    have eq: "bindE (wrapE (Wrapped (InAddNode i)) ?g)
        (\<lambda>n w. fetch_loop env cfg ded ids (acc @ [n]) w) = (Inr ns, w')"
      using Cons.prems(1) True by (simp add: allowed_id_def)
    then obtain n w1 where g: "?g = (Inr n, w1)" by (cases ?g; cases "fst ?g") simp_all
    have rest: "fetch_loop env cfg ded ids (acc @ [n]) w1 = (Inr ns, w')" using eq by (simp add: g)
    have n: "node_id n = i" "node_ok cfg n"
      using get_node_info_post [OF assms(2) g] True by (simp_all add: node_ok_def allowed_id_def)
    then have "\<forall>n \<in> set (acc @ [n]). node_ok cfg n" using Cons.prems(2) by simp
    from Cons.IH [OF rest this] show ?thesis by (simp add: True n(1))
  next
    case False
    then have "fetch_loop env cfg ded ids acc w = (Inr ns, w')"
      using Cons.prems(1) by (auto simp: allowed_id_def split: if_splits)
    then show ?thesis using Cons.IH Cons.prems(2) False by simp
  qed
qed simp

lemma add_priority_distinct: "distinct (add_priority_to_nodes ps farmNodes)"
  by (simp add: add_priority_to_nodes_def distinct_add_missing distinct_add_valid_priority)

lemma add_priority_set: "set (add_priority_to_nodes ps farmNodes) = set farmNodes"
  by (auto simp: add_priority_to_nodes_def)

lemma validate_keeps:
  assumes "validate env s w = (Inr s', w')"
  shows "st_nodes s' = st_nodes s \<and> st_farm s' = st_farm s \<and> (\<exists>p. st_config s' = (st_config s)\<lparr>power := p\<rparr>)"
  using assms by (auto simp: validate_def bindE_Inr_iff split: if_splits)

lemma new_state_cases:
  assumes "new_state env cfg twin w = (Inr s, w')"
  obtains farmNodes w1 w2 s0 w3 where
    "sub_get_nodes env (cfg_farm_id cfg) w1 = (Inr farmNodes, w2)"
    "fetch_loop env cfg (farm_dedicated (st_farm s)) (add_priority_to_nodes (priority_nodes cfg) farmNodes) [] w2 = (Inr (st_nodes s), w3)"
    "validate env s0 w3 = (Inr s, w')" "st_nodes s0 = st_nodes s" "farm_twin (st_farm s) = twin"
    "\<exists>p. st_config s = cfg\<lparr>power := p\<rparr>"
    "over_provision_cpu (power (st_config s0)) \<in> {1..4}"
proof -
  define over where "over = (if over_provision_cpu (power cfg) = 0 then default_cpu_provision
    else over_provision_cpu (power cfg))"
  let ?cfg = "cfg\<lparr>power := (power cfg)\<lparr>over_provision_cpu := over\<rparr>\<rparr>"
  note run = assms [unfolded new_state_def Let_def, folded over_def]
  have o: "\<not> (over < 1 \<or> 4 < over)" using run by (cases "over < 1 \<or> 4 < over") simp_all
  obtain fm w1 where fm: "sub_get_farm env (cfg_farm_id cfg) w = (Inr fm, w1)"
    using run o by (cases "sub_get_farm env (cfg_farm_id cfg) w"; cases "fst (sub_get_farm env (cfg_farm_id cfg) w)") simp_all
  have tw: "twin = farm_twin fm" using run o fm by (cases "twin = farm_twin fm") simp_all
  obtain ns w2 where ns: "fetch_nodes env cfg (farm_dedicated fm) w1 = (Inr ns, w2)"
    using run o fm tw by (cases "fetch_nodes env cfg (farm_dedicated fm) w1"; cases "fst (fetch_nodes env cfg (farm_dedicated fm) w1)") simp_all
  have v: "validate env \<lparr>st_farm = fm, st_nodes = ns, st_config = ?cfg\<rparr> w2 = (Inr s, w')"
    using run o fm tw ns by simp
  have k: "st_nodes s = ns" "st_farm s = fm" "\<exists>p. st_config s = cfg\<lparr>power := p\<rparr>"
    using validate_keeps [OF v] by auto
  obtain farmNodes w3 where "sub_get_nodes env (cfg_farm_id cfg) w1 = (Inr farmNodes, w3)"
    "fetch_loop env cfg (farm_dedicated fm) (add_priority_to_nodes (priority_nodes cfg) farmNodes) [] w3 = (Inr ns, w2)"
    using ns by (auto simp: fetch_nodes_def bindE_Inr_iff wrapE_Inr_iff)
  then show thesis
    using that [of w1 farmNodes w3 w2 "\<lparr>st_farm = fm, st_nodes = ns, st_config = ?cfg\<rparr>"] v k tw o by simp
qed

lemma bot_inv_new_state:
  assumes "new_state env cfg twin w = (Inr s, w')" and "node_ids_ok env"
  shows "bot_inv (st_config s) (st_farm s) s"
  using assms(1)
proof (cases rule: new_state_cases)
  case (1 farmNodes w1 w2 s0 w3)
  have f: "map node_id (st_nodes s) = filter (allowed_id cfg) (add_priority_to_nodes (priority_nodes cfg) farmNodes)"
    "\<forall>n \<in> set (st_nodes s). node_ok cfg n"
    using fetch_loop_ids [OF 1(2) assms(2)] by simp_all
  have "node_ok (st_config s) n = node_ok cfg n" for n using 1(6) by (auto simp: node_ok_def)
  then show ?thesis using f by (simp add: bot_inv_def add_priority_distinct)
qed

section \<open>The step relation\<close>

text \<open>
  A configuration is the state of the bot and the outside world. A step is a round, a request from
  some twin, or a change of the outside world alone. A panic ends the process, so it is no step.
\<close>

inductive bot_step :: "'w env \<Rightarrow> (node list \<Rightarrow> node list) \<Rightarrow> u32 \<Rightarrow> state \<times> 'w \<Rightarrow> state \<times> 'w \<Rightarrow> bool"
  for env srt twin where
  round: "iterate_on_nodes env s w = (Some (r, s'), w') \<Longrightarrow> bot_step env srt twin (s, w) (s', w')"
| request: "serve_request env srt twin caller req s w = (Some (r, s'), w') \<Longrightarrow> bot_step env srt twin (s, w) (s', w')"
| outside: "bot_step env srt twin (s, w) (s, w')"

inductive_cases bot_stepE: "bot_step env srt twin (s, w) (s', w')"

inductive bot_reachable :: "'w env \<Rightarrow> (node list \<Rightarrow> node list) \<Rightarrow> config \<Rightarrow> u32 \<Rightarrow> state \<times> 'w \<Rightarrow> bool"
  for env srt cfg twin where
  start: "new_state env cfg twin w = (Inr s, w') \<Longrightarrow> bot_reachable env srt cfg twin (s, w')"
| step: "bot_reachable env srt cfg twin c \<Longrightarrow> bot_step env srt twin c c' \<Longrightarrow> bot_reachable env srt cfg twin c'"

lemma bot_inv_step:
  assumes "bot_step env srt twin (s, w) (s', w')" and "node_ids_ok env"
    and "slice_sort srt power_state" and "bot_inv cfg f s"
  shows "bot_inv cfg f s'"
  using assms(1)
  by (elim bot_stepE) (auto intro: bot_inv_iterate bot_inv_serve_request assms(2-4))

lemma bot_inv_reachable:
  assumes "bot_reachable env srt cfg twin c" and "node_ids_ok env" and "slice_sort srt power_state"
  shows "bot_inv (st_config (fst c)) (st_farm (fst c)) (fst c) \<and> farm_twin (st_farm (fst c)) = twin
     \<and> (\<exists>p. st_config (fst c) = cfg\<lparr>power := p\<rparr>)"
  using assms(1)
proof (induction rule: bot_reachable.induct)
  case (start w s w')
  then show ?case using bot_inv_new_state [OF start assms(2)]
    by (auto elim: new_state_cases)
next
  case (step c c')
  obtain s w s' w' where c: "c = (s, w)" "c' = (s', w')" by (cases c; cases c')
  have i: "bot_inv (st_config s) (st_farm s) s" using step.IH by (simp add: c)
  have "bot_inv (st_config s) (st_farm s) s'"
    using step.hyps(2) assms(2,3) i unfolding c by (rule bot_inv_step)
  moreover then have "st_config s' = st_config s" "st_farm s' = st_farm s" by (simp_all add: bot_inv_def)
  ultimately show ?case using step.IH by (simp add: c)
qed

end
