(* ===== verification/FarmSim.thy ===== *)
theory FarmSim
  imports FarmSystem
begin

text \<open>
  A concrete outside world with a farm of three nodes, on which the theorems are applied: node 1 is
  up and busy, node 2 is up and idle, node 3 is off. The clock stands at noon of 1 January 2025 and the
  world is a list of the power targets that were set.
\<close>

definition sim_now :: time where
  "sim_now = 739251 * day + 12 * hour"

definition sim_cap :: "nat \<Rightarrow> pkg_capacity" where
  "sim_cap k = \<lparr>CRU = of_nat (8 * k), SRU = of_nat (1000 * k), HRU = of_nat (4000 * k), MRU = of_nat (64 * k), IPV4U = 0\<rparr>"

definition sim_node :: "u32 \<Rightarrow> sub_node" where
  "sim_node i = \<lparr>sn_id = i, sn_twin = i + 10, sn_resources = sim_cap 1, sn_certified = True, sn_public_config = False\<rparr>"

definition sim_farm :: farm where
  "sim_farm = \<lparr>farm_id = 7, farm_twin = 5, farm_dedicated = False, farm_public_ips = []\<rparr>"

definition sim_power :: "u32 \<Rightarrow> (u32 \<times> bool) list \<Rightarrow> node_power" where
  "sim_power i w =
     (let up = (i \<noteq> 3); target = (case find_first (\<lambda>p. fst p = i) w of None \<Rightarrow> up | Some (_, p) \<Rightarrow> snd p)
      in \<lparr>state_is_up = up, state_is_down = \<not> up, target_is_up = target, target_is_down = \<not> target\<rparr>)"

definition sim_stats :: "u32 \<Rightarrow> counters" where
  "sim_stats t = \<lparr>Total = sim_cap 1,
     Used = (if t = 11 then \<lparr>CRU = 4, SRU = 500, HRU = 0, MRU = 32, IPV4U = 0\<rparr> else sim_cap 0),
     System = sim_cap 0\<rparr>"

definition sim_env :: "(u32 \<times> bool) list env" where
  "sim_env = \<lparr>clk_now = (\<lambda>w. (sim_now, w)), rand_int31 = (\<lambda>w. (1, w)), tz_off = 0, conv_impl = (\<lambda>_. 0),
     sub_set_node_power_target = (\<lambda>i up w. (None, (i, up) # w)),
     sub_get_power_target = (\<lambda>i w. (Inr (sim_power i w), w)),
     sub_get_node_rent_contract = (\<lambda>i w. ((0, Some ErrNotFound), w)),
     sub_get_node_contracts = (\<lambda>i w. (Inr (if i = 1 then [42] else []), w)),
     sub_get_node = (\<lambda>i w. (if i \<in> {1, 2, 3} then (Inr (sim_node i), w) else (Inl ErrNotFound, w))),
     sub_get_farm = (\<lambda>i w. (Inr sim_farm, w)),
     sub_get_nodes = (\<lambda>i w. (Inr [1, 2, 3], w)),
     sub_get_dedicated_node_price = (\<lambda>i w. (Inr 0, w)),
     rmb_statistics = (\<lambda>t w. (Inr (sim_stats t), w)),
     rmb_get_storage_pools = (\<lambda>t w. (Inr [], w)),
     rmb_list_gpus = (\<lambda>t w. (Inr [], w)),
     proxy_node_updated_at = (\<lambda>i w. (Inr 1735732800, w)),
     sub_get_balance = (\<lambda>w. ((1000000000, None), w))\<rparr>"

definition sim_config :: config where
  "sim_config = \<lparr>cfg_farm_id = 7, included_nodes = [], excluded_nodes = [], priority_nodes = [2, 9, 2],
     never_shut_down_nodes = [1],
     power = \<lparr>wake_up_threshold = \<lparr>th_cru = Fin 0, th_sru = Fin 30, th_mru = Fin 99, th_hru = Fin 75\<rparr>,
       periodic_wake_up_start = (sim_now, 0), periodic_wake_up_limit = 0, over_provision_cpu = 0\<rparr>,
     continue_on_powering_on_err = True\<rparr>"

lemma sim_ids: "node_ids_ok sim_env"
  by (auto simp: node_ids_ok_def sim_env_def sim_node_def split: if_splits)

definition sim_managed :: "u32 \<Rightarrow> counters \<Rightarrow> power_state \<Rightarrow> node" where
  "sim_managed i st p = (zero_node\<lparr>nd := sim_node i,
     resources := \<lparr>total = update_cap zero_capacity (Total st), used = update_cap zero_capacity (Used st),
       system = zero_capacity\<rparr>, has_active_contracts := (i = 1), never_shut_down := (i = 1), power_state := p,
     last_time_power_state_changed := (if p = Off then sim_now else 0)\<rparr>)"

text \<open>The state the bot starts with in this world.\<close>

definition sim_state :: state where
  "sim_state = \<lparr>st_farm = sim_farm,
     st_nodes = [sim_managed 2 (sim_stats 12) On, sim_managed 1 (sim_stats 11) On, sim_managed 3 (sim_stats 13) Off],
     st_config = sim_config\<lparr>power := \<lparr>wake_up_threshold = \<lparr>th_cru = Fin 80, th_sru = Fin 50, th_mru = Fin 80, th_hru = Fin 75\<rparr>,
       periodic_wake_up_start = (sim_now, 0), periodic_wake_up_limit = 1, over_provision_cpu = 2\<rparr>\<rparr>\<rparr>"


lemmas sim_defs = sim_env_def sim_node_def sim_managed_def sim_power_def sim_stats_def sim_cap_def sim_farm_def

lemmas read_node_defs = get_node_info_def get_power_def power_tests_def retarget_def retarget_on_def
  update_resources_def zero_node_def zero_sub_node_def update_cap_def zero_capacity_def

lemma sim_fetch:
  "fetch_nodes sim_env sim_config False [] =
     (Inr [sim_managed 2 (sim_stats 12) On, sim_managed 1 (sim_stats 11) On, sim_managed 3 (sim_stats 13) Off], [])"
  by (simp add: fetch_nodes_def add_priority_to_nodes_def read_node_defs sim_defs sim_config_def)

lemma sim_start_ok: "new_state sim_env sim_config 5 [] = (Inr sim_state, [])"
proof -
  have "sub_get_farm sim_env i [] = (Inr sim_farm, [])" for i by (simp add: sim_env_def)
  moreover have "validate_power sim_env ((power sim_config)\<lparr>over_provision_cpu := 2\<rparr>) [] = (Inr (power (st_config sim_state)), [])"
    by (simp add: validate_power_def sim_config_def sim_state_def map_thresholds_def any_threshold_def Let_def
       default_threshold_def threshold_out_of_range_def clamp_threshold_def default_wake_up_threshold_def
       min_wake_up_threshold_def max_wake_up_threshold_def periodic_wake_up_time_def start_of_day_def hour_of_def minute_of_def
       sim_env_def sim_now_def duration_defs default_periodic_wake_up_limit_def)
  moreover have "check_nodes (st_nodes sim_state) = Inr ()"
    by (simp add: sim_state_def sim_defs update_cap_def)
  ultimately show ?thesis
    using sim_fetch by (simp add: new_state_def validate_def sim_state_def sim_farm_def default_cpu_provision_def
      sim_config_def)
qed

lemma sim_distinct: "distinct (state_ids sim_state)"
  by (simp add: sim_state_def sim_defs)

end
