(* ===== verification/FarmProps.thy ===== *)
theory FarmProps
  imports FarmSim
begin

text \<open>
  The properties of the farmerbot, with their witnesses on the concrete world of \<open>FarmSim\<close>. The
  lemmas of the component theories carry the proofs.
\<close>

section \<open>The system\<close>


lemma sim_reachable: "bot_reachable sim_env (sort_key power_state) sim_config 5 (sim_state, [])"
  using sim_start_ok by (rule bot_reachable.start)


text \<open>C4: a configured never-shut-down node is never told to shut down: in a reachable state \<open>powerOff\<close> on it
  leaves the state of the bot unchanged.\<close>

theorem never_shut_down_respected:
  assumes "bot_reachable env srt cfg twin (s, w)" and "node_ids_ok env" and "slice_sort srt power_state"
    and "i \<in> set (never_shut_down_nodes cfg)" and "i \<noteq> 0" and "power_off env i s w1 = (r, s', w2)"
  shows "s' = s"
  using assms(6)
proof (cases rule: power_off_effect)
  case (shut n t)
  have n: "n \<in> set (st_nodes s)" "node_id n = i" using lookup_node_mem [OF shut(1)] by auto
  have "bot_inv (st_config s) (st_farm s) s" "\<exists>p. st_config s = cfg\<lparr>power := p\<rparr>"
    using bot_inv_reachable [OF assms(1-3)] by simp_all
  then have "never_shut_down n" using n assms(4,5) by (auto simp: bot_inv_def node_ok_def)
  then show ?thesis using shut(2) by (simp add: may_power_off_def idle_node_def)
qed simp

theorem never_shut_down_respected_witness:
  "\<exists>r w. power_off sim_env 1 sim_state [] = (r, sim_state, w)"
proof -
  obtain r s' w where p: "power_off sim_env 1 sim_state [] = (r, s', w)" by (metis prod_cases3)
  have "s' = sim_state"
    by (rule never_shut_down_respected [OF sim_reachable sim_ids stable_sort.slice_sort_axioms _ _ p])
      (simp_all add: sim_config_def)
  then show ?thesis using p by blast
qed

section \<open>Power\<close>

text \<open>C13: powering a node off changes the state at most by marking that node as shutting down, and only when the
  node is on or waking up, unused, without contracts and public configuration, not marked as never to
  be shut down, and at least two nodes are on.\<close>

theorem power_off_safe:
  assumes "power_off env i s w = (r, s', w')"
  shows "s' = s \<or> (\<exists>n t. lookup_node s i = Some n \<and> (power_state n = On \<or> power_state n = WakingUp)
     \<and> is_unused n \<and> \<not> public_config n \<and> \<not> never_shut_down n \<and> \<not> has_active_rent_contract n
     \<and> \<not> has_active_contracts n \<and> 2 \<le> on_count s
     \<and> (\<forall>j. lookup_node s' j = (if j = i then Some (n\<lparr>power_state := ShuttingDown,
           last_time_power_state_changed := t\<rparr>) else lookup_node s j)))"
  using assms
proof (cases rule: power_off_effect)
  case (shut n t)
  have "node_id n = i" using shut(1) by (rule store.lookup_key)
  then have "\<forall>j. lookup_node s' j = (if j = i then Some (n\<lparr>power_state := ShuttingDown,
           last_time_power_state_changed := t\<rparr>) else lookup_node s j)"
    using set_node_lookup(1) [OF shut(3)] by (simp add: shut_def)
  then show ?thesis using shut(1,2) by (auto simp: may_power_off_def idle_node_def on_count_def)
qed simp

theorem power_off_safe_witness:
  "\<exists>s' w'. power_off sim_env 2 sim_state [] = (None, s', w')
     \<and> (s' = sim_state \<or> 2 \<le> on_count sim_state)"
proof -
  have "fst (power_off sim_env 2 sim_state []) = None" by code_simp
  then obtain s' w' where p: "power_off sim_env 2 sim_state [] = (None, s', w')"
    by (cases "power_off sim_env 2 sim_state []") auto
  then show ?thesis using power_off_safe [OF p] by blast
qed



text \<open>C15: the selection of nodes to wake up succeeds exactly when every demanded resource is covered by a single
  node that is off: several nodes that only together cover a resource are not considered.\<close>

theorem select_nodes_to_power_on_succeeds:
  "(\<exists>sel. select_nodes_to_power_on demand nodes = Inr sel) \<longleftrightarrow>
     (cru demand \<noteq> 0 \<longrightarrow> (\<exists>n \<in> set nodes. power_state n = Off \<and> cru demand \<le> CRU (sn_resources (nd n))))
     \<and> (sru demand \<noteq> 0 \<longrightarrow> (\<exists>n \<in> set nodes. power_state n = Off \<and> sru demand \<le> SRU (sn_resources (nd n))))
     \<and> (mru demand \<noteq> 0 \<longrightarrow> (\<exists>n \<in> set nodes. power_state n = Off \<and> mru demand \<le> MRU (sn_resources (nd n))))
     \<and> (hru demand \<noteq> 0 \<longrightarrow> (\<exists>n \<in> set nodes. power_state n = Off \<and> hru demand \<le> HRU (sn_resources (nd n))))"
  unfolding select_nodes_ok by (simp add: dims_def node_cap_def)

theorem select_nodes_to_power_on_succeeds_witness:
  "\<exists>sel. select_nodes_to_power_on \<lparr>hru = 0, sru = 900, cru = 8, mru = 0\<rparr> (st_nodes sim_state) = Inr sel"
  by (subst select_nodes_to_power_on_succeeds) (simp add: sim_state_def sim_defs)

text \<open>C16: a successful selection holds only nodes that are off, at most four of them, and for every demanded
  resource one of the selected nodes covers the demand.\<close>

theorem select_nodes_to_power_on_covers:
  assumes "select_nodes_to_power_on demand nodes = Inr sel"
  shows "length sel \<le> 4 \<and> (\<forall>n \<in> set sel. n \<in> set nodes \<and> power_state n = Off)
     \<and> (\<forall>(d, c) \<in> {(cru, CRU), (sru, SRU), (mru, MRU), (hru, HRU)}.
          d demand \<noteq> 0 \<longrightarrow> (\<exists>n \<in> set sel. d demand \<le> c (sn_resources (nd n))))"
proof -
  let ?l = "select_loop nodes demand []"
  have sel: "sel = snd ?l" and zero: "\<forall>(d, c) \<in> dims. d (fst ?l) = 0"
    using assms by (auto simp: select_nodes_to_power_on_def dims_def word_gt_0 split: prod.splits if_splits)
  have "length sel \<le> 4"
    using select_loop_length [of nodes demand "[]"] by (auto simp: sel open_dims_def split: if_splits)
  moreover have "\<forall>n \<in> set sel. n \<in> set nodes \<and> power_state n = Off"
    using select_loop_selected [of nodes demand "[]"] by (auto simp: sel)
  moreover have "\<exists>n \<in> set sel. d demand \<le> c (sn_resources (nd n))" if "(d, c) \<in> dims" "d demand \<noteq> 0" for d c
    using select_loop_covers [OF that, of nodes "[]"] zero that(1) by (auto simp: sel node_cap_def)
  ultimately show ?thesis by (auto simp: dims_def)
qed

theorem select_nodes_to_power_on_covers_witness:
  "\<exists>sel. select_nodes_to_power_on \<lparr>hru = 0, sru = 900, cru = 8, mru = 0\<rparr> (st_nodes sim_state) = Inr sel \<and> length sel \<le> 4"
proof -
  have "select_nodes_to_power_on \<lparr>hru = 0, sru = 900, cru = 8, mru = 0\<rparr> (st_nodes sim_state)
      = Inr [sim_managed 3 (sim_stats 13) Off]"
    by (simp add: select_nodes_to_power_on_def select_loop.simps take_dim_def sim_state_def sim_defs is_empty_cap_def subtractOrZero_def)
  then show ?thesis using select_nodes_to_power_on_covers by blast
qed

text \<open>with a threshold between 50 and 100 that is a double, and a use that does not exceed the total, a resource
  has a demand exactly when its usage percentage is above the threshold.\<close>

theorem demand_iff_above_threshold:
  assumes "us \<le> tot" and "tot \<noteq> 0" and "representable x" and "50 \<le> x" and "x \<le> 100"
  shows "demand_for impl tot us (Fin x) \<noteq> 0 \<longleftrightarrow> flt (Fin x) (usage_percent us tot)"
proof
  show "flt (Fin x) (usage_percent us tot)" if "demand_for impl tot us (Fin x) \<noteq> 0"
    using that by (simp add: demand_for_def split: if_splits)
  show "demand_for impl tot us (Fin x) \<noteq> 0" if "flt (Fin x) (usage_percent us tot)"
  proof -
    obtain p where p: "usage_percent us tot = Fin p" using usage_percent_range [OF assms(1,2)] by metis
    then have "x < p" using that by simp
    then show ?thesis using demand_for_positive [OF assms p] by blast
  qed
qed

theorem demand_iff_above_threshold_witness:
  "demand_for (\<lambda>_. 0) 100 90 (Fin 80) \<noteq> 0 \<longleftrightarrow> flt (Fin 80) (usage_percent 90 100)"
  by (rule demand_iff_above_threshold) (use representable_of_nat [of 80] in simp_all)

definition room :: "u64 \<Rightarrow> u64 \<Rightarrow> nat" where
  "room tot us = (if us \<le> tot then unat tot - unat us else 2 ^ 64 + unat tot - unat us)"

lemma room_diff: "unat (tot - us) = room tot us"
proof (cases "us \<le> tot")
  case False
  then have "unat tot < unat us" by (simp add: word_le_nat_alt)
  then show ?thesis using False unat_less_u64 [of us] by (simp add: room_def unat_sub_if_size word_size word_le_nat_alt)
qed (simp add: room_def unat_sub)

text \<open>the check that the remaining nodes meet a demand, in each resource: where the use stays within the total
  it is the comparison it means to be; where the use exceeds the total (a node with over-provisioned
  CPU) the difference wraps around and the check accepts every demand up to \<open>2^64 + total - used\<close>.\<close>

theorem check_resources_meet_demand_wraps:
  "check_resources_meet_demand tot us demand \<longleftrightarrow>
     unat (cru demand) \<le> room (cru tot) (cru us) \<and> unat (sru demand) \<le> room (sru tot) (sru us)
     \<and> unat (mru demand) \<le> room (mru tot) (mru us) \<and> unat (hru demand) \<le> room (hru tot) (hru us)"
  by (simp add: check_resources_meet_demand_def word_le_nat_alt room_diff)

section \<open>Finding a node\<close>

lemma with_default_gpu_fields [simp]:
  "nodes_excluded (with_default_gpu opts) = nodes_excluded opts" "opt_certified (with_default_gpu opts) = opt_certified opts"
  "opt_public_config (with_default_gpu opts) = opt_public_config opts" "opt_dedicated (with_default_gpu opts) = opt_dedicated opts"
  by (simp_all add: with_default_gpu_def)

text \<open>C10: a node that \<open>findNode\<close> returns is a managed node that satisfies the filter, no other such node has a
  lower power state (on, waking up, off, shutting down in this order), its claim is stored, and no
  other node of the farm changes.\<close>

theorem find_node_sound:
  assumes "find_node env srt opts s w = (Inr i, s', w')" and "slice_sort srt power_state"
    and "distinct (state_ids s)"
  shows "\<exists>n \<in> set (st_nodes s). node_id n = i
     \<and> node_matches (conv_impl env) (over_provision_cpu (power (st_config s))) (options_capacity opts) (with_default_gpu opts) n
     \<and> i \<notin> set (nodes_excluded opts) \<and> \<not> has_active_rent_contract n
     \<and> (opt_certified opts \<longrightarrow> sn_certified (nd n)) \<and> (opt_public_config opts \<longrightarrow> public_config n)
     \<and> (opt_dedicated opts \<longrightarrow> dedicated n \<and> is_unused n)
     \<and> (\<forall>m \<in> set (st_nodes s). node_matches (conv_impl env) (over_provision_cpu (power (st_config s)))
          (options_capacity opts) (with_default_gpu opts) m \<longrightarrow> power_state n \<le> power_state m)
     \<and> (\<exists>now. lookup_node s' i = Some (claimed (with_default_gpu opts) (options_capacity opts) now n))
     \<and> (\<forall>j. j \<noteq> i \<longrightarrow> lookup_node s' j = lookup_node s j)"
  using assms
proof (cases rule: find_node_cases)
  case (found n now s1)
  then have "i = node_id n" by simp
  moreover have "node_id n \<notin> set (nodes_excluded opts) \<and> \<not> has_active_rent_contract n
     \<and> (opt_certified opts \<longrightarrow> sn_certified (nd n)) \<and> (opt_public_config opts \<longrightarrow> public_config n)
     \<and> (opt_dedicated opts \<longrightarrow> dedicated n \<and> is_unused n)"
    using found(2) by (simp add: node_matches_def split: if_splits)
  ultimately show ?thesis
    using found set_node_lookup(1) [OF found(8)] by (intro bexI [of _ n]) auto
qed simp_all

definition sim_request :: node_filter_option where
  "sim_request = \<lparr>nodes_excluded = [2], num_gpu = 0, gpu_vendors = [], gpu_devices = [], opt_certified = False,
     opt_dedicated = False, opt_public_config = False, opt_public_ips = 0, opt_hru = 0, opt_sru = 0,
     opt_cru = 6, opt_mru = 0\<rparr>"

text \<open>In the concrete world the request is for six cores on a node other than 2: node 1 has the room (its
  CPU is over-provisioned by two).\<close>

lemma sim_cpus: "u64_of_f64 impl (fceil (fmul (f64_of_u64 8) (f64_of_int 2))) = 16"
  by code_simp

lemma sim_found: "fst (find_node sim_env (sort_key power_state) sim_request sim_state []) = Inr 1"
  by (simp add: find_node_def Let_def public_ips_missing_def sim_request_def with_default_gpu_def options_capacity_def
      convert_gb_to_bytes_def node_matches_def enough_gpus_def can_claim_resources_def free_capacity_def sim_state_def
      sim_defs zero_node_def update_cap_def sim_cpus less_eq_power_state_def subtractOrZero_def zero_capacity_def
      claimed_def claim_resources_def update_node_def)

theorem find_node_sound_witness: "\<exists>n \<in> set (st_nodes sim_state). node_id n = 1"
proof -
  obtain s' w' where "find_node sim_env (sort_key power_state) sim_request sim_state [] = (Inr 1, s', w')"
    using sim_found by (cases "find_node sim_env (sort_key power_state) sim_request sim_state []") auto
  from find_node_sound [OF this stable_sort.slice_sort_axioms sim_distinct] show ?thesis by blast
qed



text \<open>the power state stored for a found node is the one it had before the search, also when the search
  powered the node on: the copy that \<open>findNode\<close> writes back overwrites the state set by \<open>powerOn\<close>.\<close>

theorem find_node_stale_power_state:
  assumes "find_node env srt opts s w = (Inr i, s', w')" and "slice_sort srt power_state"
    and "distinct (state_ids s)"
  shows "\<exists>n m. lookup_node s i = Some n \<and> lookup_node s' i = Some m \<and> power_state m = power_state n
     \<and> last_time_power_state_changed m = last_time_power_state_changed n"
  using assms
proof (cases rule: find_node_cases)
  case (found n now s1)
  then have "lookup_node s i = Some n" using lookup_node_distinct [OF assms(3)] by simp
  moreover have "lookup_node s' i = Some (claimed (with_default_gpu opts) (options_capacity opts) now n)"
    using found(3) set_node_lookup(1) [OF found(8)] by simp
  ultimately show ?thesis by (simp add: claimed_def claim_resources_def Let_def)
qed simp_all

lemma sim_found_off:
  "find_node sim_env (sort_key power_state) (sim_request\<lparr>nodes_excluded := [1, 2]\<rparr>) sim_state []
     = (Inr 3, sim_state\<lparr>st_nodes := [sim_managed 2 (sim_stats 12) On, sim_managed 1 (sim_stats 11) On,
          claimed (sim_request\<lparr>nodes_excluded := [1, 2]\<rparr>) \<lparr>hru = 0, sru = 0, cru = 6, mru = 0\<rparr> sim_now (sim_managed 3 (sim_stats 13) Off)]\<rparr>,
        [(3, True)])"
  by (simp add: find_node_def Let_def public_ips_missing_def sim_request_def with_default_gpu_def options_capacity_def
      convert_gb_to_bytes_def node_matches_def enough_gpus_def can_claim_resources_def free_capacity_def sim_state_def
      sim_defs zero_node_def update_cap_def sim_cpus less_eq_power_state_def subtractOrZero_def zero_capacity_def
      claimed_def claim_resources_def update_node_def power_on_def get_node_def store_node_def wake_def)

theorem find_node_stale_power_state_witness:
  "\<exists>s'. find_node sim_env (sort_key power_state) (sim_request\<lparr>nodes_excluded := [1, 2]\<rparr>) sim_state [] = (Inr 3, s', [(3, True)])
     \<and> (\<exists>m. lookup_node s' 3 = Some m \<and> power_state m = Off)"
proof -
  have "map_option power_state (lookup_node sim_state 3) = Some Off"
    by (simp add: lookup_node_def get_node_def sim_state_def sim_defs)
  then show ?thesis
    using find_node_stale_power_state [OF sim_found_off stable_sort.slice_sort_axioms sim_distinct] sim_found_off by auto
qed



end
