(* ===== verification/FarmRoundProps.thy ===== *)
theory FarmRoundProps
  imports FarmSim
begin

text \<open>
  Properties of the updates of single nodes, of the start of the bot, of a round, of the handlers, of
  the report and of the configuration, with their witnesses on the world of \<open>FarmSim\<close>.
\<close>

section \<open>Nodes and the chain\<close>





text \<open>the dedicated flag is sticky: an update that succeeds never clears it, also when the chain reports no
  dedicated price any more and the farm is not dedicated.\<close>

theorem dedicated_is_sticky:
  assumes "update_node_info env never ded cont n w = (Inr m, w')" and "node_ids_ok env" and "dedicated n"
  shows "dedicated m"
  using update_node_info_post [OF assms(2,1)] assms(3) by (simp add: updated_from_def)

theorem dedicated_is_sticky_witness:
  "\<exists>m. update_node_info sim_env True False True (sim_managed 1 (sim_stats 11) Off\<lparr>dedicated := True\<rparr>) [] = (Inr m, []) \<and> dedicated m"
proof -
  obtain m where u: "update_node_info sim_env True False True (sim_managed 1 (sim_stats 11) Off\<lparr>dedicated := True\<rparr>) [] = (Inr m, [])"
    by (simp add: update_node_info_def sim_defs read_node_defs update_power_def sim_now_def duration_defs)
  then show ?thesis using dedicated_is_sticky [OF u sim_ids] by simp
qed



text \<open>the order in which the nodes are visited is a permutation of the farm's nodes without repetition that
  starts with all priority nodes that are in the farm.\<close>

theorem add_priority_to_nodes_order:
  "distinct (add_priority_to_nodes ps farmNodes) \<and> set (add_priority_to_nodes ps farmNodes) = set farmNodes
     \<and> (\<exists>first rest. add_priority_to_nodes ps farmNodes = first @ rest \<and> set first = set ps \<inter> set farmNodes)"
proof -
  obtain rest where "add_priority_to_nodes ps farmNodes = add_valid_priority ps farmNodes [] @ rest"
    unfolding add_priority_to_nodes_def using add_missing_prefix by blast
  moreover have "set (add_valid_priority ps farmNodes []) = set ps \<inter> set farmNodes" by simp
  ultimately show ?thesis using add_priority_distinct add_priority_set by blast
qed

lemma clamp_range: "clamp_threshold t = Fin x \<Longrightarrow> 50 \<le> x \<and> x \<le> 80"
  by (cases t) (auto simp: clamp_threshold_def Let_def min_wake_up_threshold_def max_wake_up_threshold_def split: if_splits)

lemma check_nodes_ok:
  "check_nodes ns = Inr () \<longleftrightarrow> (\<forall>n \<in> set ns. node_id n \<noteq> 0 \<and> twin_id n \<noteq> 0 \<and> sru (total (resources n)) \<noteq> 0
     \<and> cru (total (resources n)) \<noteq> 0 \<and> mru (total (resources n)) \<noteq> 0)"
  by (induction ns) auto

lemma validate_power_thresholds:
  assumes "validate_power env p w = (Inr q, w')"
  shows "\<exists>th. wake_up_threshold q = map_thresholds clamp_threshold th"
  using assms by (auto simp: validate_power_def Let_def split: prod.splits if_splits)

definition thresholds_of :: "thresholds \<Rightarrow> f64 set" where
  "thresholds_of t = {th_cru t, th_sru t, th_mru t, th_hru t}"

text \<open>C39: a configuration that passes the validation of the state has an identified farm, at least two nodes that
  have ids, twins and totals, and every wake-up threshold that is a number is between 50 and 80.\<close>

theorem validate_accepts:
  assumes "validate env s w = (Inr s', w')"
  shows "farm_id (st_farm s') \<noteq> 0 \<and> 2 \<le> length (st_nodes s')
     \<and> (\<forall>n \<in> set (st_nodes s'). node_id n \<noteq> 0 \<and> twin_id n \<noteq> 0 \<and> reportable n)
     \<and> (\<forall>x. Fin x \<in> thresholds_of (wake_up_threshold (power (st_config s'))) \<longrightarrow> 50 \<le> x \<and> x \<le> 80)"
proof -
  obtain p w1 where c: "check_nodes (st_nodes s) = Inr ()" and p: "validate_power env (power (st_config s)) w = (Inr p, w1)"
    and s': "s' = s\<lparr>st_config := (st_config s)\<lparr>power := p\<rparr>\<rparr>" and f: "farm_id (st_farm s) \<noteq> 0" "2 \<le> length (st_nodes s)"
    using assms by (auto simp: validate_def bindE_Inr_iff split: if_splits)
  obtain th where "wake_up_threshold p = map_thresholds clamp_threshold th"
    using validate_power_thresholds [OF p] by blast
  then show ?thesis using c f clamp_range
    by (auto simp: s' check_nodes_ok reportable_def thresholds_of_def map_thresholds_def)
qed

theorem validate_accepts_witness:
  "\<exists>x. Fin x \<in> thresholds_of (wake_up_threshold (power (st_config sim_state))) \<and> 50 \<le> x \<and> x \<le> 80"
proof -
  have "validate sim_env sim_state [] = (Inr sim_state, [])"
    by (simp add: validate_def sim_state_def sim_defs update_cap_def validate_power_def sim_config_def
       map_thresholds_def any_threshold_def Let_def default_threshold_def threshold_out_of_range_def
       clamp_threshold_def default_wake_up_threshold_def min_wake_up_threshold_def max_wake_up_threshold_def
       periodic_wake_up_time_def start_of_day_def hour_of_def minute_of_def sim_now_def duration_defs)
  from validate_accepts [OF this]
  have "\<forall>x. Fin x \<in> thresholds_of (wake_up_threshold (power (st_config sim_state))) \<longrightarrow> 50 \<le> x \<and> x \<le> 80"
    by blast
  moreover have "Fin 80 \<in> thresholds_of (wake_up_threshold (power (st_config sim_state)))"
    by (simp add: thresholds_of_def sim_state_def)
  ultimately show ?thesis by blast
qed

section \<open>A round and the requests\<close>

text \<open>the loop that removes the nodes that left the farm keeps every node of the farm, in order, adds none,
  keeps the ids distinct, and removes at least one node when some node left the farm.\<close>

theorem remove_gone_correct:
  "filter (\<lambda>n. node_id n \<in> set farmNodes) (remove_gone farmNodes nodes) = filter (\<lambda>n. node_id n \<in> set farmNodes) nodes
     \<and> set (remove_gone farmNodes nodes) \<subseteq> set nodes
     \<and> (distinct (map node_id nodes) \<longrightarrow> distinct (map node_id (remove_gone farmNodes nodes)))
     \<and> ((\<exists>n \<in> set nodes. node_id n \<notin> set farmNodes) \<longrightarrow> length (remove_gone farmNodes nodes) < length nodes)"
  using remove_gone_keeps remove_gone_subset remove_gone_distinct remove_gone_progress by blast

theorem remove_gone_correct_witness:
  "length (remove_gone [1] (st_nodes sim_state)) < 3"
proof -
  have "length (st_nodes sim_state) = 3" "\<exists>n \<in> set (st_nodes sim_state). node_id n \<notin> set [1]"
    by (simp_all add: sim_state_def sim_defs)
  then show ?thesis using remove_gone_correct [of "[1]" "st_nodes sim_state"] by simp
qed

text \<open>the loop deletes from the slice it ranges over, so of two adjacent nodes that left the farm the second can
  survive the round.\<close>

theorem remove_gone_skips:
  "map node_id (remove_gone [3] [sim_managed 1 st p, sim_managed 2 st p, sim_managed 3 st p]) = [2, 3]"
  by (simp add: remove_gone_def remove_gone_step_def shift_left_def Let_def sim_defs upt_rec)



lemma sdiv_nonneg: "0 \<le> a \<Longrightarrow> 0 < b \<Longrightarrow> a sdiv b = a div b" for a b :: int
  by (cases "a = 0") (simp_all add: signed_divide_int_def)

lemma random_divisor_positive:
  assumes "1 \<le> limit" and "1 \<le> k" and "k \<le> 840"
  shows "\<exists>d. random_divisor limit k = Some d \<and> 1 \<le> d"
proof -
  define m where "m = min (uint limit) (int k)"
  have m: "1 \<le> m" using assms(1,2) by (simp add: word_le_def m_def)
  let ?q = "(10 * (int k - 1)) sdiv m"
  have k: "0 \<le> 10 * (int k - 1)" using assms(2) by simp
  have q: "?q = (10 * (int k - 1)) div m" using m k by (intro sdiv_nonneg) simp_all
  have "(10 * (int k - 1)) div m \<le> (10 * (int k - 1)) div 1"
    using m k by (intro zdiv_mono2) simp_all
  also have "\<dots> \<le> 8390" using assms(3) by simp
  finally have "?q \<le> 8390" using q by simp
  then have "10 \<le> 8460 - default_random_wake_ups_a_month * 6 - ?q" by (simp add: default_random_wake_ups_a_month_def)
  then have "1 \<le> (8460 - default_random_wake_ups_a_month * 6 - ?q) sdiv 10"
    by (subst sdiv_nonneg) linarith+
  then show ?thesis using m
    by (simp add: random_divisor_def go_div_def default_random_wake_ups_a_month_def m_def [symmetric])
qed

text \<open>C35: the divisor of the random wake-up: with a wake-up limit of at least one and fewer than 840 nodes the
  random test never divides by zero, so the decision whether to wake a node up returns.\<close>

theorem should_wake_up_returns:
  assumes "1 \<le> periodic_wake_up_limit (power (st_config s))" and "1 \<le> length (st_nodes s)" and "length (st_nodes s) \<le> 840"
  shows "\<exists>b m. fst (should_wake_up env s n t c w) = Some (b, m)"
proof -
  obtain d where d: "random_divisor (periodic_wake_up_limit (power (st_config s))) (length (st_nodes s)) = Some d" "1 \<le> d"
    using random_divisor_positive [OF assms] by blast
  then show ?thesis
    by (auto simp: should_wake_up_def random_wake_up_def go_mod_def split: prod.splits sum.splits)
qed

theorem should_wake_up_returns_witness:
  "\<exists>b m. fst (should_wake_up sim_env sim_state (sim_managed 3 (sim_stats 13) Off) sim_now 0 []) = Some (b, m)"
  by (rule should_wake_up_returns) (simp_all add: sim_state_def)

text \<open>the bound of the previous property is sharp: with a limit of one node per round and 841 nodes the divisor
  is zero and the round panics when it comes to a random wake-up.\<close>

theorem random_wake_up_panics:
  "times_random_wake_ups n < 10 \<Longrightarrow> fst (random_wake_up env 1 841 n w) = None"
  by (simp add: random_wake_up_def random_divisor_def go_div_def go_mod_def default_random_wake_ups_a_month_def
      signed_divide_int_def split: prod.splits)

theorem random_wake_up_panics_witness: "fst (random_wake_up sim_env 1 841 zero_node []) = None"
  by (rule random_wake_up_panics) (simp add: zero_node_def)

text \<open>a node that the farmer powers off through the handler leaves the management, but the next round that
  reaches it takes it back: adding or updating a node that the chain still knows makes it managed.\<close>

theorem removed_node_comes_back:
  assumes "serve_request env srt twin twin (ReqPowerOff (Some i)) s w = (Some (Inr r, s1), w1)"
    and "distinct (state_ids s)" and "node_ids_ok env"
    and "add_or_update_node env i s1 w2 = (None, s2, w3)"
  shows "i \<notin> set (state_ids s1) \<and> i \<in> set (state_ids s2)"
proof -
  obtain b w4 where b: "validate_account_enough_balance env w = (b, w4)" by fastforce
  obtain e s0 w5 where p: "power_off env i s w4 = (e, s0, w5)" by (metis prod_cases3)
  have s1: "s1 = delete_node i s0"
    using assms(1) by (auto simp: serve_request_def needs_owner_def authorize_def power_request_def b p
        split: option.splits if_splits)
  have "distinct (state_ids s0)" using power_off_frame(1) [OF p] assms(2) by simp
  then have gone: "i \<notin> set (state_ids s1)" by (simp add: s1 store.ids_del)
  then have none: "get_node s1 i = Inl (NodeNotFound i)" by (simp add: get_node_Inl store.lookup_None)
  obtain g w6 where g: "get_node_info env i (continue_on_powering_on_err (st_config s1))
      (i \<in> set (never_shut_down_nodes (st_config s1))) False (farm_dedicated (st_farm s1)) On w2 = (g, w6)" by fastforce
  obtain n where n: "g = Inr n" "s2 = add_node n s1"
    using assms(4) by (auto simp: add_or_update_node_def Let_def none g split: sum.splits)
  have "node_id n = i" using get_node_info_post [OF assms(3)] g n(1) by blast
  then show ?thesis using gone n(2) by (simp add: store.ids_add)
qed

lemma sim_balance: "validate_account_enough_balance sim_env w = (None, w)"
proof -
  have "rnd 1000000000 = 1000000000" "rnd 100 = 100"
    using rnd_exact [OF representable_of_nat [of 1000000000]] rnd_exact [OF representable_of_nat [of 100]] by simp_all
  then have "fdiv (f64_of_int 1000000000) (Fin (10 ^ 7)) = Fin 100"
    by (simp add: f64_of_int_def fround_fin_small)
  moreover have "\<not> flt (Fin 100) (fround (2 / 1000))"
  proof -
    have "rnd (1 / 500) \<le> 1" using representable_of_nat [of 1] by (intro dbl.le_rep) simp_all
    then show ?thesis by (simp add: fround_fin_small)
  qed
  ultimately show ?thesis
    by (simp add: validate_account_enough_balance_def account_balance_in_tft_def sim_env_def)
qed

theorem removed_node_comes_back_witness:
  "\<exists>s1 w1. serve_request sim_env (sort_key power_state) 5 5 (ReqPowerOff (Some 2)) sim_state [] = (Some (Inr RepNothing, s1), w1)
     \<and> 2 \<notin> set (state_ids s1) \<and> (\<exists>s2 w3. add_or_update_node sim_env 2 s1 w1 = (None, s2, w3) \<and> 2 \<in> set (state_ids s2))"
proof -
  have "power_off sim_env 2 sim_state [] = (None, sim_state\<lparr>st_nodes := [shut (sim_managed 2 (sim_stats 12) On) sim_now,
      sim_managed 1 (sim_stats 11) On, sim_managed 3 (sim_stats 13) Off]\<rparr>, [(2, False)])"
    by (simp add: power_off_def get_node_def sim_state_def sim_defs zero_node_def is_unused_def is_empty_cap_def
       update_cap_def zero_capacity_def subtract_cap_def subtractOrZero_def sim_now_def duration_defs time_sub_def
       max_duration_def min_duration_def periodic_wake_up_duration_def filter_nodes_power_def power_off_call_def
       store_node_def update_node_def shut_def)
  then have p: "serve_request sim_env (sort_key power_state) 5 5 (ReqPowerOff (Some 2)) sim_state []
      = (Some (Inr RepNothing, sim_state\<lparr>st_nodes := [sim_managed 1 (sim_stats 11) On, sim_managed 3 (sim_stats 13) Off]\<rparr>), [(2, False)])"
    by (simp add: serve_request_def needs_owner_def authorize_def power_request_def sim_balance delete_node_def
       sim_managed_def sim_node_def)
  obtain s2 w3 where a: "add_or_update_node sim_env 2
      (sim_state\<lparr>st_nodes := [sim_managed 1 (sim_stats 11) On, sim_managed 3 (sim_stats 13) Off]\<rparr>) [(2, False)] = (None, s2, w3)"
    by (simp add: add_or_update_node_def get_node_def sim_state_def sim_defs read_node_defs sim_config_def)
  show ?thesis using removed_node_comes_back [OF p sim_distinct sim_ids a] p a by blast
qed

section \<open>Report and configuration\<close>

text \<open>the report of the farm succeeds exactly when every node has CPU, SSD and memory; it has one entry for every
  node, in order.\<close>

theorem report_total:
  "((\<exists>rs w'. node_reports env (st_nodes s) w = (Some rs, w')) \<longleftrightarrow>
     (\<forall>n \<in> set (st_nodes s). cru (total (resources n)) \<noteq> 0 \<and> sru (total (resources n)) \<noteq> 0 \<and> mru (total (resources n)) \<noteq> 0))
   \<and> (\<forall>rs w'. node_reports env (st_nodes s) w = (Some rs, w') \<longrightarrow> map rep_id rs = state_ids s)"
  using node_reports_Some [of env "st_nodes s" w] node_reports_length by (auto simp: reportable_def)

theorem report_total_witness:
  "\<exists>rs w'. node_reports sim_env (st_nodes sim_state) [] = (Some rs, w') \<and> map rep_id rs = [2, 1, 3]"
proof -
  have "\<forall>n \<in> set (st_nodes sim_state). cru (total (resources n)) \<noteq> 0 \<and> sru (total (resources n)) \<noteq> 0 \<and> mru (total (resources n)) \<noteq> 0"
    by (simp add: sim_state_def sim_defs update_cap_def)
  moreover have "state_ids sim_state = [2, 1, 3]" by (simp add: sim_state_def sim_defs)
  ultimately show ?thesis using report_total [of sim_env sim_state "[]"] by auto
qed

text \<open>a reported percentage is the floor of the exact percentage and at most 100, for a use within a total below
  \<open>2^57\<close> bytes.\<close>

theorem report_percentage:
  assumes "us \<le> tot" and "unat tot < 2 ^ 57" and "tot \<noteq> 0"
  shows "unat (usage_u8 us tot) = 100 * unat us div unat tot \<and> unat (usage_u8 us tot) \<le> 100"
  using usage_u8_exact [OF assms] by blast

theorem report_percentage_witness: "unat (usage_u8 3 4) = 75"
  using report_percentage [of 3 4] by simp

text \<open>the text of a wake-up date, with or without quotes, is read back as a date with the same hour and minute.\<close>

theorem wake_up_date_round_trip:
  "\<exists>d'. unmarshal_text (marshal_text (t, tz)) = Some d' \<and> unmarshal_text (CHR 0x22 # marshal_text (t, tz) @ [CHR 0x22]) = Some d'
     \<and> hour_of (snd d') (fst d') = hour_of tz t \<and> minute_of (snd d') (fst d') = minute_of tz t"
  using parse_marshal [of t tz] marshal_text_ends [of "(t, tz)"] trim_quotes_plain [of "marshal_text (t, tz)"]
  by (auto simp: unmarshal_text_def)

text \<open>the validation of the configuration passes exactly when included and excluded nodes are in the farm and
  disjoint, and every priority and every never-shut-down node is one that the bot will manage.\<close>

theorem validate_input_exact:
  "validate_input cfg (Inr nodes) = None \<longleftrightarrow>
     set (included_nodes cfg) \<subseteq> set nodes \<and> set (excluded_nodes cfg) \<subseteq> set nodes
     \<and> set (included_nodes cfg) \<inter> set (excluded_nodes cfg) = {}
     \<and> set (priority_nodes cfg) \<subseteq> managed_ids cfg nodes
     \<and> set (never_shut_down_nodes cfg) \<subseteq> managed_ids cfg nodes"
  by (rule validate_input_None)

text \<open>environment values that are accepted name a known network, a seed or mnemonic that is valid, and a known
  key type.\<close>

theorem parse_env_accepts:
  assumes "parse_env mnemonicValid hexValid parsed = Inr (network, seed, keyType)"
  shows "network \<in> {''dev'', ''qa'', ''test'', ''main''} \<and> \<not> blank seed \<and> (mnemonicValid seed \<or> hexValid seed)
     \<and> keyType \<in> {''ed25519'', ''sr25519''}"
  using parse_env_Inr [OF assms] by (simp add: networks_def)

theorem parse_env_accepts_witness:
  "\<exists>n s k. parse_env (\<lambda>s. s = ''word'') (\<lambda>_. False) (Inr [(''MNEMONIC_OR_SEED'', ''word'')]) = Inr (n, s, k) \<and> k \<in> {''ed25519'', ''sr25519''}"
proof -
  have p: "parse_env (\<lambda>s. s = ''word'') (\<lambda>_. False) (Inr [(''MNEMONIC_OR_SEED'', ''word'')]) = Inr (''main'', ''word'', ''sr25519'')"
    by (simp add: parse_env_def blank_def is_space_def networks_def)
  then show ?thesis using parse_env_accepts [OF p] by blast
qed

section \<open>The store\<close>

definition abs_nodes :: "state \<Rightarrow> u32 \<Rightarrow> node option" where
  "abs_nodes s = lookup_node s"

text \<open>with distinct ids the node list implements a finite map from ids to nodes: looking up, adding an absent
  node, updating and deleting are lookup, insertion, overwriting and removal of the map, and an update
  fails exactly when the id is absent.\<close>

theorem node_list_refines_map:
  assumes "distinct (state_ids s)"
  shows "(case get_node s i of Inr (_, n) \<Rightarrow> Some n | Inl _ \<Rightarrow> None) = abs_nodes s i
     \<and> (abs_nodes s (node_id n) = None \<longrightarrow> abs_nodes (add_node n s) = (abs_nodes s)(node_id n \<mapsto> n))
     \<and> (case update_node n s of
          Inr s' \<Rightarrow> node_id n \<in> dom (abs_nodes s) \<and> abs_nodes s' = (abs_nodes s)(node_id n \<mapsto> n)
        | Inl e \<Rightarrow> node_id n \<notin> dom (abs_nodes s) \<and> e = NodeNotFound (node_id n))
     \<and> abs_nodes (delete_node i s) = (abs_nodes s)(i := None)"
proof (intro conjI)
  show "(case get_node s i of Inr (_, n) \<Rightarrow> Some n | Inl _ \<Rightarrow> None) = abs_nodes s i"
    by (simp add: abs_nodes_def lookup_node_def split: sum.splits)
  show "abs_nodes s (node_id n) = None \<longrightarrow> abs_nodes (add_node n s) = (abs_nodes s)(node_id n \<mapsto> n)"
    using store.lookup_add [of n s] store.lookup_None [of s "node_id n"] by (auto simp: abs_nodes_def)
  show "abs_nodes (delete_node i s) = (abs_nodes s)(i := None)"
    using store.lookup_del [OF assms] by (auto simp: abs_nodes_def)
  show "case update_node n s of
          Inr s' \<Rightarrow> node_id n \<in> dom (abs_nodes s) \<and> abs_nodes s' = (abs_nodes s)(node_id n \<mapsto> n)
        | Inl e \<Rightarrow> node_id n \<notin> dom (abs_nodes s) \<and> e = NodeNotFound (node_id n)"
  proof (cases "update_node n s")
    case (Inl e)
    then have "replace_node n s = None" by (simp add: replace_node_def)
    moreover have "e = NodeNotFound (node_id n)" using Inl by (simp add: update_node_def split: option.splits)
    ultimately show ?thesis using Inl store.upd_None [of n s] store.lookup_None [of s "node_id n"]
      by (auto simp: abs_nodes_def)
  next
    case (Inr s')
    then have r: "replace_node n s = Some s'" by (simp add: update_node_Inr)
    then have "node_id n \<in> set (state_ids s)" using store.upd_None [of n s] by auto
    then show ?thesis using Inr store.lookup_upd [OF r] store.lookup_None [of s "node_id n"]
      by (auto simp: abs_nodes_def)
  qed
qed

theorem node_list_refines_map_witness:
  "abs_nodes (delete_node 2 sim_state) = (abs_nodes sim_state)(2 := None)"
  using node_list_refines_map [OF sim_distinct] by blast

end
