(* ===== verification/GoNet.thy ===== *)
theory GoNet
  imports Prelude
begin

text \<open>
  The part of Go's \<open>net\<close>, \<open>strconv\<close>, \<open>strings\<close> and \<open>encoding/hex\<close> the grid client uses.
  An address is its byte slice, of length 4 or 16; a nil slice is the empty list. Texts are lists of
  characters. Parsing covers dotted IPv4 addresses; the parser of IPv6 texts is an argument.
  Lemmas: decimal and hexadecimal texts are read back, the text of an IPv4 network is read back.
\<close>

unbundle bit_operations_syntax

section \<open>Decimal and hexadecimal texts\<close>

definition digit_char :: "nat \<Rightarrow> char" where
  "digit_char n = char_of (48 + n)"

fun dec_text :: "nat \<Rightarrow> string" where
  "dec_text n = (if n < 10 then [digit_char n] else dec_text (n div 10) @ [digit_char (n mod 10)])"

declare dec_text.simps [simp del]

definition char_digit :: "char \<Rightarrow> nat option" where
  "char_digit c = (let n = of_char c in if 48 \<le> n \<and> n \<le> 57 then Some (n - 48) else None)"

text \<open>The value of a text of digits, \<open>None\<close> when another character occurs.\<close>

definition dec_step :: "char \<Rightarrow> nat option \<Rightarrow> nat option" where
  "dec_step c acc =
     (case (acc, char_digit c) of (Some a, Some d) \<Rightarrow> Some (10 * a + d) | _ \<Rightarrow> None)"

definition dec_val :: "string \<Rightarrow> nat option" where
  "dec_val s = fold dec_step s (Some 0)"

lemma char_digit_digit [simp]: "n < 10 \<Longrightarrow> char_digit (digit_char n) = Some n"
  by (simp add: char_digit_def digit_char_def)

lemma dec_val_append: "dec_val (s @ [c]) = dec_step c (dec_val s)"
  by (simp add: dec_val_def)

lemma dec_val_text [simp]: "dec_val (dec_text n) = Some n"
proof (induction n rule: dec_text.induct)
  case (1 n)
  show ?case
  proof (cases "n < 10")
    case True
    then show ?thesis by (subst dec_text.simps) (simp add: dec_val_def dec_step_def)
  next
    case False
    then show ?thesis using 1 by (subst dec_text.simps) (simp add: dec_val_append dec_step_def)
  qed
qed

lemma dec_text_digits: "c \<in> set (dec_text n) \<Longrightarrow> \<exists>d < 10. c = digit_char d"
proof (induction n rule: dec_text.induct)
  case (1 n)
  show ?case
  proof (cases "n < 10")
    case True
    then show ?thesis using 1(2) by (subst (asm) dec_text.simps) auto
  next
    case False
    then have "c \<in> set (dec_text (n div 10)) \<or> c = digit_char (n mod 10)"
      using 1(2) by (subst (asm) dec_text.simps) auto
    then show ?thesis using 1(1) [OF False] by (metis mod_less_divisor zero_less_numeral)
  qed
qed

lemma dec_text_not_Nil [simp]: "dec_text n \<noteq> []"
  by (subst dec_text.simps) simp

lemma char_digit_None: "char_digit c = None \<Longrightarrow> c \<notin> set (dec_text n)"
  using dec_text_digits by (metis char_digit_digit option.distinct(1))

lemma dec_text_leading: "hd (dec_text n) = digit_char 0 \<Longrightarrow> n = 0 \<and> dec_text n = [digit_char 0]"
proof (induction n rule: dec_text.induct)
  case (1 n)
  have inj: "digit_char a = digit_char b \<Longrightarrow> a < 10 \<Longrightarrow> b < 10 \<Longrightarrow> a = b" for a b
    by (metis char_digit_digit option.inject)
  show ?case
  proof (cases "n < 10")
    case True
    then have t: "dec_text n = [digit_char n]" by (subst dec_text.simps) simp
    then show ?thesis using 1(2) inj [of n 0] True by simp
  next
    case False
    then have "dec_text n = dec_text (n div 10) @ [digit_char (n mod 10)]" by (subst dec_text.simps) simp
    then have "hd (dec_text (n div 10)) = digit_char 0" using 1(2) by simp
    then have "n div 10 = 0" using 1(1) False by blast
    then show ?thesis using False by simp
  qed
qed

text \<open>\<open>hex.EncodeToString\<close> and \<open>hex.DecodeString\<close>.\<close>

definition hex_char :: "nat \<Rightarrow> char" where
  "hex_char n = (if n < 10 then char_of (48 + n) else char_of (87 + n))"

definition hex_val :: "char \<Rightarrow> nat option" where
  "hex_val c = (let n = of_char c in
     if 48 \<le> n \<and> n \<le> 57 then Some (n - 48)
     else if 97 \<le> n \<and> n \<le> 102 then Some (n - 87)
     else if 65 \<le> n \<and> n \<le> 70 then Some (n - 55) else None)"

fun hex_encode :: "u8 list \<Rightarrow> string" where
  "hex_encode [] = []"
| "hex_encode (b # bs) = hex_char (unat b div 16) # hex_char (unat b mod 16) # hex_encode bs"

fun hex_decode :: "string \<Rightarrow> u8 list option" where
  "hex_decode [] = Some []"
| "hex_decode [c] = None"
| "hex_decode (c # d # s) =
     (case (hex_val c, hex_val d, hex_decode s) of
        (Some x, Some y, Some bs) \<Rightarrow> Some (of_nat (16 * x + y) # bs)
      | _ \<Rightarrow> None)"

lemma hex_val_char [simp]: "n < 16 \<Longrightarrow> hex_val (hex_char n) = Some n"
  by (simp add: hex_val_def hex_char_def Let_def)

lemma unat_u8_less: "unat (b :: u8) < 256"
  using unsigned_less [where ?'a = nat, of b] by simp

lemma hex_decode_encode [simp]: "hex_decode (hex_encode bs) = Some bs"
proof (induction bs)
  case (Cons b bs)
  have "unat b div 16 < 16" using unat_u8_less [of b] by simp
  then show ?case using Cons by simp
qed simp

section \<open>Splitting\<close>

text \<open>\<open>strings.Split\<close> at a single character: one part more than there are separators.\<close>

fun split_at :: "char \<Rightarrow> string \<Rightarrow> string list" where
  "split_at sep [] = [[]]"
| "split_at sep (c # s) =
     (if c = sep then [] # split_at sep s
      else case split_at sep s of p # ps \<Rightarrow> (c # p) # ps | [] \<Rightarrow> [[c]])"

lemma split_at_not_Nil [simp]: "split_at sep s \<noteq> []"
  by (induction s) (auto split: list.splits)

lemma split_at_plain: "sep \<notin> set s \<Longrightarrow> split_at sep s = [s]"
  by (induction s) auto

lemma split_at_append: "sep \<notin> set p \<Longrightarrow> split_at sep (p @ sep # s) = p # split_at sep s"
  by (induction p) auto

lemma split_at_parts: "p \<in> set (split_at sep s) \<Longrightarrow> sep \<notin> set p"
  by (induction s arbitrary: p) (auto split: if_splits list.splits)

text \<open>Joining the parts with the separator gives the text back.\<close>

fun join_with :: "char \<Rightarrow> string list \<Rightarrow> string" where
  "join_with sep [] = []"
| "join_with sep [p] = p"
| "join_with sep (p # ps) = p @ sep # join_with sep ps"

lemma join_split: "join_with sep (split_at sep s) = s"
proof (induction s)
  case (Cons c s)
  obtain p ps where s: "split_at sep s = p # ps" by (cases "split_at sep s") auto
  then have "join_with sep (p # ps) = s" using Cons by simp
  then show ?case using s by (cases ps) auto
qed simp

lemma join_with_append [simp]: "ps \<noteq> [] \<Longrightarrow> join_with sep (p # ps) = p @ sep # join_with sep ps"
  by (cases ps) auto

section \<open>Addresses\<close>

type_synonym ip = "u8 list"

definition v4_in_v6 :: ip where
  "v4_in_v6 = replicate 10 0 @ [0xff, 0xff]"

definition IPv4 :: "u8 \<Rightarrow> u8 \<Rightarrow> u8 \<Rightarrow> u8 \<Rightarrow> ip" where
  "IPv4 a b c d = v4_in_v6 @ [a, b, c, d]"

definition To4 :: "ip \<Rightarrow> ip" where
  "To4 p =
     (if length p = 4 then p
      else if length p = 16 \<and> take 12 p = v4_in_v6 then drop 12 p
      else [])"

text \<open>\<open>net.CIDRMask\<close>: \<open>ones\<close> one bits followed by zeros, in 4 or 16 bytes.\<close>

fun mask_bytes :: "nat \<Rightarrow> nat \<Rightarrow> u8 list" where
  "mask_bytes 0 n = []"
| "mask_bytes (Suc k) n = (if n \<ge> 8 then 0xff # mask_bytes k (n - 8) else NOT (drop_bit n 0xff) # mask_bytes k 0)"

definition CIDRMask :: "nat \<Rightarrow> nat \<Rightarrow> u8 list" where
  "CIDRMask ones bits =
     (if (bits = 32 \<or> bits = 128) \<and> ones \<le> bits then mask_bytes (bits div 8) ones else [])"

text \<open>\<open>simpleMaskLength\<close>: the number of leading ones, \<open>None\<close> (\<open>-1\<close>) when a one follows a zero.\<close>

fun byte_ones :: "nat \<Rightarrow> u8 \<Rightarrow> nat option" where
  "byte_ones 0 v = (if v = 0 then Some 0 else None)"
| "byte_ones (Suc k) v =
     (if v AND 0x80 \<noteq> 0 then map_option Suc (byte_ones k (push_bit 1 v))
      else if v = 0 then Some 0 else None)"

fun mask_length :: "u8 list \<Rightarrow> nat option" where
  "mask_length [] = Some 0"
| "mask_length (v # m) =
     (if v = 0xff then map_option (\<lambda>n. 8 + n) (mask_length m)
      else case byte_ones 8 v of
             None \<Rightarrow> None
           | Some n \<Rightarrow> if list_all (\<lambda>x. x = 0) m then Some n else None)"

definition mask_size :: "u8 list \<Rightarrow> nat \<times> nat" where
  "mask_size m = (case mask_length m of None \<Rightarrow> (0, 0) | Some n \<Rightarrow> (n, 8 * length m))"

lemma partial_bytes:
  "list_all (\<lambda>n. NOT (drop_bit n 0xff :: u8) \<noteq> 0xff \<and> byte_ones 8 (NOT (drop_bit n 0xff)) = Some n) [0..<8]"
  by code_simp

lemma partial_byte:
  "n < 8 \<Longrightarrow> NOT (drop_bit n 0xff :: u8) \<noteq> 0xff \<and> byte_ones 8 (NOT (drop_bit n 0xff)) = Some n"
  using partial_bytes by (simp add: list_all_iff)

lemma mask_length_zeros [simp]: "mask_length (mask_bytes k 0) = Some 0 \<and> list_all (\<lambda>x. x = 0) (mask_bytes k 0)"
  using partial_byte [of 0] by (induction k) auto

lemma mask_length_bytes: "n \<le> 8 * k \<Longrightarrow> mask_length (mask_bytes k n) = Some n"
proof (induction k arbitrary: n)
  case (Suc k)
  then show ?case using partial_byte [of n] by auto
qed simp

lemma length_mask_bytes [simp]: "length (mask_bytes k n) = k"
  by (induction k n rule: mask_bytes.induct) auto

lemma mask_length_CIDRMask [simp]: "n \<le> 32 \<Longrightarrow> mask_length (CIDRMask n 32) = Some n"
  by (simp add: CIDRMask_def mask_length_bytes)

lemma length_CIDRMask: "n \<le> 32 \<Longrightarrow> length (CIDRMask n 32) = 4"
  by (simp add: CIDRMask_def)


section \<open>Texts of addresses and networks\<close>

fun hex_text :: "nat \<Rightarrow> string" where
  "hex_text n = (if n < 16 then [hex_char n] else hex_text (n div 16) @ [hex_char (n mod 16)])"

declare hex_text.simps [simp del]

text \<open>The first longest run of zeros among the eight groups: its start and its length.\<close>

definition zero_run :: "nat list \<Rightarrow> nat \<Rightarrow> nat" where
  "zero_run gs i = length (takeWhile (\<lambda>g. g = 0) (drop i gs))"

definition longest_zeros :: "nat list \<Rightarrow> nat \<times> nat" where
  "longest_zeros gs =
     foldl (\<lambda>(s, l) i. let r = zero_run gs i in if r \<ge> 2 \<and> r > l then (i, r) else (s, l)) (0, 0) [0..<length gs]"

fun pair_groups :: "u8 list \<Rightarrow> nat list" where
  "pair_groups (a # b # p) = (256 * unat a + unat b) # pair_groups p"
| "pair_groups p = []"

definition ip6_text :: "ip \<Rightarrow> string" where
  "ip6_text p =
     (let gs = pair_groups p; (s, l) = longest_zeros gs in
      if l = 0 then join_with CHR '':'' (map hex_text gs)
      else join_with CHR '':'' (map hex_text (take s gs)) @ ''::''
           @ join_with CHR '':'' (map hex_text (drop (s + l) gs)))"

definition ip4_text :: "ip \<Rightarrow> string" where
  "ip4_text p = join_with CHR ''.'' (map (\<lambda>b. dec_text (unat b)) p)"

text \<open>\<open>IP.String\<close>.\<close>

definition ip_text :: "ip \<Rightarrow> string" where
  "ip_text p =
     (if p = [] then ''<nil>''
      else if To4 p \<noteq> [] then ip4_text (To4 p)
      else if length p = 16 then ip6_text p
      else CHR ''?'' # hex_encode p)"

definition is_private :: "ip \<Rightarrow> bool" where
  "is_private p =
     (let q = To4 p in
      if q \<noteq> [] then q ! 0 = 10 \<or> q ! 0 = 172 \<and> q ! 1 AND 0xf0 = 16 \<or> q ! 0 = 192 \<and> q ! 1 = 168
      else length p = 16 \<and> p ! 0 AND 0xfe = 0xfc)"

record ip_net =
  IP :: ip
  Mask :: "u8 list"

definition nil_net :: ip_net where
  "nil_net = \<lparr>IP = [], Mask = []\<rparr>"

text \<open>\<open>networkNumberAndMask\<close>; \<open>None\<close> stands for two nil results.\<close>

definition number_and_mask :: "ip_net \<Rightarrow> (ip \<times> u8 list) option" where
  "number_and_mask n =
     (let q = To4 (IP n); p = (if q = [] then IP n else q); m = Mask n in
      if q = [] \<and> length p \<noteq> 16 then None
      else if length m = 4 then (if length p = 4 then Some (p, m) else None)
      else if length m = 16 then Some (p, if length p = 4 then drop 12 m else m)
      else None)"

definition net_contains :: "ip_net \<Rightarrow> ip \<Rightarrow> bool" where
  "net_contains n a =
     (let (nn, m) = (case number_and_mask n of None \<Rightarrow> ([], []) | Some r \<Rightarrow> r);
          x = (if To4 a = [] then a else To4 a) in
      length x = length nn \<and> (\<forall>i < length x. nn ! i AND m ! i = x ! i AND m ! i))"

definition net_text :: "ip_net \<Rightarrow> string" where
  "net_text n =
     (case number_and_mask n of
        None \<Rightarrow> ''<nil>''
      | Some (nn, m) \<Rightarrow>
          (case mask_length m of
             None \<Rightarrow> ip_text nn @ ''/'' @ hex_encode m
           | Some l \<Rightarrow> ip_text nn @ ''/'' @ dec_text l))"

section \<open>Parsing\<close>

text \<open>\<open>netip.ParseAddr\<close> on a dotted address: four fields of digits, none above 255, none with a leading zero.\<close>

definition parse_octet :: "string \<Rightarrow> u8 option" where
  "parse_octet s =
     (if s = [] \<or> (1 < length s \<and> hd s = CHR ''0'') then None
      else case dec_val s of None \<Rightarrow> None | Some n \<Rightarrow> if n \<le> 255 then Some (of_nat n) else None)"

definition parse_ip4 :: "string \<Rightarrow> ip option" where
  "parse_ip4 s =
     (case map parse_octet (split_at CHR ''.'' s) of
        [Some a, Some b, Some c, Some d] \<Rightarrow> Some (IPv4 a b c d)
      | _ \<Rightarrow> None)"

text \<open>
  \<open>netip.ParseAddr\<close>: the first of dot, colon and percent decides; the parser of IPv6 texts is an
  argument (16 bytes, \<open>None\<close> for an error or a zone). The flag tells whether the text was dotted.
\<close>

definition parse_addr :: "(string \<Rightarrow> ip option) \<Rightarrow> string \<Rightarrow> (ip \<times> bool) option" where
  "parse_addr parse6 s =
     (case find_first (\<lambda>c. c = CHR ''.'' \<or> c = CHR '':'' \<or> c = CHR ''%'') s of
        Some (_, c) \<Rightarrow>
          if c = CHR ''.'' then map_option (\<lambda>p. (p, True)) (parse_ip4 s)
          else if c = CHR '':'' then map_option (\<lambda>p. (p, False)) (parse6 s)
          else None
      | None \<Rightarrow> None)"

definition parse_ip :: "(string \<Rightarrow> ip option) \<Rightarrow> string \<Rightarrow> ip" where
  "parse_ip parse6 s = (case parse_addr parse6 s of None \<Rightarrow> [] | Some (p, _) \<Rightarrow> p)"

text \<open>\<open>dtoi\<close> on the whole text: digits only, below \<open>0xFFFFFF\<close>.\<close>

definition parse_bits :: "string \<Rightarrow> nat option" where
  "parse_bits s = (if s = [] then None else case dec_val s of None \<Rightarrow> None | Some n \<Rightarrow> if n < 0xFFFFFF then Some n else None)"

text \<open>\<open>net.ParseCIDR\<close>: the address in 16 bytes and the network it is in.\<close>

definition mask_ip :: "ip \<Rightarrow> u8 list \<Rightarrow> ip" where
  "mask_ip p m =
     (let m' = (if length m = 16 \<and> length p = 4 \<and> take 12 m = replicate 12 0xff then drop 12 m else m);
          p' = (if length m' = 4 \<and> length p = 16 \<and> take 12 p = v4_in_v6 then drop 12 p else p) in
      if length p' = length m' then map2 (AND) p' m' else [])"

definition parse_cidr :: "(string \<Rightarrow> ip option) \<Rightarrow> string \<Rightarrow> (ip \<times> ip_net) option" where
  "parse_cidr parse6 s =
     (case find_first (\<lambda>c. c = CHR ''/'') s of
        None \<Rightarrow> None
      | Some (i, _) \<Rightarrow>
          (case (parse_addr parse6 (take i s), parse_bits (drop (Suc i) s)) of
             (Some (p, v4), Some n) \<Rightarrow>
               (let bits = (if v4 then 32 else 128) in
                if n > bits then None
                else Some (p, \<lparr>IP = mask_ip p (CIDRMask n bits), Mask = CIDRMask n bits\<rparr>))
           | _ \<Rightarrow> None))"

lemma digit_char_zero: "digit_char 0 = CHR ''0''"
  by code_simp

lemma parse_octet_text [simp]: "parse_octet (dec_text (unat (b :: u8))) = Some b"
proof -
  have "hd (dec_text (unat b)) = CHR ''0'' \<Longrightarrow> length (dec_text (unat b)) = 1"
    using dec_text_leading [of "unat b"] by (simp add: digit_char_zero [symmetric]) (metis length_0_conv length_Suc_conv)
  then show ?thesis using unat_u8_less [of b] by (auto simp: parse_octet_def)
qed

lemma dec_text_no_sep [simp]: "char_digit c = None \<Longrightarrow> c \<notin> set (dec_text n)"
  by (rule char_digit_None)

lemma sep_no_digit [simp]: "char_digit CHR ''.'' = None" "char_digit CHR ''/'' = None" "char_digit CHR '':'' = None"
  "char_digit CHR ''%'' = None"
  by (simp_all add: char_digit_def Let_def)

lemma parse_ip4_text [simp]: "parse_ip4 (ip4_text [a, b, c, d]) = Some (IPv4 a b c d)"
  by (simp add: parse_ip4_def ip4_text_def split_at_append split_at_plain)

lemma find_first_append_Some:
  "\<forall>x \<in> set xs. \<not> p x \<Longrightarrow> p y \<Longrightarrow> find_first p (xs @ y # ys) = Some (length xs, y)"
  by (induction xs) auto

lemma parse_addr_text [simp]: "parse_addr parse6 (ip4_text [a, b, c, d]) = Some (IPv4 a b c d, True)"
proof -
  have "find_first (\<lambda>c. c = CHR ''.'' \<or> c = CHR '':'' \<or> c = CHR ''%'') (ip4_text [a, b, c, d])
      = Some (length (dec_text (unat a)), CHR ''.'')"
    by (auto simp: ip4_text_def intro!: find_first_append_Some)
  then show ?thesis by (simp add: parse_addr_def)
qed

lemma To4_IPv4 [simp]: "To4 (IPv4 a b c d) = [a, b, c, d]"
  by (simp add: To4_def IPv4_def v4_in_v6_def)

lemma To4_four [simp]: "To4 [a, b, c, d] = [a, b, c, d]"
  by (simp add: To4_def)

lemma length_IPv4 [simp]: "length (IPv4 a b c d) = 16"
  by (simp add: IPv4_def v4_in_v6_def)

lemma To4_cases: "To4 p \<noteq> [] \<Longrightarrow> \<exists>a b c d. To4 p = [a, b, c, d] \<and> (p = [a, b, c, d] \<or> p = IPv4 a b c d)"
proof -
  assume a: "To4 p \<noteq> []"
  have four: "length q = 4 \<Longrightarrow> \<exists>a b c d. q = [a, b, c, d]" for q :: ip
    by (auto simp: eval_nat_numeral length_Suc_conv)
  show ?thesis
  proof (cases "length p = 4")
    case True
    then show ?thesis using four [of p] by (auto simp: To4_def)
  next
    case False
    then have p: "length p = 16" "take 12 p = v4_in_v6" using a by (auto simp: To4_def split: if_splits)
    then obtain a b c d where d: "drop 12 p = [a, b, c, d]" using four [of "drop 12 p"] by auto
    then have "p = v4_in_v6 @ [a, b, c, d]" using p(2) by (metis append_take_drop_id)
    then show ?thesis using d p by (auto simp: To4_def IPv4_def)
  qed
qed

lemma net_text_v4:
  "n \<le> 32 \<Longrightarrow> net_text \<lparr>IP = IPv4 a b c d, Mask = CIDRMask n 32\<rparr> = ip4_text [a, b, c, d] @ ''/'' @ dec_text n"
  by (simp add: net_text_def number_and_mask_def length_CIDRMask ip_text_def)

lemma ip4_text_no_slash: "CHR ''/'' \<notin> set (ip4_text [a, b, c, d])"
  by (simp add: ip4_text_def)

text \<open>The text of an IPv4 network is read back, with the address as it was given.\<close>

lemma parse_cidr_net_text:
  "n \<le> 32 \<Longrightarrow> parse_cidr parse6 (net_text \<lparr>IP = IPv4 a b c d, Mask = CIDRMask n 32\<rparr>)
     = Some (IPv4 a b c d, \<lparr>IP = mask_ip (IPv4 a b c d) (CIDRMask n 32), Mask = CIDRMask n 32\<rparr>)"
proof -
  assume n: "n \<le> 32"
  let ?s = "ip4_text [a, b, c, d] @ CHR ''/'' # dec_text n"
  have f: "find_first (\<lambda>x. x = CHR ''/'') ?s = Some (length (ip4_text [a, b, c, d]), CHR ''/'')"
    using ip4_text_no_slash by (intro find_first_append_Some) auto
  have "parse_bits (dec_text n) = Some n" using n by (simp add: parse_bits_def)
  then show ?thesis using n by (simp add: net_text_v4 parse_cidr_def f)
qed

end
