(* ===== verification/GoJson.thy ===== *)
theory GoJson
  imports GoNet
begin

text \<open>
  The part of \<open>encoding/json\<close> the grid client uses: documents as values, their text as \<open>json.Marshal\<close> writes
  it (no spaces, HTML characters escaped) and the parser of \<open>json.Unmarshal\<close>. Texts are sequences of bytes, taken
  to be well-formed UTF-8; a number is kept as its literal. The decoding of a document into the fields of a struct
  is written with \<open>field\<close>, \<open>as_string\<close> and the like. Lemma \<open>parse_json_text\<close>: what is written is read back.
\<close>

datatype json =
    JNull | JBool bool | JNum string | JStr string | JArr "json list" | JObj "(string \<times> json) list"

section \<open>Writing\<close>

definition escape_char :: "char \<Rightarrow> string" where
  "escape_char c = (let n = of_char c :: nat in
     if c = CHR 0x22 \<or> c = CHR 0x5C then [CHR 0x5C, c]
     else if n = 10 then [CHR 0x5C, CHR ''n'']
     else if n = 13 then [CHR 0x5C, CHR ''r'']
     else if n = 9 then [CHR 0x5C, CHR ''t'']
     else if n < 32 \<or> c = CHR ''<'' \<or> c = CHR ''>'' \<or> c = CHR ''&''
       then [CHR 0x5C, CHR ''u'', CHR ''0'', CHR ''0'', hex_char (n div 16), hex_char (n mod 16)]
     else [c])"

definition str_text :: "string \<Rightarrow> string" where
  "str_text s = CHR 0x22 # concat (map escape_char s) @ [CHR 0x22]"

fun json_text :: "json \<Rightarrow> string" where
  "json_text JNull = ''null''"
| "json_text (JBool b) = (if b then ''true'' else ''false'')"
| "json_text (JNum l) = l"
| "json_text (JStr s) = str_text s"
| "json_text (JArr xs) = CHR ''['' # join_with CHR '','' (map json_text xs) @ '']''"
| "json_text (JObj kvs) =
     CHR ''{'' # join_with CHR '','' (map (\<lambda>(k, v). str_text k @ CHR '':'' # json_text v) kvs) @ ''}''"

section \<open>Reading\<close>

definition is_ws :: "char \<Rightarrow> bool" where
  "is_ws c = (c = CHR '' '' \<or> c = CHR 0x09 \<or> c = CHR 0x0A \<or> c = CHR 0x0D)"

abbreviation skip_ws :: "string \<Rightarrow> string" where
  "skip_ws \<equiv> dropWhile is_ws"

definition num_char :: "char \<Rightarrow> bool" where
  "num_char c = (char_digit c \<noteq> None \<or> c \<in> {CHR ''-'', CHR ''+'', CHR ''.'', CHR ''e'', CHR ''E''})"

abbreviation is_digit :: "char \<Rightarrow> bool" where
  "is_digit c \<equiv> char_digit c \<noteq> None"

definition exponent_ok :: "string \<Rightarrow> bool" where
  "exponent_ok s =
     (case s of
        [] \<Rightarrow> True
      | c # r \<Rightarrow> (c = CHR ''e'' \<or> c = CHR ''E'')
          \<and> (let t = (case r of [] \<Rightarrow> [] | x # y \<Rightarrow> if x = CHR ''+'' \<or> x = CHR ''-'' then y else r)
             in t \<noteq> [] \<and> list_all is_digit t))"

definition number_ok :: "string \<Rightarrow> bool" where
  "number_ok s =
     (let t = (case s of [] \<Rightarrow> [] | x # y \<Rightarrow> if x = CHR ''-'' then y else s);
          i = takeWhile is_digit t; r = dropWhile is_digit t
      in i \<noteq> [] \<and> (length i = 1 \<or> hd i \<noteq> CHR ''0'')
       \<and> (case r of
            [] \<Rightarrow> True
          | x # y \<Rightarrow> if x = CHR ''.'' then takeWhile is_digit y \<noteq> [] \<and> exponent_ok (dropWhile is_digit y)
                    else exponent_ok r))"

text \<open>A code point as UTF-8; a lone surrogate becomes the replacement character.\<close>

definition utf8 :: "nat \<Rightarrow> string" where
  "utf8 n =
     (let m = (if 0xD800 \<le> n \<and> n \<le> 0xDFFF then 0xFFFD else n) in
      if m < 0x80 then [char_of m]
      else if m < 0x800 then [char_of (0xC0 + m div 64), char_of (0x80 + m mod 64)]
      else if m < 0x10000 then
        [char_of (0xE0 + m div 4096), char_of (0x80 + m div 64 mod 64), char_of (0x80 + m mod 64)]
      else [char_of (0xF0 + m div 262144), char_of (0x80 + m div 4096 mod 64),
            char_of (0x80 + m div 64 mod 64), char_of (0x80 + m mod 64)])"

definition hex4 :: "string \<Rightarrow> nat option" where
  "hex4 s =
     (case map hex_val (take 4 s) of
        [Some a, Some b, Some c, Some d] \<Rightarrow> Some (4096 * a + 256 * b + 16 * c + d)
      | _ \<Rightarrow> None)"

text \<open>What follows a backslash: the bytes it stands for and the number of bytes read.\<close>

definition unescape :: "string \<Rightarrow> (string \<times> nat) option" where
  "unescape s =
     (case s of
        [] \<Rightarrow> None
      | c # r \<Rightarrow>
          if c = CHR 0x22 \<or> c = CHR 0x5C \<or> c = CHR ''/'' then Some ([c], 1)
          else if c = CHR ''n'' then Some ([CHR 0x0A], 1)
          else if c = CHR ''r'' then Some ([CHR 0x0D], 1)
          else if c = CHR ''t'' then Some ([CHR 0x09], 1)
          else if c = CHR ''b'' then Some ([CHR 0x08], 1)
          else if c = CHR ''f'' then Some ([CHR 0x0C], 1)
          else if c = CHR ''u'' then
            (case hex4 r of
               None \<Rightarrow> None
             | Some h \<Rightarrow>
                 if 0xD800 \<le> h \<and> h < 0xDC00 \<and> take 2 (drop 4 r) = [CHR 0x5C, CHR ''u''] then
                   (case hex4 (drop 6 r) of
                      None \<Rightarrow> Some (utf8 h, 5)
                    | Some l \<Rightarrow>
                        if 0xDC00 \<le> l \<and> l \<le> 0xDFFF
                        then Some (utf8 (0x10000 + 1024 * (h - 0xD800) + (l - 0xDC00)), 11)
                        else Some (utf8 h, 5))
                 else Some (utf8 h, 5))
          else None)"

text \<open>The rest of a quoted string, after its opening quote.\<close>

function read_str :: "string \<Rightarrow> (string \<times> string) option" where
  "read_str s =
     (case s of
        [] \<Rightarrow> None
      | c # r \<Rightarrow>
          if c = CHR 0x22 then Some ([], r)
          else if c = CHR 0x5C then
            (case unescape r of
               None \<Rightarrow> None
             | Some (cs, k) \<Rightarrow> map_option (apfst ((@) cs)) (read_str (drop k r)))
          else if (of_char c :: nat) < 32 then None
          else map_option (apfst ((#) c)) (read_str r))"
  by pat_completeness auto
termination
  by (relation "measure length") auto

declare read_str.simps [simp del]

definition read_word :: "string \<Rightarrow> json \<Rightarrow> string \<Rightarrow> (json \<times> string) option" where
  "read_word word v s = (if take (length word) s = word then Some (v, drop (length word) s) else None)"

text \<open>The recursive descent; the length of the text is always enough fuel (\<open>parse_json_text\<close>).\<close>

fun read_val :: "nat \<Rightarrow> string \<Rightarrow> (json \<times> string) option"
  and read_elems :: "nat \<Rightarrow> string \<Rightarrow> (json list \<times> string) option"
  and read_members :: "nat \<Rightarrow> string \<Rightarrow> ((string \<times> json) list \<times> string) option" where
  "read_val 0 s = None"
| "read_val (Suc n) s =
     (case skip_ws s of
        [] \<Rightarrow> None
      | c # r \<Rightarrow>
          if c = CHR 0x22 then map_option (apfst JStr) (read_str r)
          else if c = CHR ''['' then
            (case skip_ws r of
               x # r' \<Rightarrow> if x = CHR '']'' then Some (JArr [], r') else map_option (apfst JArr) (read_elems n r)
             | [] \<Rightarrow> None)
          else if c = CHR ''{'' then
            (case skip_ws r of
               x # r' \<Rightarrow> if x = CHR ''}'' then Some (JObj [], r') else map_option (apfst JObj) (read_members n r)
             | [] \<Rightarrow> None)
          else if c = CHR ''t'' then read_word ''true'' (JBool True) (c # r)
          else if c = CHR ''f'' then read_word ''false'' (JBool False) (c # r)
          else if c = CHR ''n'' then read_word ''null'' JNull (c # r)
          else (let l = takeWhile num_char (c # r) in
                if number_ok l then Some (JNum l, dropWhile num_char (c # r)) else None))"
| "read_elems 0 s = None"
| "read_elems (Suc n) s =
     (case read_val n s of
        None \<Rightarrow> None
      | Some (v, r) \<Rightarrow>
          (case skip_ws r of
             [] \<Rightarrow> None
           | c # r' \<Rightarrow>
               if c = CHR '']'' then Some ([v], r')
               else if c = CHR '','' then map_option (apfst ((#) v)) (read_elems n r')
               else None))"
| "read_members 0 s = None"
| "read_members (Suc n) s =
     (case skip_ws s of
        [] \<Rightarrow> None
      | q # r0 \<Rightarrow>
          if q \<noteq> CHR 0x22 then None
          else case read_str r0 of
            None \<Rightarrow> None
          | Some (k, r1) \<Rightarrow>
              (case skip_ws r1 of
                 [] \<Rightarrow> None
               | x # r2 \<Rightarrow>
                   if x \<noteq> CHR '':'' then None
                   else case read_val n r2 of
                     None \<Rightarrow> None
                   | Some (v, r) \<Rightarrow>
                       (case skip_ws r of
                          [] \<Rightarrow> None
                        | c # r' \<Rightarrow>
                            if c = CHR ''}'' then Some ([(k, v)], r')
                            else if c = CHR '','' then map_option (apfst ((#) (k, v))) (read_members n r')
                            else None)))"

definition parse_json :: "string \<Rightarrow> json option" where
  "parse_json s =
     (case read_val (length s) s of
        Some (v, r) \<Rightarrow> if skip_ws r = [] then Some v else None
      | None \<Rightarrow> None)"

section \<open>What is written is read back\<close>

lemma hex4_u00:
  "n < 32 \<or> n = 60 \<or> n = 62 \<or> n = 38 \<Longrightarrow>
   unescape (CHR ''u'' # CHR ''0'' # CHR ''0'' # hex_char (n div 16) # hex_char (n mod 16) # r) = Some ([char_of n], 5)"
proof -
  assume n: "n < 32 \<or> n = 60 \<or> n = 62 \<or> n = 38"
  have z: "hex_val CHR ''0'' = Some 0" by code_simp
  have "hex4 (CHR ''0'' # CHR ''0'' # hex_char (n div 16) # hex_char (n mod 16) # r) = Some n"
    using n z by (auto simp: hex4_def)
  then show ?thesis using n by (auto simp: unescape_def utf8_def)
qed

lemma read_escape:
  "read_str (escape_char c @ s) = map_option (apfst ((#) c)) (read_str s)"
proof -
  define n where "n = (of_char c :: nat)"
  have c: "char_of n = c" by (simp add: n_def)
  have ctl: "char_of (10 :: nat) = CHR 0x0A" "char_of (13 :: nat) = CHR 0x0D" "char_of (9 :: nat) = CHR 0x09"
    by code_simp+
  consider "c = CHR 0x22 \<or> c = CHR 0x5C" | "n = 10" | "n = 13" | "n = 9"
    | "c \<noteq> CHR 0x22 \<and> c \<noteq> CHR 0x5C \<and> n \<noteq> 10 \<and> n \<noteq> 13 \<and> n \<noteq> 9 \<and> (n < 32 \<or> c = CHR ''<'' \<or> c = CHR ''>'' \<or> c = CHR ''&'')"
    | "c \<noteq> CHR 0x22 \<and> c \<noteq> CHR 0x5C \<and> \<not> n < 32 \<and> c \<noteq> CHR ''<'' \<and> c \<noteq> CHR ''>'' \<and> c \<noteq> CHR ''&''"
    by blast
  then show ?thesis
  proof cases
    case 5
    then have "n < 32 \<or> n = 60 \<or> n = 62 \<or> n = 38" by (auto simp: n_def)
    note u = hex4_u00 [OF this, of s]
    have "escape_char c = [CHR 0x5C, CHR ''u'', CHR ''0'', CHR ''0'', hex_char (n div 16), hex_char (n mod 16)]"
      using 5 by (auto simp: escape_char_def n_def Let_def)
    then show ?thesis using u c by (simp add: read_str.simps [of "CHR 0x5C # _"] apfst_def map_prod_def)
  next
    case 6
    then have "escape_char c = [c]" by (auto simp: escape_char_def n_def Let_def)
    then show ?thesis using 6 by (simp add: read_str.simps [of "c # _"] n_def)
  next
    case 1
    then show ?thesis
      by (auto simp: escape_char_def Let_def read_str.simps [of "CHR 0x5C # _"] unescape_def apfst_def map_prod_def)
  qed (use c ctl in \<open>auto simp: escape_char_def Let_def n_def [symmetric] read_str.simps [of "CHR 0x5C # _"] unescape_def
      apfst_def map_prod_def\<close>)
qed

lemma read_str_text: "read_str (concat (map escape_char s) @ CHR 0x22 # r) = Some (s, r)"
proof (induction s)
  case Nil
  then show ?case by (simp add: read_str.simps)
next
  case (Cons c s)
  then show ?case by (simp add: read_escape)
qed


fun json_ok :: "json \<Rightarrow> bool" where
  "json_ok (JNum l) = number_ok l"
| "json_ok (JArr xs) = list_all json_ok xs"
| "json_ok (JObj kvs) = list_all (\<lambda>(k, v). json_ok v) kvs"
| "json_ok _ = True"

definition ends_value :: "string \<Rightarrow> bool" where
  "ends_value r = (r = [] \<or> \<not> num_char (hd r))"

lemma ends_value_simps [simp]:
  "ends_value []" "ends_value (CHR '','' # r)" "ends_value (CHR '']'' # r)" "ends_value (CHR ''}'' # r)"
  by (simp_all add: ends_value_def num_char_def char_digit_def Let_def)

lemma is_digit_num [simp]: "is_digit c \<Longrightarrow> num_char c"
  by (simp add: num_char_def)

lemma exponent_num: "exponent_ok s \<Longrightarrow> c \<in> set s \<Longrightarrow> num_char c"
  by (cases s) (auto simp: exponent_ok_def Let_def num_char_def list_all_iff split: list.splits if_splits)

lemma number_num:
  assumes "number_ok s" shows "\<forall>c \<in> set s. num_char c"
proof -
  define t where "t = (case s of [] \<Rightarrow> [] | x # y \<Rightarrow> if x = CHR ''-'' then y else s)"
  have i: "\<forall>c \<in> set (takeWhile is_digit t). num_char c" by (auto dest: set_takeWhileD)
  have "\<forall>c \<in> set (dropWhile is_digit t). num_char c"
  proof (cases "dropWhile is_digit t")
    case Nil
    show ?thesis unfolding Nil by simp
  next
    case (Cons x y)
    have "x = CHR ''.'' \<and> exponent_ok (dropWhile is_digit y) \<or> exponent_ok (x # y)"
      using assms Cons by (auto simp: number_ok_def t_def Let_def split: if_splits)
    then show ?thesis
    proof
      assume a: "x = CHR ''.'' \<and> exponent_ok (dropWhile is_digit y)"
      have "set y = set (takeWhile is_digit y) \<union> set (dropWhile is_digit y)"
        by (metis set_append takeWhile_dropWhile_id)
      then show ?thesis using a exponent_num Cons by (auto dest: set_takeWhileD simp: num_char_def)
    next
      assume "exponent_ok (x # y)"
      then show ?thesis using exponent_num Cons by metis
    qed
  qed
  then have "\<forall>c \<in> set t. num_char c" using i by (metis Un_iff set_append takeWhile_dropWhile_id)
  then show ?thesis by (cases s) (auto simp: t_def num_char_def split: if_splits)
qed

lemma takeWhile_ends: "\<forall>c \<in> set l. num_char c \<Longrightarrow> ends_value r \<Longrightarrow> takeWhile num_char (l @ r) = l \<and> dropWhile num_char (l @ r) = r"
  by (induction l) (cases r; auto simp: ends_value_def)+

text \<open>The first character of a written value.\<close>

definition starter :: "char \<Rightarrow> bool" where
  "starter c = (\<not> is_ws c \<and> c \<noteq> CHR '']'' \<and> c \<noteq> CHR ''}'')"

lemma number_starts: "number_ok s \<Longrightarrow> \<exists>c r. s = c # r \<and> starter c \<and> num_char c \<and> c \<noteq> CHR 0x22
   \<and> c \<noteq> CHR ''['' \<and> c \<noteq> CHR ''{'' \<and> c \<noteq> CHR ''t'' \<and> c \<noteq> CHR ''f'' \<and> c \<noteq> CHR ''n''"
proof -
  assume a: "number_ok s"
  then obtain c r where s: "s = c # r" by (cases s) (auto simp: number_ok_def)
  have "num_char c" using number_num [OF a] s by simp
  moreover have "num_char c \<Longrightarrow> starter c \<and> c \<noteq> CHR 0x22
   \<and> c \<noteq> CHR ''['' \<and> c \<noteq> CHR ''{'' \<and> c \<noteq> CHR ''t'' \<and> c \<noteq> CHR ''f'' \<and> c \<noteq> CHR ''n''"
    by (auto simp: starter_def num_char_def is_ws_def char_digit_def Let_def split: if_splits)
  ultimately show ?thesis using s by blast
qed

lemma json_starts: "json_ok j \<Longrightarrow> \<exists>c r. json_text j = c # r \<and> starter c"
  by (cases j) (auto simp: str_text_def starter_def is_ws_def dest: number_starts)

lemma skip_ws_starter: "starter c \<Longrightarrow> skip_ws (c # r) = c # r"
  by (simp add: starter_def)

lemma skip_ws_text: "json_ok j \<Longrightarrow> skip_ws (json_text j @ r) = json_text j @ r"
  using json_starts [of j] skip_ws_starter by fastforce


lemma read_elems_text:
  assumes "\<And>x m r. x \<in> set xs \<Longrightarrow> length (json_text x) \<le> m \<Longrightarrow> ends_value r
      \<Longrightarrow> read_val m (json_text x @ r) = Some (x, r)"
    and "xs \<noteq> []" and "length (join_with CHR '','' (map json_text xs)) < k"
  shows "read_elems k (join_with CHR '','' (map json_text xs) @ CHR '']'' # r) = Some (xs, r)"
  using assms
proof (induction xs arbitrary: k)
  case (Cons x xs)
  obtain m where k: "k = Suc m" using Cons.prems(3) by (cases k) auto
  show ?case
  proof (cases "xs = []")
    case True
    then show ?thesis using Cons.prems by (simp add: k is_ws_def)
  next
    case False
    then have "read_elems m (join_with CHR '','' (map json_text xs) @ CHR '']'' # r) = Some (xs, r)"
      using Cons.prems k by (intro Cons.IH) auto
    then show ?thesis using Cons.prems False by (simp add: k is_ws_def)
  qed
qed simp

lemma read_members_text:
  assumes "\<And>q x m r. (q, x) \<in> set kvs \<Longrightarrow> length (json_text x) \<le> m \<Longrightarrow> ends_value r
      \<Longrightarrow> read_val m (json_text x @ r) = Some (x, r)"
    and "kvs \<noteq> []"
    and "length (join_with CHR '','' (map (\<lambda>(k, v). str_text k @ CHR '':'' # json_text v) kvs)) < k"
  shows "read_members k (join_with CHR '','' (map (\<lambda>(k, v). str_text k @ CHR '':'' # json_text v) kvs) @ CHR ''}'' # r)
      = Some (kvs, r)"
  using assms
proof (induction kvs arbitrary: k)
  case (Cons kv kvs)
  obtain q x where kv: "kv = (q, x)" by (cases kv)
  obtain m where k: "k = Suc m" using Cons.prems(3) by (cases k) auto
  have v: "ends_value r' \<Longrightarrow> read_val m (json_text x @ r') = Some (x, r')" for r'
    using Cons.prems(1) [of q x m r'] Cons.prems(3) by (cases kvs) (auto simp: k kv)
  show ?case
  proof (cases "kvs = []")
    case True
    then show ?thesis by (simp add: k kv is_ws_def str_text_def read_str_text v)
  next
    case False
    then have "read_members m (join_with CHR '','' (map (\<lambda>(k, v). str_text k @ CHR '':'' # json_text v) kvs)
        @ CHR ''}'' # r) = Some (kvs, r)"
      using Cons.prems k by (intro Cons.IH) (auto simp: kv)
    then show ?thesis using False by (simp add: k kv is_ws_def str_text_def read_str_text v)
  qed
qed simp

lemma read_val_text:
  "json_ok j \<Longrightarrow> length (json_text j) \<le> m \<Longrightarrow> ends_value r \<Longrightarrow> read_val m (json_text j @ r) = Some (j, r)"
proof (induction j arbitrary: m r)
  case (JNum l)
  obtain c s where s: "l = c # s" "starter c" "c \<noteq> CHR 0x22" "c \<noteq> CHR ''[''" "c \<noteq> CHR ''{''" "c \<noteq> CHR ''t''"
    "c \<noteq> CHR ''f''" "c \<noteq> CHR ''n''" "num_char c" using JNum.prems(1) number_starts [of l] by auto
  have "takeWhile num_char (l @ r) = l \<and> dropWhile num_char (l @ r) = r"
    using JNum.prems number_num [of l] by (intro takeWhile_ends) auto
  moreover obtain k where "m = Suc k" using JNum.prems(2) s(1) by (cases m) auto
  moreover have "\<not> is_ws c" using s(2) by (simp add: starter_def)
  ultimately show ?case using JNum.prems(1) s by simp
next
  case (JArr xs)
  obtain k where m: "m = Suc k" using JArr.prems(2) by (cases m) auto
  have e: "read_elems k (join_with CHR '','' (map json_text xs) @ CHR '']'' # r) = Some (xs, r)" if "xs \<noteq> []"
    using JArr that by (intro read_elems_text) (auto simp: m list_all_iff)
  show ?case
  proof (cases xs)
    case (Cons y ys)
    obtain c s where "json_text y = c # s" "starter c"
      using JArr.prems(1) Cons json_starts [of y] by auto
    then show ?thesis using e Cons by (cases ys) (auto simp: m is_ws_def starter_def)
  qed (simp add: m is_ws_def)
next
  case (JObj kvs)
  obtain k where m: "m = Suc k" using JObj.prems(2) by (cases m) auto
  have e: "read_members k (join_with CHR '','' (map (\<lambda>(k, v). str_text k @ CHR '':'' # json_text v) kvs)
      @ CHR ''}'' # r) = Some (kvs, r)" if "kvs \<noteq> []"
    using JObj that by (intro read_members_text) (fastforce simp: m list_all_iff)+
  show ?case
  proof (cases kvs)
    case (Cons y ys)
    then show ?thesis using e by (cases ys; cases y) (auto simp: m is_ws_def str_text_def)
  qed (simp add: m is_ws_def)
next
  case (JStr s)
  then show ?case by (cases m) (auto simp: str_text_def is_ws_def read_str_text)
next
  case JNull
  then show ?case by (cases m) (auto simp: is_ws_def read_word_def)
next
  case (JBool b)
  then show ?case by (cases m) (auto simp: is_ws_def read_word_def split: if_splits)
qed

lemma parse_json_text: "json_ok j \<Longrightarrow> parse_json (json_text j) = Some j"
  using read_val_text [of j "length (json_text j)" "[]"] by (simp add: parse_json_def)


section \<open>Structs\<close>

text \<open>Fields of a struct as \<open>json.Marshal\<close> writes them.\<close>

definition j_nat :: "'a::len word \<Rightarrow> json" where
  "j_nat w = JNum (dec_text (unat w))"

definition int_text :: "int \<Rightarrow> string" where
  "int_text i = (if i < 0 then CHR ''-'' # dec_text (nat (- i)) else dec_text (nat i))"

definition j_int :: "int \<Rightarrow> json" where
  "j_int i = JNum (int_text i)"

definition j_list :: "('a \<Rightarrow> json) \<Rightarrow> 'a list \<Rightarrow> json" where
  "j_list f xs = (if xs = [] then JNull else JArr (map f xs))"

text \<open>
  \<open>json.Unmarshal\<close> into a struct: every pair of the object sets the field whose name it has, letters compared
  without case; null changes nothing; a value of the wrong type makes the call fail; the object's later pairs win.
\<close>

definition lower_char :: "char \<Rightarrow> char" where
  "lower_char c = (let n = of_char c :: nat in if 65 \<le> n \<and> n \<le> 90 then char_of (n + 32) else c)"

definition key_is :: "string \<Rightarrow> string \<Rightarrow> bool" where
  "key_is name k = (map lower_char name = map lower_char k)"

type_synonym 'r setter = "string \<Rightarrow> json \<Rightarrow> 'r \<Rightarrow> 'r option"

definition no_field :: "'r setter" where
  "no_field k v r = Some r"

definition field :: "string \<Rightarrow> (json \<Rightarrow> 'a option) \<Rightarrow> ('a \<Rightarrow> 'r \<Rightarrow> 'r) \<Rightarrow> 'r setter \<Rightarrow> 'r setter" where
  "field name conv upd rest k v r =
     (if key_is name k then (if v = JNull then Some r else map_option (\<lambda>x. upd x r) (conv v)) else rest k v r)"

fun set_fields :: "'r setter \<Rightarrow> (string \<times> json) list \<Rightarrow> 'r \<Rightarrow> 'r option" where
  "set_fields st [] r = Some r"
| "set_fields st ((k, v) # kvs) r = (case st k v r of None \<Rightarrow> None | Some r' \<Rightarrow> set_fields st kvs r')"

definition as_struct :: "'r setter \<Rightarrow> 'r \<Rightarrow> json \<Rightarrow> 'r option" where
  "as_struct st r j = (case j of JNull \<Rightarrow> Some r | JObj kvs \<Rightarrow> set_fields st kvs r | _ \<Rightarrow> None)"

definition as_str :: "json \<Rightarrow> string option" where
  "as_str j = (case j of JStr s \<Rightarrow> Some s | _ \<Rightarrow> None)"

definition as_bool :: "json \<Rightarrow> bool option" where
  "as_bool j = (case j of JBool b \<Rightarrow> Some b | _ \<Rightarrow> None)"

definition as_nat :: "json \<Rightarrow> 'a::len word option" where
  "as_nat j =
     (case j of
        JNum l \<Rightarrow> (case dec_val l of
           Some n \<Rightarrow> if n < 2 ^ LENGTH('a) then Some (of_nat n) else None
         | None \<Rightarrow> None)
      | _ \<Rightarrow> None)"

definition as_int64 :: "json \<Rightarrow> int option" where
  "as_int64 j =
     (case j of
        JNum l \<Rightarrow>
          (let neg = (l \<noteq> [] \<and> hd l = CHR ''-'') in
           case dec_val (if neg then tl l else l) of
             Some n \<Rightarrow> (let i = (if neg then - int n else int n) in
               if - (2 ^ 63) \<le> i \<and> i < 2 ^ 63 then Some i else None)
           | None \<Rightarrow> None)
      | _ \<Rightarrow> None)"

fun all_some :: "'a option list \<Rightarrow> 'a list option" where
  "all_some [] = Some []"
| "all_some (None # xs) = None"
| "all_some (Some x # xs) = map_option ((#) x) (all_some xs)"

definition as_list :: "(json \<Rightarrow> 'a option) \<Rightarrow> json \<Rightarrow> 'a list option" where
  "as_list conv j = (case j of JNull \<Rightarrow> Some [] | JArr xs \<Rightarrow> all_some (map conv xs) | _ \<Rightarrow> None)"

lemma number_ok_dec [simp]: "number_ok (dec_text n)"
proof -
  have d: "is_digit c" if "c \<in> set (dec_text n)" for c
    using char_digit_None that by blast
  then have t: "takeWhile is_digit (dec_text n) = dec_text n" "dropWhile is_digit (dec_text n) = []"
    by (simp_all add: takeWhile_eq_all_conv dropWhile_eq_Nil_conv)
  have "hd (dec_text n) \<noteq> CHR ''-''"
    using d [of "hd (dec_text n)"] by (auto simp: char_digit_def Let_def)
  moreover have "hd (dec_text n) = CHR ''0'' \<Longrightarrow> length (dec_text n) = 1"
    using dec_text_leading [of n] by (metis digit_char_zero length_Cons list.size(3) One_nat_def)
  ultimately show ?thesis using t by (cases "dec_text n") (auto simp: number_ok_def Let_def)
qed

lemma json_ok_nat [simp]: "json_ok (j_nat w)"
  by (simp add: j_nat_def)

lemma as_nat_j_nat [simp]: "as_nat (j_nat w) = Some w"
  using unsigned_less [where ?'a = nat, of w] by (simp add: as_nat_def j_nat_def)

lemma all_some_map [simp]: "(\<And>x. x \<in> set xs \<Longrightarrow> f x = Some (g x)) \<Longrightarrow> all_some (map f xs) = Some (map g xs)"
  by (induction xs) auto

end
