(* ===== verification/ZosTypes.thy ===== *)
theory ZosTypes
  imports GoJson "HOL-Library.Char_ord" "HOL-Library.List_Lexorder"
begin

text \<open>
  The grid client's own copy of the node's data model (\<open>grid-client/zos\<close>): capacities, workloads and deployments, the
  payload of each workload type with the JSON it is sent as, networks as texts, hexadecimal keys, and the conversion
  to and from the two external packages \<open>gridtypes\<close> of zos and zos4. Both packages declare the same fields, so one
  record stands for either; their methods are the fields of \<open>gt_api\<close>, one value of it per package.
  Lemmas: conversions are inverse, networks and keys are read back, what signing leaves in a deployment.
\<close>

section \<open>Constants\<close>

definition MyceliumKeyLen :: nat where "MyceliumKeyLen = 32"
definition MyceliumIPSeedLen :: nat where "MyceliumIPSeedLen = 6"
definition Kilobyte :: u64 where "Kilobyte = 1024"
definition Megabyte :: u64 where "Megabyte = 1024 * Kilobyte"
definition Gigabyte :: u64 where "Gigabyte = 1024 * Megabyte"
definition Terabyte :: u64 where "Terabyte = 1024 * Gigabyte"

lemmas unit_defs = Kilobyte_def Megabyte_def Gigabyte_def Terabyte_def

definition ZMountType :: string where "ZMountType = ''zmount''"
definition NetworkType :: string where "NetworkType = ''network''"
definition NetworkLightType :: string where "NetworkLightType = ''network-light''"
definition ZDBType :: string where "ZDBType = ''zdb''"
definition ZMachineType :: string where "ZMachineType = ''zmachine''"
definition ZMachineLightType :: string where "ZMachineLightType = ''zmachine-light''"
definition VolumeType :: string where "VolumeType = ''volume''"
definition PublicIPv4Type :: string where "PublicIPv4Type = ''ipv4''"
definition PublicIPType :: string where "PublicIPType = ''ip''"
definition GatewayNameProxyType :: string where "GatewayNameProxyType = ''gateway-name-proxy''"
definition GatewayFQDNProxyType :: string where "GatewayFQDNProxyType = ''gateway-fqdn-proxy''"
definition QuantumSafeFSType :: string where "QuantumSafeFSType = ''qsfs''"
definition ZLogsType :: string where "ZLogsType = ''zlogs''"

lemmas type_defs = ZMountType_def NetworkType_def NetworkLightType_def ZDBType_def ZMachineType_def
  ZMachineLightType_def VolumeType_def PublicIPv4Type_def PublicIPType_def GatewayNameProxyType_def
  GatewayFQDNProxyType_def QuantumSafeFSType_def ZLogsType_def

definition StateInit :: string where "StateInit = ''init''"
definition StateUnChanged :: string where "StateUnChanged = ''unchanged''"
definition StateError :: string where "StateError = ''error''"
definition StateOk :: string where "StateOk = ''ok''"
definition StateDeleted :: string where "StateDeleted = ''deleted''"
definition StatePaused :: string where "StatePaused = ''paused''"

lemmas state_defs = StateInit_def StateUnChanged_def StateError_def StateOk_def StateDeleted_def StatePaused_def

definition is_any :: "string \<Rightarrow> string list \<Rightarrow> bool" where
  "is_any s states = (s \<in> set states)"

definition is_okay :: "string \<Rightarrow> bool" where
  "is_okay s = is_any s [StateOk, StatePaused]"

section \<open>Capacity\<close>

record zos_capacity =
  zc_cru :: u64
  zc_sru :: u64
  zc_hru :: u64
  zc_mru :: u64
  zc_ipv4u :: u64

definition capacity_zero :: "zos_capacity \<Rightarrow> bool" where
  "capacity_zero c = (zc_cru c = 0 \<and> zc_sru c = 0 \<and> zc_hru c = 0 \<and> zc_mru c = 0 \<and> zc_ipv4u c = 0)"

definition capacity_add :: "zos_capacity \<Rightarrow> zos_capacity \<Rightarrow> zos_capacity" where
  "capacity_add c d =
     \<lparr>zc_cru = zc_cru c + zc_cru d, zc_sru = zc_sru c + zc_sru d, zc_hru = zc_hru c + zc_hru d,
      zc_mru = zc_mru c + zc_mru d, zc_ipv4u = zc_ipv4u c + zc_ipv4u d\<rparr>"

section \<open>Networks and keys as texts\<close>

text \<open>An \<open>IPNet\<close> of the package is the \<open>net.IPNet\<close> it embeds.\<close>

definition parse_ip_net :: "(string \<Rightarrow> ip option) \<Rightarrow> string \<Rightarrow> string + ip_net" where
  "parse_ip_net parse6 txt =
     (if txt = [] then Inr nil_net
      else case parse_cidr parse6 txt of
        None \<Rightarrow> Inl (''invalid CIDR address: '' @ txt)
      | Some (p, n) \<Rightarrow> Inr (n\<lparr>IP := p\<rparr>))"

text \<open>\<open>None\<close>: the call panics.\<close>

definition must_parse_ip_net :: "(string \<Rightarrow> ip option) \<Rightarrow> string \<Rightarrow> ip_net option" where
  "must_parse_ip_net parse6 txt = (case parse_ip_net parse6 txt of Inl _ \<Rightarrow> None | Inr n \<Rightarrow> Some n)"

definition unmarshal_ip_net :: "(string \<Rightarrow> ip option) \<Rightarrow> string \<Rightarrow> ip_net \<Rightarrow> string option \<times> ip_net" where
  "unmarshal_ip_net parse6 txt i = (case parse_ip_net parse6 txt of Inl e \<Rightarrow> (Some e, i) | Inr v \<Rightarrow> (None, v))"

definition marshal_ip_net :: "ip_net \<Rightarrow> string" where
  "marshal_ip_net i = (if IP i = [] then [] else net_text i)"

definition j_ip_net :: "ip_net \<Rightarrow> json" where
  "j_ip_net i = (if IP i = [] then JStr [] else JStr (net_text i))"

definition ip_net_nil :: "ip_net \<Rightarrow> bool" where
  "ip_net_nil i = (IP i = [] \<and> Mask i = [])"

lemma parse_ip_net_text [simp]:
  assumes "n \<le> 32"
  shows "parse_ip_net parse6 (net_text \<lparr>IP = IPv4 a b c d, Mask = CIDRMask n 32\<rparr>) = Inr \<lparr>IP = IPv4 a b c d, Mask = CIDRMask n 32\<rparr>"
proof -
  have "net_text \<lparr>IP = IPv4 a b c d, Mask = CIDRMask n 32\<rparr> \<noteq> []"
    using assms by (simp add: net_text_v4)
  then show ?thesis using assms parse_cidr_net_text [of n parse6 a b c d] by (simp add: parse_ip_net_def)
qed

text \<open>\<open>Bytes\<close> and \<open>EncryptionKey\<close>.\<close>

definition unmarshal_bytes :: "string \<Rightarrow> u8 list \<Rightarrow> bool \<times> u8 list" where
  "unmarshal_bytes txt h = (case hex_decode txt of None \<Rightarrow> (False, h) | Some bs \<Rightarrow> (True, bs))"

definition j_bytes :: "u8 list \<Rightarrow> json" where
  "j_bytes h = JStr (hex_encode h)"

definition unmarshal_key :: "string \<Rightarrow> u8 list \<Rightarrow> bool \<times> u8 list" where
  "unmarshal_key txt h = (case hex_decode txt of None \<Rightarrow> (False, h) | Some bs \<Rightarrow> (True, bs))"

definition j_key :: "u8 list \<Rightarrow> json" where
  "j_key k = JStr (hex_encode k)"

section \<open>Payloads of the workload types\<close>

text \<open>\<open>None\<close> as a JSON value: \<open>json.Marshal\<close> returns an error (an address of a length other than 0, 4 or 16).\<close>

definition j_ip :: "ip \<Rightarrow> json option" where
  "j_ip p = (if p = [] then Some (JStr []) else if length p = 4 \<or> length p = 16 then Some (JStr (ip_text p)) else None)"

text \<open>A map with texts as keys and values: a list of pairs with distinct keys, written in the order of the keys.\<close>

definition j_string_map :: "(string \<times> string) list \<Rightarrow> json" where
  "j_string_map m = (if m = [] then JNull else JObj (map (apsnd JStr) (sort_key fst m)))"

record mycelium_ip =
  mip_network :: string
  mip_seed :: "u8 list"

definition j_mycelium_ip :: "mycelium_ip \<Rightarrow> json" where
  "j_mycelium_ip m = JObj [(''Network'', JStr (mip_network m)), (''hex_seed'', j_bytes (mip_seed m))]"

record machine_interface =
  mi_network :: string
  mi_ip :: ip

definition j_machine_interface :: "machine_interface \<Rightarrow> json option" where
  "j_machine_interface m =
     map_option (\<lambda>p. JObj [(''network'', JStr (mi_network m)), (''ip'', p)]) (j_ip (mi_ip m))"

definition j_interfaces :: "machine_interface list \<Rightarrow> json option" where
  "j_interfaces ms = (if ms = [] then Some JNull else map_option JArr (all_some (map j_machine_interface ms)))"

record machine_mount =
  mm_name :: string
  mm_mountpoint :: string

definition j_machine_mount :: "machine_mount \<Rightarrow> json" where
  "j_machine_mount m = JObj [(''name'', JStr (mm_name m)), (''mountpoint'', JStr (mm_mountpoint m))]"

record machine_capacity =
  mc_cpu :: u8
  mc_memory :: u64

definition j_machine_capacity :: "machine_capacity \<Rightarrow> json" where
  "j_machine_capacity c = JObj [(''cpu'', j_nat (mc_cpu c)), (''memory'', j_nat (mc_memory c))]"

record machine_network =
  mn_public_ip :: string
  mn_planetary :: bool
  mn_mycelium :: "mycelium_ip option"
  mn_interfaces :: "machine_interface list"

definition j_machine_network :: "machine_network \<Rightarrow> json option" where
  "j_machine_network n =
     map_option (\<lambda>is. JObj ([(''public_ip'', JStr (mn_public_ip n)), (''planetary'', JBool (mn_planetary n))]
        @ (case mn_mycelium n of None \<Rightarrow> [] | Some m \<Rightarrow> [(''mycelium'', j_mycelium_ip m)])
        @ [(''interfaces'', is)]))
       (j_interfaces (mn_interfaces n))"

record zmachine =
  zm_flist :: string
  zm_network :: machine_network
  zm_size :: u64
  zm_capacity :: machine_capacity
  zm_mounts :: "machine_mount list"
  zm_entrypoint :: string
  zm_env :: "(string \<times> string) list"
  zm_corex :: bool
  zm_gpu :: "string list"

definition j_zmachine :: "zmachine \<Rightarrow> json option" where
  "j_zmachine z =
     map_option (\<lambda>n. JObj ([(''flist'', JStr (zm_flist z)), (''network'', n), (''size'', j_nat (zm_size z)),
         (''compute_capacity'', j_machine_capacity (zm_capacity z)), (''mounts'', j_list j_machine_mount (zm_mounts z)),
         (''entrypoint'', JStr (zm_entrypoint z)), (''env'', j_string_map (zm_env z)), (''corex'', JBool (zm_corex z))]
        @ (if zm_gpu z = [] then [] else [(''gpu'', JArr (map JStr (zm_gpu z)))])))
       (j_machine_network (zm_network z))"

record machine_network_light =
  ml_mycelium :: "mycelium_ip option"
  ml_interfaces :: "machine_interface list"

definition j_machine_network_light :: "machine_network_light \<Rightarrow> json option" where
  "j_machine_network_light n =
     map_option (\<lambda>is. JObj ((case ml_mycelium n of None \<Rightarrow> [] | Some m \<Rightarrow> [(''mycelium'', j_mycelium_ip m)])
        @ [(''interfaces'', is)]))
       (j_interfaces (ml_interfaces n))"

record zmachine_light =
  zl_flist :: string
  zl_network :: machine_network_light
  zl_size :: u64
  zl_capacity :: machine_capacity
  zl_mounts :: "machine_mount list"
  zl_entrypoint :: string
  zl_env :: "(string \<times> string) list"
  zl_corex :: bool
  zl_gpu :: "string list"

definition j_zmachine_light :: "zmachine_light \<Rightarrow> json option" where
  "j_zmachine_light z =
     map_option (\<lambda>n. JObj ([(''flist'', JStr (zl_flist z)), (''network'', n), (''size'', j_nat (zl_size z)),
         (''compute_capacity'', j_machine_capacity (zl_capacity z)), (''mounts'', j_list j_machine_mount (zl_mounts z)),
         (''entrypoint'', JStr (zl_entrypoint z)), (''env'', j_string_map (zl_env z)), (''corex'', JBool (zl_corex z))]
        @ (if zl_gpu z = [] then [] else [(''gpu'', JArr (map JStr (zl_gpu z)))])))
       (j_machine_network_light (zl_network z))"

text \<open>\<open>GPU.Parts\<close>: slot, vendor and device.\<close>

definition gpu_parts :: "string \<Rightarrow> string + (string \<times> string \<times> string)" where
  "gpu_parts g =
     (case split_at CHR ''/'' g of
        [slot, vendor, device] \<Rightarrow> Inr (slot, vendor, device)
      | _ \<Rightarrow> Inl (''invalid GPU id format '' @ CHR 0x27 # g @ [CHR 0x27]))"

lemma gpu_parts_iff:
  "gpu_parts g = Inr (s, v, d) \<longleftrightarrow> g = s @ CHR ''/'' # v @ CHR ''/'' # d
     \<and> CHR ''/'' \<notin> set s \<and> CHR ''/'' \<notin> set v \<and> CHR ''/'' \<notin> set d"
proof
  assume a: "gpu_parts g = Inr (s, v, d)"
  then have p: "split_at CHR ''/'' g = [s, v, d]"
    by (auto simp: gpu_parts_def split: list.splits)
  then show "g = s @ CHR ''/'' # v @ CHR ''/'' # d \<and> CHR ''/'' \<notin> set s \<and> CHR ''/'' \<notin> set v \<and> CHR ''/'' \<notin> set d"
    using join_split [of "CHR ''/''" g] split_at_parts [of _ "CHR ''/''" g] by auto
next
  assume "g = s @ CHR ''/'' # v @ CHR ''/'' # d \<and> CHR ''/'' \<notin> set s \<and> CHR ''/'' \<notin> set v \<and> CHR ''/'' \<notin> set d"
  then show "gpu_parts g = Inr (s, v, d)"
    by (simp add: gpu_parts_def split_at_append split_at_plain)
qed

text \<open>Results of a machine, with the fallback on the older name of the planetary address.\<close>

record zmachine_result =
  mr_id :: string
  mr_ip :: string
  mr_planetary :: string
  mr_mycelium :: string
  mr_console :: string

record zmachine_result_json = zmachine_result +
  mr_ygg :: string

definition zmachine_result_fields :: "zmachine_result_json setter" where
  "zmachine_result_fields =
     field ''id'' as_str (\<lambda>x r. r\<lparr>mr_id := x\<rparr>) (field ''ip'' as_str (\<lambda>x r. r\<lparr>mr_ip := x\<rparr>)
    (field ''ygg_ip'' as_str (\<lambda>x r. r\<lparr>mr_ygg := x\<rparr>) (field ''planetary_ip'' as_str (\<lambda>x r. r\<lparr>mr_planetary := x\<rparr>)
    (field ''mycelium_ip'' as_str (\<lambda>x r. r\<lparr>mr_mycelium := x\<rparr>) (field ''console_url'' as_str (\<lambda>x r. r\<lparr>mr_console := x\<rparr>)
       no_field)))))"

definition unmarshal_zmachine_result :: "string \<Rightarrow> zmachine_result option" where
  "unmarshal_zmachine_result data =
     (case parse_json data of
        None \<Rightarrow> None
      | Some j \<Rightarrow>
          (case as_struct zmachine_result_fields
                  \<lparr>mr_id = [], mr_ip = [], mr_planetary = [], mr_mycelium = [], mr_console = [], mr_ygg = []\<rparr> j of
             None \<Rightarrow> None
           | Some d \<Rightarrow> Some \<lparr>mr_id = mr_id d, mr_ip = mr_ip d,
               mr_planetary = (if mr_ygg d \<noteq> [] then mr_ygg d else mr_planetary d),
               mr_mycelium = mr_mycelium d, mr_console = mr_console d\<rparr>))"

record zmachine_light_result =
  lr_id :: string
  lr_ip :: string
  lr_mycelium :: string
  lr_console :: string

definition zmachine_light_result_fields :: "zmachine_light_result setter" where
  "zmachine_light_result_fields =
     field ''id'' as_str (\<lambda>x r. r\<lparr>lr_id := x\<rparr>) (field ''ip'' as_str (\<lambda>x r. r\<lparr>lr_ip := x\<rparr>)
    (field ''mycelium_ip'' as_str (\<lambda>x r. r\<lparr>lr_mycelium := x\<rparr>) (field ''console_url'' as_str (\<lambda>x r. r\<lparr>lr_console := x\<rparr>)
       no_field)))"

definition unmarshal_struct :: "'r setter \<Rightarrow> 'r \<Rightarrow> string \<Rightarrow> 'r option" where
  "unmarshal_struct st zero data = (case parse_json data of None \<Rightarrow> None | Some j \<Rightarrow> as_struct st zero j)"

text \<open>Disks, public addresses, logs and 0-db namespaces.\<close>

definition j_zmount :: "u64 \<Rightarrow> json" where
  "j_zmount sz = JObj [(''size'', j_nat sz)]"

record public_ip =
  pip_v4 :: bool
  pip_v6 :: bool

definition j_public_ip :: "public_ip \<Rightarrow> json" where
  "j_public_ip p = JObj [(''v4'', JBool (pip_v4 p)), (''v6'', JBool (pip_v6 p))]"

record zlogs =
  zlg_zmachine :: string
  zlg_output :: string

definition j_zlogs :: "zlogs \<Rightarrow> json" where
  "j_zlogs z = JObj [(''zmachine'', JStr (zlg_zmachine z)), (''output'', JStr (zlg_output z))]"

record zdb_data =
  zd_size :: u64
  zd_mode :: string
  zd_password :: string
  zd_public :: bool

definition j_zdb :: "zdb_data \<Rightarrow> json" where
  "j_zdb z = JObj [(''size'', j_nat (zd_size z)), (''mode'', JStr (zd_mode z)),
     (''password'', JStr (zd_password z)), (''public'', JBool (zd_public z))]"

record zdb_result =
  zr_namespace :: string
  zr_ips :: "string list"
  zr_port :: u64

definition zdb_result_fields :: "zdb_result setter" where
  "zdb_result_fields =
     field ''Namespace'' as_str (\<lambda>x r. r\<lparr>zr_namespace := x\<rparr>) (field ''IPs'' (as_list as_str) (\<lambda>x r. r\<lparr>zr_ips := x\<rparr>)
    (field ''Port'' as_nat (\<lambda>x r. r\<lparr>zr_port := x\<rparr>) no_field))"

text \<open>Networks.\<close>

record mycelium =
  my_key :: "u8 list"
  my_peers :: "string list"

definition j_mycelium :: "mycelium \<Rightarrow> json" where
  "j_mycelium m = JObj [(''hex_key'', j_bytes (my_key m)), (''peers'', j_list JStr (my_peers m))]"

record peer =
  pr_subnet :: ip_net
  pr_public_key :: string
  pr_allowed_ips :: "ip_net list"
  pr_endpoint :: string

definition j_peer :: "peer \<Rightarrow> json" where
  "j_peer p = JObj [(''subnet'', j_ip_net (pr_subnet p)), (''wireguard_public_key'', JStr (pr_public_key p)),
     (''allowed_ips'', j_list j_ip_net (pr_allowed_ips p)), (''endpoint'', JStr (pr_endpoint p))]"

record network =
  nw_ip_range :: ip_net
  nw_subnet :: ip_net
  nw_private_key :: string
  nw_listen_port :: u16
  nw_peers :: "peer list"
  nw_mycelium :: "mycelium option"

text \<open>The code always makes the slice of peers, so that an empty one is written as an empty array.\<close>

definition j_network :: "network \<Rightarrow> json" where
  "j_network n = JObj ([(''ip_range'', j_ip_net (nw_ip_range n)), (''subnet'', j_ip_net (nw_subnet n)),
       (''wireguard_private_key'', JStr (nw_private_key n)), (''wireguard_listen_port'', j_nat (nw_listen_port n)),
       (''peers'', JArr (map j_peer (nw_peers n)))]
     @ (case nw_mycelium n of None \<Rightarrow> [] | Some m \<Rightarrow> [(''mycelium'', j_mycelium m)]))"

record network_light =
  nl_subnet :: ip_net
  nl_mycelium :: mycelium

definition j_network_light :: "network_light \<Rightarrow> json" where
  "j_network_light n = JObj [(''subnet'', j_ip_net (nl_subnet n)), (''mycelium'', j_mycelium (nl_mycelium n))]"

text \<open>Quantum-safe file systems.\<close>

record encryption =
  en_algorithm :: string
  en_key :: "u8 list"

definition j_encryption :: "encryption \<Rightarrow> json" where
  "j_encryption e = JObj [(''algorithm'', JStr (en_algorithm e)), (''key'', j_key (en_key e))]"

record zdb_backend =
  zb_address :: string
  zb_namespace :: string
  zb_password :: string

definition j_zdb_backend :: "zdb_backend \<Rightarrow> json" where
  "j_zdb_backend b = JObj [(''address'', JStr (zb_address b)), (''namespace'', JStr (zb_namespace b)),
     (''password'', JStr (zb_password b))]"

record qs_config =
  qc_prefix :: string
  qc_encryption :: encryption
  qc_backends :: "zdb_backend list"

record qs_meta =
  qm_type :: string
  qm_config :: qs_config

definition j_qs_meta :: "qs_meta \<Rightarrow> json" where
  "j_qs_meta m = JObj [(''type'', JStr (qm_type m)), (''config'', JObj [(''prefix'', JStr (qc_prefix (qm_config m))),
      (''encryption'', j_encryption (qc_encryption (qm_config m))),
      (''backends'', j_list j_zdb_backend (qc_backends (qm_config m)))])]"

text \<open>A group is its list of backends, the compression its algorithm.\<close>

record qsfs_config =
  qf_minimal_shards :: u32
  qf_expected_shards :: u32
  qf_redundant_groups :: u32
  qf_redundant_nodes :: u32
  qf_max_zdb_data_dir_size :: u32
  qf_encryption :: encryption
  qf_meta :: qs_meta
  qf_groups :: "zdb_backend list list"
  qf_compression :: string

record qsfs =
  qs_cache :: u64
  qs_config :: qsfs_config

definition j_qsfs :: "qsfs \<Rightarrow> json" where
  "j_qsfs q = (let c = qs_config q in
     JObj [(''cache'', j_nat (qs_cache q)), (''config'', JObj
      [(''minimal_shards'', j_nat (qf_minimal_shards c)), (''expected_shards'', j_nat (qf_expected_shards c)),
       (''redundant_groups'', j_nat (qf_redundant_groups c)), (''redundant_nodes'', j_nat (qf_redundant_nodes c)),
       (''max_zdb_data_dir_size'', j_nat (qf_max_zdb_data_dir_size c)), (''encryption'', j_encryption (qf_encryption c)),
       (''meta'', j_qs_meta (qf_meta c)),
       (''groups'', j_list (\<lambda>g. JObj [(''backends'', j_list j_zdb_backend g)]) (qf_groups c)),
       (''compression'', JObj [(''algorithm'', JStr (qf_compression c))])])])"

record qsfs_result =
  qr_path :: string
  qr_metrics :: string

definition qsfs_result_fields :: "qsfs_result setter" where
  "qsfs_result_fields =
     field ''path'' as_str (\<lambda>x r. r\<lparr>qr_path := x\<rparr>) (field ''metrics_endpoint'' as_str (\<lambda>x r. r\<lparr>qr_metrics := x\<rparr>) no_field)"

section \<open>Workloads and deployments\<close>

record result =
  rs_created :: int
  rs_state :: string
  rs_error :: string
  rs_data :: string

definition zero_result :: result where
  "zero_result = \<lparr>rs_created = 0, rs_state = [], rs_error = [], rs_data = []\<rparr>"

record workload =
  wl_version :: u32
  wl_name :: string
  wl_type :: string
  wl_data :: string
  wl_metadata :: string
  wl_description :: string
  wl_result :: result

definition with_results :: "workload \<Rightarrow> result \<Rightarrow> workload" where
  "with_results w r = w\<lparr>wl_result := r\<rparr>"

text \<open>\<open>MustMarshal\<close>: \<open>None\<close> is the panic.\<close>

definition must_marshal :: "json option \<Rightarrow> string option" where
  "must_marshal j = map_option json_text j"

record signature_request =
  sq_twin :: u32
  sq_required :: bool
  sq_weight :: u64

record signature =
  sg_twin :: u32
  sg_signature :: string
  sg_type :: string

record signature_requirement =
  sr_requests :: "signature_request list"
  sr_weight_required :: u64
  sr_signatures :: "signature list"
  sr_style :: string

record deployment =
  dl_version :: u32
  dl_twin :: u32
  dl_contract :: u64
  dl_metadata :: string
  dl_description :: string
  dl_expiration :: int
  dl_requirement :: signature_requirement
  dl_workloads :: "workload list"

definition new_grid_deployment :: "u32 \<Rightarrow> workload list \<Rightarrow> deployment" where
  "new_grid_deployment twin workloads =
     \<lparr>dl_version = 0, dl_twin = twin, dl_contract = 0, dl_metadata = [], dl_description = [], dl_expiration = 0,
      dl_requirement = \<lparr>sr_requests = [\<lparr>sq_twin = twin, sq_required = False, sq_weight = 1\<rparr>], sr_weight_required = 1,
        sr_signatures = [], sr_style = []\<rparr>,
      dl_workloads = workloads\<rparr>"

section \<open>The external packages\<close>

record gt_result =
  gr_created :: int
  gr_state :: string
  gr_error :: string
  gr_data :: string

record gt_workload =
  gw_version :: u32
  gw_name :: string
  gw_type :: string
  gw_data :: string
  gw_metadata :: string
  gw_description :: string
  gw_result :: gt_result

record gt_deployment =
  gd_version :: u32
  gd_twin :: u32
  gd_contract :: u64
  gd_metadata :: string
  gd_description :: string
  gd_expiration :: int
  gd_requirement :: signature_requirement
  gd_workloads :: "gt_workload list"

text \<open>What \<open>WorkloadData\<close> returns a pointer to; the structs have the fields of the package's own ones.\<close>

record gateway_base =
  gb_tls_passthrough :: bool
  gb_backends :: "string list"
  gb_network :: "string option"

datatype gt_payload =
    PZMount u64 | PVolume u64 | PZMachine zmachine | PZMachineLight zmachine_light | PNetwork network
  | PNetworkLight network_light | PZdb zdb_data | PQsfs qsfs | PZlogs zlogs | PPublicIP public_ip
  | PGatewayName gateway_base string | PGatewayFQDN gateway_base string | POther

record signer =
  sk_sign :: "u8 list \<Rightarrow> string + u8 list"
  sk_type :: string

text \<open>
  The methods of \<open>gridtypes\<close> the code calls. \<open>gt_sign\<close> returns its error and the deployment it changed; the
  challenge methods return their error and the bytes written to the writer; the capacity comes with an error beside it.
\<close>

record gt_api =
  gt_name_string :: "string \<Rightarrow> string"
  gt_type_string :: "string \<Rightarrow> string"
  gt_valid :: "gt_deployment \<Rightarrow> string option"
  gt_sign :: "u32 \<Rightarrow> signer \<Rightarrow> gt_deployment \<Rightarrow> string option \<times> gt_deployment"
  gt_challenge_hash :: "gt_deployment \<Rightarrow> string + u8 list"
  gt_challenge :: "gt_deployment \<Rightarrow> string option \<times> u8 list"
  gt_get :: "gt_deployment \<Rightarrow> string \<Rightarrow> string + (gt_workload \<times> string)"
  gt_by_type :: "gt_deployment \<Rightarrow> string list \<Rightarrow> (gt_workload \<times> string) list"
  gt_workload_challenge :: "gt_workload \<Rightarrow> string option \<times> u8 list"
  gt_capacity :: "gt_workload \<Rightarrow> zos_capacity \<times> string option"
  gt_workload_data :: "gt_workload \<Rightarrow> string + gt_payload"

section \<open>Conversions\<close>

definition from_zos_workload :: "gt_api \<Rightarrow> gt_workload \<Rightarrow> workload" where
  "from_zos_workload api w =
     \<lparr>wl_version = gw_version w, wl_name = gt_name_string api (gw_name w), wl_type = gt_type_string api (gw_type w),
      wl_data = gw_data w, wl_metadata = gw_metadata w, wl_description = gw_description w,
      wl_result = \<lparr>rs_created = gr_created (gw_result w), rs_state = gr_state (gw_result w),
        rs_error = gr_error (gw_result w), rs_data = gr_data (gw_result w)\<rparr>\<rparr>"

definition from_zos_workload4 :: "gt_api \<Rightarrow> gt_workload \<Rightarrow> workload" where
  "from_zos_workload4 api w =
     \<lparr>wl_version = gw_version w, wl_name = gt_name_string api (gw_name w), wl_type = gt_type_string api (gw_type w),
      wl_data = gw_data w, wl_metadata = gw_metadata w, wl_description = gw_description w,
      wl_result = \<lparr>rs_created = gr_created (gw_result w), rs_state = gr_state (gw_result w),
        rs_error = gr_error (gw_result w), rs_data = gr_data (gw_result w)\<rparr>\<rparr>"

definition workload3 :: "workload \<Rightarrow> gt_workload" where
  "workload3 w =
     \<lparr>gw_version = wl_version w, gw_name = wl_name w, gw_type = wl_type w, gw_data = wl_data w,
      gw_metadata = wl_metadata w, gw_description = wl_description w,
      gw_result = \<lparr>gr_created = rs_created (wl_result w), gr_state = rs_state (wl_result w),
        gr_error = rs_error (wl_result w), gr_data = rs_data (wl_result w)\<rparr>\<rparr>"

definition workload4 :: "workload \<Rightarrow> gt_workload" where
  "workload4 w =
     \<lparr>gw_version = wl_version w, gw_name = wl_name w, gw_type = wl_type w, gw_data = wl_data w,
      gw_metadata = wl_metadata w, gw_description = wl_description w,
      gw_result = \<lparr>gr_created = rs_created (wl_result w), gr_state = rs_state (wl_result w),
        gr_error = rs_error (wl_result w), gr_data = rs_data (wl_result w)\<rparr>\<rparr>"

definition zos_deployment :: "deployment \<Rightarrow> gt_deployment" where
  "zos_deployment d = (let s = dl_requirement d in
     \<lparr>gd_version = dl_version d, gd_twin = dl_twin d, gd_contract = dl_contract d, gd_metadata = dl_metadata d,
      gd_description = dl_description d, gd_expiration = dl_expiration d,
      gd_requirement = \<lparr>sr_requests = sr_requests s, sr_weight_required = sr_weight_required s,
        sr_signatures = sr_signatures s, sr_style = sr_style s\<rparr>,
      gd_workloads = map workload3 (dl_workloads d)\<rparr>)"

definition zos_deployment4 :: "deployment \<Rightarrow> gt_deployment" where
  "zos_deployment4 d = (let s = dl_requirement d in
     \<lparr>gd_version = dl_version d, gd_twin = dl_twin d, gd_contract = dl_contract d, gd_metadata = dl_metadata d,
      gd_description = dl_description d, gd_expiration = dl_expiration d,
      gd_requirement = \<lparr>sr_requests = sr_requests s, sr_weight_required = sr_weight_required s,
        sr_signatures = sr_signatures s, sr_style = sr_style s\<rparr>,
      gd_workloads = map workload4 (dl_workloads d)\<rparr>)"

section \<open>Operations\<close>

definition is_light :: "workload \<Rightarrow> bool" where
  "is_light w = (wl_type w = NetworkLightType \<or> wl_type w = ZMachineLightType)"

definition has_light :: "deployment \<Rightarrow> bool" where
  "has_light d = list_ex is_light (dl_workloads d)"

definition dl_valid :: "gt_api \<Rightarrow> gt_api \<Rightarrow> deployment \<Rightarrow> string option" where
  "dl_valid api3 api4 d =
     (if has_light d then gt_valid api4 (zos_deployment4 d) else gt_valid api3 (zos_deployment d))"

definition copy_signature :: "deployment \<Rightarrow> gt_deployment \<Rightarrow> deployment" where
  "copy_signature d dl = d\<lparr>dl_requirement := (dl_requirement d)\<lparr>sr_signatures :=
     foldl (\<lambda>acc s. acc @ [\<lparr>sg_twin = sg_twin s, sg_signature = sg_signature s, sg_type = sg_type s\<rparr>])
       (sr_signatures (dl_requirement d)) (sr_signatures (gd_requirement dl))\<rparr>\<rparr>"

definition copy_signature4 :: "deployment \<Rightarrow> gt_deployment \<Rightarrow> deployment" where
  "copy_signature4 d dl = d\<lparr>dl_requirement := (dl_requirement d)\<lparr>sr_signatures :=
     foldl (\<lambda>acc s. acc @ [\<lparr>sg_twin = sg_twin s, sg_signature = sg_signature s, sg_type = sg_type s\<rparr>])
       (sr_signatures (dl_requirement d)) (sr_signatures (gd_requirement dl))\<rparr>\<rparr>"

definition dl_sign :: "gt_api \<Rightarrow> gt_api \<Rightarrow> u32 \<Rightarrow> signer \<Rightarrow> deployment \<Rightarrow> string option \<times> deployment" where
  "dl_sign api3 api4 twin sk d =
     (if has_light d then
        (case gt_sign api4 twin sk (zos_deployment4 d) of
           (Some e, _) \<Rightarrow> (Some e, d)
         | (None, dl) \<Rightarrow> (None, copy_signature4 d dl))
      else
        (case gt_sign api3 twin sk (zos_deployment d) of
           (Some e, _) \<Rightarrow> (Some e, d)
         | (None, dl) \<Rightarrow> (None, copy_signature d dl)))"

definition dl_challenge_hash :: "gt_api \<Rightarrow> gt_api \<Rightarrow> deployment \<Rightarrow> string + u8 list" where
  "dl_challenge_hash api3 api4 d =
     (if has_light d then gt_challenge_hash api4 (zos_deployment4 d) else gt_challenge_hash api3 (zos_deployment d))"

definition dl_challenge :: "gt_api \<Rightarrow> gt_api \<Rightarrow> deployment \<Rightarrow> string option \<times> u8 list" where
  "dl_challenge api3 api4 d =
     (if has_light d then gt_challenge api4 (zos_deployment4 d) else gt_challenge api3 (zos_deployment d))"

text \<open>A workload with its id is a pair.\<close>

definition dl_get :: "gt_api \<Rightarrow> gt_api \<Rightarrow> deployment \<Rightarrow> string \<Rightarrow> string + (workload \<times> string)" where
  "dl_get api3 api4 d name =
     (if has_light d then
        (case gt_get api4 (zos_deployment4 d) name of
           Inl e \<Rightarrow> Inl e | Inr (w, i) \<Rightarrow> Inr (from_zos_workload4 api4 w, i))
      else
        (case gt_get api3 (zos_deployment d) name of
           Inl e \<Rightarrow> Inl e | Inr (w, i) \<Rightarrow> Inr (from_zos_workload api3 w, i)))"

definition dl_by_type :: "gt_api \<Rightarrow> gt_api \<Rightarrow> deployment \<Rightarrow> string list \<Rightarrow> (workload \<times> string) list" where
  "dl_by_type api3 api4 d types =
     concat (map (\<lambda>wl. if is_light wl
               then map (\<lambda>(w, i). (from_zos_workload4 api4 w, i)) (gt_by_type api4 (zos_deployment4 d) types)
               else [])
             (dl_workloads d))
     @ map (\<lambda>(w, i). (from_zos_workload api3 w, i)) (gt_by_type api3 (zos_deployment d) types)"

definition wl_challenge :: "gt_api \<Rightarrow> gt_api \<Rightarrow> workload \<Rightarrow> string option \<times> u8 list" where
  "wl_challenge api3 api4 w =
     (if is_light w then gt_workload_challenge api4 (workload4 w) else gt_workload_challenge api3 (workload3 w))"

definition wl_capacity :: "gt_api \<Rightarrow> gt_api \<Rightarrow> workload \<Rightarrow> zos_capacity \<times> string option" where
  "wl_capacity api3 api4 w =
     (let (c, e) = (if is_light w then gt_capacity api4 (workload4 w) else gt_capacity api3 (workload3 w))
      in (\<lparr>zc_cru = zc_cru c, zc_sru = zc_sru c, zc_hru = zc_hru c, zc_mru = zc_mru c, zc_ipv4u = zc_ipv4u c\<rparr>, e))"

section \<open>Payload of a workload\<close>

definition payload_of :: "gt_api \<Rightarrow> gt_workload \<Rightarrow> string + gt_payload" where
  "payload_of api w = (case gt_workload_data api w of Inl e \<Rightarrow> Inl (''failed to get workload data: '' @ e) | Inr p \<Rightarrow> Inr p)"

definition network_workload :: "gt_api \<Rightarrow> workload \<Rightarrow> string + network" where
  "network_workload api3 w =
     (case payload_of api3 (workload3 w) of
        Inl e \<Rightarrow> Inl e
      | Inr (PNetwork n) \<Rightarrow> Inr n
      | Inr _ \<Rightarrow> Inl ''could not create network workload from data'')"

definition zmachine_workload :: "gt_api \<Rightarrow> workload \<Rightarrow> string + zmachine" where
  "zmachine_workload api3 w =
     (case payload_of api3 (workload3 w) of
        Inl e \<Rightarrow> Inl e
      | Inr (PZMachine n) \<Rightarrow> Inr n
      | Inr _ \<Rightarrow> Inl ''could not create zmachine workload from data'')"

definition network_light_workload :: "gt_api \<Rightarrow> workload \<Rightarrow> string + network_light" where
  "network_light_workload api4 w =
     (case payload_of api4 (workload4 w) of
        Inl e \<Rightarrow> Inl e
      | Inr (PNetworkLight n) \<Rightarrow> Inr n
      | Inr _ \<Rightarrow> Inl ''could not create network workload from data'')"

definition zmachine_light_workload :: "gt_api \<Rightarrow> workload \<Rightarrow> string + zmachine_light" where
  "zmachine_light_workload api4 w =
     (case payload_of api4 (workload4 w) of
        Inl e \<Rightarrow> Inl e
      | Inr (PZMachineLight n) \<Rightarrow> Inr n
      | Inr _ \<Rightarrow> Inl ''could not create zmachine workload from data'')"

section \<open>Facts\<close>

text \<open>The documented behaviour of the two \<open>String\<close> methods: a \<open>Name\<close> and a \<open>WorkloadType\<close> are texts.\<close>

definition names_are_texts :: "gt_api \<Rightarrow> bool" where
  "names_are_texts api = (gt_name_string api = id \<and> gt_type_string api = id)"

lemma from_workload3 [simp]: "names_are_texts api \<Longrightarrow> from_zos_workload api (workload3 w) = w"
  by (simp add: names_are_texts_def from_zos_workload_def workload3_def)

lemma from_workload4 [simp]: "names_are_texts api \<Longrightarrow> from_zos_workload4 api (workload4 w) = w"
  by (simp add: names_are_texts_def from_zos_workload4_def workload4_def)

lemma workload3_from [simp]: "names_are_texts api \<Longrightarrow> workload3 (from_zos_workload api g) = g"
  by (simp add: names_are_texts_def from_zos_workload_def workload3_def)

lemma append_copies: "foldl (\<lambda>acc s. acc @ [\<lparr>sg_twin = sg_twin s, sg_signature = sg_signature s, sg_type = sg_type s\<rparr>]) a b = a @ b"
  by (induction b arbitrary: a) auto

lemma copy_signature_append:
  "copy_signature d dl = d\<lparr>dl_requirement := (dl_requirement d)\<lparr>sr_signatures :=
     sr_signatures (dl_requirement d) @ sr_signatures (gd_requirement dl)\<rparr>\<rparr>"
  "copy_signature4 d dl = d\<lparr>dl_requirement := (dl_requirement d)\<lparr>sr_signatures :=
     sr_signatures (dl_requirement d) @ sr_signatures (gd_requirement dl)\<rparr>\<rparr>"
  by (simp_all add: copy_signature_def copy_signature4_def append_copies)

text \<open>The package a deployment is handed to, and the deployment as that package sees it.\<close>

definition package_of :: "gt_api \<Rightarrow> gt_api \<Rightarrow> deployment \<Rightarrow> gt_api" where
  "package_of api3 api4 d = (if has_light d then api4 else api3)"

lemma zos_deployment4_eq: "zos_deployment4 d = zos_deployment d"
proof -
  have "workload4 = workload3" by (rule ext) (simp add: workload3_def workload4_def)
  then show ?thesis by (simp add: zos_deployment_def zos_deployment4_def)
qed

lemma zos_deployment_signatures [simp]:
  "sr_signatures (gd_requirement (zos_deployment d)) = sr_signatures (dl_requirement d)"
  by (simp add: zos_deployment_def Let_def)

lemma dl_sign_cases:
  "dl_sign api3 api4 twin sk d = (None, d') \<longleftrightarrow>
     (\<exists>dl. gt_sign (package_of api3 api4 d) twin sk (zos_deployment d) = (None, dl)
       \<and> d' = d\<lparr>dl_requirement := (dl_requirement d)\<lparr>sr_signatures :=
            sr_signatures (dl_requirement d) @ sr_signatures (gd_requirement dl)\<rparr>\<rparr>)"
  by (auto simp: dl_sign_def package_of_def copy_signature_append zos_deployment4_eq split: prod.splits option.splits)

lemma length_by_type:
  "length (dl_by_type api3 api4 d ts) =
     length (filter is_light (dl_workloads d)) * length (gt_by_type api4 (zos_deployment d) ts)
     + length (gt_by_type api3 (zos_deployment d) ts)"
proof -
  have "length (concat (map (\<lambda>wl. if is_light wl then map f ys else []) ws)) = length (filter is_light ws) * length ys"
    for f :: "gt_workload \<times> string \<Rightarrow> workload \<times> string" and ys ws
    by (induction ws) auto
  then show ?thesis by (simp add: dl_by_type_def zos_deployment4_eq)
qed

end
