(* ===== verification/WlCommon.thy ===== *)
theory WlCommon
  imports ZosTypes "HOL-Library.AList"
begin

text \<open>
  What the workload types of \<open>grid-client/workloads\<close> share: the check of names, membership in and deletion from a
  slice, the deployment data kept as metadata. An error is its text; a Go map is a list of pairs with distinct keys,
  in an arbitrary order (the order a \<open>range\<close> visits it).
\<close>

section \<open>Errors\<close>

text \<open>\<open>errors.Wrap(err, msg)\<close>.\<close>

definition wrap_err :: "string \<Rightarrow> string option \<Rightarrow> string option" where
  "wrap_err msg e = map_option (\<lambda>t. msg @ '': '' @ t) e"

definition wrap_sum :: "string \<Rightarrow> string + 'a \<Rightarrow> string + 'a" where
  "wrap_sum msg r = (case r of Inl t \<Rightarrow> Inl (msg @ '': '' @ t) | Inr x \<Rightarrow> Inr x)"

text \<open>\<open>'%s'\<close>.\<close>

definition quoted :: "string \<Rightarrow> string" where
  "quoted s = CHR 0x27 # s @ [CHR 0x27]"

text \<open>The checks of a function in order: the first error is returned.\<close>

fun first_err :: "string option list \<Rightarrow> string option" where
  "first_err [] = None"
| "first_err (None # cs) = first_err cs"
| "first_err (Some e # cs) = Some e"

lemma first_err_None [simp]: "first_err cs = None \<longleftrightarrow> (\<forall>c \<in> set cs. c = None)"
  by (induction cs rule: first_err.induct) auto

lemma wrap_err_None [simp]: "wrap_err m e = None \<longleftrightarrow> e = None"
  by (simp add: wrap_err_def)

definition check :: "bool \<Rightarrow> string \<Rightarrow> string option" where
  "check bad msg = (if bad then Some msg else None)"

lemma check_None [simp]: "check bad msg = None \<longleftrightarrow> \<not> bad"
  by (simp add: check_def)

section \<open>Slices\<close>

fun contains :: "'a list \<Rightarrow> 'a \<Rightarrow> bool" where
  "contains [] y = False"
| "contains (x # xs) y = (if y = x then True else contains xs y)"

fun delete_elem :: "'a list \<Rightarrow> 'a \<Rightarrow> 'a list" where
  "delete_elem [] y = []"
| "delete_elem (x # xs) y = (if x = y then xs else x # delete_elem xs y)"

lemma contains_set [simp]: "contains xs y \<longleftrightarrow> y \<in> set xs"
  by (induction xs) auto

lemma delete_elem_remove1 [simp]: "delete_elem xs y = remove1 y xs"
  by (induction xs) auto

section \<open>Names\<close>

definition name_char :: "char \<Rightarrow> bool" where
  "name_char c = (let n = of_char c :: nat in
     97 \<le> n \<and> n \<le> 122 \<or> 65 \<le> n \<and> n \<le> 90 \<or> 48 \<le> n \<and> n \<le> 57 \<or> c = CHR ''_'')"

definition name_match :: "string \<Rightarrow> bool" where
  "name_match s = (s \<noteq> [] \<and> list_all name_char s)"

definition validate_name :: "string \<Rightarrow> string option" where
  "validate_name name =
     (if length name = 0 then Some ''name cannot be empty''
      else if length name > 36 then Some ''name cannot exceed 36 characters''
      else if \<not> name_match name then Some ''unsupported character in workload name''
      else None)"

lemma validate_name_None:
  "validate_name s = None \<longleftrightarrow> 1 \<le> length s \<and> length s \<le> 36 \<and> list_all name_char s"
  by (cases s) (auto simp: validate_name_def name_match_def)

section \<open>Deployment data\<close>

definition Version3 :: int where "Version3 = 3"
definition Version4 :: int where "Version4 = 4"

record deployment_data =
  dd_version :: int
  dd_type :: string
  dd_name :: string
  dd_project_name :: string

definition j_deployment_data :: "deployment_data \<Rightarrow> json" where
  "j_deployment_data d = JObj [(''version'', j_int (dd_version d)), (''type'', JStr (dd_type d)),
     (''name'', JStr (dd_name d)), (''projectName'', JStr (dd_project_name d))]"

definition deployment_data_fields :: "deployment_data setter" where
  "deployment_data_fields =
     field ''version'' as_int64 (\<lambda>x d. d\<lparr>dd_version := x\<rparr>) (field ''type'' as_str (\<lambda>x d. d\<lparr>dd_type := x\<rparr>)
    (field ''name'' as_str (\<lambda>x d. d\<lparr>dd_name := x\<rparr>) (field ''projectName'' as_str (\<lambda>x d. d\<lparr>dd_project_name := x\<rparr>)
       no_field)))"

definition parse_deployment_data :: "string \<Rightarrow> deployment_data option" where
  "parse_deployment_data s =
     unmarshal_struct deployment_data_fields \<lparr>dd_version = 0, dd_type = [], dd_name = [], dd_project_name = []\<rparr> s"

lemma as_int64_small: "0 \<le> i \<Longrightarrow> i < 2 ^ 63 \<Longrightarrow> as_int64 (j_int i) = Some i"
proof -
  assume i: "0 \<le> i" "i < 2 ^ 63"
  have "hd (dec_text (nat i)) \<noteq> CHR ''-''"
    using char_digit_None [of "hd (dec_text (nat i))" "nat i"] hd_in_set [OF dec_text_not_Nil [of "nat i"]]
    by (auto simp: char_digit_def Let_def)
  then show ?thesis using i by (simp add: as_int64_def j_int_def int_text_def Let_def)
qed

lemma json_ok_int [simp]: "0 \<le> i \<Longrightarrow> json_ok (j_int i)"
  by (simp add: j_int_def int_text_def)

lemma parse_deployment_data_text:
  assumes "0 \<le> dd_version d" "dd_version d < 2 ^ 63"
  shows "parse_deployment_data (json_text (j_deployment_data d)) = Some d"
proof -
  have "parse_json (json_text (j_deployment_data d)) = Some (j_deployment_data d)"
    using assms by (intro parse_json_text) (simp add: j_deployment_data_def)
  moreover have "as_struct deployment_data_fields \<lparr>dd_version = 0, dd_type = [], dd_name = [], dd_project_name = []\<rparr>
      (j_deployment_data d) = Some d"
    using assms as_int64_small [of "dd_version d"]
    by (simp add: as_struct_def j_deployment_data_def deployment_data_fields_def field_def key_is_def lower_char_def Let_def
       j_int_def as_str_def)
  ultimately show ?thesis by (simp add: parse_deployment_data_def unmarshal_struct_def)
qed

end
