(* ===== verification/WlTypes.thy ===== *)
theory WlTypes
  imports WlCommon
begin

text \<open>
  Disks, volumes, 0-db namespaces, logs, public addresses and quantum-safe file systems as workloads
  (\<open>grid-client/workloads\<close>): for each the record, its validation, the workload it is sent as, and the record read
  back from a workload. Reading goes through \<open>WorkloadData\<close> of the zos package and, when that fails, of the zos4
  package, whose results have other types than the ones the code then tests for. Lemmas: sizes are read back when they
  are in range, and what the fallback can and cannot yield.
\<close>

record wl_env =
  we_api3 :: gt_api
  we_api4 :: gt_api
  we_parse_ip6 :: "string \<Rightarrow> ip option"
  we_checksum :: "string \<Rightarrow> string + string"
  we_download_ok :: "string \<Rightarrow> bool"
  we_md5 :: "u8 list \<Rightarrow> u8 list"
  we_public_ip_result :: "string \<Rightarrow> string + ip_net \<times> ip_net"
  we_megabyte :: u64
  we_gigabyte :: u64

text \<open>
  The payload: of a type of zos, or (\<open>None\<close>) of a type of zos4, which no test for a type of zos accepts.
\<close>

definition old_payload :: "wl_env \<Rightarrow> workload \<Rightarrow> string + gt_payload option" where
  "old_payload env wl =
     (case gt_workload_data (we_api3 env) (workload3 wl) of
        Inr p \<Rightarrow> Inr (Some p)
      | Inl _ \<Rightarrow>
          (case gt_workload_data (we_api4 env) (workload4 wl) of
             Inl e \<Rightarrow> Inl (''failed to get workload data: '' @ e)
           | Inr _ \<Rightarrow> Inr None))"

section \<open>Disks and volumes\<close>

record disk =
  dk_name :: string
  dk_size_gb :: u64
  dk_description :: string

definition new_disk_from_workload :: "wl_env \<Rightarrow> workload \<Rightarrow> string + disk" where
  "new_disk_from_workload env wl =
     (case old_payload env wl of
        Inl e \<Rightarrow> Inl e
      | Inr (Some (PZMount sz)) \<Rightarrow>
          Inr \<lparr>dk_name = wl_name wl, dk_size_gb = sz div Gigabyte, dk_description = wl_description wl\<rparr>
      | Inr _ \<Rightarrow> Inl ''could not create disk workload from data'')"

definition disk_workload :: "disk \<Rightarrow> workload" where
  "disk_workload d = \<lparr>wl_version = 0, wl_name = dk_name d, wl_type = ZMountType,
     wl_data = json_text (j_zmount (dk_size_gb d * Gigabyte)), wl_metadata = [], wl_description = dk_description d,
     wl_result = zero_result\<rparr>"

definition disk_validate :: "disk \<Rightarrow> string option" where
  "disk_validate d = first_err
     [wrap_err ''disk name is invalid'' (validate_name (dk_name d)),
      check (dk_size_gb d = 0) ''disk size should be a positive integer not zero'']"

record volume =
  vo_name :: string
  vo_size_gb :: u64
  vo_description :: string

definition new_volume_from_workload :: "wl_env \<Rightarrow> workload \<Rightarrow> string + volume" where
  "new_volume_from_workload env wl =
     (case old_payload env wl of
        Inl e \<Rightarrow> Inl e
      | Inr (Some (PVolume sz)) \<Rightarrow>
          Inr \<lparr>vo_name = wl_name wl, vo_size_gb = sz div Gigabyte, vo_description = wl_description wl\<rparr>
      | Inr _ \<Rightarrow> Inl ''could not create volume workload from data'')"

definition volume_workload :: "volume \<Rightarrow> workload" where
  "volume_workload v = \<lparr>wl_version = 0, wl_name = vo_name v, wl_type = VolumeType,
     wl_data = json_text (j_zmount (vo_size_gb v * Gigabyte)), wl_metadata = [], wl_description = vo_description v,
     wl_result = zero_result\<rparr>"

definition volume_validate :: "volume \<Rightarrow> string option" where
  "volume_validate v = first_err
     [wrap_err ''volume name is invalid'' (validate_name (vo_name v)),
      check (vo_size_gb v = 0) ''volume size should be a positive integer not zero'']"

section \<open>0-db namespaces\<close>

record zdb =
  zdb_name :: string
  zdb_password :: string
  zdb_public :: bool
  zdb_size_gb :: u64
  zdb_description :: string
  zdb_mode :: string
  zdb_ips :: "string list"
  zdb_port :: u32
  zdb_namespace :: string

definition new_zdb_from_workload :: "wl_env \<Rightarrow> workload \<Rightarrow> string + zdb" where
  "new_zdb_from_workload env wl =
     (case old_payload env wl of
        Inl e \<Rightarrow> Inl e
      | Inr (Some (PZdb d)) \<Rightarrow>
          (case unmarshal_struct zdb_result_fields \<lparr>zr_namespace = [], zr_ips = [], zr_port = 0\<rparr> (rs_data (wl_result wl)) of
             None \<Rightarrow> Inl ''failed to get zdb result''
           | Some r \<Rightarrow>
               Inr \<lparr>zdb_name = wl_name wl, zdb_password = zd_password d, zdb_public = zd_public d,
                 zdb_size_gb = zd_size d div Gigabyte, zdb_description = wl_description wl, zdb_mode = zd_mode d,
                 zdb_ips = zr_ips r, zdb_port = ucast (zr_port r), zdb_namespace = zr_namespace r\<rparr>)
      | Inr _ \<Rightarrow> Inl ''could not create zdb workload from data'')"

definition zdb_workload :: "zdb \<Rightarrow> workload" where
  "zdb_workload z = \<lparr>wl_version = 0, wl_name = zdb_name z, wl_type = ZDBType,
     wl_data = json_text (j_zdb \<lparr>zd_size = zdb_size_gb z * Gigabyte, zd_mode = zdb_mode z,
       zd_password = zdb_password z, zd_public = zdb_public z\<rparr>),
     wl_metadata = [], wl_description = zdb_description z, wl_result = zero_result\<rparr>"

definition zdb_validate :: "zdb \<Rightarrow> string option" where
  "zdb_validate z = first_err
     [wrap_err ''zdb name is invalid'' (validate_name (zdb_name z)),
      check (zdb_size_gb z = 0) ''zdb size should be a positive integer not zero'',
      check (zdb_mode z \<noteq> ''user'' \<and> zdb_mode z \<noteq> ''seq'') (''invalid zdb mode '' @ quoted (zdb_mode z))]"

section \<open>Logs and public addresses\<close>

record zlog =
  zlog_zmachine :: string
  zlog_output :: string

text \<open>The bytes of a text; the name of a log is the hash of where it goes.\<close>

definition text_bytes :: "string \<Rightarrow> u8 list" where
  "text_bytes s = map (\<lambda>c. of_nat (of_char c)) s"

definition zlog_workload :: "wl_env \<Rightarrow> zlog \<Rightarrow> workload" where
  "zlog_workload env z = \<lparr>wl_version = 0, wl_name = hex_encode (we_md5 env (text_bytes (zlog_output z))),
     wl_type = ZLogsType,
     wl_data = json_text (j_zlogs \<lparr>zlg_zmachine = zlog_zmachine z, zlg_output = zlog_output z\<rparr>),
     wl_metadata = [], wl_description = [], wl_result = zero_result\<rparr>"

definition zlog_validate :: "zlog \<Rightarrow> string option" where
  "zlog_validate z = wrap_err ''zmachine name is invalid'' (validate_name (zlog_zmachine z))"

text \<open>The logs of a machine among the workloads of a deployment that are fine.\<close>

definition deployment_zlogs :: "wl_env \<Rightarrow> deployment \<Rightarrow> string \<Rightarrow> zlog list" where
  "deployment_zlogs env dl name =
     concat (map (\<lambda>(wl, _).
       if \<not> is_okay (rs_state (wl_result wl)) then []
       else (case old_payload env wl of
               Inr (Some (PZlogs d)) \<Rightarrow>
                 if zlg_zmachine d \<noteq> name then [] else [\<lparr>zlog_zmachine = name, zlog_output = zlg_output d\<rparr>]
             | _ \<Rightarrow> []))
       (dl_by_type (we_api3 env) (we_api4 env) dl [ZLogsType]))"

definition public_ip_workload :: "string \<Rightarrow> bool \<Rightarrow> bool \<Rightarrow> workload" where
  "public_ip_workload name ipv4 ipv6 = \<lparr>wl_version = 0, wl_name = name, wl_type = PublicIPType,
     wl_data = json_text (j_public_ip \<lparr>pip_v4 = ipv4, pip_v6 = ipv6\<rparr>), wl_metadata = [], wl_description = [],
     wl_result = zero_result\<rparr>"

section \<open>Quantum-safe file systems\<close>

record qsfs_metadata =
  qd_type :: string
  qd_prefix :: string
  qd_encryption_algorithm :: string
  qd_encryption_key :: string
  qd_backends :: "zdb_backend list"

record qsfs_wl =
  qw_name :: string
  qw_description :: string
  qw_cache :: int
  qw_minimal_shards :: u32
  qw_expected_shards :: u32
  qw_redundant_groups :: u32
  qw_redundant_nodes :: u32
  qw_max_zdb_data_dir_size :: u32
  qw_encryption_algorithm :: string
  qw_encryption_key :: string
  qw_compression_algorithm :: string
  qw_metadata :: qsfs_metadata
  qw_groups :: "zdb_backend list list"
  qw_metrics_endpoint :: string

definition qsfs_validate :: "qsfs_wl \<Rightarrow> string option" where
  "qsfs_validate q = first_err
     [wrap_err ''qsfs name is invalid'' (validate_name (qw_name q)),
      check (qw_minimal_shards q > qw_expected_shards q) ''minimal shards can't be greater than expected shards'']"

fun zos_backends :: "zdb_backend list \<Rightarrow> zdb_backend list" where
  "zos_backends [] = []"
| "zos_backends (b # bs) = b # zos_backends bs"

fun zos_groups :: "zdb_backend list list \<Rightarrow> zdb_backend list list" where
  "zos_groups [] = []"
| "zos_groups (g # gs) = zos_backends g # zos_groups gs"

text \<open>Both keys are decoded from the key of the data, and both algorithms are the one of the data.\<close>

definition qsfs_workload :: "qsfs_wl \<Rightarrow> string + workload" where
  "qsfs_workload q =
     (case hex_decode (qw_encryption_key q) of
        None \<Rightarrow> Inl ''encoding/hex: invalid''
      | Some k \<Rightarrow>
     (case hex_decode (qw_encryption_key q) of
        None \<Rightarrow> Inl ''encoding/hex: invalid''
      | Some mk \<Rightarrow>
          Inr \<lparr>wl_version = 0, wl_name = qw_name q, wl_type = QuantumSafeFSType,
            wl_data = json_text (j_qsfs \<lparr>qs_cache = word_of_int (qw_cache q) * Megabyte,
              qs_config = \<lparr>qf_minimal_shards = qw_minimal_shards q, qf_expected_shards = qw_expected_shards q,
                qf_redundant_groups = qw_redundant_groups q, qf_redundant_nodes = qw_redundant_nodes q,
                qf_max_zdb_data_dir_size = qw_max_zdb_data_dir_size q,
                qf_encryption = \<lparr>en_algorithm = qw_encryption_algorithm q, en_key = k\<rparr>,
                qf_meta = \<lparr>qm_type = qd_type (qw_metadata q),
                  qm_config = \<lparr>qc_prefix = qd_prefix (qw_metadata q),
                    qc_encryption = \<lparr>en_algorithm = qw_encryption_algorithm q, en_key = mk\<rparr>,
                    qc_backends = zos_backends (qd_backends (qw_metadata q))\<rparr>\<rparr>,
                qf_groups = zos_groups (qw_groups q),
                qf_compression = qw_compression_algorithm q\<rparr>\<rparr>),
            wl_metadata = [], wl_description = qw_description q, wl_result = zero_result\<rparr>))"

definition result_of_qsfs :: "workload \<Rightarrow> qsfs_result option" where
  "result_of_qsfs wl =
     (if wl_result wl = zero_result then Some \<lparr>qr_path = [], qr_metrics = []\<rparr>
      else unmarshal_struct qsfs_result_fields \<lparr>qr_path = [], qr_metrics = []\<rparr> (rs_data (wl_result wl)))"

definition new_qsfs_from_workload :: "wl_env \<Rightarrow> workload \<Rightarrow> string + qsfs_wl" where
  "new_qsfs_from_workload env wl =
     (case old_payload env wl of
        Inl e \<Rightarrow> Inl e
      | Inr (Some (PQsfs d)) \<Rightarrow>
          (case result_of_qsfs wl of
             None \<Rightarrow> Inl ''invalid result''
           | Some r \<Rightarrow>
               (let c = qs_config d; m = qf_meta c in
                Inr \<lparr>qw_name = wl_name wl, qw_description = wl_description wl,
                  qw_cache = sint (qs_cache d) sdiv int (unat Megabyte),
                  qw_minimal_shards = qf_minimal_shards c, qw_expected_shards = qf_expected_shards c,
                  qw_redundant_groups = qf_redundant_groups c, qw_redundant_nodes = qf_redundant_nodes c,
                  qw_max_zdb_data_dir_size = qf_max_zdb_data_dir_size c,
                  qw_encryption_algorithm = en_algorithm (qf_encryption c),
                  qw_encryption_key = hex_encode (en_key (qf_encryption c)),
                  qw_compression_algorithm = qf_compression c,
                  qw_metadata = \<lparr>qd_type = qm_type m, qd_prefix = qc_prefix (qm_config m),
                    qd_encryption_algorithm = en_algorithm (qc_encryption (qm_config m)),
                    qd_encryption_key = hex_encode (en_key (qc_encryption (qm_config m))),
                    qd_backends = zos_backends (qc_backends (qm_config m))\<rparr>,
                  qw_groups = zos_groups (qf_groups c), qw_metrics_endpoint = qr_metrics r\<rparr>))
      | Inr _ \<Rightarrow> Inl ''could not create qsfs workload from data'')"

definition qsfs_update_from_workload :: "qsfs_wl \<Rightarrow> workload option \<Rightarrow> bool \<times> qsfs_wl" where
  "qsfs_update_from_workload q wl =
     (case wl of
        None \<Rightarrow> (True, q\<lparr>qw_metrics_endpoint := []\<rparr>)
      | Some w \<Rightarrow>
          (case result_of_qsfs w of
             None \<Rightarrow> (False, q)
           | Some r \<Rightarrow> (True, q\<lparr>qw_metrics_endpoint := qr_metrics r\<rparr>)))"

lemma zos_backends_id [simp]: "zos_backends bs = bs"
  by (induction bs) auto

lemma zos_groups_id [simp]: "zos_groups gs = gs"
  by (induction gs) auto

section \<open>Facts\<close>

lemma gigabyte_div: "unat x < 2 ^ 34 \<Longrightarrow> (x * Gigabyte) div Gigabyte = x" for x :: u64
proof -
  assume x: "unat x < 2 ^ 34"
  have g: "unat Gigabyte = 2 ^ 30" by (simp add: unit_defs)
  have "unat x * 2 ^ 30 < 2 ^ 64" using x by simp
  then have "unat (x * Gigabyte) = unat x * 2 ^ 30" using g by (simp add: unat_word_ariths)
  then have "unat ((x * Gigabyte) div Gigabyte) = unat x" using g by (simp add: unat_div)
  then show ?thesis by (simp only: word_unat_eq_iff)
qed

text \<open>When the zos package cannot decode a workload, reading fails, whatever the zos4 package decodes.\<close>

lemma fallback_fails:
  assumes "gt_workload_data (we_api3 env) (workload3 wl) = Inl e"
  shows "\<exists>e1 e2 e3 e4. new_disk_from_workload env wl = Inl e1 \<and> new_volume_from_workload env wl = Inl e2
    \<and> new_zdb_from_workload env wl = Inl e3 \<and> new_qsfs_from_workload env wl = Inl e4"
  using assms
  by (auto simp: new_disk_from_workload_def new_volume_from_workload_def new_zdb_from_workload_def
      new_qsfs_from_workload_def old_payload_def split: sum.splits)

text \<open>The keys and algorithms of the metadata are not sent: the workload depends on those of the data only.\<close>

lemma qsfs_metadata_key_ignored:
  "qsfs_workload (q\<lparr>qw_metadata := (qw_metadata q)\<lparr>qd_encryption_key := k, qd_encryption_algorithm := a\<rparr>\<rparr>)
     = qsfs_workload q"
  by (cases "hex_decode (qw_encryption_key q)") (simp_all add: qsfs_workload_def)

end
