(* ===== verification/WlVm.thy ===== *)
theory WlVm
  imports WlTypes
begin

text \<open>
  Virtual machines and light virtual machines (\<open>grid-client/workloads/vm.go\<close>, \<open>vm_light.go\<close>, \<open>flist.go\<close>): records,
  validation, the workloads they are sent as, the records read back, the assignment of private addresses. The
  requests on the flist hub and the decoding of the external result of a public address are arguments; a panic
  is \<open>None\<close>. Lemmas: the validation's verdict, the least root disk, the assignment of a host id.
\<close>

record mount =
  mt_name :: string
  mt_mount_point :: string

definition mount_validate :: "mount \<Rightarrow> string option" where
  "mount_validate m = wrap_err ''mount name is invalid'' (validate_name (mt_name m))"

record vm =
  vm_name :: string
  vm_node_id :: u32
  vm_network_name :: string
  vm_description :: string
  vm_flist :: string
  vm_flist_checksum :: string
  vm_entrypoint :: string
  vm_public_ip :: bool
  vm_public_ip6 :: bool
  vm_planetary :: bool
  vm_corex :: bool
  vm_ip :: string
  vm_mycelium_seed :: "u8 list"
  vm_gpus :: "string list"
  vm_cpu :: u8
  vm_memory_mb :: u64
  vm_rootfs_mb :: u64
  vm_mounts :: "mount list"
  vm_zlogs :: "zlog list"
  vm_env_vars :: "(string \<times> string) list"
  vm_computed_ip :: string
  vm_computed_ip6 :: string
  vm_planetary_ip :: string
  vm_mycelium_ip :: string
  vm_console_url :: string

record vm_light =
  vl_name :: string
  vl_node_id :: u32
  vl_network_name :: string
  vl_description :: string
  vl_flist :: string
  vl_flist_checksum :: string
  vl_entrypoint :: string
  vl_corex :: bool
  vl_ip :: string
  vl_mycelium_seed :: "u8 list"
  vl_gpus :: "string list"
  vl_cpu :: u8
  vl_memory_mb :: u64
  vl_rootfs_mb :: u64
  vl_mounts :: "mount list"
  vl_zlogs :: "zlog list"
  vl_env_vars :: "(string \<times> string) list"
  vl_mycelium_ip :: string
  vl_console_url :: string

section \<open>Flists\<close>

text \<open>\<open>path.Ext\<close>: from the last dot of the last element on.\<close>

fun ext_rev :: "string \<Rightarrow> string \<Rightarrow> string" where
  "ext_rev [] acc = []"
| "ext_rev (c # s) acc = (if c = CHR ''/'' then [] else if c = CHR ''.'' then c # acc else ext_rev s (c # acc))"

definition path_ext :: "string \<Rightarrow> string" where
  "path_ext p = ext_rev (rev p) []"

definition flist_checksum_url :: "string \<Rightarrow> string" where
  "flist_checksum_url url = url @ ''.md5''"

definition space_char :: "char \<Rightarrow> bool" where
  "space_char c = (c = CHR '' '' \<or> c = CHR 0x09 \<or> c = CHR 0x0A \<or> c = CHR 0x0B \<or> c = CHR 0x0C \<or> c = CHR 0x0D)"

definition trim_space :: "string \<Rightarrow> string" where
  "trim_space s = rev (dropWhile space_char (rev (dropWhile space_char s)))"

text \<open>The body of the answer to the request, or the error.\<close>

definition get_flist_checksum :: "wl_env \<Rightarrow> string \<Rightarrow> string + string" where
  "get_flist_checksum env url = (case we_checksum env (flist_checksum_url url) of Inl e \<Rightarrow> Inl e | Inr b \<Rightarrow> Inr (trim_space b))"

definition validate_flist :: "wl_env \<Rightarrow> string \<Rightarrow> string \<Rightarrow> string option" where
  "validate_flist env url checksum =
     (if path_ext url \<noteq> ''.fl'' \<and> path_ext url \<noteq> ''.flist''
      then Some (''flist: '' @ quoted url @ '' is invalid, should have a valid flist extension'')
      else case (if checksum = [] then None
                 else (case get_flist_checksum env url of
                         Inl e \<Rightarrow> Some (''failed to get flist checksum: '' @ e)
                       | Inr c \<Rightarrow> check (checksum \<noteq> c) (''passed checksum '' @ checksum @ '' does not match '' @ c
                              @ '' returned from '' @ flist_checksum_url url))) of
        Some e \<Rightarrow> Some e
      | None \<Rightarrow> check (\<not> we_download_ok env url) (''flist: '' @ quoted url @ '' is invalid, failed to download flist''))"

section \<open>Validation\<close>

definition min_root_size :: "wl_env \<Rightarrow> u8 \<Rightarrow> u64 \<Rightarrow> u64" where
  "min_root_size env cpu memoryMB =
     (let sru = ucast cpu * memoryMB div (8 * we_gigabyte env) in
      if sru = 0 then 500 * we_megabyte env else 2 * we_gigabyte env)"

definition seed_error :: "u8 list \<Rightarrow> string option" where
  "seed_error seed = check (length seed \<noteq> MyceliumIPSeedLen \<and> length seed \<noteq> 0)
     (''invalid mycelium ip seed length '' @ dec_text (length seed) @ '' must be '' @ dec_text MyceliumIPSeedLen @ '' or empty'')"

definition gpu_error :: "string \<Rightarrow> string option" where
  "gpu_error g = (case gpu_parts g of Inl e \<Rightarrow> Some (''failed to validate GPUs: '' @ e) | Inr _ \<Rightarrow> None)"

definition vm_validate :: "wl_env \<Rightarrow> vm \<Rightarrow> string option" where
  "vm_validate env vm = first_err
     ([wrap_err ''virtual machine name is invalid'' (validate_name (vm_name vm)),
       wrap_err ''network name is invalid'' (validate_name (vm_network_name vm)),
       check (vm_node_id vm = 0) ''node ID should be a positive integer not zero'',
       check (length (trim_space (vm_ip vm)) \<noteq> 0 \<and> parse_ip (we_parse_ip6 env) (vm_ip vm) = []) (''invalid ip '' @ quoted (vm_ip vm)),
       wrap_err ''flist is invalid'' (validate_flist env (vm_flist vm) (vm_flist_checksum vm)),
       check (vm_cpu vm < 1 \<or> vm_cpu vm > 32) ''CPUs must be more than or equal to 1 and less than or equal to 32'',
       check (vm_memory_mb vm < 250) ''memory capacity can't be less that 250 MB'',
       check (vm_rootfs_mb vm \<noteq> 0 \<and> vm_rootfs_mb vm * we_megabyte env < min_root_size env (vm_cpu vm) (vm_memory_mb vm))
         (''rootfs size can't be less than '' @ dec_text (unat (min_root_size env (vm_cpu vm) (vm_memory_mb vm))) @ ''. Set to 0 for minimum'')]
      @ map gpu_error (vm_gpus vm) @ [seed_error (vm_mycelium_seed vm)]
      @ map (\<lambda>z. wrap_err ''invalid zlog'' (zlog_validate z)) (vm_zlogs vm)
      @ map (\<lambda>m. wrap_err ''invalid mount'' (mount_validate m)) (vm_mounts vm))"

definition vm_light_validate :: "wl_env \<Rightarrow> vm_light \<Rightarrow> string option" where
  "vm_light_validate env vm = first_err
     ([wrap_err ''virtual machine name is invalid'' (validate_name (vl_name vm)),
       wrap_err ''network name is invalid'' (validate_name (vl_network_name vm)),
       check (vl_node_id vm = 0) ''node ID should be a positive integer not zero'',
       check (length (trim_space (vl_ip vm)) \<noteq> 0 \<and> parse_ip (we_parse_ip6 env) (vl_ip vm) = []) (''invalid ip '' @ quoted (vl_ip vm)),
       wrap_err ''flist is invalid'' (validate_flist env (vl_flist vm) (vl_flist_checksum vm)),
       check (vl_cpu vm < 1 \<or> vl_cpu vm > 32) ''CPUs must be more than or equal to 1 and less than or equal to 32'',
       check (vl_memory_mb vm < 250) ''memory capacity can't be less that 250 MB'',
       check (vl_rootfs_mb vm \<noteq> 0 \<and> vl_rootfs_mb vm * we_megabyte env < min_root_size env (vl_cpu vm) (vl_memory_mb vm))
         (''rootfs size can't be less than '' @ dec_text (unat (min_root_size env (vl_cpu vm) (vl_memory_mb vm))) @ ''. Set to 0 for minimum'')]
      @ map gpu_error (vl_gpus vm) @ [seed_error (vl_mycelium_seed vm)]
      @ map (\<lambda>z. wrap_err ''invalid zlog'' (zlog_validate z)) (vl_zlogs vm)
      @ map (\<lambda>m. wrap_err ''invalid mount'' (mount_validate m)) (vl_mounts vm))"

section \<open>Workloads of a machine\<close>

definition mycelium_of :: "string \<Rightarrow> u8 list \<Rightarrow> mycelium_ip option" where
  "mycelium_of network seed = (if seed = [] then None else Some \<lparr>mip_network = network, mip_seed = seed\<rparr>)"

definition to_machine_mounts :: "mount list \<Rightarrow> machine_mount list" where
  "to_machine_mounts ms = map (\<lambda>m. \<lparr>mm_name = mt_name m, mm_mountpoint = mt_mount_point m\<rparr>) ms"

definition from_machine_mounts :: "machine_mount list \<Rightarrow> mount list" where
  "from_machine_mounts ms = map (\<lambda>m. \<lparr>mt_name = mm_name m, mt_mount_point = mm_mountpoint m\<rparr>) ms"

definition vm_machine :: "wl_env \<Rightarrow> vm \<Rightarrow> string \<Rightarrow> zmachine" where
  "vm_machine env vm publicIPName =
     \<lparr>zm_flist = vm_flist vm,
      zm_network = \<lparr>mn_public_ip = publicIPName, mn_planetary = vm_planetary vm,
        mn_mycelium = mycelium_of (vm_network_name vm) (vm_mycelium_seed vm),
        mn_interfaces = [\<lparr>mi_network = vm_network_name vm, mi_ip = parse_ip (we_parse_ip6 env) (vm_ip vm)\<rparr>]\<rparr>,
      zm_size = vm_rootfs_mb vm * we_megabyte env,
      zm_capacity = \<lparr>mc_cpu = vm_cpu vm, mc_memory = vm_memory_mb vm * we_megabyte env\<rparr>,
      zm_mounts = to_machine_mounts (vm_mounts vm), zm_entrypoint = vm_entrypoint vm, zm_env = vm_env_vars vm,
      zm_corex = vm_corex vm, zm_gpu = vm_gpus vm\<rparr>"

definition vm_workloads :: "wl_env \<Rightarrow> vm \<Rightarrow> workload list option" where
  "vm_workloads env vm =
     (let publicIPName = (if vm_public_ip vm \<or> vm_public_ip6 vm then vm_name vm @ ''ip'' else []) in
      case must_marshal (j_zmachine (vm_machine env vm publicIPName)) of
        None \<Rightarrow> None
      | Some data \<Rightarrow>
          Some ((if vm_public_ip vm \<or> vm_public_ip6 vm
                 then [public_ip_workload publicIPName (vm_public_ip vm) (vm_public_ip6 vm)] else [])
            @ map (zlog_workload env) (vm_zlogs vm)
            @ [\<lparr>wl_version = 0, wl_name = vm_name vm, wl_type = ZMachineType, wl_data = data, wl_metadata = [],
                wl_description = vm_description vm, wl_result = zero_result\<rparr>]))"

definition vm_light_machine :: "wl_env \<Rightarrow> vm_light \<Rightarrow> zmachine_light" where
  "vm_light_machine env vm =
     \<lparr>zl_flist = vl_flist vm,
      zl_network = \<lparr>ml_mycelium = mycelium_of (vl_network_name vm) (vl_mycelium_seed vm),
        ml_interfaces = [\<lparr>mi_network = vl_network_name vm, mi_ip = parse_ip (we_parse_ip6 env) (vl_ip vm)\<rparr>]\<rparr>,
      zl_size = vl_rootfs_mb vm * Megabyte,
      zl_capacity = \<lparr>mc_cpu = vl_cpu vm, mc_memory = vl_memory_mb vm * Megabyte\<rparr>,
      zl_mounts = to_machine_mounts (vl_mounts vm), zl_entrypoint = vl_entrypoint vm, zl_env = vl_env_vars vm,
      zl_corex = vl_corex vm, zl_gpu = vl_gpus vm\<rparr>"

definition vm_light_workloads :: "wl_env \<Rightarrow> vm_light \<Rightarrow> workload list option" where
  "vm_light_workloads env vm =
     (case must_marshal (j_zmachine_light (vm_light_machine env vm)) of
        None \<Rightarrow> None
      | Some data \<Rightarrow>
          Some (map (zlog_workload env) (vl_zlogs vm)
            @ [\<lparr>wl_version = 0, wl_name = vl_name vm, wl_type = ZMachineLightType, wl_data = data, wl_metadata = [],
                wl_description = vl_description vm, wl_result = zero_result\<rparr>]))"

section \<open>Reading a machine back\<close>

text \<open>\<open>pubIP\<close>: the zero result when the workload of the address is not fine.\<close>

definition public_ip_of :: "wl_env \<Rightarrow> deployment \<Rightarrow> string \<Rightarrow> string + ip_net \<times> ip_net" where
  "public_ip_of env dl name =
     (case dl_get (we_api3 env) (we_api4 env) dl name of
        Inl e \<Rightarrow> Inl e
      | Inr (wl, _) \<Rightarrow>
          if \<not> is_okay (rs_state (wl_result wl)) then Inr (nil_net, nil_net)
          else we_public_ip_result env (rs_data (wl_result wl)))"

definition seed_of :: "mycelium_ip option \<Rightarrow> u8 list" where
  "seed_of m = (case m of None \<Rightarrow> [] | Some x \<Rightarrow> mip_seed x)"

definition text_unless_nil :: "ip_net \<Rightarrow> string" where
  "text_unless_nil n = (if ip_net_nil n then [] else net_text n)"

definition new_vm_from_workload :: "wl_env \<Rightarrow> workload \<Rightarrow> deployment \<Rightarrow> u32 \<Rightarrow> (string + vm) option" where
  "new_vm_from_workload env wl dl nodeID =
     (case zmachine_workload (we_api3 env) wl of
        Inl _ \<Rightarrow> Some (Inl ''could not create zmachine workload from data'')
      | Inr data \<Rightarrow>
     (case unmarshal_zmachine_result (rs_data (wl_result wl)) of
        None \<Rightarrow> Some (Inl ''failed to get vm result'')
      | Some res \<Rightarrow>
     (case (if mn_public_ip (zm_network data) = [] then Inr (nil_net, nil_net)
            else public_ip_of env dl (mn_public_ip (zm_network data))) of
        Inl e \<Rightarrow> Some (Inl (''failed to get public ip workload: '' @ e))
      | Inr (p4, p6) \<Rightarrow>
     (case get_flist_checksum env (zm_flist data) of
        Inl e \<Rightarrow> Some (Inl (''failed to get flist checksum: '' @ e))
      | Inr checksum \<Rightarrow>
     (case mn_interfaces (zm_network data) of
        [] \<Rightarrow> None
      | i # _ \<Rightarrow>
          Some (Inr \<lparr>vm_name = wl_name wl, vm_node_id = nodeID, vm_network_name = mi_network i,
            vm_description = wl_description wl, vm_flist = zm_flist data, vm_flist_checksum = checksum,
            vm_entrypoint = zm_entrypoint data, vm_public_ip = (\<not> ip_net_nil p4), vm_public_ip6 = (\<not> ip_net_nil p6),
            vm_planetary = (mr_planetary res \<noteq> []), vm_corex = zm_corex data, vm_ip = ip_text (mi_ip i),
            vm_mycelium_seed = seed_of (mn_mycelium (zm_network data)), vm_gpus = zm_gpu data,
            vm_cpu = mc_cpu (zm_capacity data), vm_memory_mb = mc_memory (zm_capacity data) div we_megabyte env,
            vm_rootfs_mb = zm_size data div we_megabyte env, vm_mounts = from_machine_mounts (zm_mounts data),
            vm_zlogs = deployment_zlogs env dl (wl_name wl), vm_env_vars = zm_env data,
            vm_computed_ip = text_unless_nil p4, vm_computed_ip6 = text_unless_nil p6,
            vm_planetary_ip = mr_planetary res, vm_mycelium_ip = mr_mycelium res,
            vm_console_url = mr_console res\<rparr>))))))"

definition new_vm_light_from_workload :: "wl_env \<Rightarrow> workload \<Rightarrow> deployment \<Rightarrow> u32 \<Rightarrow> (string + vm_light) option" where
  "new_vm_light_from_workload env wl dl nodeID =
     (case zmachine_light_workload (we_api4 env) wl of
        Inl _ \<Rightarrow> Some (Inl ''could not create zmachine light workload from data'')
      | Inr data \<Rightarrow>
     (case unmarshal_struct zmachine_light_result_fields \<lparr>lr_id = [], lr_ip = [], lr_mycelium = [], lr_console = []\<rparr>
             (rs_data (wl_result wl)) of
        None \<Rightarrow> Some (Inl ''failed to get vm result'')
      | Some res \<Rightarrow>
     (case get_flist_checksum env (zl_flist data) of
        Inl e \<Rightarrow> Some (Inl (''failed to get flist checksum: '' @ e))
      | Inr checksum \<Rightarrow>
     (case ml_interfaces (zl_network data) of
        [] \<Rightarrow> None
      | i # _ \<Rightarrow>
          Some (Inr \<lparr>vl_name = wl_name wl, vl_node_id = nodeID, vl_network_name = mi_network i,
            vl_description = wl_description wl, vl_flist = zl_flist data, vl_flist_checksum = checksum,
            vl_entrypoint = zl_entrypoint data, vl_corex = zl_corex data, vl_ip = ip_text (mi_ip i),
            vl_mycelium_seed = seed_of (ml_mycelium (zl_network data)), vl_gpus = zl_gpu data,
            vl_cpu = mc_cpu (zl_capacity data), vl_memory_mb = mc_memory (zl_capacity data) div Megabyte,
            vl_rootfs_mb = zl_size data div Megabyte, vl_mounts = from_machine_mounts (zl_mounts data),
            vl_zlogs = deployment_zlogs env dl (wl_name wl), vl_env_vars = zl_env data,
            vl_mycelium_ip = lr_mycelium res, vl_console_url = lr_console res\<rparr>)))))"

section \<open>Order of logs and mounts\<close>

text \<open>The index of each name in the other machine, shifted below zero so that unknown names come last.\<close>

fun put_indexes :: "int \<Rightarrow> string list \<Rightarrow> (string \<Rightarrow> int) \<Rightarrow> string \<Rightarrow> int" where
  "put_indexes i [] f = f"
| "put_indexes i (n # ns) f = put_indexes (i + 1) ns (f(n := i))"

record vm_sorts =
  vs_zlogs :: "(zlog \<Rightarrow> int) \<Rightarrow> zlog list \<Rightarrow> zlog list"
  vs_mounts :: "(mount \<Rightarrow> int) \<Rightarrow> mount list \<Rightarrow> mount list"

definition vm_names :: "zlog list \<Rightarrow> mount list \<Rightarrow> string \<Rightarrow> int" where
  "vm_names zs ms =
     (let l = int (length zs + length ms) in
      put_indexes (- l) (map mt_name ms) (put_indexes (- l) (map zlog_output zs) (\<lambda>_. 0)))"

definition vm_load_from :: "vm_sorts \<Rightarrow> vm \<Rightarrow> vm \<Rightarrow> vm" where
  "vm_load_from srt vm vm2 =
     (let names = vm_names (vm_zlogs vm2) (vm_mounts vm2) in
      vm\<lparr>vm_zlogs := vs_zlogs srt (\<lambda>z. names (zlog_output z)) (vm_zlogs vm),
         vm_mounts := vs_mounts srt (\<lambda>m. names (mt_name m)) (vm_mounts vm),
         vm_flist_checksum := vm_flist_checksum vm2\<rparr>)"

definition vm_light_load_from :: "vm_sorts \<Rightarrow> vm_light \<Rightarrow> vm_light \<Rightarrow> vm_light" where
  "vm_light_load_from srt vm vm2 =
     (let names = vm_names (vl_zlogs vm2) (vl_mounts vm2) in
      vm\<lparr>vl_zlogs := vs_zlogs srt (\<lambda>z. names (zlog_output z)) (vl_zlogs vm),
         vl_mounts := vs_mounts srt (\<lambda>m. names (mt_name m)) (vl_mounts vm),
         vl_flist_checksum := vl_flist_checksum vm2\<rparr>)"

section \<open>Private addresses\<close>

lemma unat_down: "cur \<noteq> 254 \<Longrightarrow> unat (253 - cur :: u8) < unat (254 - cur)"
proof -
  assume "cur \<noteq> 254"
  then have "unat (254 - cur) \<noteq> 0" by (metis right_minus_eq unat_0 word_unat_eq_iff)
  moreover have "253 - cur = (254 - cur) - 1" by simp
  ultimately show ?thesis by (metis diff_less unat_minus_one less_numeral_extra(1) not_gr_zero unat_0)
qed

function free_host :: "u8 list \<Rightarrow> u8 \<Rightarrow> u8 option" where
  "free_host used cur =
     (if contains used cur then (if cur = 254 then None else free_host used (cur + 1)) else Some cur)"
  by pat_completeness auto

termination
  by (relation "measure (\<lambda>(_, c). unat (254 - c))") (auto simp: unat_down)

declare free_host.simps [simp del]

type_synonym used_hosts = "(string \<times> (u32 \<times> u8 list) list) list"

definition node_hosts :: "used_hosts \<Rightarrow> string \<Rightarrow> u32 \<Rightarrow> u8 list" where
  "node_hosts used network node =
     (case map_of used network of
        None \<Rightarrow> []
      | Some m \<Rightarrow> (case map_of m node of None \<Rightarrow> [] | Some hs \<Rightarrow> hs))"

text \<open>\<open>usedHosts[network][node] = append(...)\<close>: a panic when the network has no map.\<close>

definition add_host :: "used_hosts \<Rightarrow> string \<Rightarrow> u32 \<Rightarrow> u8 \<Rightarrow> used_hosts option" where
  "add_host used network node h =
     (case map_of used network of
        None \<Rightarrow> None
      | Some m \<Rightarrow> Some (AList.update network (AList.update node (node_hosts used network node @ [h]) m) used))"

text \<open>
  The address or the error, the bytes of the slice \<open>ip\<close> the caller passed (its last byte is overwritten) and the used
  hosts. The text of the range is used in an error only.
\<close>

definition assign_private_ip ::
  "(string \<Rightarrow> ip option) \<Rightarrow> string \<Rightarrow> string \<Rightarrow> string \<Rightarrow> string \<Rightarrow> u32 \<Rightarrow> ip_net \<Rightarrow> ip \<Rightarrow> u8 \<Rightarrow> used_hosts
   \<Rightarrow> ((string + string) \<times> ip \<times> used_hosts) option" where
  "assign_private_ip parse6 vmName vmIP network ipRange nodeID cidr ip curHostID used =
     (let given = To4 (parse_ip parse6 vmIP) in
      if given \<noteq> [] then
        (let h = given ! 3 in
         if contains (node_hosts used network nodeID) h then Some (Inr (ip_text given), ip, used)
         else if \<not> net_contains cidr given
         then Some (Inl (''deployment ip range '' @ quoted ipRange @ '' doesn't contain ip '' @ quoted (ip_text given)
           @ '' for vm '' @ quoted vmName), ip, used)
         else map_option (\<lambda>used'. (Inr (ip_text given), ip, used')) (add_host used network nodeID h))
      else
        (case free_host (node_hosts used network nodeID) curHostID of
           None \<Rightarrow> Some (Inl ''all 253 ips of the network are exhausted'', ip, used)
         | Some h \<Rightarrow>
             (case add_host used network nodeID h of
                None \<Rightarrow> None
              | Some used' \<Rightarrow>
                  if To4 ip = [] then None
                  else (let ip' = ip[length ip - 1 := h] in Some (Inr (ip_text (To4 ip')), ip', used')))))"

section \<open>Facts\<close>

text \<open>A host id that is free, or none when all the ids from the start to 254 are used.\<close>

lemma free_host_spec:
  "cur \<le> 254 \<Longrightarrow>
     (case free_host used cur of
        Some h \<Rightarrow> h \<notin> set used \<and> cur \<le> h \<and> h \<le> 254 \<and> (\<forall>x. cur \<le> x \<and> x < h \<longrightarrow> x \<in> set used)
      | None \<Rightarrow> \<forall>x. cur \<le> x \<and> x \<le> 254 \<longrightarrow> x \<in> set used)"
proof (induction used cur rule: free_host.induct)
  case (1 used cur)
  show ?case
  proof (cases "contains used cur \<and> cur \<noteq> 254")
    case True
    then have lt: "cur + 1 \<le> 254" "cur \<le> cur + 1" and step: "\<And>x. cur \<le> x \<Longrightarrow> x = cur \<or> cur + 1 \<le> x"
      using 1(2) by (auto simp: word_le_nat_alt unat_word_ariths word_unat_eq_iff)
    have "free_host used cur = free_host used (cur + 1)" using True by (subst free_host.simps) simp
    moreover have "case free_host used (cur + 1) of
        Some h \<Rightarrow> h \<notin> set used \<and> cur + 1 \<le> h \<and> h \<le> 254 \<and> (\<forall>x. cur + 1 \<le> x \<and> x < h \<longrightarrow> x \<in> set used)
      | None \<Rightarrow> \<forall>x. cur + 1 \<le> x \<and> x \<le> 254 \<longrightarrow> x \<in> set used"
      using 1(1) True lt by blast
    moreover have "cur \<in> set used" using True by simp
    ultimately show ?thesis using lt(2) step by (auto split: option.splits dest: order_trans)
  next
    case False
    then show ?thesis using 1(2) by (subst free_host.simps) (auto dest: order.antisym)
  qed
qed

text \<open>The least root disk is 500 MB for every machine whose memory is below 2^28 MB.\<close>

lemma min_root_size_const:
  assumes "we_gigabyte env = 2 ^ 30" and "cpu \<le> 32" and "mem < 2 ^ 28"
  shows "min_root_size env cpu mem = 500 * we_megabyte env"
proof -
  have c: "unat (ucast cpu :: u64) \<le> 32" using assms(2) using unat_u8_less [of cpu]
    by (simp add: word_le_nat_alt unsigned_ucast_eq take_bit_word_eq_self take_bit_nat_eq_self)
  have m: "unat mem < 2 ^ 28" using assms(3) by (simp add: word_less_nat_alt)
  have prod: "unat (ucast cpu :: u64) * unat mem < 2 ^ 33"
  proof -
    have "unat (ucast cpu :: u64) * unat mem \<le> 32 * (2 ^ 28 - 1)" using c m by (intro mult_le_mono) auto
    then show ?thesis by simp
  qed
  then have "unat (ucast cpu * mem) = unat (ucast cpu :: u64) * unat mem" by (simp add: unat_word_ariths)
  then have "unat (ucast cpu * mem div (8 * we_gigabyte env)) = 0"
    using prod assms(1) by (simp add: unat_div)
  then have "ucast cpu * mem div (8 * we_gigabyte env) = 0" by (metis unat_0 word_unat_eq_iff)
  then show ?thesis by (simp add: min_root_size_def)
qed

lemma trim_space_Nil: "trim_space s = [] \<longleftrightarrow> list_all space_char s"
proof -
  have "trim_space s = [] \<longleftrightarrow> (\<forall>c \<in> set (dropWhile space_char s). space_char c)"
    by (simp add: trim_space_def)
  also have "\<dots> \<longleftrightarrow> dropWhile space_char s = []"
    using hd_dropWhile [of space_char s] hd_in_set [of "dropWhile space_char s"] by (metis empty_iff list.set(1))
  finally show ?thesis by (simp add: list_all_iff)
qed

lemma gpu_error_None: "gpu_error g = None \<longleftrightarrow> (\<exists>p. gpu_parts g = Inr p)"
  by (auto simp: gpu_error_def split: sum.splits)

text \<open>What a valid machine is.\<close>

lemma vm_validate_None:
  "vm_validate env v = None \<longleftrightarrow>
     validate_name (vm_name v) = None \<and> validate_name (vm_network_name v) = None \<and> vm_node_id v \<noteq> 0
     \<and> (list_all space_char (vm_ip v) \<or> parse_ip (we_parse_ip6 env) (vm_ip v) \<noteq> [])
     \<and> validate_flist env (vm_flist v) (vm_flist_checksum v) = None
     \<and> 1 \<le> vm_cpu v \<and> vm_cpu v \<le> 32 \<and> 250 \<le> vm_memory_mb v
     \<and> (vm_rootfs_mb v = 0 \<or> min_root_size env (vm_cpu v) (vm_memory_mb v) \<le> vm_rootfs_mb v * we_megabyte env)
     \<and> (\<forall>g \<in> set (vm_gpus v). \<exists>p. gpu_parts g = Inr p)
     \<and> length (vm_mycelium_seed v) \<in> {0, MyceliumIPSeedLen}
     \<and> (\<forall>z \<in> set (vm_zlogs v). validate_name (zlog_zmachine z) = None)
     \<and> (\<forall>m \<in> set (vm_mounts v). validate_name (mt_name m) = None)"
  unfolding vm_validate_def first_err_None list.set set_append ball_Un ball_simps set_map
  by (simp only: wrap_err_None check_None gpu_error_None seed_error_def zlog_validate_def mount_validate_def trim_space_Nil
      not_less not_le length_0_conv de_Morgan_conj de_Morgan_disj not_not insert_iff empty_iff simp_thms conj_assoc) blast

end
