(* ===== verification/WlDeployment.thy ===== *)
theory WlDeployment
  imports WlVm
begin

text \<open>
  A deployment of machines, disks, databases and volumes on a node (\<open>grid-client/workloads/deployment.go\<close>) and the
  helpers on deployments (\<open>grid-client/deployer/deployment_utils.go\<close>). The hash writer is a fold over the bytes the
  challenge writes; a panic is \<open>None\<close>. Lemmas: the verdict of the validation, the names of the workloads sent, the
  comparison of names.
\<close>

record wl_deployment =
  wd_name :: string
  wd_node_id :: u32
  wd_solution_type :: string
  wd_solution_provider :: "u64 option"
  wd_network_name :: string
  wd_disks :: "disk list"
  wd_zdbs :: "zdb list"
  wd_vms :: "vm list"
  wd_vms_light :: "vm_light list"
  wd_qsfs :: "qsfs_wl list"
  wd_volumes :: "volume list"
  wd_node_deployment_id :: "(u32 \<times> u64) list"
  wd_contract_id :: u64
  wd_ip_range :: string

definition new_wl_deployment ::
  "string \<Rightarrow> u32 \<Rightarrow> string \<Rightarrow> u64 option \<Rightarrow> string \<Rightarrow> disk list \<Rightarrow> zdb list \<Rightarrow> vm list \<Rightarrow> vm_light list \<Rightarrow> qsfs_wl list
   \<Rightarrow> volume list \<Rightarrow> wl_deployment" where
  "new_wl_deployment name nodeID solutionType solutionProvider networkName disks zdbs vms vmsLight qsfs volumes =
     \<lparr>wd_name = name, wd_node_id = nodeID, wd_solution_type = solutionType, wd_solution_provider = solutionProvider,
      wd_network_name = networkName, wd_disks = disks, wd_zdbs = zdbs, wd_vms = vms, wd_vms_light = vmsLight,
      wd_qsfs = qsfs, wd_volumes = volumes, wd_node_deployment_id = [], wd_contract_id = 0, wd_ip_range = []\<rparr>"

definition named_err :: "string \<Rightarrow> string \<Rightarrow> string option \<Rightarrow> string option" where
  "named_err kind name e = wrap_err (kind @ '' '' @ quoted name @ '' is invalid'') e"

definition wl_deployment_validate :: "wl_env \<Rightarrow> wl_deployment \<Rightarrow> string option" where
  "wl_deployment_validate env d = first_err
     ([wrap_err ''deployment name is invalid'' (validate_name (wd_name d)),
       (if length (wd_vms d) \<noteq> 0
        then wrap_err ''you passed vm/vms in the deployment but network name is invalid'' (validate_name (wd_network_name d))
        else None),
       check (wd_node_id d = 0) ''node ID should be a positive integer not zero'',
       check (length (wd_vms d) > 0 \<and> length (wd_vms_light d) > 0) ''cannot deploy vms with vm-light on the same node'']
      @ map (\<lambda>v. named_err ''vm'' (vm_name v) (vm_validate env v)) (wd_vms d)
      @ map (\<lambda>v. named_err ''vm-light'' (vl_name v) (vm_light_validate env v)) (wd_vms_light d)
      @ map (\<lambda>z. named_err ''zdb'' (zdb_name z) (zdb_validate z)) (wd_zdbs d)
      @ map (\<lambda>q. named_err ''qsfs'' (qw_name q) (qsfs_validate q)) (wd_qsfs d)
      @ map (\<lambda>k. named_err ''disk'' (dk_name k) (disk_validate k)) (wd_disks d)
      @ map (\<lambda>v. named_err ''volume'' (vo_name v) (volume_validate v)) (wd_volumes d))"

definition wl_generate_metadata :: "wl_deployment \<Rightarrow> string \<times> wl_deployment" where
  "wl_generate_metadata d =
     (let d' = (if wd_solution_type d = [] then d\<lparr>wd_solution_type := ''vm/'' @ wd_name d\<rparr> else d) in
      (json_text (j_deployment_data \<lparr>dd_version = Version3,
         dd_type = (if length (wd_vms_light d) > 0 then ''vm-light'' else ''vm''), dd_name = wd_name d,
         dd_project_name = wd_solution_type d'\<rparr>), d'))"

definition wl_nullify :: "wl_deployment \<Rightarrow> wl_deployment" where
  "wl_nullify d = d\<lparr>wd_vms := [], wd_vms_light := [], wd_qsfs := [], wd_disks := [], wd_zdbs := [], wd_volumes := [],
     wd_contract_id := 0\<rparr>"

section \<open>Bringing a deployment's workloads into the order of the input\<close>

record match_sorts = vm_sorts +
  ms_disks :: "(disk \<Rightarrow> int) \<Rightarrow> disk list \<Rightarrow> disk list"
  ms_volumes :: "(volume \<Rightarrow> int) \<Rightarrow> volume list \<Rightarrow> volume list"
  ms_qsfs :: "(qsfs_wl \<Rightarrow> int) \<Rightarrow> qsfs_wl list \<Rightarrow> qsfs_wl list"
  ms_zdbs :: "(zdb \<Rightarrow> int) \<Rightarrow> zdb list \<Rightarrow> zdb list"
  ms_vms :: "(vm \<Rightarrow> int) \<Rightarrow> vm list \<Rightarrow> vm list"
  ms_vms_light :: "(vm_light \<Rightarrow> int) \<Rightarrow> vm_light list \<Rightarrow> vm_light list"

definition match_names :: "wl_deployment \<Rightarrow> string \<Rightarrow> int" where
  "match_names d =
     (let l = int (length (wd_disks d) + length (wd_qsfs d) + length (wd_zdbs d) + length (wd_vms d)
                 + length (wd_vms_light d) + length (wd_volumes d)) in
      put_indexes (- l) (map vl_name (wd_vms_light d)) (put_indexes (- l) (map vm_name (wd_vms d))
     (put_indexes (- l) (map zdb_name (wd_zdbs d)) (put_indexes (- l) (map qw_name (wd_qsfs d))
     (put_indexes (- l) (map vo_name (wd_volumes d)) (put_indexes (- l) (map dk_name (wd_disks d)) (\<lambda>_. 0)))))))"

text \<open>The last machine of a name is the one the map keeps.\<close>

definition last_named :: "('v \<Rightarrow> string) \<Rightarrow> 'v list \<Rightarrow> string \<Rightarrow> 'v option" where
  "last_named f vs n = map_of (rev (map (\<lambda>v. (f v, v)) vs)) n"

definition wl_match ::
  "match_sorts \<Rightarrow> wl_deployment \<Rightarrow> disk list \<Rightarrow> qsfs_wl list \<Rightarrow> zdb list \<Rightarrow> vm list \<Rightarrow> vm_light list \<Rightarrow> volume list
   \<Rightarrow> disk list \<times> qsfs_wl list \<times> zdb list \<times> vm list \<times> vm_light list \<times> volume list" where
  "wl_match srt d disks qsfs zdbs vms vmsLight volumes =
     (let names = match_names d; vsrt = vm_sorts.truncate srt in
      (ms_disks srt (\<lambda>x. names (dk_name x)) disks, ms_qsfs srt (\<lambda>x. names (qw_name x)) qsfs,
       ms_zdbs srt (\<lambda>x. names (zdb_name x)) zdbs,
       map (\<lambda>v. case last_named vm_name (wd_vms d) (vm_name v) of None \<Rightarrow> v | Some u \<Rightarrow> vm_load_from vsrt v u)
         (ms_vms srt (\<lambda>x. names (vm_name x)) vms),
       map (\<lambda>v. case last_named vl_name (wd_vms_light d) (vl_name v) of None \<Rightarrow> v | Some u \<Rightarrow> vm_light_load_from vsrt v u)
         (ms_vms_light srt (\<lambda>x. names (vl_name x)) vmsLight),
       ms_volumes srt (\<lambda>x. names (vo_name x)) volumes))"

section \<open>Conversions\<close>

definition wl_new_grid_deployment :: "u32 \<Rightarrow> u64 \<Rightarrow> workload list \<Rightarrow> deployment" where
  "wl_new_grid_deployment twin contractID workloads =
     \<lparr>dl_version = 0, dl_twin = twin, dl_contract = contractID, dl_metadata = [], dl_description = [], dl_expiration = 0,
      dl_requirement = \<lparr>sr_requests = [\<lparr>sq_twin = twin, sq_required = False, sq_weight = 1\<rparr>], sr_weight_required = 1,
        sr_signatures = [], sr_style = []\<rparr>,
      dl_workloads = workloads\<rparr>"

text \<open>The first error among the file systems, or their workloads.\<close>

fun qsfs_workloads :: "qsfs_wl list \<Rightarrow> string + workload list" where
  "qsfs_workloads [] = Inr []"
| "qsfs_workloads (q # qs) =
     (case qsfs_workload q of
        Inl e \<Rightarrow> Inl e
      | Inr w \<Rightarrow> (case qsfs_workloads qs of Inl e \<Rightarrow> Inl e | Inr ws \<Rightarrow> Inr (w # ws)))"

definition wl_zos_deployment :: "wl_env \<Rightarrow> u32 \<Rightarrow> wl_deployment \<Rightarrow> (string + deployment) option" where
  "wl_zos_deployment env twin d =
     (case (all_some (map (vm_workloads env) (wd_vms d)), all_some (map (vm_light_workloads env) (wd_vms_light d))) of
        (Some vws, Some lws) \<Rightarrow>
          (case qsfs_workloads (wd_qsfs d) of
             Inl e \<Rightarrow> Some (Inl e)
           | Inr qws \<Rightarrow>
               Some (Inr (wl_new_grid_deployment twin (wd_contract_id d)
                 (map disk_workload (wd_disks d) @ map zdb_workload (wd_zdbs d) @ concat vws @ concat lws @ qws
                  @ map volume_workload (wd_volumes d)))))
      | _ \<Rightarrow> None)"

text \<open>The last bytes of the machines' addresses: a panic when an address is no IPv4 one.\<close>

fun get_used_ips :: "wl_env \<Rightarrow> deployment \<Rightarrow> u32 \<Rightarrow> workload list \<Rightarrow> u8 list \<Rightarrow> (string option \<times> u8 list) option" where
  "get_used_ips env dl nodeID [] used = Some (None, used)"
| "get_used_ips env dl nodeID (w # ws) used =
     (if \<not> is_okay (rs_state (wl_result w)) then Some (Some (''workload '' @ wl_name w @ '' state failed''), used)
      else if wl_type w = ZMachineType then
        (case new_vm_from_workload env w dl nodeID of
           None \<Rightarrow> None
         | Some (Inl e) \<Rightarrow> Some (Some (''error parsing vm: : '' @ e), used)
         | Some (Inr v) \<Rightarrow>
             (case To4 (parse_ip (we_parse_ip6 env) (vm_ip v)) of
                [_, _, _, h] \<Rightarrow> get_used_ips env dl nodeID ws (used @ [h])
              | _ \<Rightarrow> None))
      else get_used_ips env dl nodeID ws used)"

record wl_parts =
  wp_vms :: "vm list"
  wp_vms_light :: "vm_light list"
  wp_disks :: "disk list"
  wp_qsfs :: "qsfs_wl list"
  wp_zdbs :: "zdb list"
  wp_volumes :: "volume list"
  wp_network_name :: string

fun read_parts :: "wl_env \<Rightarrow> deployment \<Rightarrow> u32 \<Rightarrow> workload list \<Rightarrow> wl_parts \<Rightarrow> (string + wl_parts) option" where
  "read_parts env dl nodeID [] p = Some (Inr p)"
| "read_parts env dl nodeID (w # ws) p =
     (if wl_type w = ZMachineType then
        (case new_vm_from_workload env w dl nodeID of
           None \<Rightarrow> None
         | Some (Inl e) \<Rightarrow> Some (Inl (''failed to get vm workload: '' @ e))
         | Some (Inr v) \<Rightarrow> read_parts env dl nodeID ws (p\<lparr>wp_vms := wp_vms p @ [v], wp_network_name := vm_network_name v\<rparr>))
      else if wl_type w = ZMachineLightType then
        (case new_vm_light_from_workload env w dl nodeID of
           None \<Rightarrow> None
         | Some (Inl e) \<Rightarrow> Some (Inl (''failed to get vm-light workload: '' @ e))
         | Some (Inr v) \<Rightarrow>
             read_parts env dl nodeID ws (p\<lparr>wp_vms_light := wp_vms_light p @ [v], wp_network_name := vl_network_name v\<rparr>))
      else if wl_type w = ZDBType then
        (case new_zdb_from_workload env w of
           Inl e \<Rightarrow> Some (Inl (''failed to get zdb workload: '' @ e))
         | Inr z \<Rightarrow> read_parts env dl nodeID ws (p\<lparr>wp_zdbs := wp_zdbs p @ [z]\<rparr>))
      else if wl_type w = QuantumSafeFSType then
        (case new_qsfs_from_workload env w of
           Inl e \<Rightarrow> Some (Inl (''failed to get qsfs workload: '' @ e))
         | Inr q \<Rightarrow> read_parts env dl nodeID ws (p\<lparr>wp_qsfs := wp_qsfs p @ [q]\<rparr>))
      else if wl_type w = ZMountType then
        (case new_disk_from_workload env w of
           Inl e \<Rightarrow> Some (Inl (''failed to get disk workload: '' @ e))
         | Inr k \<Rightarrow> read_parts env dl nodeID ws (p\<lparr>wp_disks := wp_disks p @ [k]\<rparr>))
      else if wl_type w = VolumeType then
        (case new_volume_from_workload env w of
           Inl e \<Rightarrow> Some (Inl (''failed to get volume workload: '' @ e))
         | Inr v \<Rightarrow> read_parts env dl nodeID ws (p\<lparr>wp_volumes := wp_volumes p @ [v]\<rparr>))
      else read_parts env dl nodeID ws p)"

definition new_wl_deployment_from_zos :: "wl_env \<Rightarrow> deployment \<Rightarrow> u32 \<Rightarrow> (string + wl_deployment) option" where
  "new_wl_deployment_from_zos env d nodeID =
     (case parse_deployment_data (dl_metadata d) of
        None \<Rightarrow> Some (Inl ''failed to parse deployment data'')
      | Some dd \<Rightarrow>
          (case read_parts env d nodeID (dl_workloads d)
                  \<lparr>wp_vms = [], wp_vms_light = [], wp_disks = [], wp_qsfs = [], wp_zdbs = [], wp_volumes = [], wp_network_name = []\<rparr> of
             None \<Rightarrow> None
           | Some (Inl e) \<Rightarrow> Some (Inl e)
           | Some (Inr p) \<Rightarrow>
               Some (Inr \<lparr>wd_name = dd_name dd, wd_node_id = nodeID, wd_solution_type = dd_project_name dd,
                 wd_solution_provider = None, wd_network_name = wp_network_name p, wd_disks = wp_disks p,
                 wd_zdbs = wp_zdbs p, wd_vms = wp_vms p, wd_vms_light = wp_vms_light p, wd_qsfs = wp_qsfs p,
                 wd_volumes = wp_volumes p, wd_node_deployment_id = [(nodeID, dl_contract d)],
                 wd_contract_id = dl_contract d, wd_ip_range = []\<rparr>)))"

section \<open>Helpers on deployments\<close>

text \<open>The public addresses with the v4 flag, counted in 32 bits; a payload of another type is a panic.\<close>

fun count_public_ips :: "gt_api \<Rightarrow> workload list \<Rightarrow> u32 \<Rightarrow> (string option \<times> u32) option" where
  "count_public_ips api3 [] res = Some (None, res)"
| "count_public_ips api3 (wl # wls) res =
     (if wl_type wl = PublicIPType then
        (case gt_workload_data api3 (workload3 wl) of
           Inl e \<Rightarrow> Some (Some (''could not parse workload data for workload '' @ wl_name wl @ '': '' @ e), res)
         | Inr (PPublicIP p) \<Rightarrow> count_public_ips api3 wls (if pip_v4 p then res + 1 else res)
         | Inr _ \<Rightarrow> None)
      else count_public_ips api3 wls res)"

definition count_deployment_public_ips :: "gt_api \<Rightarrow> deployment \<Rightarrow> (string option \<times> u32) option" where
  "count_deployment_public_ips api3 dl = count_public_ips api3 (dl_workloads dl) 0"

definition hash_deployment :: "wl_env \<Rightarrow> deployment \<Rightarrow> string + u8 list" where
  "hash_deployment env dl =
     (case dl_challenge (we_api3 env) (we_api4 env) dl of
        (Some e, _) \<Rightarrow> Inl e
      | (None, bs) \<Rightarrow> Inr (we_md5 env bs))"

fun workload_hashes :: "wl_env \<Rightarrow> workload list \<Rightarrow> (string \<times> u8 list) list \<Rightarrow> string + (string \<times> u8 list) list" where
  "workload_hashes env [] hashes = Inr hashes"
| "workload_hashes env (w # ws) hashes =
     (case wl_challenge (we_api3 env) (we_api4 env) w of
        (Some e, _) \<Rightarrow> Inl (''could not get a hash for a workload '' @ wl_name w @ '': '' @ e)
      | (None, bs) \<Rightarrow> workload_hashes env ws (AList.update (wl_name w) (we_md5 env bs) hashes))"

definition get_workload_hashes :: "wl_env \<Rightarrow> deployment \<Rightarrow> string + (string \<times> u8 list) list" where
  "get_workload_hashes env dl = workload_hashes env (dl_workloads dl) []"

definition same_workloads_names :: "deployment \<Rightarrow> deployment \<Rightarrow> bool" where
  "same_workloads_names d1 d2 =
     (if length (dl_workloads d1) \<noteq> length (dl_workloads d2) then False
      else (let names = map wl_name (dl_workloads d1) in
            list_all (\<lambda>w. wl_name w \<in> set names) (dl_workloads d2)))"

definition construct_workload_versions :: "deployment \<Rightarrow> (string \<times> u32) list" where
  "construct_workload_versions dl = fold (\<lambda>w m. AList.update (wl_name w) (wl_version w) m) (dl_workloads dl) []"

definition has_workload :: "deployment \<Rightarrow> string \<Rightarrow> bool" where
  "has_workload dl wlType = list_ex (\<lambda>w. wl_type w = wlType) (dl_workloads dl)"

fun sum_capacities :: "gt_api \<Rightarrow> gt_api \<Rightarrow> workload list \<Rightarrow> zos_capacity \<Rightarrow> zos_capacity \<times> string option" where
  "sum_capacities api3 api4 [] c = (c, None)"
| "sum_capacities api3 api4 (w # ws) c =
     (case wl_capacity api3 api4 w of
        (_, Some e) \<Rightarrow> (c, Some e)
      | (d, None) \<Rightarrow> sum_capacities api3 api4 ws (capacity_add c d))"

definition deployment_capacity :: "gt_api \<Rightarrow> gt_api \<Rightarrow> deployment \<Rightarrow> zos_capacity \<times> string option" where
  "deployment_capacity api3 api4 dl =
     sum_capacities api3 api4 (dl_workloads dl) \<lparr>zc_cru = 0, zc_sru = 0, zc_hru = 0, zc_mru = 0, zc_ipv4u = 0\<rparr>"

section \<open>Facts\<close>

text \<open>With distinct names on both sides the comparison is equality of the sets of names.\<close>

lemma same_workloads_names_distinct:
  assumes "distinct (map wl_name (dl_workloads d1))" and "distinct (map wl_name (dl_workloads d2))"
  shows "same_workloads_names d1 d2 \<longleftrightarrow>
     set (map wl_name (dl_workloads d1)) = set (map wl_name (dl_workloads d2))"
proof
  let ?a = "map wl_name (dl_workloads d1)" and ?b = "map wl_name (dl_workloads d2)"
  assume "same_workloads_names d1 d2"
  then have l: "length ?a = length ?b" and s: "set ?b \<subseteq> set ?a"
    by (auto simp: same_workloads_names_def list_all_iff Let_def split: if_splits)
  have "card (set ?a) = card (set ?b)" using l assms by (simp only: distinct_card)
  then show "set ?a = set ?b" using s by (metis card_subset_eq List.finite_set)
next
  let ?a = "map wl_name (dl_workloads d1)" and ?b = "map wl_name (dl_workloads d2)"
  assume e: "set ?a = set ?b"
  then have "length ?a = length ?b" using assms by (metis distinct_card)
  moreover have "\<forall>w \<in> set (dl_workloads d2). wl_name w \<in> set ?a" using e by auto
  ultimately show "same_workloads_names d1 d2"
    by (simp add: same_workloads_names_def list_all_iff Let_def)
qed

lemma sum_capacities_ok:
  assumes "\<forall>w \<in> set ws. snd (wl_capacity api3 api4 w) = None"
  shows "sum_capacities api3 api4 ws c = (fold (\<lambda>w c. capacity_add c (fst (wl_capacity api3 api4 w))) ws c, None)"
  using assms by (induction ws arbitrary: c) (auto split: prod.splits option.splits)

text \<open>The names of what is sent for a machine: its own, its address's and one per log.\<close>

lemma vm_workloads_types:
  assumes "vm_workloads env v = Some ws"
  shows "map wl_type ws = (if vm_public_ip v \<or> vm_public_ip6 v then [PublicIPType] else [])
     @ replicate (length (vm_zlogs v)) ZLogsType @ [ZMachineType] \<and> wl_name (last ws) = vm_name v"
proof -
  have "map wl_type (map (zlog_workload env) zs) = replicate (length zs) ZLogsType" for zs
    by (induction zs) (simp_all add: zlog_workload_def)
  then show ?thesis using assms
    by (auto simp: vm_workloads_def Let_def public_ip_workload_def split: option.splits)
qed

text \<open>A private address that is free, or no panic: the machine's address always has a valid JSON.\<close>

lemma parse_ip_length: "(\<And>s p. parse6 s = Some p \<Longrightarrow> length p = 16) \<Longrightarrow> length (parse_ip parse6 s) \<in> {0, 16}"
  by (auto simp: parse_ip_def parse_addr_def parse_ip4_def split: option.splits if_splits list.splits)

lemma vm_workloads_defined:
  assumes "\<And>s p. we_parse_ip6 env s = Some p \<Longrightarrow> length p = 16"
  shows "\<exists>ws. vm_workloads env v = Some ws"
proof -
  have "\<exists>j. j_ip (parse_ip (we_parse_ip6 env) (vm_ip v)) = Some j"
    using parse_ip_length [of "we_parse_ip6 env" "vm_ip v", OF assms] by (auto simp: j_ip_def)
  then show ?thesis
    by (auto simp: vm_workloads_def must_marshal_def j_zmachine_def vm_machine_def j_machine_network_def j_interfaces_def
       j_machine_interface_def Let_def)
qed

end
