(* ===== verification/Subi.thy ===== *)
theory Subi
  imports WlCommon
begin

text \<open>
  The chain as the grid client sees it (\<open>grid-client/subi\<close>): the calls of the chain client are fields of the record
  \<open>chain\<close> over a world, and the operations the package adds to them are definitions: errors of the two sentinel kinds
  are normalised, cancelling contract 0 does nothing, a contract is valid when the chain knows it as created, and a
  name contract of another name is cancelled. The mutex around the writing calls makes each of them one step. Lemmas:
  which contracts survive a clean-up, and what a kept name contract is.
\<close>

section \<open>Calls of the chain client\<close>

record chain_error =
  ce_not_found :: bool
  ce_account_not_found :: bool
  ce_text :: string

record chain_contract =
  cc_created :: bool
  cc_deleted :: bool
  cc_twin :: u32
  cc_public_ips :: u32
  cc_name :: string
  cc_deployment_data :: string

record batch_data =
  bd_node :: u32
  bd_body :: string
  bd_hash :: string
  bd_public_ips :: u32
  bd_solution_provider :: "u64 option"

record 'w chain =
  ch_not_found :: chain_error
  ch_account_not_found :: chain_error
  ch_get_contract :: "u64 \<Rightarrow> 'w \<Rightarrow> (chain_error + chain_contract) \<times> 'w"
  ch_name_registration :: "string \<Rightarrow> 'w \<Rightarrow> (chain_error + u64) \<times> 'w"
  ch_cancel :: "u64 \<Rightarrow> 'w \<Rightarrow> chain_error option \<times> 'w"
  ch_create_node :: "u32 \<Rightarrow> string \<Rightarrow> string \<Rightarrow> u32 \<Rightarrow> u64 option \<Rightarrow> 'w \<Rightarrow> (chain_error + u64) \<times> 'w"
  ch_update_node :: "u64 \<Rightarrow> string \<Rightarrow> string \<Rightarrow> 'w \<Rightarrow> (chain_error + u64) \<times> 'w"
  ch_create_name :: "string \<Rightarrow> 'w \<Rightarrow> (chain_error + u64) \<times> 'w"
  ch_batch_create :: "batch_data list \<Rightarrow> 'w \<Rightarrow> (u64 list \<times> nat option \<times> chain_error option) \<times> 'w"
  ch_batch_cancel :: "u64 list \<Rightarrow> 'w \<Rightarrow> chain_error option \<times> 'w"

section \<open>Operations of the package\<close>

definition normalize_error :: "'w chain \<Rightarrow> chain_error \<Rightarrow> chain_error" where
  "normalize_error ch e =
     (if ce_not_found e then ch_not_found ch
      else if ce_account_not_found e then ch_account_not_found ch
      else e)"

definition normalize_result :: "'w chain \<Rightarrow> (chain_error + 'a) \<times> 'w \<Rightarrow> (chain_error + 'a) \<times> 'w" where
  "normalize_result ch r = (map_sum (normalize_error ch) id (fst r), snd r)"

definition sub_get_contract :: "'w chain \<Rightarrow> u64 \<Rightarrow> 'w \<Rightarrow> (chain_error + chain_contract) \<times> 'w" where
  "sub_get_contract ch contractID w = normalize_result ch (ch_get_contract ch contractID w)"

definition contract_id_by_name :: "'w chain \<Rightarrow> string \<Rightarrow> 'w \<Rightarrow> (chain_error + u64) \<times> 'w" where
  "contract_id_by_name ch name w = normalize_result ch (ch_name_registration ch name w)"

definition create_node_contract ::
  "'w chain \<Rightarrow> u32 \<Rightarrow> string \<Rightarrow> string \<Rightarrow> u32 \<Rightarrow> u64 option \<Rightarrow> 'w \<Rightarrow> (chain_error + u64) \<times> 'w" where
  "create_node_contract ch node body hash publicIPs provider w =
     normalize_result ch (ch_create_node ch node body hash publicIPs provider w)"

definition update_node_contract :: "'w chain \<Rightarrow> u64 \<Rightarrow> string \<Rightarrow> string \<Rightarrow> 'w \<Rightarrow> (chain_error + u64) \<times> 'w" where
  "update_node_contract ch contract body hash w = normalize_result ch (ch_update_node ch contract body hash w)"

text \<open>\<open>CancelContract\<close> has the same body.\<close>

definition ensure_contract_canceled :: "'w chain \<Rightarrow> u64 \<Rightarrow> 'w \<Rightarrow> chain_error option \<times> 'w" where
  "ensure_contract_canceled ch contractID w =
     (if contractID = 0 then (None, w)
      else (case ch_cancel ch contractID w of
              (Some e, w') \<Rightarrow> (Some (normalize_error ch e), w')
            | (None, w') \<Rightarrow> (None, w')))"

text \<open>Whether the contract is valid, with an error beside it.\<close>

definition is_valid_contract :: "'w chain \<Rightarrow> u64 \<Rightarrow> 'w \<Rightarrow> (bool \<times> chain_error option) \<times> 'w" where
  "is_valid_contract ch contractID w =
     (if contractID = 0 then ((False, None), w)
      else (case ch_get_contract ch contractID w of
              (Inr c, w') \<Rightarrow> ((cc_created c, None), w')
            | (Inl e, w') \<Rightarrow>
                if ce_not_found (normalize_error ch e) then ((False, None), w')
                else ((True, Some (normalize_error ch e
                         \<lparr>ce_text := ''could not get contract '' @ dec_text (unat contractID) @ '' info: ''
                            @ ce_text (normalize_error ch e)\<rparr>)), w')))"

text \<open>The caller's map, cleaned up to the first error.\<close>

fun delete_invalid_contracts ::
  "'w chain \<Rightarrow> (u32 \<times> u64) list \<Rightarrow> 'w \<Rightarrow> (chain_error option \<times> (u32 \<times> u64) list) \<times> 'w" where
  "delete_invalid_contracts ch [] w = ((None, []), w)"
| "delete_invalid_contracts ch ((node, contractID) # contracts) w =
     (case is_valid_contract ch contractID w of
        ((_, Some e), w') \<Rightarrow> ((Some (normalize_error ch e), (node, contractID) # contracts), w')
      | ((valid, None), w') \<Rightarrow>
          (case delete_invalid_contracts ch contracts w' of
             ((e, rest), w'') \<Rightarrow> ((e, if valid then (node, contractID) # rest else rest), w'')))"

definition invalidate_name_contract :: "'w chain \<Rightarrow> u64 \<Rightarrow> string \<Rightarrow> 'w \<Rightarrow> (string + u64) \<times> 'w" where
  "invalidate_name_contract ch contractID name w =
     (if contractID = 0 then (Inr 0, w)
      else (case ch_get_contract ch contractID w of
              (Inl e, w1) \<Rightarrow>
                if ce_not_found (normalize_error ch e) then (Inr 0, w1)
                else (Inl (''could not get name contract info: '' @ ce_text (normalize_error ch e)), w1)
            | (Inr c, w1) \<Rightarrow>
                if \<not> cc_created c then (Inr 0, w1)
                else if cc_name c \<noteq> name
                then (case ch_cancel ch contractID w1 of
                        (Some e, w2) \<Rightarrow>
                          (Inl (''failed to cleanup unmatched name contract: '' @ ce_text (normalize_error ch e)), w2)
                      | (None, w2) \<Rightarrow> (Inr 0, w2))
                else (Inr contractID, w1)))"

section \<open>Facts\<close>

text \<open>When looking at a contract does not change the world, a clean-up without an error keeps the valid ones.\<close>

lemma delete_invalid_contracts_keeps:
  assumes "\<And>i w. snd (ch_get_contract ch i w) = w"
    and "delete_invalid_contracts ch contracts w = ((None, kept), w')"
  shows "kept = filter (\<lambda>(node, i). fst (fst (is_valid_contract ch i w))) contracts \<and> w' = w"
  using assms(2)
proof (induction contracts arbitrary: kept)
  case (Cons p contracts)
  obtain node i where p: "p = (node, i)" by fastforce
  have "snd (is_valid_contract ch i w) = w"
    using assms(1) [of i w] by (auto simp: is_valid_contract_def split: prod.splits sum.splits)
  then show ?case
    using Cons unfolding p
    by (auto split: prod.splits option.splits if_splits)
qed simp

text \<open>A kept name contract is the one that was given; the chain has it as created under that name.\<close>

lemma invalidate_name_contract_keeps:
  assumes "invalidate_name_contract ch i name w = (Inr j, w')" and "j \<noteq> 0"
  shows "j = i \<and> (\<exists>c. ch_get_contract ch i w = (Inr c, w') \<and> cc_created c \<and> cc_name c = name)"
  using assms by (auto simp: invalidate_name_contract_def split: if_splits prod.splits sum.splits option.splits)

end
