(* ===== verification/Deployer.thy ===== *)
theory Deployer
  imports WlDeployment Subi
begin

text \<open>
  The deployer (\<open>grid-client/deployer/deployer.go\<close>): a set of deployments, one per node, is brought from an old state to a
  new one by deletions, creations and updates, each of which is a contract on the chain and a request to a node; a
  failure can be reverted. Calls on nodes, the proxy, the clock and the retry timer are fields of \<open>deploy_env\<close> over a
  world, the chain is a \<open>chain\<close>. A panic and a wait that never ends are \<open>None\<close>. Maps are association lists; ranging over
  one visits the list in its order, which stands for any order. The versions \<open>matchOldVersions\<close> writes into the
  workloads the caller still holds are not visible in the result. Lemmas are in the theory \<open>DeployerProofs\<close>.
\<close>

section \<open>The outside world\<close>

record proxy_capacity =
  pc_cru :: u64
  pc_sru :: u64
  pc_hru :: u64
  pc_mru :: u64

record node_info =
  ni_farm :: int
  ni_ipv4 :: string
  ni_domain :: string
  ni_total :: proxy_capacity
  ni_used :: proxy_capacity

text \<open>
  \<open>dv_farm\<close> answers with the contracts of the public addresses of the farm (0 for a free one), or \<open>None\<close> when the proxy
  returns no farm. \<open>dv_backoff\<close> tells whether another try follows. \<open>dv_order\<close> is the order in which goroutines finish.
\<close>

record 'w deploy_env =
  dv_wl :: wl_env
  dv_chain :: "'w chain"
  dv_twin :: u32
  dv_signer :: signer
  dv_client :: "u32 \<Rightarrow> 'w \<Rightarrow> string option \<times> 'w"
  dv_send :: "u32 \<Rightarrow> deployment \<Rightarrow> 'w \<Rightarrow> string option \<times> 'w"
  dv_resend :: "u32 \<Rightarrow> deployment \<Rightarrow> 'w \<Rightarrow> string option \<times> 'w"
  dv_get :: "u32 \<Rightarrow> u64 \<Rightarrow> 'w \<Rightarrow> (string + deployment) \<times> 'w"
  dv_changes :: "u32 \<Rightarrow> u64 \<Rightarrow> 'w \<Rightarrow> (string + workload list) \<times> 'w"
  dv_now :: "'w \<Rightarrow> int \<times> 'w"
  dv_backoff :: "'w \<Rightarrow> bool \<times> 'w"
  dv_node :: "u32 \<Rightarrow> 'w \<Rightarrow> (string + node_info) \<times> 'w"
  dv_farm :: "u64 \<Rightarrow> 'w \<Rightarrow> (string + u64 list option) \<times> 'w"
  dv_order :: "nat \<Rightarrow> nat list"

abbreviation env_api3 :: "'w deploy_env \<Rightarrow> gt_api" where "env_api3 env \<equiv> we_api3 (dv_wl env)"
abbreviation env_api4 :: "'w deploy_env \<Rightarrow> gt_api" where "env_api4 env \<equiv> we_api4 (dv_wl env)"

fun has_infix :: "string \<Rightarrow> string \<Rightarrow> bool" where
  "has_infix p [] = (p = [])"
| "has_infix p (c # s) = (take (length p) (c # s) = p \<or> has_infix p s)"

section \<open>Versions\<close>

definition versions_of :: "workload list \<Rightarrow> (string \<times> u32) list" where
  "versions_of ws = fold (\<lambda>w m. AList.update (wl_name w) (wl_version w) m) ws []"

definition match_old_versions :: "deployment \<Rightarrow> deployment \<Rightarrow> deployment" where
  "match_old_versions oldDl newDl =
     (let oldWlVersions = versions_of (dl_workloads oldDl) in
      newDl\<lparr>dl_version := dl_version oldDl,
            dl_workloads := map (\<lambda>w. w\<lparr>wl_version := (case map_of oldWlVersions (wl_name w) of Some v \<Rightarrow> v | None \<Rightarrow> 0)\<rparr>)
              (dl_workloads newDl)\<rparr>)"

definition bump_version ::
  "u32 \<Rightarrow> (string \<times> u8 list) list \<Rightarrow> (string \<times> u8 list) list \<Rightarrow> workload \<Rightarrow> workload" where
  "bump_version version oldHashes newHashes w =
     (let newHash = (case map_of newHashes (wl_name w) of Some h \<Rightarrow> h | None \<Rightarrow> []) in
      case map_of oldHashes (wl_name w) of
        None \<Rightarrow> w\<lparr>wl_version := version\<rparr>
      | Some oldHash \<Rightarrow> if newHash \<noteq> oldHash then w\<lparr>wl_version := version\<rparr> else w)"

definition assign_versions :: "wl_env \<Rightarrow> deployment \<Rightarrow> deployment \<Rightarrow> string + deployment \<times> (string \<times> u32) list" where
  "assign_versions env oldDl newDl =
     (case get_workload_hashes env oldDl of
        Inl e \<Rightarrow> Inl (''could not get old workloads hashes: '' @ e)
      | Inr oldHashes \<Rightarrow>
     (case get_workload_hashes env newDl of
        Inl e \<Rightarrow> Inl (''could not get new workloads hashes: '' @ e)
      | Inr newHashes \<Rightarrow>
          (let version = dl_version oldDl + 1;
               ws = map (bump_version version oldHashes newHashes) (dl_workloads newDl) in
           Inr (newDl\<lparr>dl_version := version, dl_workloads := ws\<rparr>, versions_of ws))))"

section \<open>Waiting\<close>

text \<open>The message of a workload in a state that ends the wait.\<close>

definition failed_state :: "u64 \<Rightarrow> workload \<Rightarrow> string option" where
  "failed_state deploymentID wl =
     (let s = rs_state (wl_result wl); n = wl_name wl; d = dec_text (unat deploymentID); e = rs_error (wl_result wl) in
      if s = StateError then Some (''workload '' @ n @ '' within deployment '' @ d @ '' failed with error: '' @ e)
      else if s = StateDeleted then Some (''workload '' @ n @ '' state within deployment '' @ d @ '' is deleted: '' @ e)
      else if s = StatePaused then Some (''workload '' @ n @ '' state within deployment '' @ d @ '' is paused: '' @ e)
      else if s = StateUnChanged then Some (''workload '' @ n @ '' within deployment '' @ d @ '' was not updated: '' @ e)
      else None)"

text \<open>How many of the expected workloads are up, or the first failure.\<close>

fun count_ok :: "u64 \<Rightarrow> (string \<times> u32) list \<Rightarrow> workload list \<Rightarrow> nat \<Rightarrow> string + nat" where
  "count_ok deploymentID versions [] stateOk = Inr stateOk"
| "count_ok deploymentID versions (wl # wls) stateOk =
     (if map_of versions (wl_name wl) = Some (wl_version wl) then
        (if rs_state (wl_result wl) = StateOk then count_ok deploymentID versions wls (stateOk + 1)
         else (case failed_state deploymentID wl of
                 Some e \<Rightarrow> Inl e
               | None \<Rightarrow> count_ok deploymentID versions wls stateOk))
      else count_ok deploymentID versions wls stateOk)"

definition progress_limit :: int where "progress_limit = 4 * 60 * 1000000000"

text \<open>One try: the end of the wait (an error or none), or the progress so far.\<close>

definition poll_changes ::
  "'w deploy_env \<Rightarrow> u32 \<Rightarrow> u64 \<Rightarrow> (string \<times> u32) list \<Rightarrow> int \<Rightarrow> nat \<Rightarrow> 'w \<Rightarrow> (string option + int \<times> nat) \<times> 'w" where
  "poll_changes env node deploymentID versions lastTime lastOk w =
     (case dv_changes env node deploymentID w of
        (Inl e, w1) \<Rightarrow> (Inl (Some e), w1)
      | (Inr changes, w1) \<Rightarrow>
     (case count_ok deploymentID versions changes 0 of
        Inl e \<Rightarrow> (Inl (Some e), w1)
      | Inr stateOk \<Rightarrow>
          if stateOk = length versions then (Inl None, w1)
          else (case dv_now env w1 of (now, w2) \<Rightarrow>
            if \<not> lastOk < stateOk \<and> now - lastTime > progress_limit
            then (Inl (Some (''waiting for deployment '' @ dec_text (unat deploymentID) @ '' timed out'')), w2)
            else (case dv_backoff env w2 of
                    (again, w3) \<Rightarrow>
                      if \<not> again then (Inl (Some ''deployment in progress''), w3)
                      else (Inr (if lastOk < stateOk then (now, stateOk) else (lastTime, lastOk)), w3)))))"

partial_function (option) wait_loop ::
  "'w deploy_env \<Rightarrow> u32 \<Rightarrow> u64 \<Rightarrow> (string \<times> u32) list \<Rightarrow> int \<Rightarrow> nat \<Rightarrow> 'w \<Rightarrow> (string option \<times> 'w) option" where
  "wait_loop env node deploymentID versions lastTime lastOk w =
     (case poll_changes env node deploymentID versions lastTime lastOk w of
        (r, w') \<Rightarrow>
          (case r of
             Inl e \<Rightarrow> Some (e, w')
           | Inr p \<Rightarrow> wait_loop env node deploymentID versions (fst p) (snd p) w'))"

definition dep_wait :: "'w deploy_env \<Rightarrow> u32 \<Rightarrow> u64 \<Rightarrow> (string \<times> u32) list \<Rightarrow> 'w \<Rightarrow> (string option \<times> 'w) option" where
  "dep_wait env node deploymentID versions w =
     (case dv_now env w of (now, w1) \<Rightarrow> wait_loop env node deploymentID versions now 0 w1)"

section \<open>One step of a deployment\<close>

text \<open>What signing, validating and hashing give; then the public addresses are counted.\<close>

definition sign_and_hash :: "'w deploy_env \<Rightarrow> deployment \<Rightarrow> string + deployment \<times> string" where
  "sign_and_hash env dl =
     (case dl_sign (env_api3 env) (env_api4 env) (dv_twin env) (dv_signer env) dl of
        (Some e, _) \<Rightarrow> Inl (''error signing deployment: '' @ e)
      | (None, dl1) \<Rightarrow>
     (case dl_valid (env_api3 env) (env_api4 env) dl1 of
        Some e \<Rightarrow> Inl (''deployment is invalid: '' @ e)
      | None \<Rightarrow>
     (case dl_challenge_hash (env_api3 env) (env_api4 env) dl1 of
        Inl e \<Rightarrow> Inl (''failed to create hash: '' @ e)
      | Inr h \<Rightarrow> Inr (dl1, hex_encode h))))"

definition prepare_deployment :: "'w deploy_env \<Rightarrow> deployment \<Rightarrow> (string + deployment \<times> string \<times> u32) option" where
  "prepare_deployment env dl =
     (case sign_and_hash env dl of
        Inl e \<Rightarrow> Some (Inl e)
      | Inr (dl1, hash) \<Rightarrow>
     (case count_deployment_public_ips (env_api3 env) dl1 of
        None \<Rightarrow> None
      | Some (Some e, _) \<Rightarrow> Some (Inl (''failed to count deployment public IPs: '' @ e))
      | Some (None, n) \<Rightarrow> Some (Inr (dl1, hash, n))))"

definition zero_versions :: "workload list \<Rightarrow> (string \<times> u32) list" where
  "zero_versions ws = fold (\<lambda>w m. AList.update (wl_name w) 0 m) ws []"

text \<open>The error and the contract that is recorded for the node, if any.\<close>

type_synonym 'w step_result = "((string option \<times> u64 option) \<times> 'w) option"

definition wait_recorded :: "'w deploy_env \<Rightarrow> u32 \<Rightarrow> u64 \<Rightarrow> (string \<times> u32) list \<Rightarrow> 'w \<Rightarrow> 'w step_result" where
  "wait_recorded env node contractID versions w =
     (case dep_wait env node contractID versions w of
        None \<Rightarrow> None
      | Some (e, w') \<Rightarrow> Some ((wrap_err ''error waiting deployment'' e, Some contractID), w'))"

text \<open>The request to the node; a contract whose deployment the node refuses is cancelled again.\<close>

definition send_new :: "'w deploy_env \<Rightarrow> u32 \<Rightarrow> deployment \<Rightarrow> u64 \<Rightarrow> 'w \<Rightarrow> 'w step_result" where
  "send_new env node dl contractID w =
     (case dv_send env node (dl\<lparr>dl_contract := contractID\<rparr>) w of
        (Some e, w1) \<Rightarrow>
          (case ensure_contract_canceled (dv_chain env) contractID w1 of
             (Some re, w2) \<Rightarrow> Some ((Some (''error cancelling contract: '' @ ce_text re
               @ ''; you must cancel it manually (id: '' @ dec_text (unat contractID) @ ''): '' @ e), None), w2)
           | (None, w2) \<Rightarrow> Some ((Some (''error sending deployment to node '' @ dec_text (unat node) @ '': '' @ e), None), w2))
      | (None, w1) \<Rightarrow> wait_recorded env node contractID (zero_versions (dl_workloads dl)) w1)"

definition create_one :: "'w deploy_env \<Rightarrow> u32 \<Rightarrow> deployment \<Rightarrow> u64 option \<Rightarrow> 'w \<Rightarrow> 'w step_result" where
  "create_one env node dl provider w =
     (case dv_client env node w of
        (Some e, w1) \<Rightarrow> Some ((Some (''failed to get node client: '' @ e), None), w1)
      | (None, w1) \<Rightarrow>
     (case prepare_deployment env dl of
        None \<Rightarrow> None
      | Some (Inl e) \<Rightarrow> Some ((Some e, None), w1)
      | Some (Inr (dl1, hash, publicIPs)) \<Rightarrow>
     (case create_node_contract (dv_chain env) node (dl_metadata dl1) hash publicIPs provider w1 of
        (Inl e, w2) \<Rightarrow> Some ((Some (''failed to create contract on node '' @ dec_text (unat node) @ '': '' @ ce_text e), None), w2)
      | (Inr contractID, w2) \<Rightarrow> send_new env node dl1 contractID w2)))"

text \<open>
  What an update sends: nothing when the deployment is the one the node has, else the deployment with its versions,
  signed, with its hash and the versions to wait for.
\<close>

definition prepare_update :: "'w deploy_env \<Rightarrow> u64 \<Rightarrow> deployment \<Rightarrow> deployment
    \<Rightarrow> string + (deployment \<times> string \<times> (string \<times> u32) list) option" where
  "prepare_update env oldID oldDl dl =
     (let dl1 = match_old_versions oldDl dl in
      case (hash_deployment (dv_wl env) oldDl, hash_deployment (dv_wl env) dl1) of
        (Inl e, _) \<Rightarrow> Inl (''could not get deployment hash: '' @ e)
      | (_, Inl e) \<Rightarrow> Inl (''could not get deployment hash: '' @ e)
      | (Inr oldHash, Inr newHash) \<Rightarrow>
          if oldHash = newHash \<and> same_workloads_names dl1 oldDl then Inr None
          else
     (case assign_versions (dv_wl env) oldDl dl1 of
        Inl e \<Rightarrow> Inl (''failed to assign new versions to deployment with contract '' @ dec_text (unat oldID) @ '': '' @ e)
      | Inr (dl2, versions) \<Rightarrow>
          map_sum id (\<lambda>(dl3, hash). Some (dl3, hash, versions)) (sign_and_hash env (dl2\<lparr>dl_contract := dl_contract oldDl\<rparr>))))"

definition send_update :: "'w deploy_env \<Rightarrow> u32 \<Rightarrow> deployment \<Rightarrow> string \<Rightarrow> (string \<times> u32) list \<Rightarrow> 'w \<Rightarrow> 'w step_result" where
  "send_update env node dl hash versions w =
     (case update_node_contract (dv_chain env) (dl_contract dl) (dl_metadata dl) hash w of
        (Inl e, w1) \<Rightarrow> Some ((Some (''failed to update deployment: '' @ ce_text e), None), w1)
      | (Inr contractID, w1) \<Rightarrow>
     (case dv_resend env node (dl\<lparr>dl_contract := contractID\<rparr>) w1 of
        (Some e, w2) \<Rightarrow>
          Some ((Some (''failed to send deployment update request to node '' @ dec_text (unat node) @ '': '' @ e), None), w2)
      | (None, w2) \<Rightarrow> wait_recorded env node contractID versions w2))"

definition update_one :: "'w deploy_env \<Rightarrow> u32 \<Rightarrow> deployment \<Rightarrow> u64 \<Rightarrow> 'w \<Rightarrow> 'w step_result" where
  "update_one env node dl oldID w =
     (case dv_client env node w of
        (Some e, w1) \<Rightarrow> Some ((Some (''failed to get node client: '' @ e), None), w1)
      | (None, w1) \<Rightarrow>
     (case dv_get env node oldID w1 of
        (Inl e, w2) \<Rightarrow> Some ((Some (''failed to get old deployment to update it: '' @ e), None), w2)
      | (Inr oldDl, w2) \<Rightarrow>
     (case prepare_update env oldID oldDl dl of
        Inl e \<Rightarrow> Some ((Some e, None), w2)
      | Inr None \<Rightarrow> Some ((None, None), w2)
      | Inr (Some (dl1, hash, versions)) \<Rightarrow> send_update env node dl1 hash versions w2)))"

section \<open>A set of deployments\<close>

type_synonym contracts = "(u32 \<times> u64) list"
type_synonym deployments = "(u32 \<times> deployment) list"

fun delete_loop :: "'w deploy_env \<Rightarrow> deployments \<Rightarrow> contracts \<Rightarrow> contracts \<Rightarrow> 'w \<Rightarrow> (contracts \<times> string option) \<times> 'w" where
  "delete_loop env new [] cur w = ((cur, None), w)"
| "delete_loop env new ((node, contractID) # old) cur w =
     (if map_of new node \<noteq> None then delete_loop env new old cur w
      else (case ensure_contract_canceled (dv_chain env) contractID w of
              (e, w') \<Rightarrow>
                if (case e of None \<Rightarrow> False | Some e \<Rightarrow> \<not> has_infix ''ContractNotExists'' (ce_text e))
                then ((cur, wrap_err ''failed to delete deployment'' (map_option ce_text e)), w')
                else delete_loop env new old (AList.delete node cur) w'))"

text \<open>The steps of a loop over the new deployments, until the first error.\<close>

fun step_loop :: "(u32 \<Rightarrow> deployment \<Rightarrow> 'w \<Rightarrow> 'w step_result) \<Rightarrow> deployments \<Rightarrow> contracts \<Rightarrow> 'w
    \<Rightarrow> ((contracts \<times> string option) \<times> 'w) option" where
  "step_loop step [] cur w = Some ((cur, None), w)"
| "step_loop step ((node, dl) # dls) cur w =
     (case step node dl w of
        None \<Rightarrow> None
      | Some ((e, recorded), w') \<Rightarrow>
          (let cur' = (case recorded of Some i \<Rightarrow> AList.update node i cur | None \<Rightarrow> cur) in
           if e = None then step_loop step dls cur' w' else Some ((cur', e), w')))"

definition deploy_to :: "'w deploy_env \<Rightarrow> contracts \<Rightarrow> deployments \<Rightarrow> (u32 \<times> u64 option) list \<Rightarrow> 'w
    \<Rightarrow> ((contracts \<times> string option) \<times> 'w) option" where
  "deploy_to env old new providers w =
     (case delete_loop env new old old w of
        ((cur, Some e), w1) \<Rightarrow> Some ((cur, Some e), w1)
      | ((cur, None), w1) \<Rightarrow>
     (case step_loop (\<lambda>node dl. create_one env node dl (case map_of providers node of Some p \<Rightarrow> p | None \<Rightarrow> None))
             (filter (\<lambda>(node, _). map_of old node = None) new) cur w1 of
        None \<Rightarrow> None
      | Some ((cur, Some e), w2) \<Rightarrow> Some ((cur, Some e), w2)
      | Some ((cur, None), w2) \<Rightarrow>
          step_loop (\<lambda>node dl. update_one env node dl (the (map_of old node)))
            (filter (\<lambda>(node, _). map_of old node \<noteq> None) new) cur w2))"

definition dep_cancel :: "'w deploy_env \<Rightarrow> u64 \<Rightarrow> 'w \<Rightarrow> string option \<times> 'w" where
  "dep_cancel env contractID w =
     (case ensure_contract_canceled (dv_chain env) contractID w of
        (e, w') \<Rightarrow> (wrap_err (''failed to delete deployment: '' @ dec_text (unat contractID)) (map_option ce_text e), w'))"

fun get_deployments :: "'w deploy_env \<Rightarrow> contracts \<Rightarrow> deployments \<Rightarrow> 'w \<Rightarrow> (string + deployments) \<times> 'w" where
  "get_deployments env [] res w = (Inr res, w)"
| "get_deployments env ((node, i) # dls) res w =
     (case dv_client env node w of
        (Some e, w1) \<Rightarrow> (Inl (''failed to get a client for node '' @ dec_text (unat node) @ '': '' @ e), w1)
      | (None, w1) \<Rightarrow>
          (case dv_get env node i w1 of
             (Inl e, w2) \<Rightarrow> (Inl (''failed to get deployment '' @ dec_text (unat i) @ '' of node '' @ dec_text (unat node)
               @ '': '' @ e), w2)
           | (Inr dl, w2) \<Rightarrow> get_deployments env dls (AList.update node dl res) w2))"

section \<open>Checking a deployment beforehand\<close>

type_synonym farm_ips = "(int \<times> int) list"

abbreviation free_ips :: "farm_ips \<Rightarrow> int \<Rightarrow> int" where
  "free_ips m farm \<equiv> (case map_of m farm of Some n \<Rightarrow> n | None \<Rightarrow> 0)"

definition add_capacity :: "proxy_capacity \<Rightarrow> zos_capacity \<Rightarrow> proxy_capacity" where
  "add_capacity c d = \<lparr>pc_cru = pc_cru c + zc_cru d, pc_sru = pc_sru c + zc_sru d, pc_hru = pc_hru c + zc_hru d,
     pc_mru = pc_mru c + zc_mru d\<rparr>"

definition capacity_pretty_print :: "zos_capacity \<Rightarrow> string" where
  "capacity_pretty_print c = ''[mru: '' @ dec_text (unat (zc_mru c)) @ '', sru: '' @ dec_text (unat (zc_sru c))
     @ '', hru: '' @ dec_text (unat (zc_hru c)) @ '']''"

text \<open>The nodes that are not known yet, with the farms they are in.\<close>

fun collect_nodes :: "'w deploy_env \<Rightarrow> u32 list \<Rightarrow> (u32 \<times> node_info) list \<Rightarrow> farm_ips \<Rightarrow> 'w
    \<Rightarrow> (string + (u32 \<times> node_info) list \<times> farm_ips) \<times> 'w" where
  "collect_nodes env [] known farms w = (Inr (known, farms), w)"
| "collect_nodes env (node # nodes) known farms w =
     (if map_of known node \<noteq> None then collect_nodes env nodes known farms w
      else (case dv_node env node w of
              (Inl e, w') \<Rightarrow> (Inl (''could not get node '' @ dec_text (unat node) @ '' data from the grid proxy: '' @ e), w')
            | (Inr ni, w') \<Rightarrow> collect_nodes env nodes (AList.update node ni known) (AList.update (ni_farm ni) 0 farms) w'))"

fun count_farm_ips :: "'w deploy_env \<Rightarrow> int list \<Rightarrow> farm_ips \<Rightarrow> 'w \<Rightarrow> (string + farm_ips) \<times> 'w" where
  "count_farm_ips env [] farms w = (Inr farms, w)"
| "count_farm_ips env (farm # rest) farms w =
     (case dv_farm env (word_of_int farm) w of
        (Inl e, w') \<Rightarrow> (Inl (''could not get farm '' @ int_text farm @ '' data from the grid proxy: '' @ e), w')
      | (Inr None, w') \<Rightarrow> (Inl (''farm '' @ int_text farm @ '' not returned from the proxy''), w')
      | (Inr (Some ips), w') \<Rightarrow>
          count_farm_ips env rest (AList.update farm (free_ips farms farm + int (length (filter (\<lambda>i. i = 0) ips))) farms) w')"

text \<open>The addresses of the old deployments are free again.\<close>

fun return_old_ips :: "'w deploy_env \<Rightarrow> (u32 \<times> node_info) list \<Rightarrow> deployments \<Rightarrow> farm_ips \<Rightarrow> (string + farm_ips) option" where
  "return_old_ips env nodes [] farms = Some (Inr farms)"
| "return_old_ips env nodes ((node, dl) # dls) farms =
     (case map_of nodes node of
        None \<Rightarrow> Some (Inl (''node '' @ dec_text (unat node) @ '' not returned from the grid proxy''))
      | Some ni \<Rightarrow>
     (case count_deployment_public_ips (env_api3 env) dl of
        None \<Rightarrow> None
      | Some (Some e, _) \<Rightarrow> Some (Inl (''failed to count deployment public IPs: '' @ e))
      | Some (None, n) \<Rightarrow>
          return_old_ips env nodes dls (AList.update (ni_farm ni) (free_ips farms (ni_farm ni) + int (unat n)) farms)))"

text \<open>What a node has left, in 64 bits; storage on SSDs is counted twice.\<close>

definition free_resources :: "node_info \<Rightarrow> zos_capacity" where
  "free_resources ni =
     \<lparr>zc_cru = 0, zc_sru = 2 * pc_sru (ni_total ni) - pc_sru (ni_used ni), zc_hru = pc_hru (ni_total ni) - pc_hru (ni_used ni),
      zc_mru = pc_mru (ni_total ni) - pc_mru (ni_used ni), zc_ipv4u = 0\<rparr>"

definition check_resources :: "u32 \<Rightarrow> node_info \<Rightarrow> zos_capacity \<Rightarrow> string option" where
  "check_resources node ni needed =
     (let free = free_resources ni in
      check (zc_mru free < zc_mru needed \<or> zc_sru free < zc_sru needed \<or> zc_hru free < zc_hru needed)
        (''node '' @ dec_text (unat node) @ '' does not have enough resources. needed: '' @ capacity_pretty_print needed
         @ '', free: '' @ capacity_pretty_print free))"

text \<open>The node as it would be without its old deployment: an error, or the node with the old capacity added to its total.\<close>

definition without_old :: "'w deploy_env \<Rightarrow> u32 \<Rightarrow> node_info \<Rightarrow> deployment option \<Rightarrow> int \<Rightarrow> 'w \<Rightarrow> (string + node_info) \<times> 'w" where
  "without_old env node ni oldDl requiredIPs w =
     (case oldDl of
        None \<Rightarrow> (Inr ni, w)
      | Some d \<Rightarrow>
     (case deployment_capacity (env_api3 env) (env_api4 env) d of
        (_, Some e) \<Rightarrow> (Inl (''could not read old deployment '' @ dec_text (unat (dl_contract d)) @ '' of node ''
          @ dec_text (unat node) @ '' capacity: '' @ e), w)
      | (oldCap, None) \<Rightarrow>
     (case sub_get_contract (dv_chain env) (dl_contract d) w of
        (Inl e, w') \<Rightarrow> (Inl (''could not get node contract '' @ dec_text (unat (dl_contract d)) @ '': '' @ ce_text e), w')
      | (Inr c, w') \<Rightarrow>
          if requiredIPs > int (unat (cc_public_ips c))
          then (Inl (''currently, it's not possible to increase the number of reserved public ips in a deployment, node: ''
            @ dec_text (unat node) @ '', current: '' @ dec_text (unat (cc_public_ips c))
            @ '', requested: '' @ int_text requiredIPs), w')
          else (Inr (ni\<lparr>ni_total := add_capacity (ni_total ni) oldCap\<rparr>), w'))))"

text \<open>The node is always known here: all nodes of the new deployments were collected.\<close>

definition validate_one ::
  "'w deploy_env \<Rightarrow> (u32 \<times> node_info) list \<Rightarrow> deployments \<Rightarrow> u32 \<Rightarrow> deployment \<Rightarrow> farm_ips \<Rightarrow> 'w
   \<Rightarrow> ((string + farm_ips) \<times> 'w) option" where
  "validate_one env nodes old node dl farms w =
     (case dl_valid (env_api3 env) (env_api4 env) dl of
        Some e \<Rightarrow> Some (Inl (''invalid deployment: '' @ e), w)
      | None \<Rightarrow>
     (case deployment_capacity (env_api3 env) (env_api4 env) dl of
        (_, Some e) \<Rightarrow> Some (Inl e, w)
      | (needed, None) \<Rightarrow>
     (case count_deployment_public_ips (env_api3 env) dl of
        None \<Rightarrow> None
      | Some (Some e, _) \<Rightarrow> Some (Inl (''failed to count deployment public IPs: '' @ e), w)
      | Some (None, n) \<Rightarrow>
     (case map_of nodes node of
        None \<Rightarrow> None
      | Some ni0 \<Rightarrow>
     (case without_old env node ni0 (map_of old node) (int (unat n)) w of
        (Inl e, w') \<Rightarrow> Some (Inl e, w')
      | (Inr ni, w') \<Rightarrow>
          (let farms' = AList.update (ni_farm ni) (free_ips farms (ni_farm ni) - int (unat n)) farms in
           case first_err
             [check (free_ips farms' (ni_farm ni) < 0) (''farm '' @ int_text (ni_farm ni) @ '' does not have enough public ips''),
              check (has_workload dl GatewayFQDNProxyType \<and> ni_ipv4 ni = []) (''node '' @ dec_text (unat node)
                @ '' cannot deploy a fqdn workload as it does not have a public ipv4 configured''),
              check (has_workload dl GatewayNameProxyType \<and> ni_domain ni = []) (''node '' @ dec_text (unat node)
                @ '' cannot deploy a gateway name workload as it does not have a domain configured''),
              check_resources node ni needed] of
             Some e \<Rightarrow> Some (Inl e, w')
           | None \<Rightarrow> Some (Inr farms', w')))))))"

fun validate_new ::
  "'w deploy_env \<Rightarrow> (u32 \<times> node_info) list \<Rightarrow> deployments \<Rightarrow> deployments \<Rightarrow> farm_ips \<Rightarrow> 'w \<Rightarrow> (string option \<times> 'w) option" where
  "validate_new env nodes old [] farms w = Some (None, w)"
| "validate_new env nodes old ((node, dl) # dls) farms w =
     (case validate_one env nodes old node dl farms w of
        None \<Rightarrow> None
      | Some (Inl e, w') \<Rightarrow> Some (Some e, w')
      | Some (Inr farms', w') \<Rightarrow> validate_new env nodes old dls farms' w')"

definition dep_validate :: "'w deploy_env \<Rightarrow> deployments \<Rightarrow> deployments \<Rightarrow> 'w \<Rightarrow> (string option \<times> 'w) option" where
  "dep_validate env old new w =
     (case collect_nodes env (map fst old @ map fst new) [] [] w of
        (Inl e, w1) \<Rightarrow> Some (Some e, w1)
      | (Inr (nodes, farms), w1) \<Rightarrow>
     (case count_farm_ips env (map fst farms) farms w1 of
        (Inl e, w2) \<Rightarrow> Some (Some e, w2)
      | (Inr farms1, w2) \<Rightarrow>
     (case return_old_ips env nodes old farms1 of
        None \<Rightarrow> None
      | Some (Inl e) \<Rightarrow> Some (Some e, w2)
      | Some (Inr farms2) \<Rightarrow> validate_new env nodes old new farms2 w2)))"

section \<open>Deploying\<close>

text \<open>
  The old deployments are read first; when that fails the check is skipped and a later failure cannot be reverted.
\<close>

definition dep_deploy :: "'w deploy_env \<Rightarrow> bool \<Rightarrow> contracts \<Rightarrow> deployments \<Rightarrow> (u32 \<times> u64 option) list \<Rightarrow> 'w
    \<Rightarrow> ((contracts \<times> string option) \<times> 'w) option" where
  "dep_deploy env revertOnFailure oldIDs new providers w =
     (case get_deployments env oldIDs [] w of
        (old, w1) \<Rightarrow>
     (case (case old of Inl _ \<Rightarrow> Some (None, w1) | Inr oldDls \<Rightarrow> dep_validate env oldDls new w1) of
        None \<Rightarrow> None
      | Some (Some e, w2) \<Rightarrow> Some ((oldIDs, Some e), w2)
      | Some (None, w2) \<Rightarrow>
     (case deploy_to env oldIDs new providers w2 of
        None \<Rightarrow> None
      | Some ((cur, None), w3) \<Rightarrow> Some ((cur, None), w3)
      | Some ((cur, Some e), w3) \<Rightarrow>
          if \<not> revertOnFailure then Some ((cur, Some e), w3)
          else (case old of
            Inl oldErr \<Rightarrow> Some ((cur, Some (''failed to fetch deployment objects to revert deployments: '' @ oldErr
              @ ''; try again: '' @ e)), w3)
          | Inr oldDls \<Rightarrow>
              (case deploy_to env cur oldDls providers w3 of
                 None \<Rightarrow> None
               | Some ((cur', Some re), w4) \<Rightarrow>
                   Some ((cur', Some (''failed to revert deployments: '' @ re @ ''; try again: '' @ e)), w4)
               | Some ((cur', None), w4) \<Rightarrow> Some ((cur', Some e), w4))))))"

section \<open>Batches\<close>

text \<open>The elements in the order in which their goroutines finish.\<close>

definition scheduled :: "(nat \<Rightarrow> nat list) \<Rightarrow> 'a list \<Rightarrow> 'a list" where
  "scheduled order xs = map (\<lambda>i. xs ! i) (filter (\<lambda>i. i < length xs) (order (length xs)))"

fun load_clients :: "'w deploy_env \<Rightarrow> u32 list \<Rightarrow> 'w \<Rightarrow> string option \<times> 'w" where
  "load_clients env [] w = (None, w)"
| "load_clients env (node # nodes) w =
     (case dv_client env node w of
        (Some e, w') \<Rightarrow> (Some (''failed to get node client: '' @ e), w')
      | (None, w') \<Rightarrow> load_clients env nodes w')"

definition batch_jobs :: "(u32 \<times> deployment list) list \<Rightarrow> (u32 \<times> nat \<times> deployment) list" where
  "batch_jobs dls = concat (map (\<lambda>(node, ds). map (\<lambda>(i, d). (node, i, d)) (enumerate 0 ds)) dls)"

text \<open>Signing and hashing the deployments; the first error ends the batch before any contract is made.\<close>

fun prepare_batch :: "'w deploy_env \<Rightarrow> (u32 \<times> u64 option list) list \<Rightarrow> (u32 \<times> nat \<times> deployment) list
    \<Rightarrow> (batch_data \<times> deployment) list \<Rightarrow> (string + (batch_data \<times> deployment) list) option" where
  "prepare_batch env providers [] acc = Some (Inr acc)"
| "prepare_batch env providers ((node, i, dl) # jobs) acc =
     (case prepare_deployment env dl of
        None \<Rightarrow> None
      | Some (Inl e) \<Rightarrow> Some (Inl e)
      | Some (Inr (dl1, hash, publicIPs)) \<Rightarrow>
          prepare_batch env providers jobs (acc @ [(\<lparr>bd_node = node, bd_body = dl_metadata dl1, bd_hash = hash,
            bd_public_ips = publicIPs,
            bd_solution_provider = (case map_of providers node of None \<Rightarrow> None | Some ps \<Rightarrow> if i < length ps then ps ! i else None)\<rparr>, dl1)]))"

text \<open>
  The deployments whose contracts exist are sent to their nodes: the errors, the contracts to cancel and the
  deployments with the contracts of those that came up. A node whose client cannot be had leaves the deployment's own,
  still unset, contract to be cancelled.
\<close>

fun send_batch :: "'w deploy_env \<Rightarrow> u64 list \<Rightarrow> (nat \<times> batch_data \<times> deployment) list \<Rightarrow> string list \<Rightarrow> u64 list \<Rightarrow> deployment list
    \<Rightarrow> 'w \<Rightarrow> ((string list \<times> u64 list \<times> deployment list) \<times> 'w) option" where
  "send_batch env contracts [] errs failed dls w = Some ((errs, failed, dls), w)"
| "send_batch env contracts ((i, bd, dl) # jobs) errs failed dls w =
     (case dv_client env (bd_node bd) w of
        (Some e, w1) \<Rightarrow>
          send_batch env contracts jobs (errs @ [''failed to get node '' @ dec_text (unat (bd_node bd)) @ '' client: '' @ e])
            (failed @ [dl_contract dl]) dls w1
      | (None, w1) \<Rightarrow>
          if length contracts \<le> i then None
          else (let contractID = contracts ! i in
            case dv_send env (bd_node bd) (dl\<lparr>dl_contract := contractID\<rparr>) w1 of
              (Some e, w2) \<Rightarrow>
                send_batch env contracts jobs (errs @ [''error sending deployment with contract id '' @ dec_text (unat contractID)
                  @ '' to node '' @ dec_text (unat (bd_node bd)) @ '': '' @ e]) (failed @ [contractID]) dls w2
            | (None, w2) \<Rightarrow>
                (case dep_wait env (bd_node bd) contractID (zero_versions (dl_workloads dl)) w2 of
                   None \<Rightarrow> None
                 | Some (Some e, w3) \<Rightarrow>
                     send_batch env contracts jobs (errs @ [''error waiting deployment on node ''
                       @ dec_text (unat (bd_node bd)) @ '': '' @ e]) (failed @ [contractID]) dls w3
                 | Some (None, w3) \<Rightarrow>
                     send_batch env contracts jobs errs failed (dls[i := (dls ! i)\<lparr>dl_contract := contractID\<rparr>]) w3)))"

fun group_by_node :: "(u32 \<times> deployment) list \<Rightarrow> (u32 \<times> deployment list) list \<Rightarrow> (u32 \<times> deployment list) list" where
  "group_by_node [] m = m"
| "group_by_node ((node, dl) # dls) m =
     group_by_node dls (AList.update node ((case map_of m node of Some ds \<Rightarrow> ds | None \<Rightarrow> []) @ [dl]) m)"

definition cancel_failed :: "'w chain \<Rightarrow> u64 list \<Rightarrow> string list \<Rightarrow> 'w \<Rightarrow> string list \<times> 'w" where
  "cancel_failed ch failed errs w =
     (if failed = [] then (errs, w)
      else (case ch_batch_cancel ch failed w of
              (None, w') \<Rightarrow> (errs, w')
            | (Some e, w') \<Rightarrow>
                (errs @ [''failed to cancel failed contracts ['' @ join_with CHR '' '' (map (\<lambda>i. dec_text (unat i)) failed)
                   @ '']: '' @ ce_text e], w')))"

text \<open>The deployments per node and the collected errors.\<close>

definition batch_deploy ::
  "'w deploy_env \<Rightarrow> (u32 \<times> deployment list) list \<Rightarrow> (u32 \<times> u64 option list) list \<Rightarrow> 'w
   \<Rightarrow> (((u32 \<times> deployment list) list \<times> string list) \<times> 'w) option" where
  "batch_deploy env deployments providers w =
     (case load_clients env (map fst deployments) w of
        (Some e, w1) \<Rightarrow> Some (([], [e]), w1)
      | (None, w1) \<Rightarrow>
     (case prepare_batch env providers (scheduled (dv_order env) (batch_jobs deployments)) [] of
        None \<Rightarrow> None
      | Some (Inl e) \<Rightarrow> Some (([], [e]), w1)
      | Some (Inr prepared) \<Rightarrow>
     (case ch_batch_create (dv_chain env) (map fst prepared) w1 of
        ((contracts, index, err), w2) \<Rightarrow>
          (case (err, index) of
             (Some e, None) \<Rightarrow> Some (([], [''failed to create contracts: '' @ ce_text e]), w2)
           | _ \<Rightarrow>
               (let jobs = enumerate 0 prepared;
                    jobs' = (case index of Some k \<Rightarrow> if k < length jobs then take k jobs else jobs | None \<Rightarrow> jobs) in
                case send_batch env contracts (scheduled (dv_order env) jobs')
                       (case err of Some e \<Rightarrow> [ce_text e] | None \<Rightarrow> []) [] (map snd prepared) w2 of
                  None \<Rightarrow> None
                | Some ((errs, failed, dls), w3) \<Rightarrow>
                    (case cancel_failed (dv_chain env) failed errs w3 of
                       (errs', w4) \<Rightarrow>
                         Some ((group_by_node (zip (map (\<lambda>p. bd_node (fst p)) prepared) dls) [], errs'), w4)))))))"

end
