(* ===== verification/DeployerProofs.thy ===== *)
theory DeployerProofs
  imports Deployer
begin

text \<open>
  What the deployer promises. The chain and the nodes are described by \<open>ledger\<close>: a function \<open>live\<close> gives the contracts
  that exist in a world, creating one adds a fresh id, cancelling removes it and nothing else changes them. Under it the
  contracts a deployment makes or cancels are accounted for, whatever fails on the way; further, what the end of a wait
  tells about the workloads, which versions an update gives them, and how a batch and the check beforehand go wrong.
\<close>

section \<open>The ledger\<close>

definition keeps :: "('w \<Rightarrow> u64 set) \<Rightarrow> ('w \<Rightarrow> 'a \<times> 'w) \<Rightarrow> bool" where
  "keeps live f = (\<forall>w. live (snd (f w)) = live w)"

definition created :: "('w \<Rightarrow> u64 set) \<Rightarrow> 'w \<Rightarrow> ('e + u64) \<times> 'w \<Rightarrow> bool" where
  "created live w r = (case fst r of
       Inl _ \<Rightarrow> live (snd r) = live w
     | Inr i \<Rightarrow> i \<noteq> 0 \<and> i \<notin> live w \<and> live (snd r) = insert i (live w))"

definition create_law :: "'w deploy_env \<Rightarrow> ('w \<Rightarrow> u64 set) \<Rightarrow> bool" where
  "create_law env live = (\<forall>n b h p s w. created live w (ch_create_node (dv_chain env) n b h p s w))"

definition update_law :: "'w deploy_env \<Rightarrow> ('w \<Rightarrow> u64 set) \<Rightarrow> bool" where
  "update_law env live = (\<forall>i b h w. keeps live (ch_update_node (dv_chain env) i b h)
     \<and> fst (ch_update_node (dv_chain env) i b h w) \<in> range Inl \<union> {Inr i})"

definition cancel_law :: "'w deploy_env \<Rightarrow> ('w \<Rightarrow> u64 set) \<Rightarrow> bool" where
  "cancel_law env live = (\<forall>i w e w'. ch_cancel (dv_chain env) i w = (e, w') \<longrightarrow>
     (case e of None \<Rightarrow> live w' = live w - {i}
      | Some e \<Rightarrow> live w' = live w
          \<and> (has_infix ''ContractNotExists'' (ce_text (normalize_error (dv_chain env) e)) \<longrightarrow> i \<notin> live w)))"

definition get_law :: "'w deploy_env \<Rightarrow> bool" where
  "get_law env = (\<forall>n i w d w'. dv_get env n i w = (Inr d, w') \<longrightarrow> dl_contract d = i)"

definition ledger :: "'w deploy_env \<Rightarrow> ('w \<Rightarrow> u64 set) \<Rightarrow> bool" where
  "ledger env live =
     ((\<forall>w. 0 \<notin> live w)
      \<and> (\<forall>n. keeps live (dv_client env n)) \<and> (\<forall>n d. keeps live (dv_send env n d)) \<and> (\<forall>n d. keeps live (dv_resend env n d))
      \<and> (\<forall>n i. keeps live (dv_get env n i)) \<and> (\<forall>n i. keeps live (dv_changes env n i))
      \<and> keeps live (dv_now env) \<and> keeps live (dv_backoff env)
      \<and> get_law env \<and> create_law env live \<and> update_law env live \<and> cancel_law env live)"

lemma keepsD: "keeps live f \<Longrightarrow> f w = (r, w') \<Longrightarrow> live w' = live w"
  unfolding keeps_def by (metis snd_conv)

lemma ledger_keeps:
  assumes "ledger env live"
  shows "keeps live (dv_client env n)" "keeps live (dv_send env n d)" "keeps live (dv_resend env n d)"
    "keeps live (dv_get env n i)" "keeps live (dv_changes env n i)" "keeps live (dv_now env)" "keeps live (dv_backoff env)"
  using assms by (simp_all add: ledger_def)

lemmas live_client = keepsD [OF ledger_keeps(1)]
  and live_send = keepsD [OF ledger_keeps(2)]
  and live_resend = keepsD [OF ledger_keeps(3)]
  and live_get = keepsD [OF ledger_keeps(4)]
  and live_changes = keepsD [OF ledger_keeps(5)]
  and live_now = keepsD [OF ledger_keeps(6)]
  and live_backoff = keepsD [OF ledger_keeps(7)]

lemma live_zero: "ledger env live \<Longrightarrow> 0 \<notin> live w"
  by (simp add: ledger_def)

lemma get_contract_id: "ledger env live \<Longrightarrow> dv_get env n i w = (Inr d, w') \<Longrightarrow> dl_contract d = i"
  unfolding ledger_def get_law_def by metis

lemma live_cancel:
  assumes L: "ledger env live" and e: "ensure_contract_canceled (dv_chain env) i w = (e, w')"
  shows "(case e of None \<Rightarrow> live w' = live w - {i}
    | Some e \<Rightarrow> live w' = live w \<and> (has_infix ''ContractNotExists'' (ce_text e) \<longrightarrow> i \<notin> live w))"
proof (cases "i = 0")
  case True
  then show ?thesis using e live_zero [OF L] by (auto simp: ensure_contract_canceled_def)
next
  case False
  obtain r where r: "ch_cancel (dv_chain env) i w = (r, w')" "e = map_option (normalize_error (dv_chain env)) r"
    using e False by (auto simp: ensure_contract_canceled_def split: prod.splits option.splits)
  have "case r of None \<Rightarrow> live w' = live w - {i}
     | Some e \<Rightarrow> live w' = live w \<and> (has_infix ''ContractNotExists'' (ce_text (normalize_error (dv_chain env) e)) \<longrightarrow> i \<notin> live w)"
    using L r(1) unfolding ledger_def cancel_law_def by metis
  then show ?thesis using r(2) by (cases r) auto
qed

lemma live_create:
  assumes "ledger env live" and "create_node_contract (dv_chain env) n b h p s w = (r, w')"
  shows "created live w (r, w')"
proof -
  have "created live w (ch_create_node (dv_chain env) n b h p s w)" using assms(1) by (simp add: ledger_def create_law_def)
  then show ?thesis using assms(2)
    by (auto simp: created_def create_node_contract_def normalize_result_def split: sum.splits)
qed

lemma live_update:
  assumes "ledger env live" and "update_node_contract (dv_chain env) i b h w = (r, w')"
  shows "live w' = live w \<and> (\<forall>j. r = Inr j \<longrightarrow> j = i)"
proof (cases "ch_update_node (dv_chain env) i b h w")
  case (Pair q w1)
  have "keeps live (ch_update_node (dv_chain env) i b h)" "fst (ch_update_node (dv_chain env) i b h w) \<in> range Inl \<union> {Inr i}"
    using assms(1) by (simp_all add: ledger_def update_law_def)
  then have "live w1 = live w" "q \<in> range Inl \<union> {Inr i}" using Pair by (auto dest: keepsD)
  then show ?thesis using assms(2) Pair by (auto simp: update_node_contract_def normalize_result_def)
qed

lemma live_poll:
  assumes L: "ledger env live" and "poll_changes env n i vs t k w = (r, w')"
  shows "live w' = live w"
  using assms(2) live_changes [OF L] live_now [OF L] live_backoff [OF L]
  by (fastforce simp: poll_changes_def Let_def split: prod.splits sum.splits if_splits)

lemma live_wait_loop:
  assumes L: "ledger env live" and ret: "wait_loop env n i vs t k w = Some r"
  shows "live (snd r) = live w"
proof -
  have "env = env \<longrightarrow> live (snd r) = live w"
  proof (rule wait_loop.raw_induct [where P = "\<lambda>env' n i vs t k w r. env' = env \<longrightarrow> live (snd r) = live w", OF _ ret])
    fix f env' n i vs t k w r
    assume IH: "\<And>env' n i vs t k w r. f env' n i vs t k w = Some r \<Longrightarrow> env' = env \<longrightarrow> live (snd r) = live w"
      and eq: "(case poll_changes env' n i vs t k w of
        (r, w') \<Rightarrow> (case r of Inl e \<Rightarrow> Some (e, w') | Inr p \<Rightarrow> f env' n i vs (fst p) (snd p) w')) = Some r"
    show "env' = env \<longrightarrow> live (snd r) = live w"
      using eq IH by (auto split: prod.splits sum.splits dest: live_poll [OF L])
  qed
  then show ?thesis by simp
qed

lemma live_wait: "ledger env live \<Longrightarrow> dep_wait env n i vs w = Some (e, w') \<Longrightarrow> live w' = live w"
  using live_now [of env live w] by (auto simp: dep_wait_def split: prod.splits dest!: live_wait_loop)

lemma live_recorded:
  "ledger env live \<Longrightarrow> wait_recorded env n i vs w = Some ((e, rc), w') \<Longrightarrow> live w' = live w \<and> rc = Some i"
  by (auto simp: wait_recorded_def split: option.splits dest: live_wait)

section \<open>Contracts are accounted for\<close>

text \<open>The error that tells the user to cancel a contract by hand.\<close>

definition manual :: "string option \<Rightarrow> bool" where
  "manual e = (\<exists>t. e = Some (''error cancelling contract: '' @ t))"

text \<open>A step that makes a contract records it, unless it tells the user to cancel it.\<close>

definition created_or_nothing :: "('w \<Rightarrow> u64 set) \<Rightarrow> 'w \<Rightarrow> string option \<Rightarrow> u64 option \<Rightarrow> 'w \<Rightarrow> bool" where
  "created_or_nothing live w e rc w' =
     (rc = None \<and> e \<noteq> None \<and> live w' = live w
      \<or> (\<exists>i. i \<notin> live w \<and> live w' = insert i (live w) \<and> (rc = Some i \<or> rc = None \<and> manual e)))"

lemma send_new_live:
  assumes L: "ledger env live" and "live w2 = insert i (live w)" "i \<notin> live w"
    and s: "send_new env node dl i w2 = Some ((e, rc), w')"
  shows "created_or_nothing live w e rc w'"
proof (cases "dv_send env node (dl\<lparr>dl_contract := i\<rparr>) w2")
  case (Pair q w3)
  note l3 = live_send [OF L Pair]
  show ?thesis
  proof (cases q)
    case None
    then have "wait_recorded env node i (zero_versions (dl_workloads dl)) w3 = Some ((e, rc), w')"
      using s Pair by (simp add: send_new_def)
    then show ?thesis using live_recorded [OF L] assms(2,3) l3 by (fastforce simp: created_or_nothing_def)
  next
    case (Some t)
    obtain re w4 where re: "ensure_contract_canceled (dv_chain env) i w3 = (re, w4)" by fastforce
    then show ?thesis using live_cancel [OF L re] s Pair Some assms(2,3) l3
      by (auto simp: created_or_nothing_def manual_def send_new_def split: option.splits)
  qed
qed

lemma create_one_live:
  assumes L: "ledger env live" and s: "create_one env node dl p w = Some ((e, rc), w')"
  shows "created_or_nothing live w e rc w'"
proof -
  obtain c w1 where c: "dv_client env node w = (c, w1)" by fastforce
  note l1 = live_client [OF L c]
  show ?thesis
  proof (cases "c = None \<and> (\<exists>x. prepare_deployment env dl = Some (Inr x))")
    case False
    then show ?thesis using s c l1 by (auto simp: created_or_nothing_def create_one_def split: option.splits sum.splits)
  next
    case True
    then obtain dl1 hash ips where pr: "prepare_deployment env dl = Some (Inr (dl1, hash, ips))" by auto
    obtain r w2 where r: "create_node_contract (dv_chain env) node (dl_metadata dl1) hash ips p w1 = (r, w2)" by fastforce
    note l2 = live_create [OF L r, unfolded created_def, simplified]
    show ?thesis
    proof (cases r)
      case (Inl x)
      then show ?thesis using s c pr r l1 l2 True by (auto simp: created_or_nothing_def create_one_def)
    next
      case (Inr i)
      then have "send_new env node dl1 i w2 = Some ((e, rc), w')" using s c pr r True by (simp add: create_one_def)
      moreover have "live w2 = insert i (live w)" "i \<notin> live w" using l1 l2 Inr by auto
      ultimately show ?thesis using send_new_live [OF L] by blast
    qed
  qed
qed

lemma sign_keeps:
  "sign_and_hash env dl = Inr (dl1, h) \<Longrightarrow> dl_contract dl1 = dl_contract dl \<and> dl_workloads dl1 = dl_workloads dl
     \<and> dl_metadata dl1 = dl_metadata dl"
  by (auto simp: sign_and_hash_def dl_sign_def copy_signature_def copy_signature4_def split: prod.splits option.splits sum.splits if_splits)

lemma map_sum_Inr_iff: "map_sum f g r = Inr y \<longleftrightarrow> (\<exists>x. r = Inr x \<and> y = g x)"
  by (cases r) auto

lemma prepare_update_contract:
  "prepare_update env oldID oldDl dl = Inr (Some (dl1, h, vs)) \<Longrightarrow> dl_contract dl1 = dl_contract oldDl"
  by (auto simp: prepare_update_def Let_def map_sum_Inr_iff split: sum.splits if_splits prod.splits dest!: sign_keeps)

lemma send_update_live:
  assumes L: "ledger env live" and s: "send_update env node dl hash vs w = Some ((e, rc), w')"
  shows "live w' = live w \<and> (\<forall>i. rc = Some i \<longrightarrow> i = dl_contract dl)"
proof -
  obtain r w1 where r: "update_node_contract (dv_chain env) (dl_contract dl) (dl_metadata dl) hash w = (r, w1)" by fastforce
  note l1 = live_update [OF L r]
  show ?thesis
  proof (cases r)
    case (Inl x)
    then show ?thesis using s r l1 by (auto simp: send_update_def)
  next
    case (Inr j)
    obtain q w2 where q: "dv_resend env node (dl\<lparr>dl_contract := j\<rparr>) w1 = (q, w2)" by fastforce
    then show ?thesis using s r l1 Inr live_resend [OF L q]
      by (cases q) (auto simp: send_update_def dest: live_recorded [OF L])
  qed
qed

lemma update_one_live:
  assumes L: "ledger env live" and s: "update_one env node dl oldID w = Some ((e, rc), w')"
  shows "live w' = live w \<and> (\<forall>i. rc = Some i \<longrightarrow> i = oldID)"
proof -
  obtain c w1 where c: "dv_client env node w = (c, w1)" by fastforce
  obtain g w2 where g: "dv_get env node oldID w1 = (g, w2)" by fastforce
  note l = live_client [OF L c] live_get [OF L g]
  show ?thesis
  proof (cases "c = None \<and> (\<exists>d dl1 h vs. g = Inr d \<and> prepare_update env oldID d dl = Inr (Some (dl1, h, vs)))")
    case False
    then show ?thesis using s c g l by (auto simp: update_one_def split: option.splits sum.splits)
  next
    case True
    then obtain d dl1 h vs where d: "c = None" "g = Inr d" "prepare_update env oldID d dl = Inr (Some (dl1, h, vs))" by blast
    have "dl_contract dl1 = oldID" using prepare_update_contract [OF d(3)] get_contract_id [OF L] g d(2) by metis
    moreover have "send_update env node dl1 h vs w2 = Some ((e, rc), w')" using s c g d by (simp add: update_one_def)
    ultimately show ?thesis using send_update_live [OF L] l by metis
  qed
qed

text \<open>The deletions.\<close>

lemma set_delete: "set (AList.delete n al) = {p \<in> set al. fst p \<noteq> n}"
  by (auto simp: AList.delete_eq)

lemma delete_loop_live:
  assumes L: "ledger env live" and "distinct (map fst cur)" "set old \<subseteq> set cur" "distinct (map fst old)"
    and "delete_loop env new old cur w = ((cur', e), w')"
  shows "live w' \<subseteq> live w \<and> set cur' \<subseteq> set cur \<and> distinct (map fst cur')
    \<and> (\<forall>i \<in> live w - live w'. \<exists>n. (n, i) \<in> set old \<and> map_of new n = None)
    \<and> (\<forall>(n, i) \<in> set cur. i \<in> live w' \<or> map_of new n \<noteq> None \<longrightarrow> (n, i) \<in> set cur')
    \<and> (e = None \<longrightarrow> set cur' = {(n, i) \<in> set cur. \<not> (n \<in> fst ` set old \<and> map_of new n = None)})"
  using assms(2-)
proof (induction old arbitrary: cur w)
  case (Cons p old)
  obtain node i where p: "p = (node, i)" by fastforce
  show ?case
  proof (cases "map_of new node = None")
    case False
    then have A: "delete_loop env new old cur w = ((cur', e), w')" using Cons.prems p by simp
    have B: "set old \<subseteq> set cur" "distinct (map fst old)" using Cons.prems(2,3) by auto
    have "n \<in> fst ` set (p # old) \<and> map_of new n = None \<longleftrightarrow> n \<in> fst ` set old \<and> map_of new n = None" for n
      using False p by auto
    then show ?thesis using Cons.IH [OF Cons.prems(1) B A] by (simp only: list.set insert_iff) blast
  next
    case True
    obtain r w1 where r: "ensure_contract_canceled (dv_chain env) i w = (r, w1)" by fastforce
    note lc = live_cancel [OF L r]
    show ?thesis
    proof (cases "case r of None \<Rightarrow> False | Some e \<Rightarrow> \<not> has_infix ''ContractNotExists'' (ce_text e)")
      case bad: True
      then show ?thesis using Cons.prems True p r lc by (auto split: option.splits)
    next
      case ok: False
      then have l1: "live w1 = live w - {i}" using lc by (auto split: option.splits)
      have rest: "delete_loop env new old (AList.delete node cur) w1 = ((cur', e), w')"
        using Cons.prems(4) True p r ok by simp
      have old: "set old \<subseteq> set (AList.delete node cur)" using Cons.prems(2,3) p by (force simp: set_delete)
      have node: "(n, j) \<in> set cur \<Longrightarrow> n = node \<Longrightarrow> j = i" for n j
        using Cons.prems(1,2) p eq_key_imp_eq_value by fastforce
      have IH: "live w' \<subseteq> live w1 \<and> set cur' \<subseteq> set (AList.delete node cur) \<and> distinct (map fst cur')
        \<and> (\<forall>i \<in> live w1 - live w'. \<exists>n. (n, i) \<in> set old \<and> map_of new n = None)
        \<and> (\<forall>(n, i) \<in> set (AList.delete node cur). i \<in> live w' \<or> map_of new n \<noteq> None \<longrightarrow> (n, i) \<in> set cur')
        \<and> (e = None \<longrightarrow> set cur' = {(n, i) \<in> set (AList.delete node cur). \<not> (n \<in> fst ` set old \<and> map_of new n = None)})"
        using Cons.prems(1,3) by (intro Cons.IH [OF _ old _ rest] distinct_delete) auto
      show ?thesis
      proof (intro conjI ballI impI)
        show "live w' \<subseteq> live w" using IH l1 by blast
        show "set cur' \<subseteq> set cur" using IH by (auto simp: set_delete)
        show "distinct (map fst cur')" using IH by blast
        show "\<exists>n. (n, j) \<in> set (p # old) \<and> map_of new n = None" if "j \<in> live w - live w'" for j
        proof (cases "j = i")
          case True
          then show ?thesis using \<open>map_of new node = None\<close> p by auto
        next
          case False
          then have "j \<in> live w1 - live w'" using that l1 by blast
          then obtain n where "(n, j) \<in> set old" "map_of new n = None" using IH by blast
          then show ?thesis by auto
        qed
        show "case q of (n, j) \<Rightarrow> j \<in> live w' \<or> map_of new n \<noteq> None \<longrightarrow> (n, j) \<in> set cur'" if q: "q \<in> set cur" for q
        proof (cases q)
          case (Pair n j)
          have "j \<noteq> i" if "j \<in> live w'" using that IH l1 by blast
          then have "n \<noteq> node" if "j \<in> live w' \<or> map_of new n \<noteq> None"
            using that True node [of n j] q Pair by auto
          then have "j \<in> live w' \<or> map_of new n \<noteq> None \<Longrightarrow> (n, j) \<in> set (AList.delete node cur)"
            using q Pair by (simp add: set_delete)
          moreover have "(n, j) \<in> set (AList.delete node cur) \<Longrightarrow> j \<in> live w' \<or> map_of new n \<noteq> None \<Longrightarrow> (n, j) \<in> set cur'"
            using IH by blast
          ultimately show ?thesis using Pair by simp
        qed
        show "set cur' = {(n, j) \<in> set cur. \<not> (n \<in> fst ` set (p # old) \<and> map_of new n = None)}" if "e = None"
          using IH that True p by (auto simp: set_delete)
      qed
    qed
  qed
qed auto

text \<open>The creations.\<close>

lemma update_fresh: "n \<notin> fst ` set al \<Longrightarrow> AList.update n v al = al @ [(n, v)]"
  by (induction al) auto

lemma create_loop_live:
  assumes L: "ledger env live" and "distinct (map fst cur)" "distinct (map fst dls)" "fst ` set dls \<inter> fst ` set cur = {}"
    and "step_loop (\<lambda>node dl. create_one env node dl (p node)) dls cur w = Some ((cur', e), w')"
  shows "set cur \<subseteq> set cur' \<and> distinct (map fst cur') \<and> live w \<subseteq> live w'
    \<and> (\<forall>i \<in> live w'. i \<in> live w \<or> i \<in> snd ` set cur' \<or> manual e)
    \<and> (e = None \<longrightarrow> fst ` set cur' = fst ` set cur \<union> fst ` set dls)"
  using assms(2-)
proof (induction dls arbitrary: cur w)
  case (Cons q dls)
  obtain node dl where q: "q = (node, dl)" by fastforce
  obtain e1 rc w1 where s: "create_one env node dl (p node) w = Some ((e1, rc), w1)"
    using Cons.prems(4) q by (auto split: option.splits)
  note cr = create_one_live [OF L s, unfolded created_or_nothing_def]
  have fresh: "node \<notin> fst ` set cur" using Cons.prems(3) q by auto
  show ?case
  proof (cases "e1 = None")
    case False
    then show ?thesis using Cons.prems cr q s fresh
      by (auto simp: update_fresh split: option.splits)
  next
    case True
    then obtain i where i: "i \<notin> live w" "live w1 = insert i (live w)" "rc = Some i" using cr by (auto simp: manual_def)
    have rest: "step_loop (\<lambda>node dl. create_one env node dl (p node)) dls (cur @ [(node, i)]) w1 = Some ((cur', e), w')"
      using Cons.prems(4) q s True i fresh by (simp add: update_fresh)
    have "fst ` set dls \<inter> fst ` set (cur @ [(node, i)]) = {}" using Cons.prems(2,3) q by auto
    note IH = Cons.IH [OF _ _ this rest]
    have "set (cur @ [(node, i)]) \<subseteq> set cur'" using IH Cons.prems(1,2) fresh by auto
    then have "i \<in> snd ` set cur'" by force
    then show ?thesis using IH Cons.prems(1,2) q i fresh by auto
  qed
qed auto

text \<open>The updates.\<close>

lemma update_loop_live:
  assumes L: "ledger env live" and "distinct (map fst cur)" "\<forall>n \<in> fst ` set dls. map_of cur n = Some (old n)"
    and "step_loop (\<lambda>node dl. update_one env node dl (old node)) dls cur w = Some ((cur', e), w')"
  shows "cur' = cur \<and> live w' = live w"
  using assms(2-)
proof (induction dls arbitrary: w)
  case (Cons q dls)
  obtain node dl where q: "q = (node, dl)" by fastforce
  obtain e1 rc w1 where s: "update_one env node dl (old node) w = Some ((e1, rc), w1)"
    using Cons.prems(3) q by (auto split: option.splits)
  note up = update_one_live [OF L s]
  have "AList.update node i cur = cur" if "rc = Some i" for i
    using up that Cons.prems(2) q by (simp add: update_triv)
  then show ?case using Cons.IH [of w1] Cons.prems up q s by (auto split: option.splits if_splits)
qed auto

lemma deploy_to_accounted:
  assumes L: "ledger env live" and d: "distinct (map fst old)" "distinct (map fst new)"
    and r: "deploy_to env old new providers w = Some ((cur, e), w')"
  shows "distinct (map fst cur)
    \<and> (\<forall>i \<in> live w'. i \<in> live w \<and> i \<notin> snd ` set old \<or> i \<in> snd ` set cur \<or> manual e)
    \<and> (\<forall>i \<in> live w - live w'. \<exists>n. (n, i) \<in> set old \<and> map_of new n = None)
    \<and> (e = None \<longrightarrow> fst ` set cur = fst ` set new)"
proof -
  obtain cur1 e1 w1 where del: "delete_loop env new old old w = ((cur1, e1), w1)" by (metis prod.exhaust)
  note D = delete_loop_live [OF L d(1) subset_refl d(1) del]
  have D1: "live w1 \<subseteq> live w" "set cur1 \<subseteq> set old" "distinct (map fst cur1)" using D by blast+
  have D2: "\<forall>i \<in> live w - live w1. \<exists>n. (n, i) \<in> set old \<and> map_of new n = None" using D by blast
  have D3: "(n, i) \<in> set old \<Longrightarrow> i \<in> live w1 \<or> map_of new n \<noteq> None \<Longrightarrow> (n, i) \<in> set cur1" for n i using D by blast
  have D4: "fst ` set cur1 = {n \<in> fst ` set old. map_of new n \<noteq> None}" if "e1 = None"
  proof -
    have "set cur1 = {(n, i) \<in> set old. \<not> (n \<in> fst ` set old \<and> map_of new n = None)}" using D that by blast
    then show ?thesis by auto (force+)
  qed
  have kept: "i \<in> live w \<and> i \<notin> snd ` set old \<or> i \<in> snd ` set cur1" if "i \<in> live w1" for i
    using subsetD [OF D1(1) that] D3 [of _ i] that by auto
  show ?thesis
  proof (cases e1)
    case (Some t)
    then have "cur = cur1" "e = e1" "w' = w1" using r del by (auto simp: deploy_to_def)
    then show ?thesis using D1 D2 kept Some by blast
  next
    case None
    let ?p = "\<lambda>node. case map_of providers node of Some p \<Rightarrow> p | None \<Rightarrow> None"
    let ?add = "filter (\<lambda>(node, _). map_of old node = None) new"
    obtain cur2 e2 w2 where add: "step_loop (\<lambda>node dl. create_one env node dl (?p node)) ?add cur1 w1 = Some ((cur2, e2), w2)"
      using r del None by (auto simp: deploy_to_def split: option.splits)
    have dis: "distinct (map fst ?add)" using d(2) by (simp add: distinct_map_filter)
    have "map_of old n = None" if "n \<in> fst ` set ?add" for n using that by auto
    moreover have "map_of old n \<noteq> None" if "n \<in> fst ` set cur1" for n using that D1(2) by (auto simp: map_of_eq_None_iff)
    ultimately have "fst ` set ?add \<inter> fst ` set cur1 = {}" by blast
    note A = create_loop_live [OF L D1(3) dis this add]
    have A1: "set cur1 \<subseteq> set cur2" "distinct (map fst cur2)" "live w1 \<subseteq> live w2" using A by blast+
    have A2: "i \<in> live w \<and> i \<notin> snd ` set old \<or> i \<in> snd ` set cur2 \<or> manual e2" if "i \<in> live w2" for i
      using A kept [of i] that by blast
    have gone: "\<forall>i \<in> live w - live w2. \<exists>n. (n, i) \<in> set old \<and> map_of new n = None" using D2 A1(3) by blast
    show ?thesis
    proof (cases e2)
      case (Some t)
      then have "cur = cur2" "e = e2" "w' = w2" using r del None add by (auto simp: deploy_to_def)
      then show ?thesis using A1 A2 gone Some by blast
    next
      case None2: None
      let ?upd = "filter (\<lambda>(node, _). map_of old node \<noteq> None) new"
      have upd: "step_loop (\<lambda>node dl. update_one env node dl (the (map_of old node))) ?upd cur2 w2 = Some ((cur, e), w')"
        using r del None add None2 by (simp add: deploy_to_def)
      have "map_of cur2 n = Some (the (map_of old n))" if "n \<in> fst ` set ?upd" for n
      proof -
        from that obtain v where v: "map_of old n = Some v" "n \<in> fst ` set new" by (auto simp: image_iff) force
        then have "(n, v) \<in> set cur1" using D3 [OF map_of_SomeD [OF v(1)]] by (simp add: map_of_eq_None_iff)
        then show ?thesis using A1 v(1) by auto
      qed
      then have U: "cur = cur2" "live w' = live w2" using update_loop_live [OF L A1(2) _ upd] by blast+
      have "fst ` set ?add = {n \<in> fst ` set new. map_of old n = None}" by force
      moreover have "{n \<in> fst ` set old. map_of new n \<noteq> None} = {n \<in> fst ` set new. map_of old n \<noteq> None}"
        by (auto simp: map_of_eq_None_iff)
      moreover have "fst ` set cur2 = fst ` set cur1 \<union> fst ` set ?add" using A None2 by blast
      ultimately have "fst ` set cur2 = {n \<in> fst ` set new. map_of old n \<noteq> None} \<union> {n \<in> fst ` set new. map_of old n = None}"
        using D4 [OF None] by (simp only:)
      then have keys: "fst ` set cur2 = fst ` set new" by blast
      have "\<not> manual e2" using None2 by (simp add: manual_def)
      then have "\<forall>i \<in> live w2. i \<in> live w \<and> i \<notin> snd ` set old \<or> i \<in> snd ` set cur2 \<or> manual e" using A2 by blast
      then show ?thesis unfolding U using A1(2) gone keys by (intro conjI impI)
    qed
  qed
qed

section \<open>What a deployment leaves on which nodes\<close>

lemma get_deployments_keys:
  "get_deployments env ids res w = (Inr dls, w') \<Longrightarrow>
     fst ` set dls = fst ` set res \<union> fst ` set ids \<and> (distinct (map fst res) \<longrightarrow> distinct (map fst dls))"
proof (induction env ids res w rule: get_deployments.induct)
  case (2 env node i dls' res w)
  obtain c w1 where c: "dv_client env node w = (c, w1)" by fastforce
  obtain g w2 where g: "dv_get env node i w1 = (g, w2)" by fastforce
  obtain dl where dl: "c = None" "g = Inr dl" using 2(2) c g by (cases c; cases g) auto
  have "get_deployments env dls' (AList.update node dl res) w2 = (Inr dls, w')" using 2(2) c g dl by simp
  from 2(1) [OF c [symmetric] dl(1) g [symmetric] dl(2) this] show ?case
    by (simp add: dom_update distinct_update)
qed simp

text \<open>A failed deployment is back on its old nodes, or the error tells why it is not.\<close>

lemma dep_deploy_outcome:
  assumes L: "ledger env live" and d: "distinct (map fst oldIDs)" "distinct (map fst new)"
    and r: "dep_deploy env True oldIDs new providers w = Some ((cur, err), w')"
  shows "(err = None \<longrightarrow> fst ` set cur = fst ` set new)
    \<and> (\<forall>e. err = Some e \<longrightarrow> fst ` set cur = fst ` set oldIDs
         \<or> (\<exists>t. e = ''failed to fetch deployment objects to revert deployments: '' @ t)
         \<or> (\<exists>t. e = ''failed to revert deployments: '' @ t))"
proof -
  obtain old w1 where old: "get_deployments env oldIDs [] w = (old, w1)" by fastforce
  obtain v w2 where v: "(case old of Inl _ \<Rightarrow> Some (None, w1) | Inr oldDls \<Rightarrow> dep_validate env oldDls new w1) = Some (v, w2)"
    using r old by (auto simp: dep_deploy_def split: option.splits)
  show ?thesis
  proof (cases v)
    case (Some e)
    then have "cur = oldIDs" "err = Some e" using r old v by (auto simp: dep_deploy_def)
    then show ?thesis by simp
  next
    case None
    obtain cur1 e1 w3 where dep: "deploy_to env oldIDs new providers w2 = Some ((cur1, e1), w3)"
      using r old v None by (auto simp: dep_deploy_def split: option.splits)
    note D = deploy_to_accounted [OF L d dep]
    show ?thesis
    proof (cases e1)
      case None1: None
      then show ?thesis using r old v None dep D by (simp add: dep_deploy_def)
    next
      case (Some e)
      show ?thesis
      proof (cases old)
        case (Inl t)
        then show ?thesis using r old v None dep Some by (auto simp: dep_deploy_def)
      next
        case (Inr dls)
        have keys: "fst ` set dls = fst ` set oldIDs" "distinct (map fst dls)"
          using get_deployments_keys [of env oldIDs "[]" w dls w1] old Inr by auto
        obtain cur2 e2 w4 where rev: "deploy_to env cur1 dls providers w3 = Some ((cur2, e2), w4)"
          using r old v None dep Some Inr by (auto simp: dep_deploy_def split: option.splits)
        have "distinct (map fst cur1)" using D by (rule conjunct1)
        from deploy_to_accounted [OF L this keys(2) rev]
        have "e2 = None \<Longrightarrow> fst ` set cur2 = fst ` set dls" by (elim conjE) (rule mp)
        moreover have "cur = cur2" "err \<noteq> None" "e2 \<noteq> None \<Longrightarrow> \<exists>t. err = Some (''failed to revert deployments: '' @ t)"
          using r old v None dep Some Inr rev by (auto simp: dep_deploy_def split: option.splits)
        ultimately show ?thesis using keys(1) by (cases e2) auto
      qed
    qed
  qed
qed

section \<open>The end of a wait\<close>

abbreviation expected :: "(string \<times> u32) list \<Rightarrow> workload \<Rightarrow> bool" where
  "expected versions wl \<equiv> map_of versions (wl_name wl) = Some (wl_version wl)"

lemma count_ok_length:
  "count_ok i versions wls k = Inr n \<Longrightarrow>
     n = k + length (filter (\<lambda>wl. expected versions wl \<and> rs_state (wl_result wl) = StateOk) wls)
     \<and> (\<forall>wl \<in> set wls. expected versions wl \<longrightarrow> rs_state (wl_result wl) \<notin> {StateError, StateDeleted, StatePaused, StateUnChanged})"
proof (induction i versions wls k rule: count_ok.induct)
  case (2 i versions wl wls k)
  have ok: "StateOk \<notin> {StateError, StateDeleted, StatePaused, StateUnChanged}" by (simp add: state_defs)
  show ?case
  proof (cases "expected versions wl")
    case False
    then show ?thesis using 2 by simp
  next
    case True
    show ?thesis
    proof (cases "rs_state (wl_result wl) = StateOk")
      case up: True
      then have "count_ok i versions wls (k + 1) = Inr n" using 2(4) True by simp
      from 2(1) [OF True up this] show ?thesis using True up ok by auto
    next
      case down: False
      then have f: "failed_state i wl = None" "count_ok i versions wls k = Inr n"
        using 2(4) True by (auto split: option.splits)
      from f(1) have "rs_state (wl_result wl) \<notin> {StateError, StateDeleted, StatePaused, StateUnChanged}"
        by (auto simp: failed_state_def Let_def split: if_splits)
      with 2(2) [OF True down f] show ?thesis using True down by simp
    qed
  qed
qed simp

lemma wait_loop_None:
  assumes ret: "wait_loop env node i versions t k w = Some (None, w')"
  shows "\<exists>w0 changes w1. dv_changes env node i w0 = (Inr changes, w1) \<and> count_ok i versions changes 0 = Inr (length versions)"
proof -
  have "fst (None :: string option, w') = None \<longrightarrow>
      (\<exists>w0 changes w1. dv_changes env node i w0 = (Inr changes, w1) \<and> count_ok i versions changes 0 = Inr (length versions))"
  proof (rule wait_loop.raw_induct [where P = "\<lambda>env node i versions t k w r. fst r = None \<longrightarrow>
      (\<exists>w0 changes w1. dv_changes env node i w0 = (Inr changes, w1) \<and> count_ok i versions changes 0 = Inr (length versions))", OF _ ret])
    fix f env node i versions t k and w :: 'a and r
    assume IH: "\<And>env node i versions t k w r. f env node i versions t k w = Some r \<Longrightarrow> fst r = None \<longrightarrow>
        (\<exists>w0 changes w1. dv_changes env node i w0 = (Inr changes, w1) \<and> count_ok i versions changes 0 = Inr (length versions))"
      and eq: "(case poll_changes env node i versions t k w of
        (r, w') \<Rightarrow> (case r of Inl e \<Rightarrow> Some (e, w') | Inr p \<Rightarrow> f env node i versions (fst p) (snd p) w')) = Some r"
    obtain q w1 where q: "poll_changes env node i versions t k w = (q, w1)" by fastforce
    show "fst r = None \<longrightarrow>
        (\<exists>w0 changes w1. dv_changes env node i w0 = (Inr changes, w1) \<and> count_ok i versions changes 0 = Inr (length versions))"
    proof (cases q)
      case (Inl e)
      then show ?thesis using eq q
        by (auto simp: poll_changes_def Let_def split: prod.splits sum.splits if_splits)
    next
      case (Inr p)
      then show ?thesis using eq q IH by simp
    qed
  qed
  then show ?thesis by simp
qed

text \<open>With one answer per name, all the expected workloads are up in their version.\<close>

lemma filter_covers:
  assumes "distinct (map fst versions)" "distinct (map wl_name wls)"
    and n: "length (filter (\<lambda>wl. expected versions wl \<and> P wl) wls) = length versions"
    and v: "(name, ver) \<in> set versions"
  shows "\<exists>wl \<in> set wls. wl_name wl = name \<and> wl_version wl = ver \<and> P wl"
proof -
  let ?ok = "filter (\<lambda>wl. expected versions wl \<and> P wl) wls"
  have "distinct (map wl_name ?ok)" using assms(2) by (rule distinct_map_filter)
  then have "card (wl_name ` set ?ok) = length versions" using n distinct_card by fastforce
  moreover have "wl_name wl \<in> fst ` set versions" if "expected versions wl" for wl
    using map_of_SomeD [OF that] by (metis fst_conv image_eqI)
  then have "wl_name ` set ?ok \<subseteq> fst ` set versions" by (simp add: image_subset_iff)
  moreover have "card (fst ` set versions) = length versions" using distinct_card [OF assms(1)] by simp
  ultimately have "wl_name ` set ?ok = fst ` set versions" by (simp add: card_subset_eq)
  then have "name \<in> wl_name ` set ?ok" using v by force
  then obtain wl where "wl \<in> set wls" "wl_name wl = name" "expected versions wl" "P wl" by auto
  then show ?thesis using assms(1) v by auto
qed

end
