(* ===== verification/DeployerVersions.thy ===== *)
theory DeployerVersions
  imports Deployer
begin

text \<open>
  Which versions an update gives the workloads of a deployment (\<open>assignVersions\<close>), and what the check beforehand takes a node
  to have left (\<open>Validate\<close>), both of \<open>grid-client/deployer/deployer.go\<close>.
\<close>

section \<open>Versions of an update\<close>

definition workload_hash :: "wl_env \<Rightarrow> workload \<Rightarrow> u8 list" where
  "workload_hash env w = we_md5 env (snd (wl_challenge (we_api3 env) (we_api4 env) w))"

lemma workload_hashes_Inr:
  "workload_hashes env ws m = Inr hs \<Longrightarrow> hs = fold (\<lambda>w m. AList.update (wl_name w) (workload_hash env w) m) ws m"
  by (induction env ws m rule: workload_hashes.induct) (auto simp: workload_hash_def split: prod.splits option.splits)

lemma map_of_fold_update:
  "distinct (map f xs) \<Longrightarrow> map_of (fold (\<lambda>x m. AList.update (f x) (g x) m) xs m) k =
     (case find (\<lambda>x. f x = k) xs of Some x \<Rightarrow> Some (g x) | None \<Rightarrow> map_of m k)"
proof (induction xs arbitrary: m)
  case (Cons x xs)
  have "find (\<lambda>y. f y = k) xs = None" if "f x = k" using Cons.prems that by (auto simp: find_None_iff) (metis image_eqI)
  then show ?case using Cons by (auto simp: update_conv' split: option.split)
qed simp

lemma map_of_hashes:
  assumes "get_workload_hashes env dl = Inr hs" and "distinct (map wl_name (dl_workloads dl))"
  shows "map_of hs name = map_option (workload_hash env) (find (\<lambda>w. wl_name w = name) (dl_workloads dl))"
  using workload_hashes_Inr [OF assms(1) [unfolded get_workload_hashes_def]] map_of_fold_update [OF assms(2), of "workload_hash env" "[]" name]
  by (auto split: option.splits)

lemma find_distinct: "distinct (map f xs) \<Longrightarrow> x \<in> set xs \<Longrightarrow> find (\<lambda>y. f y = f x) xs = Some x"
  by (induction xs) (auto simp: image_iff)

lemma assign_versions_Inr:
  assumes "assign_versions env oldDl newDl = Inr (d, vs)"
    and old: "distinct (map wl_name (dl_workloads oldDl))" and new: "distinct (map wl_name (dl_workloads newDl))"
  shows "dl_version d = dl_version oldDl + 1
    \<and> dl_workloads d = map (\<lambda>w. if \<exists>u \<in> set (dl_workloads oldDl). wl_name u = wl_name w \<and> workload_hash env u = workload_hash env w
          then w else w\<lparr>wl_version := dl_version oldDl + 1\<rparr>) (dl_workloads newDl)
    \<and> (\<forall>w \<in> set (dl_workloads d). map_of vs (wl_name w) = Some (wl_version w))"
proof -
  obtain oh nh where h: "get_workload_hashes env oldDl = Inr oh" "get_workload_hashes env newDl = Inr nh"
    using assms(1) by (auto simp: assign_versions_def split: sum.splits)
  let ?v = "dl_version oldDl + 1"
  let ?f = "\<lambda>w. if \<exists>u \<in> set (dl_workloads oldDl). wl_name u = wl_name w \<and> workload_hash env u = workload_hash env w
          then w else w\<lparr>wl_version := ?v\<rparr>"
  have bump: "bump_version ?v oh nh w = ?f w" if w: "w \<in> set (dl_workloads newDl)" for w
  proof (cases "find (\<lambda>u. wl_name u = wl_name w) (dl_workloads oldDl)")
    case None
    then have "map_of oh (wl_name w) = None" using map_of_hashes [OF h(1) old, of "wl_name w"] by simp
    then show ?thesis using None by (auto simp: bump_version_def find_None_iff)
  next
    case (Some u)
    then have u: "u \<in> set (dl_workloads oldDl)" "wl_name u = wl_name w" by (auto simp: find_Some_iff)
    have "u' = u" if "u' \<in> set (dl_workloads oldDl)" "wl_name u' = wl_name w" for u'
      using old u that by (auto simp: distinct_map inj_on_def)
    then have "(\<exists>u' \<in> set (dl_workloads oldDl). wl_name u' = wl_name w \<and> workload_hash env u' = workload_hash env w)
        \<longleftrightarrow> workload_hash env u = workload_hash env w"
      using u by blast
    moreover have "map_of nh (wl_name w) = Some (workload_hash env w)"
      using map_of_hashes [OF h(2) new, of "wl_name w"] find_distinct [OF new w] by simp
    moreover have "map_of oh (wl_name w) = Some (workload_hash env u)"
      using map_of_hashes [OF h(1) old, of "wl_name w"] Some by simp
    ultimately show ?thesis by (auto simp: bump_version_def Let_def)
  qed
  then have ws: "map (bump_version ?v oh nh) (dl_workloads newDl) = map ?f (dl_workloads newDl)" by simp
  have d: "dl_version d = ?v" "dl_workloads d = map (bump_version ?v oh nh) (dl_workloads newDl)" "vs = versions_of (dl_workloads d)"
    using assms(1) h by (auto simp: assign_versions_def Let_def)
  have "map wl_name (dl_workloads d) = map wl_name (dl_workloads newDl)" unfolding d(2) ws by simp
  then have dist: "distinct (map wl_name (dl_workloads d))" using new by (simp only:)
  have "map_of vs (wl_name w) = Some (wl_version w)" if "w \<in> set (dl_workloads d)" for w
    unfolding d(3) versions_of_def using map_of_fold_update [OF dist, of wl_version "[]" "wl_name w"] find_distinct [OF dist that]
    by simp
  then show ?thesis using d ws by simp
qed

section \<open>Resources of an update\<close>

text \<open>The old deployment's storage on SSDs is given back twice.\<close>

lemma free_resources_added:
  "free_resources (ni\<lparr>ni_total := add_capacity (ni_total ni) c\<rparr>) =
     (free_resources ni)\<lparr>zc_sru := zc_sru (free_resources ni) + 2 * zc_sru c, zc_hru := zc_hru (free_resources ni) + zc_hru c,
        zc_mru := zc_mru (free_resources ni) + zc_mru c\<rparr>"
  by (simp add: free_resources_def add_capacity_def algebra_simps)

lemma check_resources_None:
  "check_resources node ni needed = None \<longleftrightarrow>
     zc_mru needed \<le> zc_mru (free_resources ni) \<and> zc_sru needed \<le> zc_sru (free_resources ni) \<and> zc_hru needed \<le> zc_hru (free_resources ni)"
  by (auto simp: check_resources_def Let_def not_less)

end
