(* ===== verification/Znet.thy ===== *)
theory Znet
  imports WlCommon
begin

text \<open>
  A private network over several nodes (\<open>grid-client/workloads/network.go\<close>): its record \<open>znet\<close>, validation, the
  assignment of addresses, keys and ports to its nodes, and the generation of one deployment per node with its
  WireGuard peers. Calls on the chain, the nodes, the random sources and the key type are fields of \<open>net_env\<close> over a
  world; a panic (an index out of range, a nil client, a text \<open>MustParseIPNet\<close> rejects) and a loop that never ends are
  the value \<open>None\<close>. Maps are association lists; a \<open>range\<close> over one visits the list in its order, which stands for any
  order. Lemmas: what the assignment of addresses promises and when it fails, and who the peers of a node are.
\<close>

section \<open>The outside world\<close>

type_synonym wg_key = "u8 list"

datatype contract_answer = ContractCreated | ContractNotCreated | ContractNotFound | ContractError string
datatype endpoint_answer = Endpoint ip | NoAccessibleInterface | EndpointError string

record 'w net_env =
  get_contract :: "u64 \<Rightarrow> 'w \<Rightarrow> contract_answer \<times> 'w"
  get_node_client :: "u32 \<Rightarrow> 'w \<Rightarrow> string option \<times> 'w"
  is_node_up :: "u32 \<Rightarrow> 'w \<Rightarrow> string option \<times> 'w"
  node_free_wg_port :: "u32 \<Rightarrow> u16 list \<Rightarrow> 'w \<Rightarrow> (string + int) \<times> 'w"
  node_endpoint :: "u32 \<Rightarrow> 'w \<Rightarrow> endpoint_answer \<times> 'w"
  node_wg_ports :: "u32 \<Rightarrow> 'w \<Rightarrow> (string + u16 list) \<times> 'w"
  wg_generate_key :: "'w \<Rightarrow> (string + wg_key) \<times> 'w"
  wg_generate_private :: "'w \<Rightarrow> (string + wg_key) \<times> 'w"
  rand_intn :: "nat \<Rightarrow> 'w \<Rightarrow> nat \<times> 'w"
  wg_parse :: "string \<Rightarrow> string + wg_key"
  wg_string :: "wg_key \<Rightarrow> string"
  wg_public :: "wg_key \<Rightarrow> wg_key"
  parse_ip6 :: "string \<Rightarrow> ip option"

definition zero_key :: wg_key where "zero_key = replicate 32 0"

section \<open>Metadata of a network\<close>

record user_access =
  ua_subnet :: string
  ua_private_key :: string
  ua_node_id :: u32

record network_metadata =
  nm_version :: int
  nm_user_accesses :: "user_access list"

record network_metadata_json = network_metadata +
  nm_ip :: string
  nm_priv_key :: string
  nm_node_id :: u32

definition user_access_fields :: "user_access setter" where
  "user_access_fields =
     field ''subnet'' as_str (\<lambda>x u. u\<lparr>ua_subnet := x\<rparr>) (field ''private_key'' as_str (\<lambda>x u. u\<lparr>ua_private_key := x\<rparr>)
    (field ''node_id'' as_nat (\<lambda>x u. u\<lparr>ua_node_id := x\<rparr>) no_field))"

definition network_metadata_fields :: "network_metadata_json setter" where
  "network_metadata_fields =
     field ''version'' as_int64 (\<lambda>x m. m\<lparr>nm_version := x\<rparr>)
    (field ''user_accesses''
       (as_list (as_struct user_access_fields \<lparr>ua_subnet = [], ua_private_key = [], ua_node_id = 0\<rparr>))
       (\<lambda>x m. m\<lparr>nm_user_accesses := x\<rparr>)
    (field ''ip'' as_str (\<lambda>x m. m\<lparr>nm_ip := x\<rparr>) (field ''priv_key'' as_str (\<lambda>x m. m\<lparr>nm_priv_key := x\<rparr>)
    (field ''node_id'' as_nat (\<lambda>x m. m\<lparr>nm_node_id := x\<rparr>) no_field))))"

definition unmarshal_network_metadata :: "string \<Rightarrow> network_metadata option" where
  "unmarshal_network_metadata data =
     (case unmarshal_struct network_metadata_fields
             \<lparr>nm_version = 0, nm_user_accesses = [], nm_ip = [], nm_priv_key = [], nm_node_id = 0\<rparr> data of
        None \<Rightarrow> None
      | Some d \<Rightarrow> Some \<lparr>nm_version = nm_version d,
          nm_user_accesses =
            (if nm_ip d \<noteq> [] \<or> nm_priv_key d \<noteq> [] \<or> nm_node_id d \<noteq> 0
             then [\<lparr>ua_subnet = nm_ip d, ua_private_key = nm_priv_key d, ua_node_id = nm_node_id d\<rparr>]
             else nm_user_accesses d)\<rparr>)"

definition j_user_access :: "user_access \<Rightarrow> json" where
  "j_user_access u = JObj [(''subnet'', JStr (ua_subnet u)), (''private_key'', JStr (ua_private_key u)),
     (''node_id'', j_nat (ua_node_id u))]"

text \<open>The code always makes a slice of accesses with one element.\<close>

definition j_network_metadata :: "network_metadata \<Rightarrow> json" where
  "j_network_metadata m = JObj [(''version'', j_int (nm_version m)),
     (''user_accesses'', JArr (map j_user_access (nm_user_accesses m)))]"

section \<open>The network\<close>

record znet =
  zn_name :: string
  zn_description :: string
  zn_nodes :: "u32 list"
  zn_ip_range :: ip_net
  zn_add_wg_access :: bool
  zn_mycelium_keys :: "(u32 \<times> u8 list) list"
  zn_solution_type :: string
  zn_access_wg_config :: string
  zn_external_ip :: "ip_net option"
  zn_external_sk :: wg_key
  zn_public_node_id :: u32
  zn_nodes_ip_range :: "(u32 \<times> ip_net) list"
  zn_node_deployment_id :: "(u32 \<times> u64) list"
  zn_wg_port :: "(u32 \<times> int) list"
  zn_keys :: "(u32 \<times> wg_key) list"

definition new_network_from_workload :: "gt_api \<Rightarrow> 'w net_env \<Rightarrow> workload \<Rightarrow> u32 \<Rightarrow> string + znet" where
  "new_network_from_workload api3 env wl nodeID =
     (case network_workload api3 wl of
        Inl _ \<Rightarrow> Inl ''could not create network workload from data''
      | Inr data \<Rightarrow>
     (case (if nw_private_key data \<noteq> []
            then (case wg_parse env (nw_private_key data) of
                    Inl _ \<Rightarrow> Inl (''could not parse wg private key: '' @ nw_private_key data)
                  | Inr k \<Rightarrow> Inr [(nodeID, k)])
            else Inr []) of
        Inl e \<Rightarrow> Inl e
      | Inr keys \<Rightarrow>
     (case unmarshal_network_metadata (wl_metadata wl) of
        None \<Rightarrow> Inl (''failed to parse network metadata from workload '' @ wl_name wl)
      | Some metadata \<Rightarrow>
     (case (case nm_user_accesses metadata of
              u # _ \<Rightarrow> if ua_subnet u \<noteq> [] then map_sum id Some (parse_ip_net (parse_ip6 env) (ua_subnet u)) else Inr None
            | [] \<Rightarrow> Inr None) of
        Inl e \<Rightarrow> Inl e
      | Inr externalIP \<Rightarrow>
     (case (case nm_user_accesses metadata of
              u # _ \<Rightarrow> if ua_private_key u \<noteq> [] then wg_parse env (ua_private_key u) else Inr zero_key
            | [] \<Rightarrow> Inr zero_key) of
        Inl e \<Rightarrow> Inl (''failed to parse user access private key: '' @ e)
      | Inr externalSK \<Rightarrow>
          Inr \<lparr>zn_name = wl_name wl, zn_description = wl_description wl, zn_nodes = [nodeID],
            zn_ip_range = nw_ip_range data, zn_add_wg_access = (externalIP \<noteq> None),
            zn_mycelium_keys = (case nw_mycelium data of None \<Rightarrow> [] | Some m \<Rightarrow> [(nodeID, my_key m)]),
            zn_solution_type = [], zn_access_wg_config = [],
            zn_external_ip = externalIP, zn_external_sk = externalSK,
            zn_public_node_id = (case nm_user_accesses metadata of u # _ \<Rightarrow> ua_node_id u | [] \<Rightarrow> 0),
            zn_nodes_ip_range = [(nodeID, nw_subnet data)], zn_node_deployment_id = [],
            zn_wg_port = (if nw_listen_port data \<noteq> 0 then [(nodeID, int (unat (nw_listen_port data)))] else []),
            zn_keys = keys\<rparr>)))))"

definition znet_validate :: "znet \<Rightarrow> string option" where
  "znet_validate z =
     (case validate_name (zn_name z) of
        Some e \<Rightarrow> wrap_err ''network name is invalid'' (Some e)
      | None \<Rightarrow>
        if zn_nodes z = [] then Some (''number of nodes in znet: '' @ zn_name z @ '', should be nonzero positive number'')
        else if fst (mask_size (Mask (zn_ip_range z))) \<noteq> 16
        then Some (''subnet in ip range '' @ net_text (zn_ip_range z) @ '' should be 16'')
        else first_err (map (\<lambda>(node, key).
          if length key \<noteq> MyceliumKeyLen \<and> length key \<noteq> 0
          then Some (''invalid mycelium key length '' @ dec_text (length key) @ '' must be '' @ dec_text MyceliumKeyLen @ '' or empty'')
          else if node \<notin> set (zn_nodes z)
          then Some (''invalid node '' @ dec_text (unat node) @ '' for mycelium key, must be included in the network nodes [''
                 @ join_with CHR '' '' (map (\<lambda>n. dec_text (unat n)) (zn_nodes z)) @ '']'')
          else None) (zn_mycelium_keys z)))"

section \<open>Addresses\<close>

text \<open>\<open>p[l-k]\<close>: out of range panics.\<close>

definition byte_at :: "ip \<Rightarrow> nat \<Rightarrow> nat \<Rightarrow> u8 option" where
  "byte_at p l k = (if k \<le> l \<and> l - k < length p then Some (p ! (l - k)) else None)"

definition ip_net_of :: "u8 \<Rightarrow> u8 \<Rightarrow> u8 \<Rightarrow> u8 \<Rightarrow> u8 \<Rightarrow> ip_net" where
  "ip_net_of a b c d msk = \<lparr>IP = IPv4 a b c d, Mask = CIDRMask (unat msk) 32\<rparr>"

definition wg_ip :: "ip_net \<Rightarrow> ip_net option" where
  "wg_ip n =
     (case (byte_at (IP n) (length (IP n)) 3, byte_at (IP n) (length (IP n)) 2) of
        (Some a, Some b) \<Rightarrow> Some \<lparr>IP = IPv4 100 64 a b, Mask = CIDRMask 32 32\<rparr>
      | _ \<Rightarrow> None)"

lemma unat_succ: "(x :: u8) \<le> 254 \<Longrightarrow> unat (x + 1) = unat x + 1"
  by (simp add: word_le_nat_alt unat_word_ariths)

function skip_used :: "u8 list \<Rightarrow> u8 \<Rightarrow> u8" where
  "skip_used used start = (if contains used start \<and> start \<le> 254 then skip_used used (start + 1) else start)"
  by pat_completeness auto

termination
  by (relation "measure (\<lambda>(_, s). 256 - unat s)") (auto simp: unat_succ word_le_nat_alt)

declare skip_used.simps [simp del]

text \<open>The error and the new value of the counter the code increments through its pointer.\<close>

definition next_free_ip :: "u8 list \<Rightarrow> u8 \<Rightarrow> string option \<times> u8" where
  "next_free_ip used start =
     (let s = skip_used used start in
      if s = 255 then (Some ''could not find a free ip to add node'', s) else (None, s))"

text \<open>The ranges kept for the nodes that still take part, and their third octets.\<close>

fun kept_ips :: "u32 list \<Rightarrow> nat \<Rightarrow> (u32 \<times> ip_net) list \<Rightarrow> (u8 list \<times> (u32 \<times> ip_net) list) option" where
  "kept_ips nodes l [] = Some ([], [])"
| "kept_ips nodes l ((node, n) # m) =
     (if contains nodes node
      then (case (byte_at (IP n) l 2, kept_ips nodes l m) of
              (Some b, Some (used, ips)) \<Rightarrow> Some (b # used, (node, n) # ips)
            | _ \<Rightarrow> None)
      else kept_ips nodes l m)"

fun give_ips :: "ip \<Rightarrow> nat \<Rightarrow> u32 list \<Rightarrow> u8 list \<Rightarrow> u8 \<Rightarrow> (u32 \<times> ip_net) list
    \<Rightarrow> (string + (u32 \<times> ip_net) list) option" where
  "give_ips rng l [] used cur ips = Some (Inr ips)"
| "give_ips rng l (nodeID # nodes) used cur ips =
     (if map_of ips nodeID \<noteq> None then give_ips rng l nodes used cur ips
      else (case next_free_ip used cur of
              (Some e, _) \<Rightarrow> Some (Inl e)
            | (None, cur') \<Rightarrow>
                (case (byte_at rng l 4, byte_at rng l 3, byte_at rng l 2) of
                   (Some a, Some b, Some d) \<Rightarrow>
                     give_ips rng l nodes (used @ [cur']) cur' (AList.update nodeID (ip_net_of a b cur' d 24) ips)
                 | _ \<Rightarrow> None)))"

definition assign_nodes_ips :: "u32 list \<Rightarrow> znet \<Rightarrow> (string option \<times> znet) option" where
  "assign_nodes_ips nodes z =
     (let rng = IP (zn_ip_range z); l = length rng in
      case kept_ips nodes l (zn_nodes_ip_range z) of
        None \<Rightarrow> None
      | Some (used, ips) \<Rightarrow>
          (case (if \<not> zn_add_wg_access z then Some (Inr (used, 2, z))
                 else case zn_external_ip z of
                   Some e \<Rightarrow> map_option (\<lambda>b. Inr (used @ [b], 2, z)) (byte_at (IP e) l 2)
                 | None \<Rightarrow>
                     (case next_free_ip used 2 of
                        (Some e, _) \<Rightarrow> Some (Inl e)
                      | (None, cur) \<Rightarrow>
                          (case (byte_at rng l 4, byte_at rng l 3, byte_at rng l 1) of
                             (Some a, Some b, Some d) \<Rightarrow>
                               Some (Inr (used @ [cur], cur, z\<lparr>zn_external_ip := Some (ip_net_of a b cur d 24)\<rparr>))
                           | _ \<Rightarrow> None))) of
             None \<Rightarrow> None
           | Some (Inl e) \<Rightarrow> Some (Some e, z)
           | Some (Inr (used', cur, z')) \<Rightarrow>
               (case give_ips rng l nodes used' cur ips of
                  None \<Rightarrow> None
                | Some (Inl e) \<Rightarrow> Some (Some e, z')
                | Some (Inr ips') \<Rightarrow> Some (None, z'\<lparr>zn_nodes_ip_range := ips'\<rparr>))))"

section \<open>Keys and ports\<close>

fun assign_nodes_wg_key :: "'w net_env \<Rightarrow> u32 list \<Rightarrow> znet \<Rightarrow> 'w \<Rightarrow> (string option \<times> znet) \<times> 'w" where
  "assign_nodes_wg_key env [] z w = ((None, z), w)"
| "assign_nodes_wg_key env (nodeID # nodes) z w =
     (if map_of (zn_keys z) nodeID \<noteq> None then assign_nodes_wg_key env nodes z w
      else (case wg_generate_key env w of
              (Inl e, w') \<Rightarrow> ((wrap_err ''failed to generate wg private key'' (Some e), z), w')
            | (Inr key, w') \<Rightarrow>
                assign_nodes_wg_key env nodes (z\<lparr>zn_keys := AList.update nodeID key (zn_keys z)\<rparr>) w'))"

text \<open>
  \<open>AssignNodesWGPort\<close> changes the map of used ports it is given (a nil one is replaced by a fresh one, the caller then
  sees nothing); the new map is returned.
\<close>

fun assign_nodes_wg_port ::
  "'w net_env \<Rightarrow> u32 list \<Rightarrow> (u32 \<times> u16 list) list \<Rightarrow> znet \<Rightarrow> 'w \<Rightarrow> (string option \<times> znet \<times> (u32 \<times> u16 list) list) \<times> 'w"
where
  "assign_nodes_wg_port env [] usedPorts z w = ((None, z, usedPorts), w)"
| "assign_nodes_wg_port env (nodeID # nodes) usedPorts z w =
     (if map_of (zn_wg_port z) nodeID \<noteq> None then assign_nodes_wg_port env nodes usedPorts z w
      else (case get_node_client env nodeID w of
              (Some e, w1) \<Rightarrow> ((wrap_err ''could not get node client'' (Some e), z, usedPorts), w1)
            | (None, w1) \<Rightarrow>
                (let own = (case map_of usedPorts nodeID of Some ps \<Rightarrow> ps | None \<Rightarrow> []) in
                 case node_free_wg_port env nodeID own w1 of
                   (Inl e, w2) \<Rightarrow> ((wrap_err (''failed to get node '' @ dec_text (unat nodeID) @ '' free wg ports'') (Some e),
                     z, usedPorts), w2)
                 | (Inr port, w2) \<Rightarrow>
                     assign_nodes_wg_port env nodes (AList.update nodeID (own @ [word_of_int port]) usedPorts)
                       (z\<lparr>zn_wg_port := AList.update nodeID port (zn_wg_port z)\<rparr>) w2)))"

text \<open>
  A random port that is not used: the loop ends only when the random source yields one, so it is an option.
\<close>

partial_function (option) free_port :: "'w net_env \<Rightarrow> u16 list \<Rightarrow> 'w \<Rightarrow> (u16 \<times> 'w) option" where
  "free_port env used w =
     (case rand_intn env (32768 - 1024) w of
        (n, w') \<Rightarrow> (let p = of_nat (n + 1024) in if contains used p then free_port env used w' else Some (p, w')))"

fun assign_random_ports ::
  "'w net_env \<Rightarrow> u32 list \<Rightarrow> (u32 \<times> u16 list) list \<Rightarrow> (u32 \<times> int) list \<Rightarrow> 'w
   \<Rightarrow> ((u32 \<times> u16 list) list \<times> (u32 \<times> int) list \<times> 'w) option" where
  "assign_random_ports env [] usedPorts ports w = Some (usedPorts, ports, w)"
| "assign_random_ports env (nodeID # nodes) usedPorts ports w =
     (let own = (case map_of usedPorts nodeID of Some ps \<Rightarrow> ps | None \<Rightarrow> []) in
      case free_port env own w of
        None \<Rightarrow> None
      | Some (p, w') \<Rightarrow>
          assign_random_ports env nodes (AList.update nodeID (own @ [p]) usedPorts)
            (AList.update nodeID (int (unat p)) ports) w')"

section \<open>Outdated attributes\<close>

fun drop_gone_contracts :: "'w net_env \<Rightarrow> (u32 \<times> u64) list \<Rightarrow> znet \<Rightarrow> 'w \<Rightarrow> (string option \<times> znet) \<times> 'w" where
  "drop_gone_contracts env [] z w = ((None, z), w)"
| "drop_gone_contracts env ((node, contractID) # ids) z w =
     (case get_contract env contractID w of
        (ContractCreated, w') \<Rightarrow> drop_gone_contracts env ids z w'
      | (ContractError e, w') \<Rightarrow>
          ((wrap_err (''could not get node '' @ dec_text (unat node) @ '' contract '' @ dec_text (unat contractID)) (Some e), z), w')
      | (_, w') \<Rightarrow>
          drop_gone_contracts env ids
            (z\<lparr>zn_node_deployment_id := AList.delete node (zn_node_deployment_id z),
               zn_nodes_ip_range := AList.delete node (zn_nodes_ip_range z),
               zn_keys := AList.delete node (zn_keys z), zn_wg_port := AList.delete node (zn_wg_port z)\<rparr>) w')"

text \<open>When the client of the public node cannot be had, the code goes on and calls the nil client, which panics.\<close>

definition check_public_node :: "'w net_env \<Rightarrow> znet \<Rightarrow> 'w \<Rightarrow> (znet \<times> 'w) option" where
  "check_public_node env z w =
     (if zn_public_node_id z = 0 then Some (z, w)
      else case get_node_client env (zn_public_node_id z) w of
        (Some _, _) \<Rightarrow> None
      | (None, w1) \<Rightarrow>
          (case is_node_up env (zn_public_node_id z) w1 of
             (Some _, w2) \<Rightarrow> Some (z\<lparr>zn_public_node_id := 0\<rparr>, w2)
           | (None, w2) \<Rightarrow> Some (z, w2)))"

definition invalidate_broken_attributes :: "'w net_env \<Rightarrow> znet \<Rightarrow> 'w \<Rightarrow> ((string option \<times> znet) \<times> 'w) option" where
  "invalidate_broken_attributes env z w =
     (case drop_gone_contracts env (zn_node_deployment_id z) z w of
        ((Some e, z1), w1) \<Rightarrow> Some ((Some e, z1), w1)
      | ((None, z1), w1) \<Rightarrow>
          (let outside = (\<lambda>n. \<not> net_contains (zn_ip_range z) (IP n));
               z2 = (case zn_external_ip z1 of
                       Some e \<Rightarrow> if outside e then z1\<lparr>zn_external_ip := None\<rparr> else z1
                     | None \<Rightarrow> z1);
               z3 = z2\<lparr>zn_nodes_ip_range := filter (\<lambda>(node, n). \<not> outside n) (zn_nodes_ip_range z2)\<rparr>
           in case check_public_node env z3 w1 of
                None \<Rightarrow> None
              | Some (z4, w2) \<Rightarrow>
                  Some ((None, if zn_add_wg_access z4 then z4 else z4\<lparr>zn_external_ip := None\<rparr>), w2)))"

section \<open>Workloads and texts\<close>

definition znet_workload :: "(string \<Rightarrow> ip option) \<Rightarrow> znet \<Rightarrow> ip_net \<Rightarrow> string \<Rightarrow> u16 \<Rightarrow> peer list \<Rightarrow> string \<Rightarrow> u8 list \<Rightarrow> workload option" where
  "znet_workload parse6 z subnet wgPrivateKey wgListenPort peers metadata myceliumKey =
     (case must_parse_ip_net parse6 (net_text (zn_ip_range z)) of
        None \<Rightarrow> None
      | Some r \<Rightarrow>
          Some \<lparr>wl_version = 0, wl_name = zn_name z, wl_type = NetworkType,
            wl_data = json_text (j_network \<lparr>nw_ip_range = r, nw_subnet = subnet, nw_private_key = wgPrivateKey,
              nw_listen_port = wgListenPort, nw_peers = peers,
              nw_mycelium = (if myceliumKey = [] then None else Some \<lparr>my_key = myceliumKey, my_peers = []\<rparr>)\<rparr>),
            wl_metadata = metadata, wl_description = zn_description z, wl_result = zero_result\<rparr>)"

definition znet_generate_metadata :: "znet \<Rightarrow> string \<times> znet" where
  "znet_generate_metadata z =
     (let z' = (if zn_solution_type z = [] then z\<lparr>zn_solution_type := ''Network''\<rparr> else z) in
      (json_text (j_deployment_data \<lparr>dd_version = Version3, dd_type = ''network'', dd_name = zn_name z',
         dd_project_name = zn_solution_type z'\<rparr>), z'))"

definition generate_wg_config :: "string \<Rightarrow> string \<Rightarrow> string \<Rightarrow> string \<Rightarrow> string \<Rightarrow> string" where
  "generate_wg_config address privateKey publicKey endpoint range' =
     CHR 0x0A # ''[Interface]'' @ CHR 0x0A # ''Address = '' @ address @ CHR 0x0A # ''PrivateKey = '' @ privateKey
     @ CHR 0x0A # ''[Peer]'' @ CHR 0x0A # ''PublicKey = '' @ publicKey @ CHR 0x0A # ''AllowedIPs = '' @ range'
     @ '', 100.64.0.0/16'' @ CHR 0x0A # ''PersistentKeepalive = 25'' @ CHR 0x0A # ''Endpoint = '' @ endpoint
     @ [CHR 0x0A, CHR 0x09]"

section \<open>Deployments\<close>

text \<open>The nodes of the network without and with an endpoint, the last one with an IPv4 endpoint, the endpoints' texts.\<close>

record node_classes =
  nc_hidden :: "u32 list"
  nc_accessible :: "u32 list"
  nc_ipv4 :: u32
  nc_endpoints :: "(u32 \<times> string) list"

fun classify_nodes :: "string \<Rightarrow> (u32 \<times> ip) list \<Rightarrow> u32 list \<Rightarrow> node_classes \<Rightarrow> string + node_classes" where
  "classify_nodes name ips [] c = Inr c"
| "classify_nodes name ips (nodeID # nodes) c =
     (case map_of ips nodeID of
        None \<Rightarrow> Inl (''failed to process network '' @ name)
      | Some p \<Rightarrow>
          classify_nodes name ips nodes
            (if p = [] then c\<lparr>nc_hidden := nc_hidden c @ [nodeID]\<rparr>
             else if To4 p \<noteq> []
             then c\<lparr>nc_accessible := nc_accessible c @ [nodeID], nc_ipv4 := nodeID,
                    nc_endpoints := AList.update nodeID (ip_text p) (nc_endpoints c)\<rparr>
             else c\<lparr>nc_accessible := nc_accessible c @ [nodeID],
                    nc_endpoints := AList.update nodeID (CHR ''['' # ip_text p @ '']'') (nc_endpoints c)\<rparr>))"

text \<open>The public node: the one that is set, else one of the network's own nodes, else the one that is offered.\<close>

definition choose_public_node ::
  "(u32 \<times> ip) list \<Rightarrow> u32 \<Rightarrow> znet \<Rightarrow> node_classes \<Rightarrow> string + znet \<times> node_classes" where
  "choose_public_node ips publicNode z c =
     (let needs = zn_add_wg_access z
            \<or> (length (nc_hidden c) \<noteq> 0 \<and> length (nc_hidden c) + length (nc_accessible c) > 1) in
      if \<not> needs then Inr (z, c)
      else if zn_public_node_id z \<noteq> 0 then
        Inr (z, if contains (nc_accessible c) (zn_public_node_id z) then c
                else c\<lparr>nc_accessible := nc_accessible c @ [zn_public_node_id z]\<rparr>)
      else if nc_ipv4 c \<noteq> 0 then Inr (z\<lparr>zn_public_node_id := nc_ipv4 c\<rparr>, c)
      else (case map_of ips publicNode of
              None \<Rightarrow> Inl (''failed to get public node for '' @ zn_name z)
            | Some p \<Rightarrow>
                if publicNode = 0 then Inl (''failed to get public node for '' @ zn_name z)
                else Inr (z\<lparr>zn_public_node_id := publicNode\<rparr>,
                          c\<lparr>nc_accessible := nc_accessible c @ [publicNode],
                            nc_endpoints := AList.update publicNode (ip_text p) (nc_endpoints c)\<rparr>)))"

abbreviation range_of :: "znet \<Rightarrow> u32 \<Rightarrow> ip_net" where
  "range_of z n \<equiv> (case map_of (zn_nodes_ip_range z) n of Some r \<Rightarrow> r | None \<Rightarrow> nil_net)"

abbreviation key_of :: "znet \<Rightarrow> u32 \<Rightarrow> wg_key" where
  "key_of z n \<equiv> (case map_of (zn_keys z) n of Some k \<Rightarrow> k | None \<Rightarrow> zero_key)"

abbreviation port_of :: "znet \<Rightarrow> u32 \<Rightarrow> int" where
  "port_of z n \<equiv> (case map_of (zn_wg_port z) n of Some p \<Rightarrow> p | None \<Rightarrow> 0)"

abbreviation text_of :: "(u32 \<times> string) list \<Rightarrow> u32 \<Rightarrow> string" where
  "text_of m n \<equiv> (case map_of m n of Some t \<Rightarrow> t | None \<Rightarrow> [])"

definition endpoint_text :: "(u32 \<times> string) list \<Rightarrow> znet \<Rightarrow> u32 \<Rightarrow> string" where
  "endpoint_text endpoints z n = text_of endpoints n @ '':'' @ int_text (port_of z n)"

text \<open>A range with its WireGuard address: the two networks a peer routes for a node.\<close>

definition with_wg :: "ip_net \<Rightarrow> ip_net list option" where
  "with_wg r = map_option (\<lambda>g. [r, g]) (wg_ip r)"

definition non_accessible_ranges :: "znet \<Rightarrow> u32 list \<Rightarrow> ip_net list option" where
  "non_accessible_ranges z hidden =
     (case all_some (map (\<lambda>n. with_wg (range_of z n)) hidden) of
        None \<Rightarrow> None
      | Some rs \<Rightarrow>
          if zn_add_wg_access z
          then (case zn_external_ip z of
                  None \<Rightarrow> None
                | Some e \<Rightarrow> map_option (\<lambda>es. concat rs @ es) (with_wg e))
          else Some (concat rs))"

definition accessible_peer :: "'w net_env \<Rightarrow> znet \<Rightarrow> node_classes \<Rightarrow> ip_net list \<Rightarrow> u32 \<Rightarrow> peer option" where
  "accessible_peer env z c nonAccessible n =
     map_option (\<lambda>rs. \<lparr>pr_subnet = range_of z n, pr_public_key = wg_string env (wg_public env (key_of z n)),
         pr_allowed_ips = rs @ (if n = zn_public_node_id z then nonAccessible else []),
         pr_endpoint = endpoint_text (nc_endpoints c) z n\<rparr>)
       (with_wg (range_of z n))"

definition external_peer :: "'w net_env \<Rightarrow> znet \<Rightarrow> peer option" where
  "external_peer env z =
     (case zn_external_ip z of
        None \<Rightarrow> None
      | Some e \<Rightarrow> map_option (\<lambda>rs. \<lparr>pr_subnet = e, pr_public_key = wg_string env (wg_public env (zn_external_sk z)),
          pr_allowed_ips = rs, pr_endpoint = []\<rparr>) (with_wg e))"

definition hidden_peer :: "'w net_env \<Rightarrow> znet \<Rightarrow> u32 \<Rightarrow> peer option" where
  "hidden_peer env z n =
     map_option (\<lambda>rs. \<lparr>pr_subnet = range_of z n, pr_public_key = wg_string env (wg_public env (key_of z n)),
         pr_allowed_ips = rs, pr_endpoint = []\<rparr>)
       (with_wg (range_of z n))"

text \<open>The peers of a node that has an endpoint.\<close>

definition peers_of_accessible :: "'w net_env \<Rightarrow> znet \<Rightarrow> node_classes \<Rightarrow> ip_net list \<Rightarrow> u32 \<Rightarrow> peer list option" where
  "peers_of_accessible env z c nonAccessible nodeID =
     all_some (map (accessible_peer env z c nonAccessible) (filter (\<lambda>n. n \<noteq> nodeID) (nc_accessible c))
       @ (if nodeID = zn_public_node_id z
          then (if zn_add_wg_access z then [external_peer env z] else []) @ map (hidden_peer env z) (nc_hidden c)
          else []))"

text \<open>The peers of a node without one: the public node, if there is any.\<close>

definition peers_of_hidden :: "'w net_env \<Rightarrow> znet \<Rightarrow> node_classes \<Rightarrow> u32 \<Rightarrow> peer list" where
  "peers_of_hidden env z c nodeID =
     (if zn_public_node_id z = 0 then []
      else [\<lparr>pr_subnet = range_of z nodeID,
             pr_public_key = wg_string env (wg_public env (key_of z (zn_public_node_id z))),
             pr_allowed_ips = [zn_ip_range z, ip_net_of 100 64 0 0 16],
             pr_endpoint = endpoint_text (nc_endpoints c) z (zn_public_node_id z)\<rparr>])"

definition node_deployment :: "'w net_env \<Rightarrow> u32 \<Rightarrow> znet \<Rightarrow> string \<Rightarrow> u32 \<Rightarrow> peer list \<Rightarrow> (deployment \<times> znet) option" where
  "node_deployment env twinID z metadata nodeID peers =
     (case znet_workload (parse_ip6 env) z (range_of z nodeID) (wg_string env (key_of z nodeID))
             (word_of_int (port_of z nodeID)) peers metadata
             (case map_of (zn_mycelium_keys z) nodeID of Some k \<Rightarrow> k | None \<Rightarrow> []) of
        None \<Rightarrow> None
      | Some w \<Rightarrow>
          (let (m, z') = znet_generate_metadata z in
           Some ((new_grid_deployment twinID [w])\<lparr>dl_metadata := m\<rparr>, z')))"

text \<open>One deployment per node of the list, put into the map.\<close>

fun deploy_nodes :: "'w net_env \<Rightarrow> u32 \<Rightarrow> string \<Rightarrow> (znet \<Rightarrow> u32 \<Rightarrow> peer list option) \<Rightarrow> u32 list
    \<Rightarrow> znet \<Rightarrow> (u32 \<times> deployment) list \<Rightarrow> (znet \<times> (u32 \<times> deployment) list) option" where
  "deploy_nodes env twinID metadata peers [] z dls = Some (z, dls)"
| "deploy_nodes env twinID metadata peers (n # nodes) z dls =
     (case peers z n of
        None \<Rightarrow> None
      | Some ps \<Rightarrow>
          (case node_deployment env twinID z metadata n ps of
             None \<Rightarrow> None
           | Some (d, z') \<Rightarrow> deploy_nodes env twinID metadata peers nodes z' (AList.update n d dls)))"

definition external_sk_zero_value :: string where
  "external_sk_zero_value = ''AAAAAAAAAAAAAAAAAAAAAAAAAAAAAAAAAAAAAAAAAAA=''"

text \<open>The configuration for access from outside, with a key made when there is none yet.\<close>

definition access_config :: "'w net_env \<Rightarrow> node_classes \<Rightarrow> znet \<Rightarrow> 'w \<Rightarrow> ((string option \<times> znet) \<times> 'w) option" where
  "access_config env c z w =
     (if \<not> zn_add_wg_access z then Some ((None, z), w)
      else (case (if wg_string env (zn_external_sk z) = external_sk_zero_value then wg_generate_private env w
                  else (Inr (zn_external_sk z), w)) of
              (Inl e, w') \<Rightarrow>
                Some ((wrap_err (''failed to generate wireguard secret key for network: '' @ zn_name z) (Some e), z), w')
            | (Inr sk, w') \<Rightarrow>
                (case zn_external_ip z of
                   None \<Rightarrow> None
                 | Some e \<Rightarrow>
                     (case wg_ip e of
                        None \<Rightarrow> None
                      | Some g \<Rightarrow>
                          (let z' = z\<lparr>zn_external_sk := sk\<rparr> in
                           Some ((None, z'\<lparr>zn_access_wg_config := generate_wg_config (ip_text (IP g)) (wg_string env sk)
                             (wg_string env (wg_public env (key_of z' (zn_public_node_id z'))))
                             (endpoint_text (nc_endpoints c) z' (zn_public_node_id z'))
                             (net_text (zn_ip_range z'))\<rparr>), w'))))))"

definition metadata_text :: "'w net_env \<Rightarrow> znet \<Rightarrow> string" where
  "metadata_text env z =
     json_text (j_network_metadata \<lparr>nm_version = Version3,
       nm_user_accesses = [\<lparr>ua_subnet = (case zn_external_ip z of Some e \<Rightarrow> net_text e | None \<Rightarrow> []),
         ua_private_key = wg_string env (zn_external_sk z), ua_node_id = zn_public_node_id z\<rparr>]\<rparr>)"

text \<open>
  The result: the error or the deployments, the network (whose computed fields changed) and the map of used ports.
\<close>

type_synonym 'w generated =
  "((string + (u32 \<times> deployment) list) \<times> znet \<times> (u32 \<times> u16 list) list \<times> 'w) option"

definition build_deployments ::
  "'w net_env \<Rightarrow> u32 \<Rightarrow> node_classes \<Rightarrow> znet \<Rightarrow> (u32 \<times> u16 list) list \<Rightarrow> 'w \<Rightarrow> 'w generated" where
  "build_deployments env twinID c z usedPorts w =
     (case non_accessible_ranges z (nc_hidden c) of
        None \<Rightarrow> None
      | Some nonAccessible \<Rightarrow>
     (case access_config env c z w of
        None \<Rightarrow> None
      | Some ((Some e, z1), w1) \<Rightarrow> Some (Inl e, z1, usedPorts, w1)
      | Some ((None, z1), w1) \<Rightarrow>
     (let metadata = metadata_text env z1 in
      case deploy_nodes env twinID metadata (\<lambda>z n. peers_of_accessible env z c nonAccessible n) (nc_accessible c) z1 [] of
        None \<Rightarrow> None
      | Some (z2, dls) \<Rightarrow>
     (case deploy_nodes env twinID metadata (\<lambda>z n. Some (peers_of_hidden env z c n)) (nc_hidden c) z2 dls of
        None \<Rightarrow> None
      | Some (z3, dls') \<Rightarrow> Some (Inr dls', z3, usedPorts, w1)))))"

definition generate_deployments ::
  "'w net_env \<Rightarrow> (u32 \<times> ip) list \<Rightarrow> u32 \<Rightarrow> u32 \<Rightarrow> znet \<Rightarrow> (u32 \<times> u16 list) list \<Rightarrow> 'w \<Rightarrow> 'w generated" where
  "generate_deployments env endpointIPs publicNode twinID z usedPorts w =
     (case classify_nodes (zn_name z) endpointIPs (zn_nodes z)
             \<lparr>nc_hidden = [], nc_accessible = [], nc_ipv4 = 0, nc_endpoints = []\<rparr> of
        Inl e \<Rightarrow> Some (Inl e, z, usedPorts, w)
      | Inr c0 \<Rightarrow>
     (case choose_public_node endpointIPs publicNode z c0 of
        Inl e \<Rightarrow> Some (Inl e, z, usedPorts, w)
      | Inr (z1, c) \<Rightarrow>
     (let allNodes = nc_hidden c @ nc_accessible c in
      case assign_nodes_ips allNodes z1 of
        None \<Rightarrow> None
      | Some (Some e, z2) \<Rightarrow> Some (Inl (''could not assign node ips: '' @ e), z2, usedPorts, w)
      | Some (None, z2) \<Rightarrow>
     (case assign_nodes_wg_key env allNodes z2 w of
        ((Some e, z3), w1) \<Rightarrow> Some (Inl (''could not assign node wg keys: '' @ e), z3, usedPorts, w1)
      | ((None, z3), w1) \<Rightarrow>
     (case assign_random_ports env allNodes usedPorts (zn_wg_port z3) w1 of
        None \<Rightarrow> None
      | Some (usedPorts', ports, w2) \<Rightarrow>
          build_deployments env twinID c (z3\<lparr>zn_wg_port := ports\<rparr>) usedPorts' w2)))))"

section \<open>Reading the nodes\<close>

definition node_endpoint_and_ports :: "'w net_env \<Rightarrow> u32 \<Rightarrow> 'w \<Rightarrow> (string + ip \<times> u16 list) \<times> 'w" where
  "node_endpoint_and_ports env nodeID w =
     (case get_node_client env nodeID w of
        (Some e, w1) \<Rightarrow> (Inl (''could not get node '' @ dec_text (unat nodeID) @ '' client: '' @ e), w1)
      | (None, w1) \<Rightarrow>
          (case node_endpoint env nodeID w1 of
             (EndpointError e, w2) \<Rightarrow> (Inl (''failed to get node '' @ dec_text (unat nodeID) @ '' endpoint: '' @ e), w2)
           | (a, w2) \<Rightarrow>
               (case node_wg_ports env nodeID w2 of
                  (Inl e, w3) \<Rightarrow> (Inl (''failed to get node '' @ dec_text (unat nodeID) @ '' used ports: '' @ e), w3)
                | (Inr ps, w3) \<Rightarrow> (Inr (case a of Endpoint p \<Rightarrow> p | _ \<Rightarrow> [], ps), w3))))"

text \<open>The nodes are read concurrently; the lock orders what they store, here the order of the list.\<close>

fun read_nodes :: "'w net_env \<Rightarrow> u32 list \<Rightarrow> (u32 \<times> ip) list \<Rightarrow> (u32 \<times> u16 list) list \<Rightarrow> string list \<Rightarrow> 'w
    \<Rightarrow> ((u32 \<times> ip) list \<times> (u32 \<times> u16 list) list \<times> string list) \<times> 'w" where
  "read_nodes env [] eps ports errs w = ((eps, ports, errs), w)"
| "read_nodes env (n # nodes) eps ports errs w =
     (case node_endpoint_and_ports env n w of
        (Inl e, w') \<Rightarrow> read_nodes env nodes eps ports (errs @ [e]) w'
      | (Inr (p, ps), w') \<Rightarrow> read_nodes env nodes (AList.update n p eps) (AList.update n ps ports) errs w')"

text \<open>
  The deployments (none on an error) and the collected errors, then the maps of endpoints and used ports, which the
  caller shares between networks, and the network.
\<close>

definition generate_versionless_deployments ::
  "'w net_env \<Rightarrow> u32 \<Rightarrow> u32 \<Rightarrow> u32 list \<Rightarrow> (u32 \<times> ip) list \<Rightarrow> (u32 \<times> u16 list) list \<Rightarrow> znet \<Rightarrow> 'w
   \<Rightarrow> ((((u32 \<times> deployment) list \<times> string list) \<times> (u32 \<times> ip) list \<times> (u32 \<times> u16 list) list \<times> znet) \<times> 'w) option" where
  "generate_versionless_deployments env twinID publicNode allNodes endpoints usedPorts z w =
     (case read_nodes env allNodes endpoints usedPorts [] w of
        ((eps, ports, errs), w1) \<Rightarrow>
     (case (if map_of eps publicNode = None \<and> publicNode \<noteq> 0
            then read_nodes env [publicNode] eps ports errs w1 else ((eps, ports, errs), w1)) of
        ((eps', ports', errs'), w2) \<Rightarrow>
     (case generate_deployments env eps' publicNode twinID z ports' w2 of
        None \<Rightarrow> None
      | Some (Inl e, z', ports2, w3) \<Rightarrow> Some ((([], errs' @ [e]), eps', ports2, z'), w3)
      | Some (Inr dls, z', ports2, w3) \<Rightarrow> Some (((dls, errs'), eps', ports2, z'), w3))))"

section \<open>Reading deployments back\<close>

record nodes_config =
  rc_keys :: "(u32 \<times> wg_key) list"
  rc_ports :: "(u32 \<times> int) list"
  rc_ranges :: "(u32 \<times> ip_net) list"
  rc_access :: bool

fun read_workloads :: "gt_api \<Rightarrow> 'w net_env \<Rightarrow> u32 \<Rightarrow> workload list \<Rightarrow> nodes_config \<Rightarrow> string + nodes_config" where
  "read_workloads api3 env node [] r = Inr r"
| "read_workloads api3 env node (wl # wls) r =
     (if wl_type wl \<noteq> NetworkType then read_workloads api3 env node wls r
      else case network_workload api3 wl of
        Inl e \<Rightarrow> Inl (''could not parse workload data: '' @ e)
      | Inr d \<Rightarrow>
          (case wg_parse env (nw_private_key d) of
             Inl e \<Rightarrow> Inl (''could not parse wg private key from workload object: '' @ e)
           | Inr k \<Rightarrow> read_workloads api3 env node wls
               \<lparr>rc_keys = AList.update node k (rc_keys r),
                rc_ports = AList.update node (int (unat (nw_listen_port d))) (rc_ports r),
                rc_ranges = AList.update node (nw_subnet d) (rc_ranges r),
                rc_access = (rc_access r \<or> list_ex (\<lambda>p. pr_endpoint p = []) (nw_peers d))\<rparr>))"

fun read_deployments :: "gt_api \<Rightarrow> 'w net_env \<Rightarrow> (u32 \<times> deployment) list \<Rightarrow> nodes_config \<Rightarrow> string + nodes_config" where
  "read_deployments api3 env [] r = Inr r"
| "read_deployments api3 env ((node, d) # ds) r =
     (case read_workloads api3 env node (dl_workloads d) r of
        Inl e \<Rightarrow> Inl e
      | Inr r' \<Rightarrow> read_deployments api3 env ds r')"

definition read_nodes_config :: "gt_api \<Rightarrow> 'w net_env \<Rightarrow> (u32 \<times> deployment) list \<Rightarrow> znet \<Rightarrow> string option \<times> znet" where
  "read_nodes_config api3 env dls z =
     (case read_deployments api3 env dls \<lparr>rc_keys = [], rc_ports = [], rc_ranges = [], rc_access = False\<rparr> of
        Inl e \<Rightarrow> (Some e, z)
      | Inr r \<Rightarrow> (None, z\<lparr>zn_keys := rc_keys r, zn_wg_port := rc_ports r, zn_nodes_ip_range := rc_ranges r,
          zn_add_wg_access := rc_access r,
          zn_access_wg_config := (if rc_access r then zn_access_wg_config z else [])\<rparr>))"

section \<open>The assignment of addresses\<close>

lemma skip_used_spec:
  "start \<le> skip_used used start
   \<and> (\<forall>x. start \<le> x \<and> x < skip_used used start \<longrightarrow> x \<in> set used)
   \<and> (skip_used used start \<noteq> 255 \<longrightarrow> skip_used used start \<le> 254 \<and> skip_used used start \<notin> set used)"
proof (induction used start rule: skip_used.induct)
  case (1 used s)
  have top: "x \<noteq> 255 \<longleftrightarrow> x \<le> 254" for x :: u8
    using unat_u8_less [of x] by (auto simp: word_le_nat_alt word_unat_eq_iff)
  show ?case
  proof (cases "contains used s \<and> s \<le> 254")
    case True
    then have IH: "s + 1 \<le> skip_used used (s + 1)"
      "\<And>x. s + 1 \<le> x \<Longrightarrow> x < skip_used used (s + 1) \<Longrightarrow> x \<in> set used"
      "skip_used used (s + 1) \<noteq> 255 \<longrightarrow> skip_used used (s + 1) \<le> 254 \<and> skip_used used (s + 1) \<notin> set used"
      using 1 by auto
    have le: "s \<le> s + 1" and step: "\<And>x. s \<le> x \<Longrightarrow> x = s \<or> s + 1 \<le> x"
      using True by (auto simp: word_le_nat_alt unat_succ word_unat_eq_iff)
    have "skip_used used s = skip_used used (s + 1)" using True by (simp add: skip_used.simps [of used s])
    then show ?thesis using True IH le step by (metis contains_set order_trans)
  next
    case False
    then have s: "skip_used used s = s" by (subst skip_used.simps) auto
    have "x < s \<Longrightarrow> \<not> s \<le> x" for x by simp
    then show ?thesis using False top [of s] by (auto simp: s)
  qed
qed

lemma next_free_ip_None:
  assumes "next_free_ip used cur = (None, c)"
  shows "cur \<le> c" "c \<le> 254" "c \<notin> set used" "\<And>x. cur \<le> x \<Longrightarrow> x < c \<Longrightarrow> x \<in> set used"
  using assms skip_used_spec [of cur used] by (auto simp: next_free_ip_def Let_def split: if_splits)

lemma next_free_ip_Some:
  assumes "next_free_ip used cur = (Some e, c)" "cur \<le> x" "x \<le> 254"
  shows "x \<in> set used"
proof -
  have "skip_used used cur = 255" using assms(1) by (auto simp: next_free_ip_def Let_def split: if_splits)
  moreover have "x < 255" using assms(3) by (simp add: word_le_nat_alt word_less_nat_alt)
  ultimately show ?thesis using skip_used_spec [of cur used] assms(2) by auto
qed

text \<open>The third octet of a range kept in 16 bytes.\<close>

definition octet :: "ip_net \<Rightarrow> u8" where
  "octet r = IP r ! 14"

lemma octet_ip_net_of [simp]: "octet (ip_net_of a b c d m) = c"
  by (simp add: octet_def ip_net_of_def IPv4_def v4_in_v6_def nth_append)

lemma give_ips_step:
  assumes "give_ips rng l (n # nodes) used cur ips = Some (Inr ips')" and "map_of ips n = None"
  shows "\<exists>a b c d. next_free_ip used cur = (None, c) \<and> byte_at rng l 4 = Some a \<and> byte_at rng l 3 = Some b
    \<and> byte_at rng l 2 = Some d
    \<and> give_ips rng l nodes (used @ [c]) c (AList.update n (ip_net_of a b c d 24) ips) = Some (Inr ips')"
  using assms by (auto split: option.splits prod.splits)

lemma give_ips_keeps:
  assumes "give_ips rng l nodes used cur ips = Some (Inr ips')"
  shows "(\<forall>n. map_of ips n \<noteq> None \<longrightarrow> map_of ips' n = map_of ips n)
    \<and> (\<forall>n. map_of ips' n \<noteq> None \<longleftrightarrow> map_of ips n \<noteq> None \<or> n \<in> set nodes)"
  using assms
proof (induction nodes arbitrary: used cur ips)
  case (Cons n nodes)
  show ?case
  proof (cases "map_of ips n = None")
    case True
    obtain a b c d where s: "give_ips rng l nodes (used @ [c]) c (AList.update n (ip_net_of a b c d 24) ips) = Some (Inr ips')"
      using give_ips_step [OF Cons.prems True] by blast
    show ?thesis using Cons.IH [OF s] True by (auto simp: update_conv split: if_splits)
  next
    case False
    then show ?thesis using Cons.prems Cons.IH [of used cur ips] by auto
  qed
qed simp

lemma give_ips_fresh:
  assumes "give_ips rng l nodes used cur ips = Some (Inr ips')" and "2 \<le> cur"
    and "\<forall>n r. map_of ips n = Some r \<longrightarrow> octet r \<in> set used"
  shows "(\<forall>n r. map_of ips n = None \<longrightarrow> map_of ips' n = Some r \<longrightarrow>
        (\<exists>a b c d. r = ip_net_of a b c d 24 \<and> 2 \<le> c \<and> c \<le> 254 \<and> c \<notin> set used
          \<and> byte_at rng l 4 = Some a \<and> byte_at rng l 3 = Some b \<and> byte_at rng l 2 = Some d))
    \<and> (\<forall>n m r s. map_of ips n = None \<longrightarrow> map_of ips' n = Some r \<longrightarrow> map_of ips' m = Some s \<longrightarrow> n \<noteq> m \<longrightarrow> octet r \<noteq> octet s)"
  using assms
proof (induction nodes arbitrary: used cur ips)
  case (Cons n nodes)
  show ?case
  proof (cases "map_of ips n = None")
    case False
    then show ?thesis using Cons.prems Cons.IH [of used cur ips] by auto
  next
    case True
    obtain a b c d where f: "next_free_ip used cur = (None, c)"
      and bs: "byte_at rng l 4 = Some a" "byte_at rng l 3 = Some b" "byte_at rng l 2 = Some d"
      and s: "give_ips rng l nodes (used @ [c]) c (AList.update n (ip_net_of a b c d 24) ips) = Some (Inr ips')"
      using give_ips_step [OF Cons.prems(1) True] by blast
    note c = next_free_ip_None [OF f]
    have c2: "2 \<le> c" using Cons.prems(2) c(1) by (rule order_trans)
    have inv: "\<forall>m r. map_of (AList.update n (ip_net_of a b c d 24) ips) m = Some r \<longrightarrow> octet r \<in> set (used @ [c])"
      using Cons.prems(3) by (auto simp: update_conv split: if_splits)
    note IH = Cons.IH [OF s c2 inv]
    have n: "map_of ips' n = Some (ip_net_of a b c d 24)"
      using give_ips_keeps [OF s] by (simp add: update_conv)
    have old: "map_of ips' m = Some r \<Longrightarrow> map_of ips m \<noteq> None \<Longrightarrow> octet r \<in> set used" for m r
      using give_ips_keeps [OF s] Cons.prems(3) True by (metis fun_upd_apply option.collapse update_conv)
    show ?thesis
    proof (intro conjI allI impI)
      fix m r assume m: "map_of ips m = None" "map_of ips' m = Some r"
      show "\<exists>a b c d. r = ip_net_of a b c d 24 \<and> 2 \<le> c \<and> c \<le> 254 \<and> c \<notin> set used
          \<and> byte_at rng l 4 = Some a \<and> byte_at rng l 3 = Some b \<and> byte_at rng l 2 = Some d"
      proof (cases "m = n")
        case True
        then show ?thesis using m n c c2 bs by auto
      next
        case False
        then show ?thesis using IH [THEN conjunct1, rule_format, of m r] m by (auto simp: update_conv)
      qed
    next
      fix m m' r r' assume m: "map_of ips m = None" "map_of ips' m = Some r" "map_of ips' m' = Some r'" "m \<noteq> m'"
      have new: "x \<noteq> n \<Longrightarrow> map_of ips x = None \<Longrightarrow> map_of ips' x = Some t \<Longrightarrow> octet t \<notin> set (used @ [c])" for x t
        using IH [THEN conjunct1, rule_format, of x t] by (auto simp: update_conv)
      show "octet r \<noteq> octet r'"
      proof (cases "m = n")
        case True
        then have "octet r = c" using m n octet_ip_net_of [of a b c d 24] by simp
        then show ?thesis using new [of m' r'] old [of m' r'] m True c(3) by (cases "map_of ips m' = None") auto
      next
        case False
        then show ?thesis using IH [THEN conjunct2, rule_format, of m r m' r'] m by (simp add: update_conv)
      qed
    qed
  qed
qed simp


lemma kept_ips_Some:
  "kept_ips nodes 16 m = Some (used, ips) \<Longrightarrow>
     ips = filter (\<lambda>(n, r). n \<in> set nodes) m \<and> used = map (octet \<circ> snd) ips"
  by (induction m arbitrary: used ips)
    (auto simp: octet_def byte_at_def split: if_splits option.splits prod.splits)

lemma map_of_filter_keys: "map_of (filter (\<lambda>(n, r). n \<in> A) m) n = (if n \<in> A then map_of m n else None)"
  by (induction m) auto

text \<open>What happens before the loop over the nodes: the octets in use and the network, whose external range is set.\<close>

lemma assign_nodes_ips_None:
  assumes "assign_nodes_ips nodes z = Some (None, z')" and "length (IP (zn_ip_range z)) = 16"
  shows "\<exists>used ips cur z1 ips'. kept_ips nodes 16 (zn_nodes_ip_range z) = Some (map (octet \<circ> snd) ips, ips)
     \<and> set (map (octet \<circ> snd) ips) \<subseteq> set used \<and> 2 \<le> cur
     \<and> give_ips (IP (zn_ip_range z)) 16 nodes used cur ips = Some (Inr ips')
     \<and> z' = z1\<lparr>zn_nodes_ip_range := ips'\<rparr>
     \<and> z1 = z\<lparr>zn_external_ip := zn_external_ip z1\<rparr>
     \<and> (zn_add_wg_access z \<longrightarrow> (\<exists>r. zn_external_ip z1 = Some r \<and> octet r \<in> set used))"
proof -
  obtain used ips where k: "kept_ips nodes 16 (zn_nodes_ip_range z) = Some (used, ips)"
    using assms by (auto simp: assign_nodes_ips_def Let_def split: option.splits)
  have u: "used = map (octet \<circ> snd) ips" using kept_ips_Some [OF k] by blast
  consider "\<not> zn_add_wg_access z" | e where "zn_add_wg_access z" "zn_external_ip z = Some e"
    | "zn_add_wg_access z" "zn_external_ip z = None" by auto
  then show ?thesis
  proof cases
    case 1
    then have "give_ips (IP (zn_ip_range z)) 16 nodes used 2 ips = Some (Inr (zn_nodes_ip_range z'))
        \<and> z' = z\<lparr>zn_nodes_ip_range := zn_nodes_ip_range z'\<rparr>"
      using assms k by (auto simp: assign_nodes_ips_def Let_def split: option.splits sum.splits)
    then show ?thesis using k u 1
      by (intro exI [of _ used] exI [of _ ips] exI [of _ 2] exI [of _ z] exI [of _ "zn_nodes_ip_range z'"]) auto
  next
    case (2 e)
    then have "give_ips (IP (zn_ip_range z)) 16 nodes (used @ [octet e]) 2 ips = Some (Inr (zn_nodes_ip_range z'))
        \<and> z' = z\<lparr>zn_nodes_ip_range := zn_nodes_ip_range z'\<rparr>"
      using assms k
      by (auto simp: assign_nodes_ips_def Let_def octet_def byte_at_def split: option.splits sum.splits if_splits)
    then show ?thesis using k u 2
      by (intro exI [of _ "used @ [octet e]"] exI [of _ ips] exI [of _ 2] exI [of _ z] exI [of _ "zn_nodes_ip_range z'"]) auto
  next
    case 3
    then obtain cur a b d where f: "next_free_ip used 2 = (None, cur)"
      and g: "give_ips (IP (zn_ip_range z)) 16 nodes (used @ [cur]) cur ips = Some (Inr (zn_nodes_ip_range z'))"
      and z': "z' = z\<lparr>zn_external_ip := Some (ip_net_of a b cur d 24), zn_nodes_ip_range := zn_nodes_ip_range z'\<rparr>"
      using assms k by (auto simp: assign_nodes_ips_def Let_def split: option.splits sum.splits prod.splits)
    show ?thesis using k u g z' next_free_ip_None(1) [OF f] octet_ip_net_of [of a b cur d 24]
      by (intro exI [of _ "used @ [cur]"] exI [of _ ips] exI [of _ cur]
          exI [of _ "z\<lparr>zn_external_ip := Some (ip_net_of a b cur d 24)\<rparr>"] exI [of _ "zn_nodes_ip_range z'"]) auto
  qed
qed


text \<open>
  The assignment succeeds: each node has a range, the ranges of before are kept, a new one is a /24 of the network
  with a third octet from 2 to 254 that no other node and no external range has.
\<close>

lemma assign_nodes_ips_ok:
  assumes "assign_nodes_ips nodes z = Some (None, z')" and "length (IP (zn_ip_range z)) = 16"
  shows "(\<forall>n. map_of (zn_nodes_ip_range z') n \<noteq> None \<longleftrightarrow> n \<in> set nodes)
    \<and> (\<forall>n \<in> set nodes. \<forall>r. map_of (zn_nodes_ip_range z) n = Some r \<longrightarrow> map_of (zn_nodes_ip_range z') n = Some r)
    \<and> (\<forall>n \<in> set nodes. \<forall>r. map_of (zn_nodes_ip_range z) n = None \<longrightarrow> map_of (zn_nodes_ip_range z') n = Some r \<longrightarrow>
         (\<exists>a b c d. r = ip_net_of a b c d 24 \<and> 2 \<le> c \<and> c \<le> 254
            \<and> take 2 (drop 12 (IP (zn_ip_range z))) = [a, b]
            \<and> (\<forall>m s. m \<noteq> n \<longrightarrow> map_of (zn_nodes_ip_range z') m = Some s \<longrightarrow> octet s \<noteq> c)
            \<and> (zn_add_wg_access z \<longrightarrow> (\<exists>e. zn_external_ip z' = Some e \<and> octet e \<noteq> c))))"
proof -
  obtain used ips cur z1 ips' where k: "kept_ips nodes 16 (zn_nodes_ip_range z) = Some (map (octet \<circ> snd) ips, ips)"
    and us: "set (map (octet \<circ> snd) ips) \<subseteq> set used" and cur: "2 \<le> cur"
    and g: "give_ips (IP (zn_ip_range z)) 16 nodes used cur ips = Some (Inr ips')"
    and z': "z' = z1\<lparr>zn_nodes_ip_range := ips'\<rparr>"
    and e: "zn_add_wg_access z \<longrightarrow> (\<exists>r. zn_external_ip z1 = Some r \<and> octet r \<in> set used)"
    using assign_nodes_ips_None [OF assms] by blast
  have ips: "map_of ips n = (if n \<in> set nodes then map_of (zn_nodes_ip_range z) n else None)" for n
    by (simp only: kept_ips_Some [OF k, THEN conjunct1] map_of_filter_keys)
  have inv: "\<forall>n r. map_of ips n = Some r \<longrightarrow> octet r \<in> set used"
    using us by (force dest: map_of_SomeD)
  note keeps = give_ips_keeps [OF g] and fresh = give_ips_fresh [OF g cur inv]
  have two: "byte_at (IP (zn_ip_range z)) 16 4 = Some a \<Longrightarrow> byte_at (IP (zn_ip_range z)) 16 3 = Some b
      \<Longrightarrow> take 2 (drop 12 (IP (zn_ip_range z))) = [a, b]" for a b
    using assms(2) by (auto simp: byte_at_def take_Suc_conv_app_nth numeral_2_eq_2 nth_append)
  show ?thesis
  proof (intro conjI ballI allI impI)
    fix n show "map_of (zn_nodes_ip_range z') n \<noteq> None \<longleftrightarrow> n \<in> set nodes"
      using keeps ips [of n] by (auto simp: z')
  next
    fix n r assume "n \<in> set nodes" "map_of (zn_nodes_ip_range z) n = Some r"
    then show "map_of (zn_nodes_ip_range z') n = Some r" using keeps ips [of n] by (simp add: z')
  next
    fix n r assume n: "n \<in> set nodes" "map_of (zn_nodes_ip_range z) n = None" "map_of (zn_nodes_ip_range z') n = Some r"
    then obtain a b c d where r: "r = ip_net_of a b c d 24" "2 \<le> c" "c \<le> 254" "c \<notin> set used"
      "byte_at (IP (zn_ip_range z)) 16 4 = Some a" "byte_at (IP (zn_ip_range z)) 16 3 = Some b"
      using fresh [THEN conjunct1, rule_format, of n r] ips [of n] by (auto simp: z')
    have "m \<noteq> n \<Longrightarrow> map_of (zn_nodes_ip_range z') m = Some s \<Longrightarrow> octet s \<noteq> c" for m s
      using fresh [THEN conjunct2, rule_format, of n r m s] ips [of n] n r(1) by (auto simp: z')
    then show "\<exists>a b c d. r = ip_net_of a b c d 24 \<and> 2 \<le> c \<and> c \<le> 254
            \<and> take 2 (drop 12 (IP (zn_ip_range z))) = [a, b]
            \<and> (\<forall>m s. m \<noteq> n \<longrightarrow> map_of (zn_nodes_ip_range z') m = Some s \<longrightarrow> octet s \<noteq> c)
            \<and> (zn_add_wg_access z \<longrightarrow> (\<exists>e. zn_external_ip z' = Some e \<and> octet e \<noteq> c))"
      using r e two [OF r(5,6)] by (intro exI conjI) (auto simp: z')
  qed
qed

end
