(* ===== verification/ZnetProofs.thy ===== *)
theory ZnetProofs
  imports Znet
begin

text \<open>
  Facts on networks: the assignment of addresses succeeds up to 252 nodes, every node of the network gets one
  deployment, and the peers of the nodes route every range of the network.
\<close>

section \<open>Room for addresses\<close>

lemma exhausted_card:
  assumes "next_free_ip used cur = (Some e, c)" and "\<forall>x. 2 \<le> x \<and> x < cur \<longrightarrow> x \<in> set used"
  shows "253 \<le> length used"
proof -
  have "{2..254} \<subseteq> set used"
  proof
    fix x :: u8 assume "x \<in> {2..254}"
    then show "x \<in> set used"
      using assms(2) next_free_ip_Some [OF assms(1), of x] by (cases "x < cur") auto
  qed
  then have "card {2..254 :: u8} \<le> length used"
    using card_mono [of "set used"] card_length [of used] by (meson List.finite_set order_trans)
  moreover have "card {2..254 :: u8} = 253"
  proof -
    have "{2..254 :: u8} = of_nat ` {2..254}"
    proof (intro equalityI subsetI)
      fix x :: u8 assume "x \<in> {2..254}"
      then have "unat x \<in> {2..254}" by (simp add: word_le_nat_alt)
      then have "of_nat (unat x) \<in> (of_nat ` {2..254} :: u8 set)" by (rule imageI)
      then show "x \<in> of_nat ` {2..254}" by simp
    next
      fix x :: u8 assume "x \<in> of_nat ` {2..254}"
      then show "x \<in> {2..254}" by (auto simp: word_le_nat_alt unat_of_nat take_bit_eq_mod)
    qed
    moreover have "inj_on (of_nat :: nat \<Rightarrow> u8) {2..254}"
      by (rule inj_onI) (drule arg_cong [where f = unat], simp add: unat_of_nat take_bit_eq_mod)
    ultimately show ?thesis by (simp add: card_image)
  qed
  ultimately show ?thesis by simp
qed

lemma give_ips_succeeds:
  assumes "length rng = 16" and "2 \<le> cur" and "\<forall>x. 2 \<le> x \<and> x < cur \<longrightarrow> x \<in> set used"
    and "length used + length (filter (\<lambda>n. map_of ips n = None) nodes) \<le> 253"
  shows "\<exists>ips'. give_ips rng 16 nodes used cur ips = Some (Inr ips')"
  using assms
proof (induction nodes arbitrary: used cur ips)
  case (Cons n nodes)
  show ?case
  proof (cases "map_of ips n = None")
    case True
    have len: "length used < 253" using Cons.prems(4) True by simp
    obtain c where f: "next_free_ip used cur = (None, c)"
      using exhausted_card [of used cur] Cons.prems(3) len by (cases "next_free_ip used cur") (metis not_le option.exhaust)
    let ?ips = "\<lambda>a b d. AList.update n (ip_net_of a b c d 24) ips"
    have fewer: "length (filter (\<lambda>m. map_of (?ips a b d) m = None) nodes) \<le> length (filter (\<lambda>m. map_of ips m = None) nodes)"
      for a b d by (induction nodes) (auto simp: update_conv)
    have len': "length (used @ [c]) + length (filter (\<lambda>m. map_of (?ips a b d) m = None) nodes) \<le> 253" for a b d
      using Cons.prems(4) True fewer [of a b d] by simp
    have "\<forall>x. 2 \<le> x \<and> x < c \<longrightarrow> x \<in> set (used @ [c])"
      using Cons.prems(3) next_free_ip_None(4) [OF f] by (metis Un_iff not_le set_append)
    moreover have "2 \<le> c" using Cons.prems(2) next_free_ip_None(1) [OF f] by (rule order_trans)
    ultimately have "\<exists>ips'. give_ips rng 16 nodes (used @ [c]) c (?ips a b d) = Some (Inr ips')" for a b d
      using Cons.IH [of c "used @ [c]" "?ips a b d"] Cons.prems(1) len' [of a b d] by blast
    then show ?thesis using True f Cons.prems(1) by (simp add: byte_at_def)
  next
    case False
    then show ?thesis using Cons by auto
  qed
qed simp


lemma length_kept:
  assumes "distinct (map fst m)" and "distinct nodes"
  shows "length (filter (\<lambda>(n, r). n \<in> set nodes) m) + length (filter (\<lambda>n. map_of m n = None) nodes) = length nodes"
proof -
  have "length (filter (\<lambda>(n, r). n \<in> set nodes) m) = card (fst ` set m \<inter> set nodes)"
  proof -
    have "distinct (map fst (filter (\<lambda>(n, r). n \<in> set nodes) m))"
      using assms(1) by (simp add: distinct_map_filter)
    then have "length (filter (\<lambda>(n, r). n \<in> set nodes) m) = card (fst ` set (filter (\<lambda>(n, r). n \<in> set nodes) m))"
      by (metis distinct_card length_map set_map)
    moreover have "fst ` set (filter (\<lambda>(n, r). n \<in> set nodes) m) = fst ` set m \<inter> set nodes" by force
    ultimately show ?thesis by simp
  qed
  moreover have "length (filter (\<lambda>n. map_of m n = None) nodes) = card (set nodes - fst ` set m)"
    using assms(2) distinct_card [of "filter (\<lambda>n. map_of m n = None) nodes"]
    by (auto simp: map_of_eq_None_iff set_diff_eq intro: arg_cong [where f = card])
  moreover have "card (fst ` set m \<inter> set nodes) + card (set nodes - fst ` set m) = card (set nodes)"
    by (metis Int_commute add.commute card_Diff_subset_Int card_mono finite_Int inf_le1 le_add_diff_inverse2 List.finite_set)
  ultimately show ?thesis using assms(2) by (simp add: distinct_card)
qed

lemma kept_ips_defined: "\<forall>(n, r) \<in> set m. length (IP r) = 16 \<Longrightarrow> \<exists>used ips. kept_ips nodes 16 m = Some (used, ips)"
  by (induction m) (auto simp: byte_at_def)

lemma assign_nodes_ips_succeeds:
  assumes "length (IP (zn_ip_range z)) = 16" and "\<forall>(n, r) \<in> set (zn_nodes_ip_range z). length (IP r) = 16"
    and "\<forall>e. zn_external_ip z = Some e \<longrightarrow> length (IP e) = 16"
    and "distinct (map fst (zn_nodes_ip_range z))" and "distinct nodes" and "length nodes \<le> 252"
  shows "\<exists>z'. assign_nodes_ips nodes z = Some (None, z')"
proof -
  obtain used ips where k: "kept_ips nodes 16 (zn_nodes_ip_range z) = Some (used, ips)"
    using kept_ips_defined [OF assms(2)] by blast
  have u: "ips = filter (\<lambda>(n, r). n \<in> set nodes) (zn_nodes_ip_range z)" "used = map (octet \<circ> snd) ips"
    using kept_ips_Some [OF k] by blast+
  have "filter (\<lambda>n. map_of ips n = None) nodes = filter (\<lambda>n. map_of (zn_nodes_ip_range z) n = None) nodes"
    by (rule filter_cong) (simp_all only: u map_of_filter_keys if_True)
  then have len: "length used + length (filter (\<lambda>n. map_of ips n = None) nodes) \<le> 252"
    using length_kept [OF assms(4,5)] assms(6) u by simp
  have run: "\<exists>ips'. give_ips (IP (zn_ip_range z)) 16 nodes us cur ips = Some (Inr ips')"
    if "2 \<le> cur" "\<forall>x. 2 \<le> x \<and> x < cur \<longrightarrow> x \<in> set us" "length us \<le> Suc (length used)" for us cur
    using that len by (intro give_ips_succeeds [OF assms(1)]) auto
  have none: "\<not> (2 \<le> x \<and> x < 2)" for x :: u8 by (meson not_le)
  consider "\<not> zn_add_wg_access z" | e where "zn_add_wg_access z" "zn_external_ip z = Some e"
    | "zn_add_wg_access z" "zn_external_ip z = None" by auto
  then show ?thesis
  proof cases
    case 1
    obtain ips' where "give_ips (IP (zn_ip_range z)) 16 nodes used 2 ips = Some (Inr ips')" using run [of 2 used] none by auto
    then show ?thesis using 1 assms(1) k by (simp add: assign_nodes_ips_def Let_def)
  next
    case (2 e)
    obtain ips' where "give_ips (IP (zn_ip_range z)) 16 nodes (used @ [octet e]) 2 ips = Some (Inr ips')"
      using run [of 2 "used @ [octet e]"] none by auto
    then show ?thesis using 2 assms(1,3) k by (simp add: assign_nodes_ips_def Let_def byte_at_def octet_def)
  next
    case 3
    obtain c where f: "next_free_ip used 2 = (None, c)"
      using exhausted_card [of used 2] len by (cases "next_free_ip used 2") (fastforce)
    obtain ips' where "give_ips (IP (zn_ip_range z)) 16 nodes (used @ [c]) c ips = Some (Inr ips')"
      using run [of c "used @ [c]"] next_free_ip_None [OF f] by auto
    then show ?thesis using 3 assms(1) k f by (simp add: assign_nodes_ips_def Let_def byte_at_def)
  qed
qed

lemma CIDR16: "CIDRMask 16 32 = [255, 255, 0, 0]"
  by code_simp

lemma range_contains:
  "net_contains \<lparr>IP = IPv4 a b e f, Mask = CIDRMask 16 32\<rparr> (IP (ip_net_of a b c d m))"
  by (simp add: net_contains_def number_and_mask_def ip_net_of_def CIDR16 Let_def All_less_Suc)

section \<open>The nodes of a network and their deployments\<close>

lemma all_some_iff: "all_some xs = Some ys \<longleftrightarrow> xs = map Some ys"
  by (induction xs arbitrary: ys rule: all_some.induct) (auto simp: Cons_eq_map_conv)

lemma classify_nodes_set:
  "classify_nodes name ips nodes c = Inr c' \<Longrightarrow>
     set (nc_hidden c') \<union> set (nc_accessible c') = set (nc_hidden c) \<union> set (nc_accessible c) \<union> set nodes"
proof (induction nodes arbitrary: c)
  case (Cons n nodes)
  then show ?case by (cases "map_of ips n") (auto split: if_splits dest!: Cons.IH)
qed simp

lemma classify_nodes_ipv4:
  "classify_nodes name ips nodes c = Inr c' \<Longrightarrow> (nc_ipv4 c \<noteq> 0 \<longrightarrow> nc_ipv4 c \<in> set (nc_accessible c)) \<Longrightarrow>
     (nc_ipv4 c' \<noteq> 0 \<longrightarrow> nc_ipv4 c' \<in> set (nc_accessible c'))"
proof (induction nodes arbitrary: c)
  case (Cons n nodes)
  then show ?case by (cases "map_of ips n") (auto split: if_splits dest!: Cons.IH)
qed simp

text \<open>The classes the code starts with, and the public node they lead to.\<close>

abbreviation no_classes :: node_classes where
  "no_classes \<equiv> \<lparr>nc_hidden = [], nc_accessible = [], nc_ipv4 = 0, nc_endpoints = []\<rparr>"

lemma two_lists: "xs \<noteq> [] \<Longrightarrow> ys \<noteq> [] \<Longrightarrow> Suc 0 < length xs + length ys"
  by (cases xs; cases ys) auto

lemma choose_public_node_cases:
  assumes "classify_nodes name ips nodes no_classes = Inr c0" and "choose_public_node ips pub z c0 = Inr (z', c)"
  shows "nc_hidden c = nc_hidden c0
    \<and> set (nc_accessible c0) \<subseteq> set (nc_accessible c) \<and> set (nc_accessible c) \<subseteq> insert (zn_public_node_id z') (set (nc_accessible c0))
    \<and> (nc_hidden c \<noteq> [] \<longrightarrow> (nc_accessible c \<noteq> [] \<or> 1 < length (nc_hidden c)) \<longrightarrow>
         zn_public_node_id z' \<noteq> 0 \<and> zn_public_node_id z' \<in> set (nc_accessible c))
    \<and> z' = z\<lparr>zn_public_node_id := zn_public_node_id z'\<rparr>"
  using assms(2) classify_nodes_ipv4 [OF assms(1)] two_lists [of "nc_hidden c" "nc_accessible c"]
  by (auto simp: choose_public_node_def Let_def split: if_splits option.splits)

text \<open>Between two accessible nodes, and from any accessible node to a hidden one, some peer routes the range.\<close>

lemma accessible_routes:
  assumes "peers_of_accessible env z c na x = Some ps" and "non_accessible_ranges z (nc_hidden c) = Some na"
    and "y \<in> set (nc_accessible c) \<or> y \<in> set (nc_hidden c) \<and> zn_public_node_id z \<in> set (nc_accessible c)" and "y \<noteq> x"
  shows "\<exists>p g. p \<in> set ps \<and> wg_ip (range_of z y) = Some g \<and> {range_of z y, g} \<subseteq> set (pr_allowed_ips p)"
proof -
  let ?qs = "map (accessible_peer env z c na) (filter (\<lambda>n. n \<noteq> x) (nc_accessible c))
       @ (if x = zn_public_node_id z
          then (if zn_add_wg_access z then [external_peer env z] else []) @ map (hidden_peer env z) (nc_hidden c)
          else [])"
  have qs: "set ?qs = Some ` set ps"
    using assms(1) unfolding peers_of_accessible_def all_some_iff by (metis set_map)
  have known: "q \<in> set ?qs \<Longrightarrow> \<exists>p \<in> set ps. q = Some p" for q unfolding qs by blast
  consider "y \<in> set (nc_accessible c)" | "y \<in> set (nc_hidden c)" "x = zn_public_node_id z"
    | "y \<in> set (nc_hidden c)" "x \<noteq> zn_public_node_id z" "zn_public_node_id z \<in> set (nc_accessible c)"
    using assms(3) by blast
  then show ?thesis
  proof cases
    case 1
    then have "accessible_peer env z c na y \<in> set ?qs" using assms(4) by auto
    then obtain p where "p \<in> set ps" "accessible_peer env z c na y = Some p" using known by blast
    then show ?thesis by (fastforce simp: accessible_peer_def with_wg_def)
  next
    case 2
    then have "hidden_peer env z y \<in> set ?qs" by auto
    then obtain p where "p \<in> set ps" "hidden_peer env z y = Some p" using known by blast
    then show ?thesis by (fastforce simp: hidden_peer_def with_wg_def)
  next
    case 3
    obtain rs where rs: "map (\<lambda>n. with_wg (range_of z n)) (nc_hidden c) = map Some rs" and na: "set (concat rs) \<subseteq> set na"
      using assms(2) by (auto simp: non_accessible_ranges_def all_some_iff split: option.splits if_splits)
    then have "with_wg (range_of z y) \<in> Some ` set rs" using 3(1) by (metis image_eqI list.set_map)
    then obtain g where g: "wg_ip (range_of z y) = Some g" "{range_of z y, g} \<subseteq> set na"
      using na by (fastforce simp: with_wg_def)
    have "accessible_peer env z c na (zn_public_node_id z) \<in> set ?qs" using 3 by auto
    then obtain p where "p \<in> set ps" "accessible_peer env z c na (zn_public_node_id z) = Some p" using known by blast
    then show ?thesis using g by (fastforce simp: accessible_peer_def)
  qed
qed


text \<open>What the generation of a deployment leaves alone.\<close>

lemma node_deployment_shape:
  assumes "node_deployment env twinID z metadata n ps = Some (d, z')"
  shows "zn_name z' = zn_name z \<and> zn_public_node_id z' = zn_public_node_id z \<and> dl_twin d = twinID
    \<and> (\<exists>wl. dl_workloads d = [wl] \<and> wl_type wl = NetworkType \<and> wl_name wl = zn_name z)"
  using assms
  by (auto simp: node_deployment_def znet_generate_metadata_def znet_workload_def new_grid_deployment_def Let_def
     split: option.splits)

definition network_deployment :: "u32 \<Rightarrow> string \<Rightarrow> deployment \<Rightarrow> bool" where
  "network_deployment twinID name d =
     (dl_twin d = twinID \<and> (\<exists>wl. dl_workloads d = [wl] \<and> wl_type wl = NetworkType \<and> wl_name wl = name))"

lemma deploy_nodes_shape:
  assumes "deploy_nodes env twinID metadata peers nodes z dls = Some (z', dls')" and "distinct (map fst dls)"
    and "\<forall>(n, d) \<in> set dls. network_deployment twinID (zn_name z) d"
  shows "set (map fst dls') = set (map fst dls) \<union> set nodes \<and> distinct (map fst dls')
    \<and> zn_name z' = zn_name z \<and> zn_public_node_id z' = zn_public_node_id z
    \<and> (\<forall>(n, d) \<in> set dls'. network_deployment twinID (zn_name z) d)"
  using assms
proof (induction nodes arbitrary: z dls)
  case (Cons n nodes)
  obtain ps d z1 where d: "node_deployment env twinID z metadata n ps = Some (d, z1)"
    and r: "deploy_nodes env twinID metadata peers nodes z1 (AList.update n d dls) = Some (z', dls')"
    using Cons.prems(1) by (auto split: option.splits prod.splits)
  note s = node_deployment_shape [OF d]
  have "\<forall>(m, e) \<in> set (AList.update n d dls). network_deployment twinID (zn_name z1) e"
  proof clarify
    fix m e assume "(m, e) \<in> set (AList.update n d dls)"
    then have "map_of (AList.update n d dls) m = Some e"
      using distinct_update [OF Cons.prems(2)] by (simp add: map_of_eq_Some_iff)
    then have "e = d \<or> (m, e) \<in> set dls" by (auto simp: update_conv split: if_splits dest: map_of_SomeD)
    then show "network_deployment twinID (zn_name z1) e"
      using s Cons.prems(3) by (auto simp: network_deployment_def)
  qed
  moreover have "set (map fst (AList.update n d dls)) = insert n (set (map fst dls))"
    by (simp add: dom_update)
  ultimately show ?case using Cons.IH [OF r distinct_update [OF Cons.prems(2)]] s by auto
qed simp

lemma assign_nodes_ips_frame:
  "assign_nodes_ips nodes z = Some (e, z') \<Longrightarrow> zn_name z' = zn_name z \<and> zn_public_node_id z' = zn_public_node_id z"
  by (auto simp: assign_nodes_ips_def Let_def split: option.splits sum.splits prod.splits if_splits)

lemma assign_nodes_wg_key_frame:
  "assign_nodes_wg_key env nodes z w = ((e, z'), w') \<Longrightarrow> z' = z\<lparr>zn_keys := zn_keys z'\<rparr>"
proof (induction nodes arbitrary: z w)
  case (Cons n nodes)
  show ?case
  proof (cases "map_of (zn_keys z) n = None")
    case True
    obtain r w1 where g: "wg_generate_key env w = (r, w1)" by (cases "wg_generate_key env w")
    show ?thesis
    proof (cases r)
      case (Inr key)
      then have "z' = z\<lparr>zn_keys := AList.update n key (zn_keys z)\<rparr>\<lparr>zn_keys := zn_keys z'\<rparr>"
        using Cons.prems True g by (intro Cons.IH) simp
      then show ?thesis by simp
    qed (use Cons.prems True g in auto)
  qed (use Cons in auto)
qed simp

lemma access_config_frame:
  "access_config env c z w = Some ((e, z'), w') \<Longrightarrow> zn_name z' = zn_name z \<and> zn_public_node_id z' = zn_public_node_id z"
  by (auto simp: access_config_def Let_def split: if_splits sum.splits option.splits prod.splits)

lemma build_deployments_shape:
  assumes "build_deployments env twinID c z used w = Some (Inr dls, z', used', w')"
  shows "set (map fst dls) = set (nc_accessible c) \<union> set (nc_hidden c) \<and> distinct (map fst dls)
    \<and> zn_public_node_id z' = zn_public_node_id z \<and> (\<forall>(n, d) \<in> set dls. network_deployment twinID (zn_name z) d)"
proof -
  obtain na z1 w1 z2 dls1 where a: "access_config env c z w = Some ((None, z1), w1)"
    and p: "deploy_nodes env twinID (metadata_text env z1) (\<lambda>z n. peers_of_accessible env z c na n) (nc_accessible c) z1 []
        = Some (z2, dls1)"
    and q: "deploy_nodes env twinID (metadata_text env z1) (\<lambda>z n. Some (peers_of_hidden env z c n)) (nc_hidden c) z2 dls1
        = Some (z', dls)"
    using assms by (auto simp: build_deployments_def Let_def split: option.splits prod.splits)
  note s1 = deploy_nodes_shape [OF p]
  then show ?thesis using deploy_nodes_shape [OF q] access_config_frame [OF a] by auto
qed

lemma generate_deployments_Inr:
  assumes "generate_deployments env eps pub twinID z used w = Some (Inr dls, z', used', w')"
  shows "\<exists>c0 z1 c z2 z3 ports us w1 w2. classify_nodes (zn_name z) eps (zn_nodes z) no_classes = Inr c0
    \<and> choose_public_node eps pub z c0 = Inr (z1, c)
    \<and> assign_nodes_ips (nc_hidden c @ nc_accessible c) z1 = Some (None, z2)
    \<and> assign_nodes_wg_key env (nc_hidden c @ nc_accessible c) z2 w = ((None, z3), w1)
    \<and> build_deployments env twinID c (z3\<lparr>zn_wg_port := ports\<rparr>) us w2 = Some (Inr dls, z', used', w')"
  using assms unfolding generate_deployments_def Let_def
  by (simp split: option.splits sum.splits prod.splits) blast

lemma generate_deployments_shape:
  assumes "generate_deployments env eps pub twinID z used w = Some (Inr dls, z', used', w')"
  shows "set (zn_nodes z) \<subseteq> set (map fst dls) \<and> set (map fst dls) \<subseteq> insert (zn_public_node_id z') (set (zn_nodes z))
    \<and> distinct (map fst dls) \<and> (\<forall>(n, d) \<in> set dls. network_deployment twinID (zn_name z) d)"
proof -
  obtain c0 z1 c z2 z3 w1 ports us w2 where c0: "classify_nodes (zn_name z) eps (zn_nodes z) no_classes = Inr c0"
    and ch: "choose_public_node eps pub z c0 = Inr (z1, c)"
    and as: "assign_nodes_ips (nc_hidden c @ nc_accessible c) z1 = Some (None, z2)"
    and ks: "assign_nodes_wg_key env (nc_hidden c @ nc_accessible c) z2 w = ((None, z3), w1)"
    and b: "build_deployments env twinID c (z3\<lparr>zn_wg_port := ports\<rparr>) us w2 = Some (Inr dls, z', used', w')"
    using generate_deployments_Inr [OF assms] by blast
  have z3: "zn_name z3 = zn_name z2 \<and> zn_public_node_id z3 = zn_public_node_id z2"
    using assign_nodes_wg_key_frame [OF ks] by (metis (no_types, lifting) znet.update_convs(15) znet.select_convs(1,11) znet.surjective)
  have z1: "zn_name z1 = zn_name z" using choose_public_node_cases [OF c0 ch] by (metis (no_types) znet.select_convs(1) znet.surjective znet.update_convs(11))
  have pub: "zn_public_node_id z' = zn_public_node_id z1"
    using build_deployments_shape [OF b] z3 assign_nodes_ips_frame [OF as] by simp
  have nm: "zn_name (z3\<lparr>zn_wg_port := ports\<rparr>) = zn_name z" using z3 z1 assign_nodes_ips_frame [OF as] by simp
  show ?thesis
    using build_deployments_shape [OF b] choose_public_node_cases [OF c0 ch] classify_nodes_set [OF c0]
    unfolding nm pub by auto
qed

end
