(* ===== verification/NodeFilter.thy ===== *)
theory NodeFilter
  imports Float64 WlCommon
begin

text \<open>
  Choosing nodes for a deployment (\<open>grid-client/deployer/node_filter.go\<close>): the check that a node's storage pools hold
  the requested disks, the paged search over the grid proxy, the choice of a public node. The proxy and the nodes are
  fields of \<open>filter_env\<close> over a world; Go's unstable \<open>sort.Slice\<close> and the interleaving of the concurrent requests are
  arguments with a contract. Lemmas: the storage check is worst-fit placement whatever order ties are sorted in, and
  what the search returns.
\<close>

section \<open>Storage pools\<close>

record pool =
  pool_type :: string
  pool_size :: u64
  pool_used :: u64

definition pool_free :: "pool \<Rightarrow> u64" where
  "pool_free p = pool_size p - pool_used p"

text \<open>The larger free space comes first: the key the slice is sorted by.\<close>

definition pool_key :: "pool \<Rightarrow> int" where
  "pool_key p = - int (unat (pool_free p))"

fun place_storages :: "(pool list \<Rightarrow> pool list) \<Rightarrow> pool list \<Rightarrow> u64 list \<Rightarrow> bool" where
  "place_storages srt pools [] = True"
| "place_storages srt pools (s # storages) =
     (case srt pools of
        [] \<Rightarrow> False
      | p # ps \<Rightarrow>
          if pool_free p < s then False
          else place_storages srt (p\<lparr>pool_used := pool_used p + s\<rparr> # ps) storages)"

definition has_enough_storage :: "(pool list \<Rightarrow> pool list) \<Rightarrow> pool list \<Rightarrow> u64 list \<Rightarrow> string \<Rightarrow> bool" where
  "has_enough_storage srt pools storages poolType =
     (if storages = [] then True
      else (let filtered = filter (\<lambda>p. pool_type p = poolType) pools in
            if filtered = [] then False else place_storages srt filtered storages))"

interpretation pool_sort: slice_sort "sort_key pool_key" pool_key
  by unfold_locales simp_all

section \<open>The proxy and the nodes\<close>

record proxy_node =
  pn_id :: u32
  pn_status :: string
  pn_ipv4 :: string

text \<open>The fields of the filter the code reads or sets; the others are kept in one.\<close>

record 'o node_filter =
  nf_status :: "string list"
  nf_free_hru :: "u64 option"
  nf_free_sru :: "u64 option"
  nf_ipv4 :: "bool option"
  nf_available_for :: "u64 option"
  nf_healthy :: "bool option"
  nf_others :: 'o

record limit =
  lim_size :: u64
  lim_page :: u64
  lim_ret_count :: bool

definition default_limit_size :: u64 where "default_limit_size = 50"

record ('o, 'w) filter_env =
  fe_twin :: u32
  fe_nodes :: "'o node_filter \<Rightarrow> limit \<Rightarrow> 'w \<Rightarrow> (string + proxy_node list \<times> u64) \<times> 'w"
  fe_node :: "u32 \<Rightarrow> 'w \<Rightarrow> (string + proxy_node) \<times> 'w"
  fe_pools :: "u32 \<Rightarrow> 'w \<Rightarrow> (string + pool list) \<times> 'w"
  fe_pool_sort :: "pool list \<Rightarrow> pool list"
  fe_size_sort :: "u64 list \<Rightarrow> u64 list"
  fe_merge :: "proxy_node list list \<Rightarrow> proxy_node list"
  fe_conv_int :: "f64 \<Rightarrow> int"
  fe_hdd :: string
  fe_ssd :: string
  fe_parse_ip6 :: "string \<Rightarrow> ip option"

text \<open>
  The nodes of a page whose pools hold the disks, in order; getting a node's client and its pools is one call, whose
  failure skips the node. The root file systems come after the disks on the SSD pools.
\<close>

fun check_nodes_storage :: "('o, 'w) filter_env \<Rightarrow> u64 list \<Rightarrow> u64 list \<Rightarrow> proxy_node list \<Rightarrow> 'w \<Rightarrow> proxy_node list \<times> 'w" where
  "check_nodes_storage env ssd hdd [] w = ([], w)"
| "check_nodes_storage env ssd hdd (n # ns) w =
     (case fe_pools env (pn_id n) w of
        (Inl _, w1) \<Rightarrow> check_nodes_storage env ssd hdd ns w1
      | (Inr pools, w1) \<Rightarrow>
          if \<not> has_enough_storage (fe_pool_sort env) pools hdd (fe_hdd env) then check_nodes_storage env ssd hdd ns w1
          else if \<not> has_enough_storage (fe_pool_sort env) pools ssd (fe_ssd env) then check_nodes_storage env ssd hdd ns w1
          else (case check_nodes_storage env ssd hdd ns w1 of (out, w2) \<Rightarrow> (n # out, w2)))"

definition get_nodes ::
  "('o, 'w) filter_env \<Rightarrow> 'o node_filter \<Rightarrow> u64 list \<Rightarrow> u64 list \<Rightarrow> u64 list \<Rightarrow> limit \<Rightarrow> 'w
   \<Rightarrow> (string option \<times> proxy_node list) \<times> 'w" where
  "get_nodes env options ssdDisks hddDisks rootfs lmt w =
     (case fe_nodes env options lmt w of
        (Inl e, w1) \<Rightarrow> ((wrap_err ''could not fetch nodes from the rmb proxy'' (Some e), []), w1)
      | (Inr (nodes, _), w1) \<Rightarrow>
          if nodes = [] then ((None, []), w1)
          else if nf_free_sru options = None \<and> nf_free_hru options = None then ((None, nodes), w1)
          else (case check_nodes_storage env (fe_size_sort env ssdDisks @ rootfs) (fe_size_sort env hddDisks) nodes w1 of
                  (out, w2) \<Rightarrow> ((None, out), w2)))"

section \<open>The search\<close>

definition int_of_f64 :: "(f64 \<Rightarrow> int) \<Rightarrow> f64 \<Rightarrow> int" where
  "int_of_f64 conv x =
     (case x of
        Fin r \<Rightarrow> if - (2 ^ 63) \<le> trunc_rat r \<and> trunc_rat r < 2 ^ 63 then trunc_rat r else conv x
      | _ \<Rightarrow> conv x)"

definition get_pages_count :: "('o, 'w) filter_env \<Rightarrow> 'o node_filter \<Rightarrow> limit \<Rightarrow> 'w \<Rightarrow> (string + int) \<times> 'w" where
  "get_pages_count env options lmt w =
     (case fe_nodes env options lmt w of
        (Inl e, w1) \<Rightarrow> (Inl e, w1)
      | (Inr (_, totalCount), w1) \<Rightarrow>
          (Inr (int_of_f64 (fe_conv_int env) (fceil (fdiv (f64_of_u64 totalCount) (f64_of_u64 (lim_size lmt))))), w1))"

text \<open>The pages of one batch: the outputs of the requests and the last error (each one replaces the one before).\<close>

fun fetch_pages ::
  "('o, 'w) filter_env \<Rightarrow> 'o node_filter \<Rightarrow> u64 list \<Rightarrow> u64 list \<Rightarrow> u64 list \<Rightarrow> limit \<Rightarrow> int list \<Rightarrow> string option \<Rightarrow> 'w
   \<Rightarrow> (proxy_node list list \<times> string option) \<times> 'w" where
  "fetch_pages env options ssd hdd rootfs lmt [] errs w = (([], errs), w)"
| "fetch_pages env options ssd hdd rootfs lmt (p # ps) errs w =
     (case get_nodes env options ssd hdd rootfs (lmt\<lparr>lim_page := word_of_int p\<rparr>) w of
        ((e, out), w1) \<Rightarrow>
          (case fetch_pages env options ssd hdd rootfs lmt ps (if e = None then errs else e) w1 of
             ((outs, errs'), w2) \<Rightarrow> ((out # outs, errs'), w2)))"

text \<open>Nodes are collected until there are as many as asked for; the flag tells that this happened.\<close>

fun collect :: "u64 \<Rightarrow> proxy_node list \<Rightarrow> proxy_node list \<Rightarrow> bool \<times> proxy_node list" where
  "collect want nodes [] = (False, nodes)"
| "collect want nodes (n # ns) =
     (let nodes' = nodes @ [n] in
      if of_nat (length nodes') = want then (True, nodes') else collect want nodes' ns)"

datatype filter_error = NoNodesMatch | FoundErrors string | ProxyError string

function search_batches ::
  "('o, 'w) filter_env \<Rightarrow> 'o node_filter \<Rightarrow> u64 list \<Rightarrow> u64 list \<Rightarrow> u64 list \<Rightarrow> limit \<Rightarrow> bool \<Rightarrow> u64 \<Rightarrow> nat \<Rightarrow> int \<Rightarrow> int
   \<Rightarrow> proxy_node list \<Rightarrow> string option \<Rightarrow> 'w \<Rightarrow> (filter_error + proxy_node list) \<times> 'w" where
  "search_batches env options ssd hdd rootfs lmt limited want step pageCount i nodes errs w =
     (if pageCount < i \<or> step = 0 then
        ((case errs of Some e \<Rightarrow> Inl (FoundErrors e) | None \<Rightarrow> Inl NoNodesMatch), w)
      else
        (case fetch_pages env options ssd hdd rootfs lmt [i..min (i + int step - 1) pageCount] errs w of
           ((outs, errs'), w1) \<Rightarrow>
             (case collect want nodes (fe_merge env outs) of
                (True, nodes') \<Rightarrow> (Inr nodes', w1)
              | (False, nodes') \<Rightarrow>
                  if \<not> limited then ((if nodes' = [] then Inl NoNodesMatch else Inr nodes'), w1)
                  else search_batches env options ssd hdd rootfs lmt limited want step pageCount (i + int step) nodes' errs' w1)))"
  by pat_completeness auto
termination
  by (relation "measure (\<lambda>(env, options, ssd, hdd, rootfs, lmt, limited, want, step, pageCount, i, nodes, errs, w). nat (pageCount + 1 - i))")
    auto

declare search_batches.simps [simp del]

definition requested_pages_per_iteration :: nat where "requested_pages_per_iteration = 5"

definition filter_nodes ::
  "('o, 'w) filter_env \<Rightarrow> 'o node_filter \<Rightarrow> u64 list \<Rightarrow> u64 list \<Rightarrow> u64 list \<Rightarrow> u64 list \<Rightarrow> 'w
   \<Rightarrow> (filter_error + proxy_node list) \<times> 'w" where
  "filter_nodes env options ssdDisks hddDisks rootfs optionalLimit w =
     (let options1 = (if nf_available_for options = None then options\<lparr>nf_available_for := Some (ucast (fe_twin env))\<rparr> else options);
          options2 = options1\<lparr>nf_healthy := Some True\<rparr> in
      case optionalLimit of
        [] \<Rightarrow> search_batches env options2 ssdDisks hddDisks rootfs \<lparr>lim_size = 0, lim_page = 0, lim_ret_count = False\<rparr> False
                default_limit_size 1 1 1 [] None w
      | want # _ \<Rightarrow>
          (let lmt = \<lparr>lim_size = want, lim_page = 0, lim_ret_count = True\<rparr> in
           case get_pages_count env options2 lmt w of
             (Inl e, w1) \<Rightarrow> (Inl (ProxyError e), w1)
           | (Inr pageCount, w1) \<Rightarrow>
               search_batches env options2 ssdDisks hddDisks rootfs lmt True want requested_pages_per_iteration pageCount 1 [] None w1))"

section \<open>A public node\<close>

text \<open>
  The preferred nodes that the search did not return are asked for one by one; what is appended for them has their
  public configuration only, so its id is zero.
\<close>

fun add_preferred :: "('o, 'w) filter_env \<Rightarrow> u32 list \<Rightarrow> u32 list \<Rightarrow> proxy_node list \<Rightarrow> 'w \<Rightarrow> proxy_node list \<times> 'w" where
  "add_preferred env known [] nodes w = (nodes, w)"
| "add_preferred env known (n # preferred) nodes w =
     (if n \<in> set known then add_preferred env known preferred nodes w
      else (case fe_node env n w of
              (Inl _, w1) \<Rightarrow> add_preferred env known preferred nodes w1
            | (Inr info, w1) \<Rightarrow>
                if pn_ipv4 info = [] then add_preferred env known preferred nodes w1
                else if pn_status info \<noteq> ''up'' then add_preferred env known preferred nodes w1
                else add_preferred env known preferred
                       (nodes @ [\<lparr>pn_id = 0, pn_status = [], pn_ipv4 = pn_ipv4 info\<rparr>]) w1))"

text \<open>Preferred nodes are swapped to the front, in their order.\<close>

definition swap :: "nat \<Rightarrow> nat \<Rightarrow> 'a list \<Rightarrow> 'a list" where
  "swap i j xs = xs[i := xs ! j, j := xs ! i]"

definition preferred_first :: "u32 list \<Rightarrow> proxy_node list \<Rightarrow> proxy_node list" where
  "preferred_first preferred nodes =
     fst (foldl (\<lambda>(ns, k) i. if pn_id (ns ! i) \<in> set preferred then (swap i k ns, Suc k) else (ns, k))
            (nodes, 0) [0..<length nodes])"

fun first_public :: "(string \<Rightarrow> ip option) \<Rightarrow> proxy_node list \<Rightarrow> string + u32" where
  "first_public parse6 [] = Inl ''no nodes with public ipv4''"
| "first_public parse6 (n # ns) =
     (case parse_cidr parse6 (pn_ipv4 n) of
        None \<Rightarrow> first_public parse6 ns
      | Some (p, _) \<Rightarrow> if is_private p then first_public parse6 ns else Inr (pn_id n))"

datatype public_error = SearchFailed filter_error | NoPublicNode string

definition get_public_node :: "('o, 'w) filter_env \<Rightarrow> 'o \<Rightarrow> u32 list \<Rightarrow> 'w \<Rightarrow> (public_error + u32) \<times> 'w" where
  "get_public_node env noOthers preferredNodes w =
     (case filter_nodes env \<lparr>nf_status = [''up''], nf_free_hru = None, nf_free_sru = None, nf_ipv4 = Some True,
             nf_available_for = None, nf_healthy = None, nf_others = noOthers\<rparr> [] [] [] [] w of
        (Inl e, w1) \<Rightarrow> (Inl (SearchFailed e), w1)
      | (Inr nodes, w1) \<Rightarrow>
          (case add_preferred env (map pn_id nodes) preferredNodes nodes w1 of
             (nodes', w2) \<Rightarrow>
               ((case first_public (fe_parse_ip6 env) (preferred_first preferredNodes nodes') of
                   Inl e \<Rightarrow> Inl (NoPublicNode e) | Inr i \<Rightarrow> Inr i), w2)))"

text \<open>The options as a text; the encoder gives the fields that are set with their values.\<close>

definition serialize_options :: "('o node_filter \<Rightarrow> (string \<times> string list) list option) \<Rightarrow> 'o node_filter \<Rightarrow> string" where
  "serialize_options encode options =
     (case encode options of
        None \<Rightarrow> []
      | Some params \<Rightarrow>
          (let s = concat (map (\<lambda>(k, v). k @ '': '' @ hd v @ '', '') params) in
           if length s > 2 then take (length s - 2) s else s))"

section \<open>The storage check\<close>

text \<open>Worst-fit placement on the free spaces alone: each disk goes to the largest one.\<close>

fun worst_fit :: "nat multiset \<Rightarrow> nat list \<Rightarrow> bool" where
  "worst_fit A [] = True"
| "worst_fit A (s # ss) = (s \<le> Max_mset A \<and> worst_fit (add_mset (Max_mset A - s) (A - {#Max_mset A#})) ss)"

definition free_spaces :: "pool list \<Rightarrow> nat multiset" where
  "free_spaces ps = mset (map (\<lambda>p. unat (pool_free p)) ps)"

lemma free_spaces_Cons: "free_spaces (p # ps) = add_mset (unat (pool_free p)) (free_spaces ps)"
  by (simp add: free_spaces_def)

context slice_sort
begin

lemma first_max:
  assumes "srt xs = y # ys" and "\<And>a b. key a \<le> key b \<longleftrightarrow> (f b :: nat) \<le> f a"
  shows "f y = Max_mset (mset (map f xs)) \<and> mset (map f xs) = add_mset (f y) (mset (map f ys))"
proof -
  have "y \<in> set xs" "\<forall>x \<in> set xs. f x \<le> f y" using first_min [OF assms(1)] by (simp_all add: assms(2))
  then have "f y = Max (f ` set xs)" by (intro Max_eqI [symmetric]) auto
  then have m: "f y = Max_mset (mset (map f xs))" by simp
  have "mset (map f xs) = mset (map f (y # ys))" using perm [of xs] assms(1) by (metis mset_map)
  then have "mset (map f xs) = add_mset (f y) (mset (map f ys))" by (simp only: list.map mset.simps)
  with m show ?thesis by (rule conjI)
qed

end

lemma pool_key_le: "pool_key a \<le> pool_key b \<longleftrightarrow> unat (pool_free b) \<le> unat (pool_free a)"
  by (simp add: pool_key_def) (simp add: word_le_def [symmetric] word_le_nat_alt [symmetric])

lemma pool_free_claim: "\<not> pool_free p < s \<Longrightarrow> unat (pool_free (p\<lparr>pool_used := pool_used p + s\<rparr>)) = unat (pool_free p) - unat s"
proof -
  assume "\<not> pool_free p < s"
  then have "s \<le> pool_free p" by simp
  moreover have "pool_free (p\<lparr>pool_used := pool_used p + s\<rparr>) = pool_free p - s" by (simp add: pool_free_def)
  ultimately show ?thesis by (simp add: unat_sub)
qed

text \<open>The order in which the sort leaves equal pools does not matter, and neither does wrap-around.\<close>

lemma place_storages_worst_fit:
  assumes "slice_sort srt pool_key" and "pools \<noteq> []"
  shows "place_storages srt pools storages = worst_fit (free_spaces pools) (map unat storages)"
  using assms(2)
proof (induction storages arbitrary: pools)
  case (Cons s storages)
  obtain p ps where ps: "srt pools = p # ps"
    using slice_sort.srt_Nil_iff [OF assms(1), of pools] Cons.prems by (cases "srt pools") auto
  have m: "unat (pool_free p) = Max_mset (free_spaces pools)"
      "free_spaces pools = add_mset (unat (pool_free p)) (free_spaces ps)"
    using slice_sort.first_max [OF assms(1) ps pool_key_le] unfolding free_spaces_def by blast+
  show ?case
  proof (cases "pool_free p < s")
    case True
    then show ?thesis using m(1) by (simp add: ps word_less_nat_alt)
  next
    case False
    then have "free_spaces (p\<lparr>pool_used := pool_used p + s\<rparr> # ps)
        = add_mset (Max_mset (free_spaces pools) - unat s) (free_spaces pools - {#Max_mset (free_spaces pools)#})"
      using m pool_free_claim [OF False] by (metis add_mset_remove_trivial free_spaces_Cons)
    then show ?thesis using False Cons.IH [of "p\<lparr>pool_used := pool_used p + s\<rparr> # ps"] m(1)
      by (simp add: ps word_less_nat_alt)
  qed
qed simp

text \<open>What is accepted fits in the free space altogether, and the largest pool can hold the largest disk.\<close>

lemma worst_fit_total: "A \<noteq> {#} \<Longrightarrow> worst_fit A ss \<Longrightarrow> sum_list ss \<le> sum_mset A"
proof (induction A ss rule: worst_fit.induct)
  case (2 A s ss)
  let ?m = "Max_mset A"
  have "?m \<in># A" using 2(2) by simp
  then have A: "A = add_mset ?m (A - {#?m#})" by simp
  have "sum_list ss \<le> sum_mset (add_mset (?m - s) (A - {#?m#}))" using 2 by simp
  moreover have "sum_mset A = ?m + sum_mset (A - {#?m#})" by (subst A) simp
  moreover have "s \<le> ?m" using 2(3) by simp
  ultimately show ?case by simp
qed simp

section \<open>The search returns what was asked for\<close>

lemma collect_set: "collect want nodes out = (b, nodes') \<Longrightarrow> set nodes' \<subseteq> set nodes \<union> set out"
proof (induction out arbitrary: nodes)
  case (Cons n out)
  show ?case
  proof (cases "of_nat (length (nodes @ [n])) = want")
    case False
    then have "set nodes' \<subseteq> set (nodes @ [n]) \<union> set out" using Cons.prems by (intro Cons.IH) (simp add: Let_def)
    then show ?thesis by auto
  qed (use Cons.prems in \<open>auto simp: Let_def\<close>)
qed simp

lemma collect_True: "collect want nodes out = (True, nodes') \<Longrightarrow> of_nat (length nodes') = want"
  by (induction out arbitrary: nodes) (auto simp: Let_def split: if_splits)


text \<open>At some moment the node answered with pools that hold the disks.\<close>

definition pools_hold :: "('o, 'w) filter_env \<Rightarrow> u64 list \<Rightarrow> u64 list \<Rightarrow> proxy_node \<Rightarrow> bool" where
  "pools_hold env ssd hdd n =
     (\<exists>pools w1 w2. fe_pools env (pn_id n) w1 = (Inr pools, w2)
        \<and> has_enough_storage (fe_pool_sort env) pools hdd (fe_hdd env)
        \<and> has_enough_storage (fe_pool_sort env) pools ssd (fe_ssd env))"

lemma check_nodes_storage_spec:
  "check_nodes_storage env ssd hdd ns w = (out, w') \<Longrightarrow> set out \<subseteq> set ns \<and> (\<forall>n \<in> set out. pools_hold env ssd hdd n)"
proof (induction ns arbitrary: w out w')
  case (Cons n ns)
  obtain r w1 where r: "fe_pools env (pn_id n) w = (r, w1)" by (cases "fe_pools env (pn_id n) w")
  obtain o1 w2 where t: "check_nodes_storage env ssd hdd ns w1 = (o1, w2)"
    by (cases "check_nodes_storage env ssd hdd ns w1")
  have "out = o1 \<or> out = n # o1 \<and> pools_hold env ssd hdd n"
    using Cons.prems r t unfolding pools_hold_def by (auto split: sum.splits if_splits prod.splits)
  then show ?case using Cons.IH [OF t] by auto
qed simp

text \<open>A node that a request may yield: the proxy listed it, and its pools hold the disks when disks are asked for.\<close>

definition listed :: "('o, 'w) filter_env \<Rightarrow> 'o node_filter \<Rightarrow> proxy_node \<Rightarrow> bool" where
  "listed env options n = (\<exists>lmt w nodes t w'. fe_nodes env options lmt w = (Inr (nodes, t), w') \<and> n \<in> set nodes)"

definition suitable :: "('o, 'w) filter_env \<Rightarrow> 'o node_filter \<Rightarrow> u64 list \<Rightarrow> u64 list \<Rightarrow> u64 list \<Rightarrow> proxy_node \<Rightarrow> bool" where
  "suitable env options ssd hdd rootfs n =
     (listed env options n
      \<and> (nf_free_sru options = None \<and> nf_free_hru options = None
         \<or> pools_hold env (fe_size_sort env ssd @ rootfs) (fe_size_sort env hdd) n))"

lemma get_nodes_suitable:
  assumes "get_nodes env options ssd hdd rootfs lmt w = ((e, out), w')" and "n \<in> set out"
  shows "suitable env options ssd hdd rootfs n"
proof -
  obtain nodes t w1 where f: "fe_nodes env options lmt w = (Inr (nodes, t), w1)"
    using assms by (auto simp: get_nodes_def split: sum.splits prod.splits)
  then have l: "set out \<subseteq> set nodes \<Longrightarrow> listed env options n"
    using assms(2) unfolding listed_def by blast
  consider "nf_free_sru options = None \<and> nf_free_hru options = None" "out = nodes"
    | "\<not> (nf_free_sru options = None \<and> nf_free_hru options = None)"
      "check_nodes_storage env (fe_size_sort env ssd @ rootfs) (fe_size_sort env hdd) nodes w1 = (out, w')"
    using assms f by (auto simp: get_nodes_def split: if_splits prod.splits)
  then show ?thesis
  proof cases
    case 1
    then show ?thesis using l by (simp add: suitable_def)
  next
    case 2
    then show ?thesis using check_nodes_storage_spec [OF 2(2)] l assms(2) by (simp add: suitable_def)
  qed
qed

lemma fetch_pages_suitable:
  "fetch_pages env options ssd hdd rootfs lmt ps errs w = ((outs, errs'), w') \<Longrightarrow>
     \<forall>n \<in> set (concat outs). suitable env options ssd hdd rootfs n"
proof (induction ps arbitrary: errs w outs errs' w')
  case (Cons p ps)
  obtain e o1 w1 where g: "get_nodes env options ssd hdd rootfs (lmt\<lparr>lim_page := word_of_int p\<rparr>) w = ((e, o1), w1)"
    by (metis prod.collapse)
  obtain os er w2 where r: "fetch_pages env options ssd hdd rootfs lmt ps (if e = None then errs else e) w1 = ((os, er), w2)"
    by (metis prod.collapse)
  have "outs = o1 # os" using Cons.prems g r by simp
  then show ?case using Cons.IH [OF r] get_nodes_suitable [OF g] by auto
qed simp

text \<open>The contract of the interleaving: every node sent is received, and no other.\<close>

definition merges :: "(proxy_node list list \<Rightarrow> proxy_node list) \<Rightarrow> bool" where
  "merges f = (\<forall>xss. mset (f xss) = mset (concat xss))"

lemma search_batches_suitable:
  "search_batches env options ssd hdd rootfs lmt limited want step pageCount i nodes errs w = (Inr out, w') \<Longrightarrow>
   merges (fe_merge env) \<Longrightarrow> \<forall>n \<in> set nodes. suitable env options ssd hdd rootfs n \<Longrightarrow>
     (\<forall>n \<in> set out. suitable env options ssd hdd rootfs n) \<and> (limited \<longrightarrow> of_nat (length out) = want)"
proof (induction "nat (pageCount + 1 - i)" arbitrary: i nodes errs w rule: less_induct)
  case less
  note prems = less.prems
  have go: "\<not> (pageCount < i \<or> step = 0)"
    using prems(1) by (subst (asm) search_batches.simps) (auto split: if_splits option.splits)
  obtain outs errs' w1 where f: "fetch_pages env options ssd hdd rootfs lmt [i..min (i + int step - 1) pageCount] errs w
      = ((outs, errs'), w1)" by (metis prod.collapse)
  obtain b nodes' where c: "collect want nodes (fe_merge env outs) = (b, nodes')" by (metis prod.collapse)
  have "set (fe_merge env outs) = set (concat outs)" using prems(2) unfolding merges_def by (metis mset_eq_setD)
  then have n': "\<forall>n \<in> set nodes'. suitable env options ssd hdd rootfs n"
    using collect_set [OF c] fetch_pages_suitable [OF f] prems(3) by auto
  have res: "search_batches env options ssd hdd rootfs lmt limited want step pageCount i nodes errs w =
      (if b then (Inr nodes', w1)
       else if \<not> limited then ((if nodes' = [] then Inl NoNodesMatch else Inr nodes'), w1)
       else search_batches env options ssd hdd rootfs lmt limited want step pageCount (i + int step) nodes' errs' w1)"
    using go f c by (subst search_batches.simps) (cases b; simp)
  show ?case
  proof (cases "\<not> b \<and> limited")
    case True
    then have "search_batches env options ssd hdd rootfs lmt limited want step pageCount (i + int step) nodes' errs' w1
        = (Inr out, w')" using res prems(1) by simp
    moreover have "nat (pageCount + 1 - (i + int step)) < nat (pageCount + 1 - i)" using go by auto
    ultimately show ?thesis using less.hyps prems(2) n' by blast
  next
    case False
    then show ?thesis using res prems(1) n' collect_True c by (auto split: if_splits)
  qed
qed

lemma filter_nodes_suitable:
  assumes "merges (fe_merge env)" and "filter_nodes env options ssd hdd rootfs optionalLimit w = (Inr out, w')"
  shows "\<exists>o'. nf_free_sru o' = nf_free_sru options \<and> nf_free_hru o' = nf_free_hru options \<and> nf_healthy o' = Some True
    \<and> (nf_available_for options = None \<longrightarrow> nf_available_for o' = Some (ucast (fe_twin env)))
    \<and> (\<forall>n \<in> set out. suitable env o' ssd hdd rootfs n)
    \<and> (optionalLimit \<noteq> [] \<longrightarrow> of_nat (length out) = hd optionalLimit)"
proof -
  define o' where "o' = (if nf_available_for options = None then options\<lparr>nf_available_for := Some (ucast (fe_twin env))\<rparr>
      else options)\<lparr>nf_healthy := Some True\<rparr>"
  have o': "nf_free_sru o' = nf_free_sru options \<and> nf_free_hru o' = nf_free_hru options \<and> nf_healthy o' = Some True
    \<and> (nf_available_for options = None \<longrightarrow> nf_available_for o' = Some (ucast (fe_twin env)))"
    by (simp add: o'_def)
  have "(\<forall>n \<in> set out. suitable env o' ssd hdd rootfs n) \<and> (optionalLimit \<noteq> [] \<longrightarrow> of_nat (length out) = hd optionalLimit)"
  proof (cases optionalLimit)
    case Nil
    then show ?thesis using assms(2) search_batches_suitable [OF _ assms(1)]
      by (fastforce simp: filter_nodes_def o'_def [symmetric] Let_def)
  next
    case (Cons c cs)
    obtain t w1 where "get_pages_count env o' \<lparr>lim_size = c, lim_page = 0, lim_ret_count = True\<rparr> w = (Inr t, w1)"
      using assms(2) Cons by (auto simp: filter_nodes_def o'_def [symmetric] Let_def split: sum.splits prod.splits)
    then have "search_batches env o' ssd hdd rootfs \<lparr>lim_size = c, lim_page = 0, lim_ret_count = True\<rparr> True c
        requested_pages_per_iteration t 1 [] None w1 = (Inr out, w')"
      using assms(2) Cons by (simp add: filter_nodes_def o'_def [symmetric] Let_def)
    from search_batches_suitable [OF this assms(1)] show ?thesis using Cons by simp
  qed
  then show ?thesis using o' by (intro exI [of _ o']) simp
qed

text \<open>Without a limit a failing request is reported as if no node matched.\<close>

lemma filter_nodes_hides_error:
  assumes "fe_nodes env = (\<lambda>options lmt w. (Inl e, w))" and "merges (fe_merge env)"
  shows "filter_nodes env options ssd hdd rootfs [] w = (Inl NoNodesMatch, w)"
proof -
  have "mset (fe_merge env [[]]) = {#}" using assms(2) by (simp add: merges_def)
  then have m: "fe_merge env [[]] = []" by simp
  then have "search_batches env o' ssd hdd rootfs lmt False want (Suc 0) 1 1 [] None w = (Inl NoNodesMatch, w)"
    for o' lmt want by (subst search_batches.simps) (simp add: get_nodes_def assms(1))
  then show ?thesis by (simp add: filter_nodes_def Let_def)
qed

lemma foldl_swap:
  assumes "n \<le> length nodes"
  shows "let (ns, k) = foldl (\<lambda>(ns, k) i. if P (ns ! i) then (swap i k ns, Suc k) else (ns, k)) (nodes, 0) [0..<n]
     in mset ns = mset nodes \<and> k \<le> n"
  using assms
proof (induction n)
  case (Suc n)
  obtain ns k where f: "foldl (\<lambda>(ns, k) i. if P (ns ! i) then (swap i k ns, Suc k) else (ns, k)) (nodes, 0) [0..<n] = (ns, k)"
    by (rule prod.exhaust)
  have m: "mset ns = mset nodes" "k \<le> n" using Suc.IH Suc.prems unfolding f by simp_all
  have "length ns = length nodes" using m(1) by (rule mset_eq_length)
  then have "mset (swap n k ns) = mset nodes"
    using Suc.prems m mset_swap [of k ns n] unfolding swap_def by simp
  then show ?case using f m by simp
qed simp

lemma mset_preferred_first: "mset (preferred_first preferred nodes) = mset nodes"
  using foldl_swap [of "length nodes" nodes "\<lambda>n. pn_id n \<in> set preferred"]
  by (auto simp: preferred_first_def Let_def split: prod.splits)

lemma add_preferred_ids:
  "add_preferred env known preferred nodes w = (nodes', w') \<Longrightarrow> set (map pn_id nodes') \<subseteq> insert 0 (set (map pn_id nodes))"
proof (induction preferred arbitrary: nodes w)
  case (Cons n preferred)
  show ?case
  proof (cases "n \<in> set known")
    case False
    obtain r w1 where r: "fe_node env n w = (r, w1)" by (cases "fe_node env n w")
    then show ?thesis using Cons.prems False Cons.IH by (cases r) (fastforce split: if_splits)+
  qed (use Cons in auto)
qed auto

lemma first_public_id: "first_public parse6 ns = Inr i \<Longrightarrow> i \<in> set (map pn_id ns)"
  by (induction ns) (auto split: option.splits prod.splits if_splits)

lemma get_public_node_ids:
  assumes "get_public_node env noOthers preferred w = (Inr i, w')"
  shows "i = 0 \<or> (\<exists>options nodes w1. filter_nodes env options [] [] [] [] w = (Inr nodes, w1) \<and> i \<in> set (map pn_id nodes))"
proof -
  obtain options nodes w1 nodes' where f: "filter_nodes env options [] [] [] [] w = (Inr nodes, w1)"
    and p: "add_preferred env (map pn_id nodes) preferred nodes w1 = (nodes', w')"
    and i: "first_public (fe_parse_ip6 env) (preferred_first preferred nodes') = Inr i"
    using assms by (auto simp: get_public_node_def split: sum.splits prod.splits)
  have "i \<in> set (map pn_id nodes')"
    using first_public_id [OF i] mset_preferred_first [of preferred nodes'] by (metis list.set_map mset_eq_setD)
  then show ?thesis using add_preferred_ids [OF p] f by auto
qed

end
