(* ===== verification/NetworkState.thy ===== *)
theory NetworkState
  imports WlCommon
begin

text \<open>
  The client's record of the networks and the subnet of each node in them (\<open>grid-client/state/network_state.go\<close>). The
  state is a map from names; every operation takes the lock, so operations are atomic. Lemmas: what the state returns
  after each operation.
\<close>

type_synonym subnets = "u32 \<Rightarrow> string option"
type_synonym network_state = "string \<Rightarrow> subnets option"

definition new_network :: subnets where
  "new_network = Map.empty"

text \<open>Looking a network up creates it when it is not there.\<close>

definition get_network :: "string \<Rightarrow> network_state \<Rightarrow> subnets \<times> network_state" where
  "get_network name s =
     (let s' = (if s name = None then s(name \<mapsto> new_network) else s) in (the (s' name), s'))"

definition get_node_subnet :: "subnets \<Rightarrow> u32 \<Rightarrow> string" where
  "get_node_subnet n nodeID = (case n nodeID of Some t \<Rightarrow> t | None \<Rightarrow> [])"

definition set_node_subnet :: "u32 \<Rightarrow> string \<Rightarrow> subnets \<Rightarrow> subnets" where
  "set_node_subnet nodeID subnet n = n(nodeID \<mapsto> subnet)"

definition delete_node_subnet :: "u32 \<Rightarrow> subnets \<Rightarrow> subnets" where
  "delete_node_subnet nodeID n = n(nodeID := None)"

definition update_network_subnets :: "string \<Rightarrow> (u32 \<times> ip_net) list \<Rightarrow> network_state \<Rightarrow> network_state" where
  "update_network_subnets name ipRange s =
     (let (_, s') = get_network name s;
          network = fold (\<lambda>(nodeID, subnet). set_node_subnet nodeID (net_text subnet)) ipRange Map.empty
      in s'(name \<mapsto> network))"

definition delete_network :: "string \<Rightarrow> network_state \<Rightarrow> network_state" where
  "delete_network name s = s(name := None)"

lemma fold_subnets:
  "distinct (map fst m) \<Longrightarrow> fold (\<lambda>(nodeID, subnet). set_node_subnet nodeID (net_text subnet)) m n0
     = n0 ++ (map_option net_text \<circ> map_of m)"
proof (induction m arbitrary: n0)
  case Nil
  then show ?case by (simp add: map_add_def fun_eq_iff)
next
  case (Cons a m)
  obtain n r where a: "a = (n, r)" by (cases a)
  have "map_of m n = None" using Cons.prems by (simp add: a map_of_eq_None_iff)
  then show ?case using Cons by (auto simp: a set_node_subnet_def map_add_def fun_eq_iff split: option.splits)
qed

lemma update_network_subnets_lookup:
  assumes "distinct (map fst m)"
  shows "get_node_subnet (fst (get_network name' (update_network_subnets name m s))) nodeID =
    (if name' = name then (case map_of m nodeID of Some r \<Rightarrow> net_text r | None \<Rightarrow> [])
     else get_node_subnet (fst (get_network name' s)) nodeID)"
  using fold_subnets [OF assms, of Map.empty]
  by (auto simp: update_network_subnets_def get_network_def Let_def get_node_subnet_def new_network_def
      split: option.splits)

end
