(* ===== verification/GridSim.thy ===== *)
theory GridSim
  imports DeployerProofs DeployerVersions ZnetProofs NodeFilter NetworkState
begin

text \<open>
  A small grid on which the theorems of the client are applied. Its world is the list of the live contracts; the chain
  hands out the ids 1 to 5, the nodes accept every deployment and report its workloads as running.
\<close>

section \<open>The packages of the grid types\<close>

definition sim_api :: gt_api where
  "sim_api = \<lparr>gt_name_string = id, gt_type_string = id, gt_valid = (\<lambda>d. None),
     gt_sign = (\<lambda>twin sk d. (None, d\<lparr>gd_requirement := (gd_requirement d)\<lparr>sr_signatures :=
        sr_signatures (gd_requirement d) @ [\<lparr>sg_twin = twin, sg_signature = ''5f'', sg_type = sk_type sk\<rparr>]\<rparr>\<rparr>)),
     gt_challenge_hash = (\<lambda>d. Inr [1, 2]),
     gt_challenge = (\<lambda>d. (None, map (\<lambda>w. of_nat (length (gw_name w))) (gd_workloads d))),
     gt_get = (\<lambda>d n. Inl ''no workload''),
     gt_by_type = (\<lambda>d ts. map (\<lambda>w. (w, gw_name w)) (filter (\<lambda>w. gw_type w \<in> set ts) (gd_workloads d))),
     gt_workload_challenge = (\<lambda>w. (None, map of_char (gw_data w))),
     gt_capacity = (\<lambda>w. (\<lparr>zc_cru = 0, zc_sru = 100, zc_hru = 0, zc_mru = 0, zc_ipv4u = 0\<rparr>, None)),
     gt_workload_data = (\<lambda>w. Inr (PZMount 10))\<rparr>"

definition sim_wl_env :: wl_env where
  "sim_wl_env = \<lparr>we_api3 = sim_api, we_api4 = sim_api, we_parse_ip6 = (\<lambda>s. None), we_checksum = (\<lambda>s. Inr ''ok''),
     we_download_ok = (\<lambda>s. True), we_md5 = id, we_public_ip_result = (\<lambda>s. Inl ''no result''),
     we_megabyte = 2 ^ 20, we_gigabyte = 2 ^ 30\<rparr>"

definition sim_workload :: "string \<Rightarrow> workload" where
  "sim_workload n = \<lparr>wl_version = 0, wl_name = n, wl_type = ZMountType, wl_data = n, wl_metadata = [], wl_description = [],
     wl_result = zero_result\<lparr>rs_state := StateOk\<rparr>\<rparr>"

definition sim_deployment :: deployment where
  "sim_deployment = new_grid_deployment 5 [sim_workload ''a'', sim_workload ''b'']"

lemmas sim_simps = sim_api_def sim_wl_env_def sim_workload_def sim_deployment_def new_grid_deployment_def zero_result_def

section \<open>The chain and the nodes\<close>

definition sim_chain :: "u64 list chain" where
  "sim_chain = \<lparr>ch_not_found = \<lparr>ce_not_found = True, ce_account_not_found = False, ce_text = ''not found''\<rparr>,
     ch_account_not_found = \<lparr>ce_not_found = False, ce_account_not_found = True, ce_text = ''account not found''\<rparr>,
     ch_get_contract = (\<lambda>i w. (if i \<in> set w then Inr \<lparr>cc_created = True, cc_deleted = False, cc_twin = 5,
         cc_public_ips = 0, cc_name = ''site'', cc_deployment_data = []\<rparr>
       else Inl \<lparr>ce_not_found = True, ce_account_not_found = False, ce_text = ''not found''\<rparr>, w)),
     ch_name_registration = (\<lambda>n w. (Inr 1, w)),
     ch_cancel = (\<lambda>i w. if i \<in> set w then (None, removeAll i w)
       else (Some \<lparr>ce_not_found = False, ce_account_not_found = False, ce_text = ''ContractNotExists''\<rparr>, w)),
     ch_create_node = (\<lambda>n b h p s w. case find (\<lambda>i. i \<notin> set w) [1, 2, 3, 4, 5] of
         Some i \<Rightarrow> (Inr i, i # w)
       | None \<Rightarrow> (Inl \<lparr>ce_not_found = False, ce_account_not_found = False, ce_text = ''full''\<rparr>, w)),
     ch_update_node = (\<lambda>i b h w. (Inr i, w)),
     ch_create_name = (\<lambda>n w. (Inr 1, w)),
     ch_batch_create = (\<lambda>bds w. ((map (\<lambda>i. word_of_nat (Suc i)) [0..<length bds], None, None), map (\<lambda>i. word_of_nat (Suc i)) [0..<length bds] @ w)),
     ch_batch_cancel = (\<lambda>is w. (None, filter (\<lambda>i. i \<notin> set is) w))\<rparr>"

definition sim_info :: node_info where
  "sim_info = \<lparr>ni_farm = 1, ni_ipv4 = [], ni_domain = [],
     ni_total = \<lparr>pc_cru = 8, pc_sru = 1000, pc_hru = 1000, pc_mru = 1000\<rparr>,
     ni_used = \<lparr>pc_cru = 0, pc_sru = 900, pc_hru = 0, pc_mru = 0\<rparr>\<rparr>"

text \<open>The calls of a client and of sending are arguments, so that they can fail.\<close>

definition grid_env :: "(u32 \<Rightarrow> u64 list \<Rightarrow> string option) \<Rightarrow> (u32 \<Rightarrow> string option) \<Rightarrow> u64 list deploy_env" where
  "grid_env no_client refuses = \<lparr>dv_wl = sim_wl_env, dv_chain = sim_chain, dv_twin = 5,
     dv_signer = \<lparr>sk_sign = Inr, sk_type = ''sr25519''\<rparr>,
     dv_client = (\<lambda>n w. (no_client n w, w)), dv_send = (\<lambda>n d w. (refuses n, w)), dv_resend = (\<lambda>n d w. (refuses n, w)),
     dv_get = (\<lambda>n i w. (Inr (sim_deployment\<lparr>dl_contract := i\<rparr>), w)),
     dv_changes = (\<lambda>n i w. (Inr [sim_workload ''a'', sim_workload ''b''], w)),
     dv_now = (\<lambda>w. (0, w)), dv_backoff = (\<lambda>w. (False, w)),
     dv_node = (\<lambda>n w. (Inr sim_info, w)), dv_farm = (\<lambda>f w. (Inr (Some [0, 0, 7]), w)),
     dv_order = (\<lambda>n. [0..<n])\<rparr>"

abbreviation calm_env :: "u64 list deploy_env" where
  "calm_env \<equiv> grid_env (\<lambda>n w. None) (\<lambda>n. None)"

abbreviation sim_live :: "u64 list \<Rightarrow> u64 set" where
  "sim_live w \<equiv> set w - {0}"

lemma sim_ledger: "ledger (grid_env no_client refuses) sim_live"
proof -
  have "created sim_live w (ch_create_node sim_chain n b h p s w)" for w n b h p s
  proof (cases "find (\<lambda>i. i \<notin> set w) [1, 2, 3, 4, 5]")
    case (Some i)
    then have "i \<noteq> 0 \<and> i \<notin> set w" by (auto split: if_splits)
    with Some show ?thesis by (auto simp: created_def sim_chain_def)
  qed (simp add: created_def sim_chain_def)
  then have c: "create_law (grid_env no_client refuses) sim_live" by (simp add: create_law_def grid_env_def)
  have x: "cancel_law (grid_env no_client refuses) sim_live"
    by (auto simp: cancel_law_def grid_env_def sim_chain_def normalize_error_def)
  have u: "update_law (grid_env no_client refuses) sim_live"
    by (simp add: update_law_def keeps_def grid_env_def sim_chain_def)
  have g: "get_law (grid_env no_client refuses)" by (auto simp: get_law_def grid_env_def)
  show ?thesis using c x u g by (simp add: ledger_def keeps_def grid_env_def)
qed

end
