(* ===== verification/NetProps.thy ===== *)
theory NetProps
  imports GridSim
begin

text \<open>
  The properties of networks, node selection and the state of networks, with their witnesses: a network of two hidden
  nodes that is given a public node, and the pools of \<open>GridSim\<close>'s nodes.
\<close>

section \<open>A network\<close>

definition sim_range :: ip_net where
  "sim_range = \<lparr>IP = IPv4 10 20 0 0, Mask = CIDRMask 16 32\<rparr>"

definition sim_net :: znet where
  "sim_net = \<lparr>zn_name = ''net'', zn_description = [], zn_nodes = [1, 2], zn_ip_range = sim_range, zn_add_wg_access = False,
     zn_mycelium_keys = [], zn_solution_type = [], zn_access_wg_config = [], zn_external_ip = None, zn_external_sk = zero_key,
     zn_public_node_id = 0, zn_nodes_ip_range = [], zn_node_deployment_id = [], zn_wg_port = [], zn_keys = []\<rparr>"

definition sim_net_env :: "nat net_env" where
  "sim_net_env = \<lparr>get_contract = (\<lambda>i w. (ContractCreated, w)), get_node_client = (\<lambda>n w. (None, w)), is_node_up = (\<lambda>n w. (None, w)),
     node_free_wg_port = (\<lambda>n ps w. (Inr 1024, w)), node_endpoint = (\<lambda>n w. (NoAccessibleInterface, w)), node_wg_ports = (\<lambda>n w. (Inr [], w)),
     wg_generate_key = (\<lambda>w. (Inr (replicate 32 (of_nat (Suc w))), Suc w)),
     wg_generate_private = (\<lambda>w. (Inr (replicate 32 1), w)), rand_intn = (\<lambda>n w. (w mod n, Suc w)),
     wg_parse = (\<lambda>s. Inr zero_key), wg_string = (\<lambda>k. ''key''), wg_public = id, parse_ip6 = (\<lambda>s. None)\<rparr>"

definition sim_endpoints :: "(u32 \<times> ip) list" where
  "sim_endpoints = [(1, []), (2, []), (9, IPv4 185 1 1 1)]"

section \<open>Addresses\<close>

text \<open>C7: when the addresses of a network are assigned without an error, exactly the given nodes have a range, ranges of
  before are kept, and every new range is a /24 of the network whose third octet, from 2 to 254, no other node and no
  external access has.\<close>

theorem network_addresses_distinct:
  assumes "assign_nodes_ips nodes z = Some (None, z')" and "length (IP (zn_ip_range z)) = 16"
  shows "(\<forall>n. map_of (zn_nodes_ip_range z') n \<noteq> None \<longleftrightarrow> n \<in> set nodes)
    \<and> (\<forall>n \<in> set nodes. \<forall>r. map_of (zn_nodes_ip_range z) n = Some r \<longrightarrow> map_of (zn_nodes_ip_range z') n = Some r)
    \<and> (\<forall>n \<in> set nodes. \<forall>r. map_of (zn_nodes_ip_range z) n = None \<longrightarrow> map_of (zn_nodes_ip_range z') n = Some r \<longrightarrow>
         (\<exists>a b c d. r = ip_net_of a b c d 24 \<and> 2 \<le> c \<and> c \<le> 254
            \<and> take 2 (drop 12 (IP (zn_ip_range z))) = [a, b]
            \<and> (\<forall>m s. m \<noteq> n \<longrightarrow> map_of (zn_nodes_ip_range z') m = Some s \<longrightarrow> octet s \<noteq> c)
            \<and> (zn_add_wg_access z \<longrightarrow> (\<exists>e. zn_external_ip z' = Some e \<and> octet e \<noteq> c))))"
  by (rule assign_nodes_ips_ok [OF assms])

lemma sim_assign: "assign_nodes_ips [1, 2] sim_net = Some (None, sim_net\<lparr>zn_nodes_ip_range :=
    [(1, ip_net_of 10 20 2 0 24), (2, ip_net_of 10 20 3 0 24)]\<rparr>)"
  by code_simp

theorem network_addresses_distinct_witness:
  "\<exists>c. c \<le> 254 \<and> ip_net_of 10 20 2 0 24 = ip_net_of 10 20 c 0 24 \<and> octet (ip_net_of 10 20 3 0 24) \<noteq> c"
proof -
  have l: "length (IP (zn_ip_range sim_net)) = 16" by code_simp
  have "zn_nodes_ip_range sim_net = []" by (simp add: sim_net_def)
  then show ?thesis
    using network_addresses_distinct [OF sim_assign l, THEN conjunct2, THEN conjunct2, rule_format, of 1 "ip_net_of 10 20 2 0 24"]
    by (auto intro!: exI [of _ 2] simp: octet_ip_net_of)
qed

text \<open>C23: up to 252 nodes the assignment of addresses succeeds, whatever ranges were kept: it neither runs out of free
  octets nor panics.\<close>

theorem network_addresses_suffice:
  assumes "length (IP (zn_ip_range z)) = 16" and "\<forall>(n, r) \<in> set (zn_nodes_ip_range z). length (IP r) = 16"
    and "\<forall>e. zn_external_ip z = Some e \<longrightarrow> length (IP e) = 16"
    and "distinct (map fst (zn_nodes_ip_range z))" and "distinct nodes" and "length nodes \<le> 252"
  shows "\<exists>z'. assign_nodes_ips nodes z = Some (None, z')"
  by (rule assign_nodes_ips_succeeds [OF assms])

theorem network_addresses_suffice_witness:
  "\<exists>z'. assign_nodes_ips [1, 2, 9] (sim_net\<lparr>zn_nodes_ip_range := [(2, ip_net_of 10 20 2 0 24)]\<rparr>) = Some (None, z')"
  by (rule network_addresses_suffice) (simp_all add: sim_net_def sim_range_def ip_net_of_def)

section \<open>Routes and deployments\<close>

lemma two_members: "u \<in> set xs \<Longrightarrow> v \<in> set xs \<Longrightarrow> u \<noteq> v \<Longrightarrow> 1 < length xs"
  by (cases xs; cases "tl xs") auto

text \<open>C9: once the nodes of a network are classified and the public node is chosen, every node can reach every other:
  among the peers of a node with an endpoint some peer routes the other node's range and its WireGuard address, and a
  node without one has the public node as its peer, which routes the whole network.\<close>

theorem network_routes:
  assumes "classify_nodes name ips nodes no_classes = Inr c0" and "choose_public_node ips pub z c0 = Inr (z1, c)"
    and "zn_public_node_id z2 = zn_public_node_id z1" and "non_accessible_ranges z2 (nc_hidden c) = Some na"
    and "x \<in> set nodes" and "y \<in> set nodes" and "x \<noteq> y"
  shows "(x \<in> set (nc_accessible c) \<longrightarrow> (\<forall>ps. peers_of_accessible env z2 c na x = Some ps \<longrightarrow>
            (\<exists>p \<in> set ps. \<exists>g. wg_ip (range_of z2 y) = Some g \<and> {range_of z2 y, g} \<subseteq> set (pr_allowed_ips p))))
       \<and> (x \<notin> set (nc_accessible c) \<longrightarrow> x \<in> set (nc_hidden c) \<and> zn_public_node_id z2 \<in> set (nc_accessible c)
            \<and> (\<exists>p. peers_of_hidden env z2 c x = [p] \<and> zn_ip_range z2 \<in> set (pr_allowed_ips p)))"
proof -
  note cs = choose_public_node_cases [OF assms(1,2)]
  have all: "v \<in> set (nc_hidden c) \<union> set (nc_accessible c)" if "v \<in> set nodes" for v
    using classify_nodes_set [OF assms(1)] cs that by auto
  have one: "zn_public_node_id z2 \<noteq> 0 \<and> zn_public_node_id z2 \<in> set (nc_accessible c)" if v: "v \<in> set (nc_hidden c)" "v \<in> {x, y}" for v
  proof -
    obtain u where "u \<in> set nodes" "u \<noteq> v" using v(2) assms(5-7) by auto
    then have "nc_accessible c \<noteq> [] \<or> 1 < length (nc_hidden c)"
      using all [of u] v(1) two_members [of u "nc_hidden c" v] by (cases "nc_accessible c") auto
    then show ?thesis using cs v(1) assms(3) by auto
  qed
  show ?thesis
  proof (intro conjI impI allI)
    fix ps assume "peers_of_accessible env z2 c na x = Some ps"
    then show "\<exists>p \<in> set ps. \<exists>g. wg_ip (range_of z2 y) = Some g \<and> {range_of z2 y, g} \<subseteq> set (pr_allowed_ips p)"
      using accessible_routes [of env z2 c na x ps y] assms(4,7) all [OF assms(6)] one [of y] by blast
  next
    assume h: "x \<notin> set (nc_accessible c)"
    then show x: "x \<in> set (nc_hidden c)" using all [OF assms(5)] by simp
    show "zn_public_node_id z2 \<in> set (nc_accessible c)" using one [OF x] by simp
    show "\<exists>p. peers_of_hidden env z2 c x = [p] \<and> zn_ip_range z2 \<in> set (pr_allowed_ips p)"
      using one [OF x] by (simp add: peers_of_hidden_def)
  qed
qed

text \<open>The classes of the example, and its network with addresses, keys and the public node 9.\<close>

definition sim_classes :: node_classes where
  "sim_classes = \<lparr>nc_hidden = [1, 2], nc_accessible = [9], nc_ipv4 = 0, nc_endpoints = [(9, ''185.1.1.1'')]\<rparr>"

definition sim_ready :: znet where
  "sim_ready = sim_net\<lparr>zn_public_node_id := 9,
     zn_nodes_ip_range := [(1, ip_net_of 10 20 2 0 24), (2, ip_net_of 10 20 3 0 24), (9, ip_net_of 10 20 4 0 24)]\<rparr>"

lemma sim_classify:
  "classify_nodes ''net'' sim_endpoints [1, 2] no_classes = Inr \<lparr>nc_hidden = [1, 2], nc_accessible = [], nc_ipv4 = 0, nc_endpoints = []\<rparr>"
  by code_simp

lemma sim_choose:
  "choose_public_node sim_endpoints 9 sim_net \<lparr>nc_hidden = [1, 2], nc_accessible = [], nc_ipv4 = 0, nc_endpoints = []\<rparr>
     = Inr (sim_net\<lparr>zn_public_node_id := 9\<rparr>, sim_classes)"
  by code_simp

theorem network_routes_witness:
  "\<exists>p. peers_of_hidden sim_net_env sim_ready sim_classes 1 = [p] \<and> sim_range \<in> set (pr_allowed_ips p)"
proof -
  have "non_accessible_ranges sim_ready (nc_hidden sim_classes) \<noteq> None" by code_simp
  then obtain na where "non_accessible_ranges sim_ready (nc_hidden sim_classes) = Some na" by blast
  from network_routes [OF sim_classify sim_choose _ this, of 1 2 sim_net_env] show ?thesis
    by (simp add: sim_ready_def sim_classes_def sim_net_def)
qed

text \<open>C24: a successful generation yields one deployment for each node of the network, at most one more for the public
  node, each with exactly one network workload under the network's name and the user's twin.\<close>

theorem network_deployments:
  assumes "generate_deployments env eps pub twinID z used w = Some (Inr dls, z', used', w')"
  shows "set (zn_nodes z) \<subseteq> set (map fst dls) \<and> set (map fst dls) \<subseteq> insert (zn_public_node_id z') (set (zn_nodes z))
    \<and> distinct (map fst dls) \<and> (\<forall>(n, d) \<in> set dls. network_deployment twinID (zn_name z) d)"
  by (rule generate_deployments_shape [OF assms])

declare free_port.simps [code]

lemma deploy_nodes_defined:
  assumes "must_parse_ip_net (parse_ip6 env) (net_text (zn_ip_range z)) \<noteq> None"
    and "\<And>st n. peers (z\<lparr>zn_solution_type := st\<rparr>) n \<noteq> None"
  shows "\<exists>st' dls'. deploy_nodes env twinID m peers nodes (z\<lparr>zn_solution_type := st\<rparr>) dls = Some (z\<lparr>zn_solution_type := st'\<rparr>, dls')"
proof (induction nodes arbitrary: st dls)
  case (Cons n nodes)
  obtain ps where ps: "peers (z\<lparr>zn_solution_type := st\<rparr>) n = Some ps" using assms(2) by blast
  obtain d st' where "node_deployment env twinID (z\<lparr>zn_solution_type := st\<rparr>) m n ps = Some (d, z\<lparr>zn_solution_type := st'\<rparr>)"
    using assms(1) by (fastforce simp: node_deployment_def znet_workload_def znet_generate_metadata_def Let_def)
  then show ?case using ps Cons.IH by simp
qed auto

lemma with_wg_of [simp]:
  "with_wg (ip_net_of a b c d m) = Some [ip_net_of a b c d m, \<lparr>IP = IPv4 100 64 b c, Mask = CIDRMask 32 32\<rparr>]"
  by (simp add: with_wg_def wg_ip_def byte_at_def ip_net_of_def IPv4_def v4_in_v6_def nth_append)

lemma sim_peers:
  "peers_of_accessible sim_net_env (sim_ready\<lparr>zn_keys := ks, zn_wg_port := ps, zn_solution_type := st\<rparr>) sim_classes na n \<noteq> None"
  by (simp add: peers_of_accessible_def sim_classes_def hidden_peer_def accessible_peer_def sim_ready_def sim_net_def)

lemma sim_build:
  "\<exists>dls z'. build_deployments sim_net_env 5 sim_classes (sim_ready\<lparr>zn_keys := ks, zn_wg_port := ports\<rparr>) us w = Some (Inr dls, z', us, w)"
proof -
  let ?z = "sim_ready\<lparr>zn_keys := ks, zn_wg_port := ports\<rparr>"
  have r: "must_parse_ip_net (parse_ip6 sim_net_env) (net_text (zn_ip_range ?z)) \<noteq> None"
    by (simp add: sim_ready_def sim_net_def sim_range_def must_parse_ip_net_def)
  obtain na where na: "non_accessible_ranges ?z (nc_hidden sim_classes) = Some na"
    by (simp add: non_accessible_ranges_def sim_ready_def sim_net_def sim_classes_def)
  have acc: "access_config sim_net_env sim_classes ?z w = Some ((None, ?z), w)"
    by (simp add: access_config_def sim_ready_def sim_net_def)
  let ?m = "metadata_text sim_net_env ?z"
  have triv: "?z = ?z\<lparr>zn_solution_type := []\<rparr>" by (simp add: sim_ready_def sim_net_def)
  obtain st dls where d1: "deploy_nodes sim_net_env 5 ?m (\<lambda>z n. peers_of_accessible sim_net_env z sim_classes na n)
      (nc_accessible sim_classes) ?z [] = Some (?z\<lparr>zn_solution_type := st\<rparr>, dls)"
    using deploy_nodes_defined [where z = ?z and env = sim_net_env and peers = "\<lambda>z n. peers_of_accessible sim_net_env z sim_classes na n"
      and nodes = "nc_accessible sim_classes" and st = "[]" and dls = "[]" and m = ?m and twinID = 5, OF r sim_peers] triv by metis
  obtain st' dls' where d2: "deploy_nodes sim_net_env 5 ?m (\<lambda>z n. Some (peers_of_hidden sim_net_env z sim_classes n))
      (nc_hidden sim_classes) (?z\<lparr>zn_solution_type := st\<rparr>) dls = Some (?z\<lparr>zn_solution_type := st'\<rparr>, dls')"
    using deploy_nodes_defined [OF r, of "\<lambda>z n. Some (peers_of_hidden sim_net_env z sim_classes n)" 5 ?m] by blast
  show ?thesis using na acc d1 d2 by (simp add: build_deployments_def Let_def)
qed

lemma sim_generate:
  "\<exists>dls z' used' w'. generate_deployments sim_net_env sim_endpoints 9 5 sim_net [] 0 = Some (Inr dls, z', used', w')"
proof -
  have a: "assign_nodes_ips [1, 2, 9] (sim_net\<lparr>zn_public_node_id := 9\<rparr>) = Some (None, sim_ready)" by code_simp
  obtain ks where k: "assign_nodes_wg_key sim_net_env [1, 2, 9] sim_ready 0 = ((None, sim_ready\<lparr>zn_keys := ks\<rparr>), 3)"
    by (simp add: sim_net_env_def sim_ready_def sim_net_def)
  have draw: "free_port sim_net_env [] w = Some (of_nat (w mod 31744 + 1024), Suc w)" for w
    by (subst free_port.simps) (simp add: sim_net_env_def)
  obtain used' ports w2 where p: "assign_random_ports sim_net_env [1, 2, 9] [] [] 3 = Some (used', ports, w2)"
    by (simp add: draw Let_def)
  have f: "zn_name sim_net = ''net''" "zn_nodes sim_net = [1, 2]" "zn_wg_port (sim_ready\<lparr>zn_keys := ks\<rparr>) = []"
    "nc_hidden sim_classes @ nc_accessible sim_classes = [1, 2, 9]"
    by (simp_all add: sim_net_def sim_ready_def sim_classes_def)
  have "generate_deployments sim_net_env sim_endpoints 9 5 sim_net [] 0
     = build_deployments sim_net_env 5 sim_classes (sim_ready\<lparr>zn_keys := ks, zn_wg_port := ports\<rparr>) used' w2"
    by (simp only: generate_deployments_def Let_def f sim_classify sim_choose a k p sum.case prod.case option.case)
  then show ?thesis using sim_build [where ks = ks and ports = ports and us = used' and w = w2] by metis
qed

theorem network_deployments_witness:
  "\<exists>dls z' used' w'. generate_deployments sim_net_env sim_endpoints 9 5 sim_net [] 0 = Some (Inr dls, z', used', w')
     \<and> {1, 2} \<subseteq> set (map fst dls)"
proof -
  obtain dls z' used' w' where g: "generate_deployments sim_net_env sim_endpoints 9 5 sim_net [] 0 = Some (Inr dls, z', used', w')"
    using sim_generate by blast
  have "set (zn_nodes sim_net) = {1, 2}" by (simp add: sim_net_def)
  then have "{1, 2} \<subseteq> set (map fst dls)" using network_deployments [OF g, THEN conjunct1] by (simp only:)
  with g show ?thesis by blast
qed

text \<open>C37: when the public node is already set and is not one of the network's own nodes, as it is when a network is
  deployed again, its endpoint is never filled in: the peers of the nodes without an endpoint get one without a host.\<close>

theorem stored_public_node_loses_endpoint:
  assumes "classify_nodes name ips nodes no_classes = Inr c0" and "choose_public_node ips pub z c0 = Inr (z1, c)"
    and "zn_public_node_id z \<noteq> 0" and "zn_public_node_id z \<notin> set nodes"
    and "zn_public_node_id z2 = zn_public_node_id z1" and "p \<in> set (peers_of_hidden env z2 c x)"
  shows "pr_endpoint p = CHR '':'' # int_text (port_of z2 (zn_public_node_id z))"
proof -
  have keys: "classify_nodes name ips ns k = Inr c' \<Longrightarrow> v \<notin> set ns \<Longrightarrow> map_of (nc_endpoints c') v = map_of (nc_endpoints k) v"
    for ns k c' v
  proof (induction ns arbitrary: k)
    case (Cons n ns)
    then show ?case by (cases "map_of ips n") (auto simp: update_conv' split: if_splits dest!: Cons.IH)
  qed simp
  have "z1 = z \<and> nc_endpoints c = nc_endpoints c0"
    using assms(2,3) by (auto simp: choose_public_node_def Let_def split: if_splits)
  moreover have "map_of (nc_endpoints c0) (zn_public_node_id z) = None"
    using keys [OF assms(1,4)] by simp
  ultimately show ?thesis using assms(3,5,6) by (simp add: peers_of_hidden_def endpoint_text_def)
qed

lemma sim_choose_again:
  "choose_public_node sim_endpoints 0 (sim_net\<lparr>zn_public_node_id := 9\<rparr>) \<lparr>nc_hidden = [1, 2], nc_accessible = [], nc_ipv4 = 0, nc_endpoints = []\<rparr>
     = Inr (sim_net\<lparr>zn_public_node_id := 9\<rparr>, \<lparr>nc_hidden = [1, 2], nc_accessible = [9], nc_ipv4 = 0, nc_endpoints = []\<rparr>)"
  by code_simp

theorem stored_public_node_loses_endpoint_witness:
  "\<exists>p. peers_of_hidden sim_net_env (sim_net\<lparr>zn_public_node_id := 9, zn_wg_port := [(9, 3011)]\<rparr>)
       \<lparr>nc_hidden = [1, 2], nc_accessible = [9], nc_ipv4 = 0, nc_endpoints = []\<rparr> 1 = [p] \<and> pr_endpoint p = '':3011''"
proof -
  let ?z = "sim_net\<lparr>zn_public_node_id := 9, zn_wg_port := [(9, 3011)]\<rparr>"
  let ?c = "\<lparr>nc_hidden = [1, 2], nc_accessible = [9], nc_ipv4 = 0, nc_endpoints = []\<rparr>"
  obtain p where p: "peers_of_hidden sim_net_env ?z ?c 1 = [p]" by (simp add: peers_of_hidden_def)
  then have "p \<in> set (peers_of_hidden sim_net_env ?z ?c 1)" by simp
  from stored_public_node_loses_endpoint [OF sim_classify sim_choose_again _ _ _ this]
  have "pr_endpoint p = CHR '':'' # int_text 3011" by simp
  moreover have "int_text 3011 = ''3011''" by code_simp
  ultimately show ?thesis using p by simp
qed

section \<open>Ports\<close>

text \<open>The world after some draws from the random source.\<close>

fun after_draws :: "'w net_env \<Rightarrow> nat \<Rightarrow> 'w \<Rightarrow> 'w" where
  "after_draws env 0 w = w"
| "after_draws env (Suc k) w = after_draws env k (snd (rand_intn env (32768 - 1024) w))"

definition free_draw :: "'w net_env \<Rightarrow> u16 list \<Rightarrow> 'w \<Rightarrow> bool" where
  "free_draw env used w \<longleftrightarrow> of_nat (fst (rand_intn env (32768 - 1024) w) + 1024) \<notin> set used"

lemma free_port_draws: "free_draw env used (after_draws env k w) \<Longrightarrow> \<exists>r. free_port env used w = Some r"
proof (induction k arbitrary: w)
  case 0
  then show ?case by (subst free_port.simps) (auto simp: free_draw_def Let_def split: prod.splits)
next
  case (Suc k)
  then show ?case by (subst free_port.simps) (fastforce simp: Let_def split: prod.splits)
qed

lemma free_port_drawn:
  assumes ret: "free_port env used w = Some r"
  shows "\<exists>k. free_draw env used (after_draws env k w) \<and> fst r \<notin> set used"
proof (rule free_port.raw_induct [where P = "\<lambda>env used w r. \<exists>k. free_draw env used (after_draws env k w) \<and> fst r \<notin> set used", OF _ ret])
  fix f env used and w :: 'a and r :: "u16 \<times> 'a"
  assume IH: "\<And>env used w r. f env used w = Some r \<Longrightarrow> \<exists>k. free_draw env used (after_draws env k w) \<and> fst r \<notin> set used"
    and eq: "(case rand_intn env (32768 - 1024) w of
        (n, w') \<Rightarrow> (let p = of_nat (n + 1024) in if contains used p then f env used w' else Some (p, w'))) = Some r"
  obtain n w' where n: "rand_intn env (32768 - 1024) w = (n, w')" by fastforce
  show "\<exists>k. free_draw env used (after_draws env k w) \<and> fst r \<notin> set used"
  proof (cases "of_nat (n + 1024) \<in> set used")
    case True
    then have "f env used w' = Some r" using eq n by (simp add: Let_def)
    from IH [OF this] obtain k where "free_draw env used (after_draws env k w')" "fst r \<notin> set used" by blast
    then show ?thesis using n by (intro exI [of _ "Suc k"]) simp
  next
    case False
    then show ?thesis using eq n by (intro exI [of _ 0]) (auto simp: free_draw_def Let_def)
  qed
qed

text \<open>C36: the search for a random WireGuard port returns exactly when some draw of the random source is a port that is
  not used yet.\<close>

theorem free_port_returns:
  "(\<exists>p w'. free_port env used w = Some (p, w')) \<longleftrightarrow> (\<exists>k. free_draw env used (after_draws env k w))"
  using free_port_draws free_port_drawn by (metis surj_pair)

section \<open>Choosing nodes\<close>

text \<open>C25: the storage check of a node is worst-fit placement of the requested disks, in their order, on the free spaces
  of its pools of the right kind; neither the order in which the sort leaves equal pools nor wrap-around matters.\<close>

theorem node_storage_worst_fit:
  assumes "slice_sort srt pool_key"
  shows "has_enough_storage srt pools storages kind \<longleftrightarrow>
    storages = [] \<or> (let ps = filter (\<lambda>p. pool_type p = kind) pools in
      ps \<noteq> [] \<and> worst_fit (free_spaces ps) (map unat storages))"
  using place_storages_worst_fit [OF assms] by (simp add: has_enough_storage_def Let_def)

definition sim_pools :: "pool list" where
  "sim_pools = [\<lparr>pool_type = ''ssd'', pool_size = 100, pool_used = 40\<rparr>, \<lparr>pool_type = ''hdd'', pool_size = 500, pool_used = 0\<rparr>,
     \<lparr>pool_type = ''ssd'', pool_size = 80, pool_used = 0\<rparr>]"

theorem node_storage_worst_fit_witness:
  "has_enough_storage (sort_key pool_key) sim_pools [50, 60] ''ssd''
   \<and> \<not> has_enough_storage (sort_key pool_key) sim_pools [50, 61] ''ssd''"
proof -
  have s: "filter (\<lambda>p. pool_type p = ''ssd'') sim_pools
     = [\<lparr>pool_type = ''ssd'', pool_size = 100, pool_used = 40\<rparr>, \<lparr>pool_type = ''ssd'', pool_size = 80, pool_used = 0\<rparr>]"
    by (simp add: sim_pools_def)
  have "worst_fit {#60, 80#} [50, 60] \<and> \<not> worst_fit {#60, 80#} [50, 61]" by simp
  then show ?thesis
    unfolding node_storage_worst_fit [OF pool_sort.slice_sort_axioms] s Let_def
    by (simp add: free_spaces_def pool_free_def)
qed


definition sim_filter_env :: "(unit, unit) filter_env" where
  "sim_filter_env = \<lparr>fe_twin = 5,
     fe_nodes = (\<lambda>options lmt w. (if nf_healthy options = Some True \<and> nf_available_for options = Some 5
       then Inr ([\<lparr>pn_id = 1, pn_status = ''up'', pn_ipv4 = []\<rparr>, \<lparr>pn_id = 2, pn_status = ''up'', pn_ipv4 = []\<rparr>], 2)
       else Inl ''timeout'', w)),
     fe_node = (\<lambda>n w. (Inl ''not found'', w)),
     fe_pools = (\<lambda>n w. (Inr (if n = 2 then sim_pools else []), w)),
     fe_pool_sort = sort_key pool_key, fe_size_sort = sort_key (\<lambda>x. - int (unat x)), fe_merge = concat, fe_conv_int = (\<lambda>x. 0),
     fe_hdd = ''hdd'', fe_ssd = ''ssd'', fe_parse_ip6 = (\<lambda>s. None)\<rparr>"

definition sim_filter :: "unit node_filter" where
  "sim_filter = \<lparr>nf_status = [''up''], nf_free_hru = None, nf_free_sru = Some 110, nf_ipv4 = None, nf_available_for = None,
     nf_healthy = None, nf_others = ()\<rparr>"




text \<open>without a limit a search whose requests to the proxy all fail reports that no node matches: the error of the
  request is dropped.\<close>

theorem failing_search_reports_no_match:
  assumes "fe_nodes env = (\<lambda>options lmt w. (Inl e, w))" and "merges (fe_merge env)"
  shows "filter_nodes env options ssd hdd rootfs [] w = (Inl NoNodesMatch, w)"
  by (rule filter_nodes_hides_error [OF assms])

theorem failing_search_reports_no_match_witness:
  "filter_nodes (sim_filter_env\<lparr>fe_nodes := (\<lambda>options lmt w. (Inl ''timeout'', w))\<rparr>) sim_filter [] [] [] [] ()
     = (Inl NoNodesMatch, ())"
  by (rule failing_search_reports_no_match) (simp_all add: merges_def sim_filter_env_def)

section \<open>Texts and state\<close>

text \<open>an IPv4 network is read back from the text it is written as.\<close>

theorem ip_net_round_trip:
  assumes "n \<le> 32"
  shows "unmarshal_ip_net parse6 (marshal_ip_net \<lparr>IP = IPv4 a b c d, Mask = CIDRMask n 32\<rparr>) i
    = (None, \<lparr>IP = IPv4 a b c d, Mask = CIDRMask n 32\<rparr>)"
  using parse_ip_net_text [OF assms, of parse6 a b c d]
  by (simp add: unmarshal_ip_net_def marshal_ip_net_def IPv4_def v4_in_v6_def)

theorem ip_net_round_trip_witness:
  "unmarshal_ip_net (\<lambda>s. None) (marshal_ip_net \<lparr>IP = IPv4 10 20 3 0, Mask = CIDRMask 24 32\<rparr>) nil_net
     = (None, \<lparr>IP = IPv4 10 20 3 0, Mask = CIDRMask 24 32\<rparr>)"
  by (rule ip_net_round_trip) simp

text \<open>the state of networks: after storing the ranges of a network, looking up a node of it gives the text of its
  range and nothing for other nodes, and the other networks are as before.\<close>

theorem network_state_lookup:
  assumes "distinct (map fst m)"
  shows "get_node_subnet (fst (get_network name' (update_network_subnets name m s))) nodeID =
    (if name' = name then (case map_of m nodeID of Some r \<Rightarrow> net_text r | None \<Rightarrow> [])
     else get_node_subnet (fst (get_network name' s)) nodeID)"
  by (rule update_network_subnets_lookup [OF assms])

theorem network_state_lookup_witness:
  "get_node_subnet (fst (get_network ''net'' (update_network_subnets ''net'' [(1, sim_range)] Map.empty))) 1 = ''10.20.0.0/16''"
proof -
  have "net_text sim_range = ''10.20.0.0/16''" by code_simp
  then show ?thesis using network_state_lookup [of "[(1, sim_range)]" "''net''" "''net''" Map.empty 1] by simp
qed

end
