(* ===== verification/GridProps.thy ===== *)
theory GridProps
  imports GridSim
begin

text \<open>
  The properties of the deployer, of contracts, machines and their addresses, with their witnesses on the grid of
  \<open>GridSim\<close>.
\<close>

section \<open>Deploying\<close>



abbreviation two_refuses :: "u32 \<Rightarrow> string option" where
  "two_refuses n \<equiv> (if n = 2 then Some ''refused'' else None)"



text \<open>C6: after a deployment with reverting, a success leaves contracts on exactly the new nodes, and a failure leaves
  them on exactly the nodes of before, unless the error says that the old deployments could not be read or reverted.\<close>

theorem failed_deployment_reverted:
  assumes "ledger env live" and "distinct (map fst oldIDs)" and "distinct (map fst new)"
    and "dep_deploy env True oldIDs new providers w = Some ((cur, err), w')"
  shows "(err = None \<longrightarrow> fst ` set cur = fst ` set new)
    \<and> (\<forall>e. err = Some e \<longrightarrow> fst ` set cur = fst ` set oldIDs
         \<or> (\<exists>t. e = ''failed to fetch deployment objects to revert deployments: '' @ t)
         \<or> (\<exists>t. e = ''failed to revert deployments: '' @ t))"
  by (rule dep_deploy_outcome [OF assms])

lemma sim_dep_deploy:
  "dep_deploy (grid_env (\<lambda>n w. None) two_refuses) True [(1, 3)] [(1, sim_deployment), (2, sim_deployment)] [] [3]
     = Some (([(1, 3)], Some ''error sending deployment to node 2: refused''), [3])"
  by code_simp

theorem failed_deployment_reverted_witness:
  "fst ` set [(1 :: u32, 3 :: u64)] = fst ` set [(1 :: u32, 3 :: u64)]
     \<or> (\<exists>t. ''error sending deployment to node 2: refused'' = ''failed to fetch deployment objects to revert deployments: '' @ t)
     \<or> (\<exists>t. ''error sending deployment to node 2: refused'' = ''failed to revert deployments: '' @ t)"
  using failed_deployment_reverted [OF sim_ledger _ _ sim_dep_deploy, THEN conjunct2, rule_format] by simp

section \<open>Waiting\<close>








section \<open>Updating\<close>

text \<open>C19: an update raises the version of the deployment by one, gives the new version to exactly the workloads that are
  new or whose hash changed, keeps the others, and waits for the versions it sends.\<close>

theorem update_versions:
  assumes "assign_versions env oldDl newDl = Inr (d, vs)"
    and "distinct (map wl_name (dl_workloads oldDl))" and "distinct (map wl_name (dl_workloads newDl))"
  shows "dl_version d = dl_version oldDl + 1
    \<and> dl_workloads d = map (\<lambda>w. if \<exists>u \<in> set (dl_workloads oldDl). wl_name u = wl_name w \<and> workload_hash env u = workload_hash env w
          then w else w\<lparr>wl_version := dl_version oldDl + 1\<rparr>) (dl_workloads newDl)
    \<and> (\<forall>w \<in> set (dl_workloads d). map_of vs (wl_name w) = Some (wl_version w))"
  by (rule assign_versions_Inr [OF assms])

definition sim_update :: deployment where
  "sim_update = sim_deployment\<lparr>dl_workloads := [sim_workload ''a'', (sim_workload ''b'')\<lparr>wl_data := ''new''\<rparr>]\<rparr>"

lemma sim_assign_versions:
  "assign_versions sim_wl_env sim_deployment sim_update = Inr (sim_update\<lparr>dl_version := 1,
     dl_workloads := [sim_workload ''a'', (sim_workload ''b'')\<lparr>wl_data := ''new'', wl_version := 1\<rparr>]\<rparr>, [(''a'', 0), (''b'', 1)])"
  by code_simp

theorem update_versions_witness:
  "map_of [(''a'', 0), (''b'', 1)] (wl_name (sim_workload ''b'')) = Some (1 :: u32)"
  using update_versions [OF sim_assign_versions, THEN conjunct2, THEN conjunct2, rule_format,
      of "(sim_workload ''b'')\<lparr>wl_data := ''new'', wl_version := 1\<rparr>"]
  by (simp add: sim_simps sim_update_def)

text \<open>the check of an update adds the old deployment's capacity to the node's total, which it then doubles for SSD
  storage: the old deployment's SSD storage is counted as free twice.\<close>

theorem update_check_counts_ssd_twice:
  assumes "without_old env node ni (Some old) ips w = (Inr ni', w')"
    and "deployment_capacity (env_api3 env) (env_api4 env) old = (c, None)"
  shows "check_resources node ni' needed = None \<longleftrightarrow>
     zc_mru needed \<le> zc_mru (free_resources ni) + zc_mru c \<and> zc_sru needed \<le> zc_sru (free_resources ni) + 2 * zc_sru c
     \<and> zc_hru needed \<le> zc_hru (free_resources ni) + zc_hru c"
proof -
  have "ni' = ni\<lparr>ni_total := add_capacity (ni_total ni) c\<rparr>"
    using assms by (auto simp: without_old_def split: sum.splits prod.splits if_splits)
  then show ?thesis by (simp only: check_resources_None free_resources_added) simp
qed

theorem update_check_counts_ssd_twice_witness:
  "\<exists>ni'. without_old calm_env 1 sim_info (Some (sim_deployment\<lparr>dl_contract := 7\<rparr>)) 0 [7] = (Inr ni', [7])
     \<and> check_resources 1 ni' \<lparr>zc_cru = 0, zc_sru = 1500, zc_hru = 0, zc_mru = 0, zc_ipv4u = 0\<rparr> = None"
proof -
  have c: "deployment_capacity (env_api3 calm_env) (env_api4 calm_env) (sim_deployment\<lparr>dl_contract := 7\<rparr>)
      = (\<lparr>zc_cru = 0, zc_sru = 200, zc_hru = 0, zc_mru = 0, zc_ipv4u = 0\<rparr>, None)" by code_simp
  have g: "sub_get_contract (dv_chain calm_env) 7 [7] = (Inr \<lparr>cc_created = True, cc_deleted = False, cc_twin = 5,
         cc_public_ips = 0, cc_name = ''site'', cc_deployment_data = []\<rparr>, [7])" by code_simp
  obtain ni' where n: "without_old calm_env 1 sim_info (Some (sim_deployment\<lparr>dl_contract := 7\<rparr>)) 0 [7] = (Inr ni', [7])"
    using c g by (simp add: without_old_def)
  show ?thesis using n update_check_counts_ssd_twice [OF n c]
    by (simp add: free_resources_def sim_info_def)
qed

text \<open>signing appends what the package of the grid types returns to the signatures the deployment has: those stay in
  front, also the ones the package replaced. A deployment read from a node and signed again, as when a failed update
  is reverted, holds its old signatures before its new ones.\<close>

theorem sign_keeps_old_signatures:
  assumes "dl_sign api3 api4 twin sk d = (None, d')"
  shows "\<exists>dl. gt_sign (package_of api3 api4 d) twin sk (zos_deployment d) = (None, dl)
     \<and> sr_signatures (dl_requirement d') = sr_signatures (dl_requirement d) @ sr_signatures (gd_requirement dl)"
  using assms unfolding dl_sign_cases by auto

theorem sign_keeps_old_signatures_witness:
  "\<exists>d1 d2. dl_sign sim_api sim_api 5 (dv_signer calm_env) sim_deployment = (None, d1)
     \<and> dl_sign sim_api sim_api 5 (dv_signer calm_env) d1 = (None, d2) \<and> length (sr_signatures (dl_requirement d2)) = 3"
proof -
  obtain d1 where d1: "dl_sign sim_api sim_api 5 (dv_signer calm_env) sim_deployment = (None, d1)"
    "length (sr_signatures (dl_requirement d1)) = 1"
    by (simp add: dl_sign_cases) (simp add: sim_simps grid_env_def zos_deployment_def package_of_def has_light_def is_light_def type_defs Let_def)
  obtain d2 where d2: "dl_sign sim_api sim_api 5 (dv_signer calm_env) d1 = (None, d2)"
    by (simp add: dl_sign_cases) (simp add: sim_simps package_of_def)
  have "length (sr_signatures (dl_requirement d2)) = 3"
    using sign_keeps_old_signatures [OF d2] d1(2) by (auto simp: sim_api_def package_of_def)
  then show ?thesis using d1 d2 by blast
qed

section \<open>Batches\<close>


section \<open>Contracts\<close>

text \<open>when cleaning up the name contract of a gateway returns a contract, it is the one that was given, and the chain
  has it as created under the gateway's name.\<close>

theorem kept_name_contract_is_valid:
  assumes "invalidate_name_contract ch i name w = (Inr j, w')" and "j \<noteq> 0"
  shows "j = i \<and> (\<exists>c. ch_get_contract ch i w = (Inr c, w') \<and> cc_created c \<and> cc_name c = name)"
  by (rule invalidate_name_contract_keeps [OF assms])

theorem kept_name_contract_is_valid_witness:
  "invalidate_name_contract sim_chain 3 ''site'' [3] = (Inr 3, [3])
     \<and> (\<exists>c. ch_get_contract sim_chain 3 [3] = (Inr c, [3]) \<and> cc_created c)"
proof -
  have "invalidate_name_contract sim_chain 3 ''site'' [3] = (Inr 3, [3])" by code_simp
  then show ?thesis using kept_name_contract_is_valid [of sim_chain 3 "''site''" "[3]" 3 "[3]"] by auto
qed

section \<open>Machines\<close>

text \<open>a virtual machine passes the validation exactly when its name and its network's are valid, its node is set, its
  address, if any, is one, its flist can be had with the given checksum, it has 1 to 32 CPUs and at least 250 MB of
  memory, its root disk is the default or not too small, its GPUs have three parts, its seed is empty or of the right
  length, and its logs and mounts are valid.\<close>

theorem vm_validation_exact:
  "vm_validate env v = None \<longleftrightarrow>
     validate_name (vm_name v) = None \<and> validate_name (vm_network_name v) = None \<and> vm_node_id v \<noteq> 0
     \<and> (list_all space_char (vm_ip v) \<or> parse_ip (we_parse_ip6 env) (vm_ip v) \<noteq> [])
     \<and> validate_flist env (vm_flist v) (vm_flist_checksum v) = None
     \<and> 1 \<le> vm_cpu v \<and> vm_cpu v \<le> 32 \<and> 250 \<le> vm_memory_mb v
     \<and> (vm_rootfs_mb v = 0 \<or> min_root_size env (vm_cpu v) (vm_memory_mb v) \<le> vm_rootfs_mb v * we_megabyte env)
     \<and> (\<forall>g \<in> set (vm_gpus v). \<exists>p. gpu_parts g = Inr p)
     \<and> length (vm_mycelium_seed v) \<in> {0, MyceliumIPSeedLen}
     \<and> (\<forall>z \<in> set (vm_zlogs v). validate_name (zlog_zmachine z) = None)
     \<and> (\<forall>m \<in> set (vm_mounts v). validate_name (mt_name m) = None)"
  by (rule vm_validate_None)

definition sim_vm :: vm where
  "sim_vm = \<lparr>vm_name = ''vm'', vm_node_id = 1, vm_network_name = ''net'', vm_description = [], vm_flist = ''ubuntu.flist'',
     vm_flist_checksum = [], vm_entrypoint = [], vm_public_ip = False, vm_public_ip6 = False, vm_planetary = False, vm_corex = False,
     vm_ip = '' '', vm_mycelium_seed = [], vm_gpus = [], vm_cpu = 2, vm_memory_mb = 1024, vm_rootfs_mb = 500, vm_mounts = [],
     vm_zlogs = [], vm_env_vars = [], vm_computed_ip = [], vm_computed_ip6 = [], vm_planetary_ip = [], vm_mycelium_ip = [],
     vm_console_url = []\<rparr>"

theorem vm_validation_exact_witness: "vm_validate sim_wl_env sim_vm = None"
proof -
  have "validate_name ''vm'' = None" "validate_name ''net'' = None" "validate_flist sim_wl_env ''ubuntu.flist'' [] = None"
    "list_all space_char '' ''" "min_root_size sim_wl_env 2 1024 \<le> 500 * we_megabyte sim_wl_env" by code_simp+
  then show ?thesis unfolding vm_validation_exact by (simp add: sim_vm_def)
qed

text \<open>a machine that asks for no private address gets the network's address with the first host id, from the given one
  to 254, that is not used on its node, and that id is recorded as used.\<close>

theorem private_address_is_free:
  assumes "assign_private_ip parse6 name vmIP network rng node cidr ip cur used = Some (Inr t, ip', used')"
    and "To4 (parse_ip parse6 vmIP) = []" and "cur \<le> 254"
  shows "\<exists>h. h \<notin> set (node_hosts used network node) \<and> cur \<le> h \<and> h \<le> 254
    \<and> (\<forall>x. cur \<le> x \<and> x < h \<longrightarrow> x \<in> set (node_hosts used network node))
    \<and> ip' = ip[length ip - 1 := h] \<and> t = ip_text (To4 ip')
    \<and> node_hosts used' network node = node_hosts used network node @ [h]
    \<and> (\<forall>network' node'. (network', node') \<noteq> (network, node) \<longrightarrow> node_hosts used' network' node' = node_hosts used network' node')"
proof -
  obtain h u where h: "free_host (node_hosts used network node) cur = Some h" and u: "add_host used network node h = Some u"
    using assms(1,2) by (auto simp: assign_private_ip_def split: option.splits if_splits)
  then have r: "ip' = ip[length ip - 1 := h]" "t = ip_text (To4 ip')" "used' = u"
    using assms(1,2) by (auto simp: assign_private_ip_def Let_def split: if_splits)
  have "node_hosts u network' node' = (if (network', node') = (network, node) then node_hosts used network node @ [h]
      else node_hosts used network' node')" for network' node'
    using u by (cases "network' = network"; cases "node' = node") (auto simp: add_host_def node_hosts_def update_conv' split: option.splits)
  then show ?thesis using free_host_spec [OF assms(3), of "node_hosts used network node"] h r by auto
qed

lemma sim_assign_private:
  "assign_private_ip (\<lambda>s. None) ''vm'' [] ''net'' ''10.20.2.0/24'' 1 \<lparr>IP = IPv4 10 20 2 0, Mask = CIDRMask 24 32\<rparr>
     (IPv4 10 20 2 0) 2 [(''net'', [(1, [2, 3])])] = Some (Inr ''10.20.2.4'', IPv4 10 20 2 4, [(''net'', [(1, [2, 3, 4])])])"
  by code_simp

theorem private_address_is_free_witness:
  "\<exists>h. h \<notin> {2, 3} \<and> ''10.20.2.4'' = ip_text (To4 (IPv4 10 20 2 4)) \<and> IPv4 10 20 2 4 = (IPv4 10 20 2 0)[15 := h]"
proof -
  have "To4 (parse_ip (\<lambda>s. None) []) = []" "node_hosts [(''net'', [(1 :: u32, [2, 3])])] ''net'' 1 = [2, 3]" by code_simp+
  with private_address_is_free [OF sim_assign_private] show ?thesis by (simp only: length_IPv4) auto
qed

section \<open>Metadata\<close>



end
