(* ===== verification/Gateway.thy ===== *)
theory Gateway
  imports WlVm
begin

text \<open>
  Gateways (\<open>grid-client/workloads/gateway_name.go\<close>, \<open>gateway_fqdn.go\<close>): records, validation, the workloads they are sent
  as, the records read back. The payloads and their JSON belong to the grid types, which the code only calls: the
  encoding of a payload, the decoding of a gateway's result and the check of a backend are the fields of \<open>gt_codec\<close>.
  Lemmas: what a valid gateway is, and the language of the domain names.
\<close>

record gt_codec =
  gc_marshal :: "gt_payload \<Rightarrow> string"
  gc_proxy_result :: "string \<Rightarrow> string + string"
  gc_machine_result :: "string \<Rightarrow> string + zmachine_result"
  gc_backend_valid :: "bool \<Rightarrow> string \<Rightarrow> string option"

section \<open>Validation\<close>

definition validate_backend :: "gt_codec \<Rightarrow> string list \<Rightarrow> bool \<Rightarrow> string option" where
  "validate_backend cd backends tlsPassthrough =
     (if length backends = 0 then Some ''backends list can not be empty''
      else if length backends \<noteq> 1 then Some ''only one backend is supported''
      else first_err (map (\<lambda>b. wrap_err (''failed to validate backend '' @ quoted b) (gc_backend_valid cd tlsPassthrough b)) backends))"

text \<open>The expression: labels of letters, digits, dashes and underscores, at least two, the last of at least two characters.\<close>

definition label_char :: "char \<Rightarrow> bool" where
  "label_char c = (name_char c \<or> c = CHR ''-'')"

definition fqdn_match :: "string \<Rightarrow> bool" where
  "fqdn_match s =
     (let ps = split_at CHR ''.'' s in
      2 \<le> length ps \<and> list_all (\<lambda>p. p \<noteq> [] \<and> list_all label_char p) ps \<and> 2 \<le> length (last ps))"

text \<open>The checks both kinds of gateway share.\<close>

definition gateway_errors :: "string \<Rightarrow> u32 \<Rightarrow> string \<Rightarrow> string option list" where
  "gateway_errors name node network =
     [wrap_err ''gateway name is invalid'' (validate_name name),
      check (node = 0) ''node ID should be a positive integer not zero'',
      (if length (trim_space network) \<noteq> 0 then wrap_err ''gateway network is invalid'' (validate_name network) else None)]"

section \<open>Gateways with a name\<close>

record gateway_name =
  gn_node_id :: u32
  gn_name :: string
  gn_backends :: "string list"
  gn_tls_passthrough :: bool
  gn_network :: string
  gn_description :: string
  gn_solution_type :: string
  gn_node_deployment_id :: "(u32 \<times> u64) list"
  gn_fqdn :: string
  gn_name_contract_id :: u64
  gn_contract_id :: u64

definition zero_gateway_name :: gateway_name where
  "zero_gateway_name = \<lparr>gn_node_id = 0, gn_name = [], gn_backends = [], gn_tls_passthrough = False, gn_network = [],
     gn_description = [], gn_solution_type = [], gn_node_deployment_id = [], gn_fqdn = [], gn_name_contract_id = 0,
     gn_contract_id = 0\<rparr>"

definition network_text :: "string option \<Rightarrow> string" where
  "network_text n = (case n of None \<Rightarrow> [] | Some t \<Rightarrow> t)"

definition new_gateway_name_from_workload :: "wl_env \<Rightarrow> gt_codec \<Rightarrow> gt_workload \<Rightarrow> string + gateway_name" where
  "new_gateway_name_from_workload env cd wl =
     (case gc_proxy_result cd (gr_data (gw_result wl)) of
        Inl e \<Rightarrow> Inl (''error unmarshalling json: '' @ e)
      | Inr fqdn \<Rightarrow>
     (case gt_workload_data (we_api3 env) wl of
        Inl e \<Rightarrow> Inl (''failed to get workload data: '' @ e)
      | Inr (PGatewayName b name) \<Rightarrow>
          Inr (zero_gateway_name\<lparr>gn_name := name, gn_tls_passthrough := gb_tls_passthrough b, gn_backends := gb_backends b,
            gn_fqdn := fqdn, gn_network := network_text (gb_network b), gn_description := gw_description wl\<rparr>)
      | Inr _ \<Rightarrow> Inl ''could not create gateway name proxy workload from data''))"

definition gateway_name_validate :: "gt_codec \<Rightarrow> gateway_name \<Rightarrow> string option" where
  "gateway_name_validate cd g =
     first_err (gateway_errors (gn_name g) (gn_node_id g) (gn_network g)
       @ [validate_backend cd (gn_backends g) (gn_tls_passthrough g)])"

definition gateway_base_of :: "string list \<Rightarrow> bool \<Rightarrow> string \<Rightarrow> gateway_base" where
  "gateway_base_of backends tls network =
     \<lparr>gb_tls_passthrough = tls, gb_backends = backends, gb_network = (if network = [] then None else Some network)\<rparr>"

definition plain_gt_workload :: "string \<Rightarrow> string \<Rightarrow> string \<Rightarrow> gt_workload" where
  "plain_gt_workload kind name data = \<lparr>gw_version = 0, gw_name = name, gw_type = kind, gw_data = data, gw_metadata = [],
     gw_description = [], gw_result = \<lparr>gr_created = 0, gr_state = [], gr_error = [], gr_data = []\<rparr>\<rparr>"

definition gateway_name_workload :: "gt_codec \<Rightarrow> gateway_name \<Rightarrow> gt_workload" where
  "gateway_name_workload cd g =
     plain_gt_workload GatewayNameProxyType (gn_name g)
       (gc_marshal cd (PGatewayName (gateway_base_of (gn_backends g) (gn_tls_passthrough g) (gn_network g)) (gn_name g)))"

definition gateway_name_metadata :: "gateway_name \<Rightarrow> string \<times> gateway_name" where
  "gateway_name_metadata g =
     (let g' = (if gn_solution_type g = [] then g\<lparr>gn_solution_type := gn_name g\<rparr> else g) in
      (json_text (j_deployment_data \<lparr>dd_version = Version3, dd_type = ''Gateway Name'', dd_name = gn_name g',
         dd_project_name = gn_solution_type g'\<rparr>), g'))"

section \<open>Gateways with a domain name\<close>

record gateway_fqdn =
  gf_node_id :: u32
  gf_backends :: "string list"
  gf_fqdn :: string
  gf_name :: string
  gf_tls_passthrough :: bool
  gf_network :: string
  gf_description :: string
  gf_solution_type :: string
  gf_contract_id :: u64
  gf_node_deployment_id :: "(u32 \<times> u64) list"

definition zero_gateway_fqdn :: gateway_fqdn where
  "zero_gateway_fqdn = \<lparr>gf_node_id = 0, gf_backends = [], gf_fqdn = [], gf_name = [], gf_tls_passthrough = False,
     gf_network = [], gf_description = [], gf_solution_type = [], gf_contract_id = 0, gf_node_deployment_id = []\<rparr>"

definition new_gateway_fqdn_from_workload :: "wl_env \<Rightarrow> gt_workload \<Rightarrow> string + gateway_fqdn" where
  "new_gateway_fqdn_from_workload env wl =
     (case gt_workload_data (we_api3 env) wl of
        Inl e \<Rightarrow> Inl (''failed to get workload data: '' @ e)
      | Inr (PGatewayFQDN b fqdn) \<Rightarrow>
          Inr (zero_gateway_fqdn\<lparr>gf_name := gt_name_string (we_api3 env) (gw_name wl),
            gf_tls_passthrough := gb_tls_passthrough b, gf_backends := gb_backends b, gf_fqdn := fqdn,
            gf_network := network_text (gb_network b), gf_description := gw_description wl\<rparr>)
      | Inr _ \<Rightarrow> Inl ''could not create gateway fqdn proxy workload from data'')"

definition gateway_fqdn_validate :: "gt_codec \<Rightarrow> gateway_fqdn \<Rightarrow> string option" where
  "gateway_fqdn_validate cd g =
     first_err (gateway_errors (gf_name g) (gf_node_id g) (gf_network g)
       @ [check (\<not> fqdn_match (gf_fqdn g)) (''fqdn '' @ gf_fqdn g @ '' is invalid''),
          validate_backend cd (gf_backends g) (gf_tls_passthrough g)])"

definition gateway_fqdn_workload :: "gt_codec \<Rightarrow> gateway_fqdn \<Rightarrow> gt_workload" where
  "gateway_fqdn_workload cd g =
     plain_gt_workload GatewayFQDNProxyType (gf_name g)
       (gc_marshal cd (PGatewayFQDN (gateway_base_of (gf_backends g) (gf_tls_passthrough g) (gf_network g)) (gf_fqdn g)))"

definition gateway_fqdn_metadata :: "gateway_fqdn \<Rightarrow> string \<times> gateway_fqdn" where
  "gateway_fqdn_metadata g =
     (let g' = (if gf_solution_type g = [] then g\<lparr>gf_solution_type := gf_name g\<rparr> else g) in
      (json_text (j_deployment_data \<lparr>dd_version = Version3, dd_type = ''Gateway Fqdn'', dd_name = gf_name g',
         dd_project_name = gf_solution_type g'\<rparr>), g'))"

section \<open>Facts\<close>

lemma validate_backend_None:
  "validate_backend cd bs tls = None \<longleftrightarrow> (\<exists>b. bs = [b] \<and> gc_backend_valid cd tls b = None)"
  by (cases bs rule: list.exhaust [case_product list.exhaust]) (auto simp: validate_backend_def)

text \<open>The language of the expression.\<close>

lemma split_labels: "list_all (\<lambda>l. CHR ''.'' \<notin> set l) labels \<Longrightarrow> CHR ''.'' \<notin> set t \<Longrightarrow>
    split_at CHR ''.'' (concat (map (\<lambda>l. l @ ''.'') labels) @ t) = labels @ [t]"
  by (induction labels) (simp_all add: split_at_plain split_at_append)

lemma join_labels: "join_with c (labels @ [t]) = concat (map (\<lambda>l. l @ [c]) labels) @ t"
  by (induction labels) (auto simp: join_with_append)

lemma label_no_dot: "list_all label_char l \<Longrightarrow> CHR ''.'' \<notin> set l"
  by (auto simp: list_all_iff label_char_def name_char_def Let_def)

lemma fqdn_match_iff:
  "fqdn_match s \<longleftrightarrow> (\<exists>labels t. s = concat (map (\<lambda>l. l @ ''.'') labels) @ t \<and> labels \<noteq> [] \<and> 2 \<le> length t
     \<and> list_all label_char t \<and> list_all (\<lambda>l. l \<noteq> [] \<and> list_all label_char l) labels)"
    (is "_ \<longleftrightarrow> (\<exists>labels t. ?lang labels t)")
proof
  assume m: "fqdn_match s"
  let ?ps = "split_at CHR ''.'' s"
  have ps: "?ps = butlast ?ps @ [last ?ps]" by simp
  have "s = concat (map (\<lambda>l. l @ ''.'') (butlast ?ps)) @ last ?ps"
    using join_split [of "CHR ''.''" s] ps join_labels [of "CHR ''.''" "butlast ?ps" "last ?ps"] by simp
  moreover have "butlast ?ps \<noteq> []" using m ps by (metis One_nat_def fqdn_match_def append_Nil length_Cons list.size(3) not_less_eq_eq numeral_2_eq_2 le_refl)
  ultimately have "?lang (butlast ?ps) (last ?ps)"
    using m last_in_set [of ?ps] by (auto simp: fqdn_match_def Let_def list_all_iff dest: in_set_butlastD)
  then show "\<exists>labels t. ?lang labels t" by blast
next
  assume "\<exists>labels t. ?lang labels t"
  then obtain labels t where l: "?lang labels t" by blast
  then have "split_at CHR ''.'' s = labels @ [t]"
    using split_labels [of labels t] label_no_dot by (auto simp: list_all_iff)
  then show "fqdn_match s" using l by (cases labels) (auto simp: fqdn_match_def Let_def)
qed

end
