(* ===== verification/K8s.thy ===== *)
theory K8s
  imports Gateway Subi
begin

text \<open>
  Kubernetes clusters (\<open>grid-client/workloads/k8s.go\<close>): a master and workers, each a machine with a disk. Both a cluster
  without master and a master without machine are \<open>kc_master = None\<close>: every access to them panics, and a panic is \<open>None\<close>.
  The payload of a machine is the one of the grid types, encoded by \<open>gt_codec\<close>. Lemmas: what a valid cluster is.
\<close>

record k8s_node =
  kn_vm :: vm
  kn_disk_size_gb :: u64

record k8s_cluster =
  kc_master :: "k8s_node option"
  kc_workers :: "k8s_node list"
  kc_token :: string
  kc_network_name :: string
  kc_flist :: string
  kc_flist_checksum :: string
  kc_entrypoint :: string
  kc_solution_type :: string
  kc_ssh_key :: string
  kc_nodes_ip_range :: "(u32 \<times> ip_net) list"
  kc_node_deployment_id :: "(u32 \<times> u64) list"

definition zero_vm :: vm where
  "zero_vm = \<lparr>vm_name = [], vm_node_id = 0, vm_network_name = [], vm_description = [], vm_flist = [],
     vm_flist_checksum = [], vm_entrypoint = [], vm_public_ip = False, vm_public_ip6 = False, vm_planetary = False,
     vm_corex = False, vm_ip = [], vm_mycelium_seed = [], vm_gpus = [], vm_cpu = 0, vm_memory_mb = 0, vm_rootfs_mb = 0,
     vm_mounts = [], vm_zlogs = [], vm_env_vars = [], vm_computed_ip = [], vm_computed_ip6 = [], vm_planetary_ip = [],
     vm_mycelium_ip = [], vm_console_url = []\<rparr>"

abbreviation kn_name :: "k8s_node \<Rightarrow> string" where "kn_name k \<equiv> vm_name (kn_vm k)"
abbreviation kn_node :: "k8s_node \<Rightarrow> u32" where "kn_node k \<equiv> vm_node_id (kn_vm k)"

section \<open>Reading a node back\<close>

definition no_result :: gt_result where
  "no_result = \<lparr>gr_created = 0, gr_state = [], gr_error = [], gr_data = []\<rparr>"

definition new_k8s_node_from_workload ::
  "wl_env \<Rightarrow> gt_codec \<Rightarrow> gt_workload \<Rightarrow> u32 \<Rightarrow> u64 \<Rightarrow> string \<Rightarrow> string \<Rightarrow> (string + k8s_node) option" where
  "new_k8s_node_from_workload env cd wl nodeID diskSize computedIP computedIP6 =
     (case gt_workload_data (we_api3 env) wl of
        Inl e \<Rightarrow> Some (Inl e)
      | Inr (PZMachine d) \<Rightarrow>
     (case (if gw_result wl = no_result
            then Inr \<lparr>mr_id = [], mr_ip = [], mr_planetary = [], mr_mycelium = [], mr_console = []\<rparr>
            else gc_machine_result cd (gr_data (gw_result wl))) of
        Inl e \<Rightarrow> Some (Inl e)
      | Inr result \<Rightarrow>
     (case get_flist_checksum env (zm_flist d) of
        Inl e \<Rightarrow> Some (Inl e)
      | Inr checksum \<Rightarrow>
          Some (Inr \<lparr>kn_vm = zero_vm\<lparr>vm_name := gw_name wl, vm_node_id := nodeID, vm_public_ip := (computedIP \<noteq> []),
            vm_public_ip6 := (computedIP6 \<noteq> []), vm_planetary := (mr_planetary result \<noteq> []), vm_flist := zm_flist d,
            vm_flist_checksum := checksum, vm_computed_ip := computedIP, vm_computed_ip6 := computedIP6,
            vm_planetary_ip := mr_planetary result, vm_mycelium_ip := mr_mycelium result,
            vm_mycelium_seed := seed_of (mn_mycelium (zm_network d)),
            vm_ip := (case mn_interfaces (zm_network d) of i # _ \<Rightarrow> ip_text (mi_ip i) | [] \<Rightarrow> []),
            vm_cpu := mc_cpu (zm_capacity d), vm_memory_mb := mc_memory (zm_capacity d) div we_megabyte env,
            vm_network_name := (case mn_interfaces (zm_network d) of i # _ \<Rightarrow> mi_network i | [] \<Rightarrow> []),
            vm_console_url := mr_console result, vm_env_vars := zm_env d\<rparr>,
            kn_disk_size_gb = diskSize\<rparr>)))
      | Inr _ \<Rightarrow> None)"

section \<open>Workloads of a node\<close>

definition k8s_env_vars :: "k8s_cluster \<Rightarrow> k8s_node \<Rightarrow> string \<Rightarrow> (string \<times> string) list" where
  "k8s_env_vars cluster k url =
     [(''SSH_KEY'', kc_ssh_key cluster), (''K3S_TOKEN'', kc_token cluster), (''K3S_DATA_DIR'', ''/mydisk''),
      (''K3S_FLANNEL_IFACE'', ''eth0''), (''K3S_NODE_NAME'', kn_name k), (''K3S_URL'', url)]"

definition k8s_machine :: "wl_env \<Rightarrow> k8s_cluster \<Rightarrow> k8s_node \<Rightarrow> string \<Rightarrow> string \<Rightarrow> zmachine" where
  "k8s_machine env cluster k publicIPName url =
     \<lparr>zm_flist = kc_flist cluster,
      zm_network = \<lparr>mn_public_ip = publicIPName, mn_planetary = vm_planetary (kn_vm k),
        mn_mycelium = mycelium_of (kc_network_name cluster) (vm_mycelium_seed (kn_vm k)),
        mn_interfaces = [\<lparr>mi_network = kc_network_name cluster, mi_ip = parse_ip (we_parse_ip6 env) (vm_ip (kn_vm k))\<rparr>]\<rparr>,
      zm_size = 0,
      zm_capacity = \<lparr>mc_cpu = vm_cpu (kn_vm k), mc_memory = vm_memory_mb (kn_vm k) * we_megabyte env\<rparr>,
      zm_mounts = [\<lparr>mm_name = kn_name k @ ''disk'', mm_mountpoint = ''/mydisk''\<rparr>],
      zm_entrypoint = kc_entrypoint cluster, zm_env = k8s_env_vars cluster k url, zm_corex = False, zm_gpu = []\<rparr>"

definition k8s_node_workloads ::
  "wl_env \<Rightarrow> gt_codec \<Rightarrow> k8s_cluster \<Rightarrow> k8s_node \<Rightarrow> bool \<Rightarrow> gt_workload list option" where
  "k8s_node_workloads env cd cluster k isWorker =
     (case (if isWorker then map_option (\<lambda>m. ''https://'' @ vm_ip (kn_vm m) @ '':6443'') (kc_master cluster) else Some []) of
        None \<Rightarrow> None
      | Some url \<Rightarrow>
          (let public = vm_public_ip (kn_vm k) \<or> vm_public_ip6 (kn_vm k);
               publicIPName = (if public then kn_name k @ ''ip'' else []) in
           Some ([plain_gt_workload ZMountType (kn_name k @ ''disk'')
                    (gc_marshal cd (PZMount (kn_disk_size_gb k * we_gigabyte env)))]
             @ (if public then [plain_gt_workload PublicIPType publicIPName (gc_marshal cd
                    (PPublicIP \<lparr>pip_v4 = vm_public_ip (kn_vm k), pip_v6 = vm_public_ip6 (kn_vm k)\<rparr>))] else [])
             @ [plain_gt_workload ZMachineType (kn_name k)
                  (gc_marshal cd (PZMachine (k8s_machine env cluster k publicIPName url)))])))"

definition k8s_workloads :: "wl_env \<Rightarrow> gt_codec \<Rightarrow> k8s_cluster \<Rightarrow> gt_workload list option" where
  "k8s_workloads env cd cluster =
     (case kc_master cluster of
        None \<Rightarrow> None
      | Some m \<Rightarrow>
          (case (k8s_node_workloads env cd cluster m False,
                 all_some (map (\<lambda>k. k8s_node_workloads env cd cluster k True) (kc_workers cluster))) of
             (Some ms, Some ws) \<Rightarrow> Some (ms @ concat ws)
           | _ \<Rightarrow> None))"

definition k8s_metadata :: "k8s_cluster \<Rightarrow> (string \<times> k8s_cluster) option" where
  "k8s_metadata k =
     map_option (\<lambda>m. let k' = (if kc_solution_type k = [] then k\<lparr>kc_solution_type := ''kubernetes/'' @ kn_name m\<rparr> else k) in
        (json_text (j_deployment_data \<lparr>dd_version = Version3, dd_type = ''kubernetes'', dd_name = kn_name m,
           dd_project_name = kc_solution_type k'\<rparr>), k')) (kc_master k)"

section \<open>Validation\<close>

definition alnum :: "char \<Rightarrow> bool" where
  "alnum c = (name_char c \<and> c \<noteq> CHR ''_'')"

definition validate_token :: "k8s_cluster \<Rightarrow> string option" where
  "validate_token k = first_err
     [check (length (kc_token k) < 6) ''token must be at least 6 characters'',
      check (length (kc_token k) > 15) ''token must be at most 15 characters'',
      check (\<not> (kc_token k \<noteq> [] \<and> list_all alnum (kc_token k))) ''token should be alphanumeric'']"

definition validate_ip_ranges :: "k8s_cluster \<Rightarrow> k8s_node \<Rightarrow> string option" where
  "validate_ip_ranges k m = first_err
     (check (map_of (kc_nodes_ip_range k) (kn_node m) = None)
        (''the master node '' @ dec_text (unat (kn_node m)) @ '' does not exist in the network's ip ranges'')
      # map (\<lambda>w. check (map_of (kc_nodes_ip_range k) (kn_node w) = None)
          (''the node with id '' @ dec_text (unat (kn_node w)) @ '' in worker '' @ kn_name w
           @ '' does not exist in the network's ip ranges'')) (kc_workers k))"

fun validate_workers :: "wl_env \<Rightarrow> string list \<Rightarrow> k8s_node list \<Rightarrow> string option" where
  "validate_workers env names [] = None"
| "validate_workers env names (w # ws) =
     (if kn_name w \<in> set names
      then Some (''k8s workers and master must have unique names: '' @ kn_name w @ '' occurred more than once'')
      else case vm_validate env (kn_vm w) of
        Some e \<Rightarrow> Some (''worker is invalid: '' @ e)
      | None \<Rightarrow> validate_workers env (kn_name w # names) ws)"

definition k8s_validate :: "wl_env \<Rightarrow> k8s_cluster \<Rightarrow> string option option" where
  "k8s_validate env k =
     map_option (\<lambda>m. first_err
        [wrap_err ''master is invalid'' (vm_validate env (kn_vm m)),
         validate_workers env [kn_name m] (kc_workers k),
         wrap_err ''master name is invalid'' (validate_name (kc_network_name k)),
         validate_token k,
         (if length (kc_nodes_ip_range k) \<noteq> 0 then validate_ip_ranges k m else None)]) (kc_master k)"

section \<open>Outdated attributes\<close>

text \<open>The contracts that are gone are dropped; the nodes of the others are collected.\<close>

fun drop_gone_k8s :: "'w chain \<Rightarrow> (u32 \<times> u64) list \<Rightarrow> k8s_cluster \<Rightarrow> u32 list \<Rightarrow> 'w
    \<Rightarrow> (string option \<times> k8s_cluster \<times> u32 list) \<times> 'w" where
  "drop_gone_k8s ch [] k validNodes w = ((None, k, validNodes), w)"
| "drop_gone_k8s ch ((node, contractID) # ids) k validNodes w =
     (case sub_get_contract ch contractID w of
        (r, w') \<Rightarrow>
          if (case r of Inr c \<Rightarrow> \<not> cc_created c | Inl e \<Rightarrow> ce_not_found e)
          then drop_gone_k8s ch ids (k\<lparr>kc_node_deployment_id := AList.delete node (kc_node_deployment_id k),
                 kc_nodes_ip_range := AList.delete node (kc_nodes_ip_range k)\<rparr>) validNodes w'
          else (case r of
             Inl e \<Rightarrow> ((Some (''could not get node '' @ dec_text (unat node) @ '' contract '' @ dec_text (unat contractID)
               @ '': '' @ ce_text e), k, validNodes), w')
           | Inr _ \<Rightarrow> drop_gone_k8s ch ids k (node # validNodes) w'))"

definition k8s_invalidate_broken :: "'w chain \<Rightarrow> k8s_cluster \<Rightarrow> 'w \<Rightarrow> ((string option \<times> k8s_cluster) \<times> 'w) option" where
  "k8s_invalidate_broken ch k w =
     (if length (kc_node_deployment_id k) = 0 then Some ((None, k), w)
      else case drop_gone_k8s ch (kc_node_deployment_id k) k [] w of
        ((Some e, k', _), w') \<Rightarrow> Some ((Some e, k'), w')
      | ((None, k', validNodes), w') \<Rightarrow>
          map_option (\<lambda>m. ((None, if kn_node m \<in> set validNodes then k' else k'\<lparr>kc_master := None\<rparr>), w')) (kc_master k'))"

section \<open>Facts\<close>

lemma validate_workers_None:
  "validate_workers env names ws = None \<longleftrightarrow>
     distinct (map kn_name ws) \<and> set (map kn_name ws) \<inter> set names = {} \<and> (\<forall>w \<in> set ws. vm_validate env (kn_vm w) = None)"
  by (induction ws arbitrary: names) (auto split: option.splits)

lemma k8s_validate_None:
  "k8s_validate env k = Some None \<longleftrightarrow> (\<exists>m. kc_master k = Some m
     \<and> distinct (map kn_name (m # kc_workers k))
     \<and> (\<forall>v \<in> set (m # kc_workers k). vm_validate env (kn_vm v) = None)
     \<and> validate_name (kc_network_name k) = None
     \<and> 6 \<le> length (kc_token k) \<and> length (kc_token k) \<le> 15 \<and> list_all alnum (kc_token k)
     \<and> (kc_nodes_ip_range k = [] \<or> (\<forall>v \<in> set (m # kc_workers k). map_of (kc_nodes_ip_range k) (kn_node v) \<noteq> None)))"
  by (cases "kc_master k")
    (auto simp: k8s_validate_def validate_workers_None validate_token_def validate_ip_ranges_def simp del: length_0_conv)

end
