(* ===== verification/ZnetLight.thy ===== *)
theory ZnetLight
  imports ZnetProofs
begin

text \<open>
  Light networks (\<open>grid-client/workloads/network_light.go\<close>): a range per node and no peers. The calls on the chain and the
  nodes are those of \<open>net_env\<close>; a panic is \<open>None\<close>. The accesses of the metadata are a nil slice here, which the JSON
  text shows as null. The payload does not tell a nil mycelium key from an empty one: both leave no key. Lemmas: the
  assignment of addresses is the one of networks without access from outside, and there is one deployment per node.
\<close>

section \<open>The network\<close>

record znet_light =
  znl_name :: string
  znl_description :: string
  znl_solution_type :: string
  znl_nodes :: "u32 list"
  znl_ip_range :: ip_net
  znl_mycelium_keys :: "(u32 \<times> u8 list) list"
  znl_public_node_id :: u32
  znl_nodes_ip_range :: "(u32 \<times> ip_net) list"
  znl_node_deployment_id :: "(u32 \<times> u64) list"

definition new_network_light_from_workload :: "gt_api \<Rightarrow> workload \<Rightarrow> u32 \<Rightarrow> string + znet_light" where
  "new_network_light_from_workload api4 wl nodeID =
     (case network_light_workload api4 wl of
        Inl _ \<Rightarrow> Inl ''could not create network light workload from data''
      | Inr data \<Rightarrow>
     (case unmarshal_network_metadata (wl_metadata wl) of
        None \<Rightarrow> Inl (''failed to parse network light metadata from workload '' @ wl_name wl)
      | Some metadata \<Rightarrow>
          Inr \<lparr>znl_name = wl_name wl, znl_description = wl_description wl, znl_solution_type = [], znl_nodes = [nodeID],
            znl_ip_range = nil_net,
            znl_mycelium_keys = (if my_key (nl_mycelium data) = [] then [] else [(nodeID, my_key (nl_mycelium data))]),
            znl_public_node_id = (case nm_user_accesses metadata of u # _ \<Rightarrow> ua_node_id u | [] \<Rightarrow> 0),
            znl_nodes_ip_range = [(nodeID, nl_subnet data)], znl_node_deployment_id = []\<rparr>))"

definition znet_light_validate :: "znet_light \<Rightarrow> string option" where
  "znet_light_validate z =
     (case validate_name (znl_name z) of
        Some e \<Rightarrow> wrap_err ''network name is invalid'' (Some e)
      | None \<Rightarrow>
        if znl_nodes z = [] then Some (''number of nodes in znet: '' @ znl_name z @ '', should be nonzero positive number'')
        else if fst (mask_size (Mask (znl_ip_range z))) \<noteq> 16
        then Some (''subnet in ip range '' @ net_text (znl_ip_range z) @ '' should be 16'')
        else first_err (map (\<lambda>(node, key).
          if length key \<noteq> MyceliumKeyLen \<and> length key \<noteq> 0
          then Some (''invalid mycelium key length '' @ dec_text (length key) @ '' must be '' @ dec_text MyceliumKeyLen @ '' or empty'')
          else if node \<notin> set (znl_nodes z)
          then Some (''invalid node '' @ dec_text (unat node) @ '' for mycelium key, must be included in the network nodes [''
                 @ join_with CHR '' '' (map (\<lambda>n. dec_text (unat n)) (znl_nodes z)) @ '']'')
          else None) (znl_mycelium_keys z)))"

section \<open>Outdated attributes\<close>

fun drop_gone_light :: "'w net_env \<Rightarrow> (u32 \<times> u64) list \<Rightarrow> znet_light \<Rightarrow> 'w \<Rightarrow> (string option \<times> znet_light) \<times> 'w" where
  "drop_gone_light env [] z w = ((None, z), w)"
| "drop_gone_light env ((node, contractID) # ids) z w =
     (case get_contract env contractID w of
        (ContractCreated, w') \<Rightarrow> drop_gone_light env ids z w'
      | (ContractError e, w') \<Rightarrow>
          ((wrap_err (''could not get node '' @ dec_text (unat node) @ '' contract '' @ dec_text (unat contractID)) (Some e), z), w')
      | (_, w') \<Rightarrow>
          drop_gone_light env ids
            (z\<lparr>znl_node_deployment_id := AList.delete node (znl_node_deployment_id z),
               znl_nodes_ip_range := AList.delete node (znl_nodes_ip_range z)\<rparr>) w')"

definition light_public_node :: "'w net_env \<Rightarrow> znet_light \<Rightarrow> 'w \<Rightarrow> (znet_light \<times> 'w) option" where
  "light_public_node env z w =
     (if znl_public_node_id z = 0 then Some (z, w)
      else case get_node_client env (znl_public_node_id z) w of
        (Some _, _) \<Rightarrow> None
      | (None, w1) \<Rightarrow>
          (case is_node_up env (znl_public_node_id z) w1 of
             (Some _, w2) \<Rightarrow> Some (z\<lparr>znl_public_node_id := 0\<rparr>, w2)
           | (None, w2) \<Rightarrow> Some (z, w2)))"

definition light_invalidate_broken :: "'w net_env \<Rightarrow> znet_light \<Rightarrow> 'w \<Rightarrow> ((string option \<times> znet_light) \<times> 'w) option" where
  "light_invalidate_broken env z w =
     (case drop_gone_light env (znl_node_deployment_id z) z w of
        ((Some e, z1), w1) \<Rightarrow> Some ((Some e, z1), w1)
      | ((None, z1), w1) \<Rightarrow>
          map_option (\<lambda>(z2, w2). ((None, z2), w2))
            (light_public_node env
               (z1\<lparr>znl_nodes_ip_range := filter (\<lambda>(node, n). net_contains (znl_ip_range z1) (IP n)) (znl_nodes_ip_range z1)\<rparr>) w1))"

section \<open>Workloads and deployments\<close>

definition znet_light_workload :: "znet_light \<Rightarrow> ip_net \<Rightarrow> string \<Rightarrow> u8 list \<Rightarrow> workload" where
  "znet_light_workload z subnet metadata myceliumKey =
     \<lparr>wl_version = 0, wl_name = znl_name z, wl_type = NetworkLightType,
      wl_data = json_text (j_network_light \<lparr>nl_subnet = subnet, nl_mycelium = \<lparr>my_key = myceliumKey, my_peers = []\<rparr>\<rparr>),
      wl_metadata = metadata, wl_description = znl_description z, wl_result = zero_result\<rparr>"

definition znet_light_generate_metadata :: "znet_light \<Rightarrow> string \<times> znet_light" where
  "znet_light_generate_metadata z =
     (let z' = (if znl_solution_type z = [] then z\<lparr>znl_solution_type := ''Network''\<rparr> else z) in
      (json_text (j_deployment_data \<lparr>dd_version = Version4, dd_type = ''network-light'', dd_name = znl_name z',
         dd_project_name = znl_solution_type z'\<rparr>), z'))"

definition light_assign_nodes_ips :: "u32 list \<Rightarrow> znet_light \<Rightarrow> (string option \<times> znet_light) option" where
  "light_assign_nodes_ips nodes z =
     (let rng = IP (znl_ip_range z); l = length rng in
      case kept_ips nodes l (znl_nodes_ip_range z) of
        None \<Rightarrow> None
      | Some (used, ips) \<Rightarrow>
          (case give_ips rng l nodes used 2 ips of
             None \<Rightarrow> None
           | Some (Inl e) \<Rightarrow> Some (Some e, z)
           | Some (Inr ips') \<Rightarrow> Some (None, z\<lparr>znl_nodes_ip_range := ips'\<rparr>)))"

definition light_metadata_text :: string where
  "light_metadata_text = json_text (JObj [(''version'', j_int Version4), (''user_accesses'', JNull)])"

text \<open>One deployment per node of the list, put into the map.\<close>

fun light_deploy_nodes :: "u32 \<Rightarrow> u32 list \<Rightarrow> znet_light \<Rightarrow> (u32 \<times> deployment) list \<Rightarrow> znet_light \<times> (u32 \<times> deployment) list" where
  "light_deploy_nodes twinID [] z dls = (z, dls)"
| "light_deploy_nodes twinID (n # nodes) z dls =
     (let w = znet_light_workload z (case map_of (znl_nodes_ip_range z) n of Some r \<Rightarrow> r | None \<Rightarrow> nil_net) light_metadata_text
                (case map_of (znl_mycelium_keys z) n of Some k \<Rightarrow> k | None \<Rightarrow> []);
          (m, z') = znet_light_generate_metadata z
      in light_deploy_nodes twinID nodes z' (AList.update n ((new_grid_deployment twinID [w])\<lparr>dl_metadata := m\<rparr>) dls))"

text \<open>The error or the deployments, and the network.\<close>

definition light_generate_deployments :: "u32 \<Rightarrow> znet_light \<Rightarrow> ((string + (u32 \<times> deployment) list) \<times> znet_light) option" where
  "light_generate_deployments twinID z =
     (case light_assign_nodes_ips (znl_nodes z) z of
        None \<Rightarrow> None
      | Some (Some e, z1) \<Rightarrow> Some (Inl (''could not assign node ips: '' @ e), z1)
      | Some (None, z1) \<Rightarrow> (case light_deploy_nodes twinID (znl_nodes z1) z1 [] of (z2, dls) \<Rightarrow> Some (Inr dls, z2)))"

section \<open>Reading deployments back\<close>

fun light_read_workloads :: "gt_api \<Rightarrow> u32 \<Rightarrow> workload list \<Rightarrow> (u32 \<times> ip_net) list \<Rightarrow> string + (u32 \<times> ip_net) list" where
  "light_read_workloads api4 node [] r = Inr r"
| "light_read_workloads api4 node (wl # wls) r =
     (if wl_type wl \<noteq> NetworkLightType then light_read_workloads api4 node wls r
      else case network_light_workload api4 wl of
        Inl e \<Rightarrow> Inl (''could not parse workload data: '' @ e)
      | Inr d \<Rightarrow> light_read_workloads api4 node wls (AList.update node (nl_subnet d) r))"

fun light_read_deployments :: "gt_api \<Rightarrow> (u32 \<times> deployment) list \<Rightarrow> (u32 \<times> ip_net) list \<Rightarrow> string + (u32 \<times> ip_net) list" where
  "light_read_deployments api4 [] r = Inr r"
| "light_read_deployments api4 ((node, d) # ds) r =
     (case light_read_workloads api4 node (dl_workloads d) r of
        Inl e \<Rightarrow> Inl e
      | Inr r' \<Rightarrow> light_read_deployments api4 ds r')"

definition light_read_nodes_config :: "gt_api \<Rightarrow> (u32 \<times> deployment) list \<Rightarrow> znet_light \<Rightarrow> string option \<times> znet_light" where
  "light_read_nodes_config api4 dls z =
     (case light_read_deployments api4 dls [] of
        Inl e \<Rightarrow> (Some e, z)
      | Inr r \<Rightarrow> (None, z\<lparr>znl_nodes_ip_range := r\<rparr>))"

section \<open>Facts\<close>

text \<open>The network without access from outside that has the same addresses.\<close>

definition as_znet :: "znet_light \<Rightarrow> znet" where
  "as_znet z = \<lparr>zn_name = znl_name z, zn_description = znl_description z, zn_nodes = znl_nodes z, zn_ip_range = znl_ip_range z,
     zn_add_wg_access = False, zn_mycelium_keys = znl_mycelium_keys z, zn_solution_type = znl_solution_type z,
     zn_access_wg_config = [], zn_external_ip = None, zn_external_sk = zero_key, zn_public_node_id = znl_public_node_id z,
     zn_nodes_ip_range = znl_nodes_ip_range z, zn_node_deployment_id = znl_node_deployment_id z, zn_wg_port = [], zn_keys = []\<rparr>"

lemma as_znet_sel [simp]:
  "zn_ip_range (as_znet z) = znl_ip_range z" "zn_nodes_ip_range (as_znet z) = znl_nodes_ip_range z"
  "zn_add_wg_access (as_znet z) = False" "zn_nodes (as_znet z) = znl_nodes z"
  by (simp_all add: as_znet_def)

lemma as_znet_ranges: "as_znet (z\<lparr>znl_nodes_ip_range := r\<rparr>) = (as_znet z)\<lparr>zn_nodes_ip_range := r\<rparr>"
  by (simp add: as_znet_def)

lemma light_assignment_refines:
  "map_option (map_prod id as_znet) (light_assign_nodes_ips nodes z) = assign_nodes_ips nodes (as_znet z)"
  by (auto simp: light_assign_nodes_ips_def assign_nodes_ips_def Let_def as_znet_ranges map_option_case
      split: option.splits sum.splits)

lemma light_deploy_nodes_shape:
  "light_deploy_nodes twinID nodes z dls = (z', dls') \<Longrightarrow>
     znl_nodes_ip_range z' = znl_nodes_ip_range z
     \<and> (\<forall>n. map_of dls' n \<noteq> None \<longleftrightarrow> map_of dls n \<noteq> None \<or> n \<in> set nodes)
     \<and> (\<forall>n \<in> set nodes. \<exists>w. map (wl_type) (dl_workloads (the (map_of dls' n))) = [NetworkLightType]
          \<and> dl_workloads (the (map_of dls' n)) = [w] \<and> wl_name w = znl_name z)"
proof (induction nodes arbitrary: z dls)
  case (Cons n nodes)
  obtain m z1 where m: "znet_light_generate_metadata z = (m, z1)" by fastforce
  have z1: "znl_nodes_ip_range z1 = znl_nodes_ip_range z" "znl_name z1 = znl_name z"
    using m by (auto simp: znet_light_generate_metadata_def Let_def split: if_splits)
  show ?case
  proof (cases "n \<in> set nodes")
    case True
    then show ?thesis using Cons.IH [of z1] Cons.prems z1 by (auto simp: m Let_def update_conv')
  next
    case False
    have keep: "map_of dls' n = map_of d0 n" if "light_deploy_nodes twinID nodes z1 d0 = (z', dls')" for d0
      using that False
    proof (induction nodes arbitrary: z1 d0)
      case (Cons a nodes)
      then show ?case by (auto simp: Let_def update_conv' split: prod.splits)
    qed simp
    show ?thesis using Cons.IH [of z1] Cons.prems z1 keep
      by (auto simp: m Let_def update_conv' znet_light_workload_def new_grid_deployment_def)
  qed
qed simp

end
