(* ===== verification/GridState.thy ===== *)
theory GridState
  imports K8s ZnetLight NodeFilter NetworkState Deployer
begin

text \<open>
  The state the client keeps of its account (\<open>grid-client/state/state.go\<close>): the contracts of each node and the networks,
  and the loading of workloads, networks and clusters from the nodes. \<open>client\<close> is the record of the clients every
  deployer is given: the deployer's calls, the calls of networks, of the node search, of the account and of nodes. A panic
  is \<open>None\<close>. \<open>errors.Wrapf\<close> of a nil error is nil: a contract without metadata ends a search without an error.
  Maps are association lists in the order they are ranged over.
\<close>

record ('o, 'w) client =
  cl_dep :: "'w deploy_env"
  cl_net :: "'w net_env"
  cl_filter :: "('o, 'w) filter_env"
  cl_no_others :: 'o
  cl_codec :: gt_codec
  cl_sorts :: match_sorts
  cl_balance :: "'w \<Rightarrow> (string + int) \<times> 'w"
  cl_private_ips :: "u32 \<Rightarrow> string \<Rightarrow> 'w \<Rightarrow> (string + string list) \<times> 'w"
  cl_public_ip4 :: "u32 \<Rightarrow> 'w \<Rightarrow> (string + ip) \<times> 'w"

abbreviation cl_wl :: "('o, 'w) client \<Rightarrow> wl_env" where "cl_wl cl \<equiv> dv_wl (cl_dep cl)"
abbreviation cl_chain :: "('o, 'w) client \<Rightarrow> 'w chain" where "cl_chain cl \<equiv> dv_chain (cl_dep cl)"
abbreviation cl_api3 :: "('o, 'w) client \<Rightarrow> gt_api" where "cl_api3 cl \<equiv> we_api3 (cl_wl cl)"
abbreviation cl_api4 :: "('o, 'w) client \<Rightarrow> gt_api" where "cl_api4 cl \<equiv> we_api4 (cl_wl cl)"

section \<open>The contracts of the nodes\<close>

record grid_state =
  gs_contracts :: "(u32 \<times> u64 list) list"
  gs_networks :: network_state

definition new_grid_state :: grid_state where
  "new_grid_state = \<lparr>gs_contracts = [], gs_networks = Map.empty\<rparr>"

definition node_contracts :: "grid_state \<Rightarrow> u32 \<Rightarrow> u64 list" where
  "node_contracts st node = (case map_of (gs_contracts st) node of Some ids \<Rightarrow> ids | None \<Rightarrow> [])"

definition set_contracts :: "u32 \<Rightarrow> u64 list \<Rightarrow> grid_state \<Rightarrow> grid_state" where
  "set_contracts node ids st = st\<lparr>gs_contracts := AList.update node ids (gs_contracts st)\<rparr>"

definition store_contract :: "u32 \<Rightarrow> u64 \<Rightarrow> grid_state \<Rightarrow> grid_state" where
  "store_contract node i st =
     (if contains (node_contracts st node) i then st else set_contracts node (node_contracts st node @ [i]) st)"

definition store_contract_ids :: "u32 \<Rightarrow> u64 list \<Rightarrow> grid_state \<Rightarrow> grid_state" where
  "store_contract_ids node ids st = fold (store_contract node) ids st"

definition remove_contract :: "u32 \<Rightarrow> u64 \<Rightarrow> grid_state \<Rightarrow> grid_state" where
  "remove_contract node i st = set_contracts node (delete_elem (node_contracts st node) i) st"

definition remove_contract_ids :: "u32 \<Rightarrow> u64 list \<Rightarrow> grid_state \<Rightarrow> grid_state" where
  "remove_contract_ids node ids st = fold (remove_contract node) ids st"

section \<open>Finding a workload\<close>

definition zero_workload :: workload where
  "zero_workload = \<lparr>wl_version = 0, wl_name = [], wl_type = [], wl_data = [], wl_metadata = [], wl_description = [],
     wl_result = zero_result\<rparr>"

definition zero_deployment :: deployment where
  "zero_deployment = \<lparr>dl_version = 0, dl_twin = 0, dl_contract = 0, dl_metadata = [], dl_description = [], dl_expiration = 0,
     dl_requirement = \<lparr>sr_requests = [], sr_weight_required = 0, sr_signatures = [], sr_style = []\<rparr>, dl_workloads = []\<rparr>"

text \<open>
  The deployment with its metadata, from the contract when the node has none; \<open>Inl None\<close>: neither has any, and the
  caller returns the nil error.
\<close>

definition with_metadata :: "'w deploy_env \<Rightarrow> u32 \<Rightarrow> u64 \<Rightarrow> deployment \<Rightarrow> 'w \<Rightarrow> (string option + deployment) \<times> 'w" where
  "with_metadata env node contractID dl w =
     (if length (trim_space (dl_metadata dl)) \<noteq> 0 then (Inr dl, w)
      else case sub_get_contract (dv_chain env) contractID w of
        (Inl e, w') \<Rightarrow> (Inl (Some (''could not get contract '' @ dec_text (unat contractID) @ '' from node '' @ dec_text (unat node)
          @ '': '' @ ce_text e)), w')
      | (Inr c, w') \<Rightarrow>
          if length (trim_space (cc_deployment_data c)) = 0 then (Inl None, w')
          else (Inr (dl\<lparr>dl_metadata := cc_deployment_data c\<rparr>), w'))"

text \<open>A deployment of a node with its metadata and what the metadata says; \<open>what\<close> and \<open>bad\<close> are texts of its errors.\<close>

definition read_deployment :: "'w deploy_env \<Rightarrow> string \<Rightarrow> string \<Rightarrow> u32 \<Rightarrow> u64 \<Rightarrow> 'w
    \<Rightarrow> (string option + deployment \<times> deployment_data) \<times> 'w" where
  "read_deployment env what bad node contractID w =
     (case dv_get env node contractID w of
        (Inl e, w1) \<Rightarrow> (Inl (Some (what @ dec_text (unat contractID) @ '' from node '' @ dec_text (unat node) @ '': '' @ e)), w1)
      | (Inr dl, w1) \<Rightarrow>
     (case with_metadata env node contractID dl w1 of
        (Inl e, w2) \<Rightarrow> (Inl e, w2)
      | (Inr dl', w2) \<Rightarrow>
     (case parse_deployment_data (dl_metadata dl') of
        None \<Rightarrow> (Inl (Some bad), w2)
      | Some dd \<Rightarrow> (Inr (dl', dd), w2))))"

fun find_workload :: "'w deploy_env \<Rightarrow> u32 \<Rightarrow> string \<Rightarrow> string \<Rightarrow> u64 list \<Rightarrow> 'w \<Rightarrow> (string + workload \<times> deployment) \<times> 'w" where
  "find_workload env node name deploymentName [] w = (Inl (''failed to find workload '' @ quoted name @ '': not found''), w)"
| "find_workload env node name deploymentName (i # ids) w =
     (case read_deployment env ''could not get deployment '' (''could not get deployment '' @ dec_text (unat i) @ '' data'') node i w of
        (Inl (Some e), w') \<Rightarrow> (Inl e, w')
      | (Inl None, w') \<Rightarrow> (Inr (zero_workload, zero_deployment), w')
      | (Inr (dl, dd), w') \<Rightarrow>
          if dd_name dd \<noteq> deploymentName then find_workload env node name deploymentName ids w'
          else if name = [] then (Inr (zero_workload, dl), w')
          else (case find (\<lambda>wl. wl_name wl = name) (dl_workloads dl) of
             Some wl \<Rightarrow> (Inr (wl, dl), w')
           | None \<Rightarrow> find_workload env node name deploymentName ids w'))"

definition get_workload_in_deployment ::
  "('o, 'w) client \<Rightarrow> grid_state \<Rightarrow> u32 \<Rightarrow> string \<Rightarrow> string \<Rightarrow> 'w \<Rightarrow> (string + workload \<times> deployment) \<times> 'w" where
  "get_workload_in_deployment cl st node name deploymentName w =
     (case map_of (gs_contracts st) node of
        None \<Rightarrow> (Inl (''failed to find deployment '' @ name @ '' on node '' @ dec_text (unat node) @ '': not found''), w)
      | Some ids \<Rightarrow>
          (case dv_client (cl_dep cl) node w of
             (Some e, w') \<Rightarrow> (Inl (''could not get node client: '' @ dec_text (unat node) @ '': '' @ e), w')
           | (None, w') \<Rightarrow> find_workload (cl_dep cl) node name deploymentName ids w'))"

section \<open>Loading one workload\<close>

text \<open>The workload of the name, read by \<open>f\<close>; the text of the deployment is left out of the error.\<close>

definition load_workload :: "('o, 'w) client \<Rightarrow> grid_state \<Rightarrow> u32 \<Rightarrow> string \<Rightarrow> string
    \<Rightarrow> (workload \<Rightarrow> deployment \<Rightarrow> string + 'a) \<Rightarrow> 'w \<Rightarrow> (string + 'a) \<times> 'w" where
  "load_workload cl st node name deploymentName f w =
     (case get_workload_in_deployment cl st node name deploymentName w of
        (Inl e, w') \<Rightarrow> (Inl (''could not get workload from node '' @ dec_text (unat node) @ '': '' @ e), w')
      | (Inr (wl, dl), w') \<Rightarrow> (f wl dl, w'))"

definition load_disk :: "('o, 'w) client \<Rightarrow> grid_state \<Rightarrow> u32 \<Rightarrow> string \<Rightarrow> string \<Rightarrow> 'w \<Rightarrow> (string + disk) \<times> 'w" where
  "load_disk cl st node name dn w = load_workload cl st node name dn (\<lambda>wl _. new_disk_from_workload (cl_wl cl) wl) w"

definition load_volume :: "('o, 'w) client \<Rightarrow> grid_state \<Rightarrow> u32 \<Rightarrow> string \<Rightarrow> string \<Rightarrow> 'w \<Rightarrow> (string + volume) \<times> 'w" where
  "load_volume cl st node name dn w = load_workload cl st node name dn (\<lambda>wl _. new_volume_from_workload (cl_wl cl) wl) w"

definition load_qsfs :: "('o, 'w) client \<Rightarrow> grid_state \<Rightarrow> u32 \<Rightarrow> string \<Rightarrow> string \<Rightarrow> 'w \<Rightarrow> (string + qsfs_wl) \<times> 'w" where
  "load_qsfs cl st node name dn w = load_workload cl st node name dn (\<lambda>wl _. new_qsfs_from_workload (cl_wl cl) wl) w"

definition load_zdb :: "('o, 'w) client \<Rightarrow> grid_state \<Rightarrow> u32 \<Rightarrow> string \<Rightarrow> string \<Rightarrow> 'w \<Rightarrow> (string + zdb) \<times> 'w" where
  "load_zdb cl st node name dn w = load_workload cl st node name dn (\<lambda>wl _. new_zdb_from_workload (cl_wl cl) wl) w"

text \<open>Reading a machine can panic: the function's value is the option.\<close>

definition lift_option :: "(string + 'a option) \<times> 'w \<Rightarrow> ((string + 'a) \<times> 'w) option" where
  "lift_option r = (case r of (Inl e, w) \<Rightarrow> Some (Inl e, w) | (Inr None, w) \<Rightarrow> None | (Inr (Some x), w) \<Rightarrow> Some (Inr x, w))"

definition flip_result :: "(string + 'a) option \<Rightarrow> string + 'a option" where
  "flip_result r = (case r of None \<Rightarrow> Inr None | Some (Inl e) \<Rightarrow> Inl e | Some (Inr x) \<Rightarrow> Inr (Some x))"

definition load_vm :: "('o, 'w) client \<Rightarrow> grid_state \<Rightarrow> u32 \<Rightarrow> string \<Rightarrow> string \<Rightarrow> 'w \<Rightarrow> ((string + vm) \<times> 'w) option" where
  "load_vm cl st node name dn w =
     lift_option (load_workload cl st node name dn (\<lambda>wl dl. flip_result (new_vm_from_workload (cl_wl cl) wl dl node)) w)"

definition load_vm_light :: "('o, 'w) client \<Rightarrow> grid_state \<Rightarrow> u32 \<Rightarrow> string \<Rightarrow> string \<Rightarrow> 'w
    \<Rightarrow> ((string + vm_light) \<times> 'w) option" where
  "load_vm_light cl st node name dn w =
     lift_option (load_workload cl st node name dn (\<lambda>wl dl. flip_result (new_vm_light_from_workload (cl_wl cl) wl dl node)) w)"

definition load_gateway_fqdn :: "('o, 'w) client \<Rightarrow> grid_state \<Rightarrow> u32 \<Rightarrow> string \<Rightarrow> string \<Rightarrow> 'w \<Rightarrow> (string + gateway_fqdn) \<times> 'w" where
  "load_gateway_fqdn cl st node name dn w =
     load_workload cl st node name dn (\<lambda>wl dl.
       case parse_deployment_data (dl_metadata dl) of
         None \<Rightarrow> Inl (''could not generate deployment metadata for '' @ name)
       | Some dd \<Rightarrow> map_sum id (\<lambda>g. g\<lparr>gf_contract_id := dl_contract dl, gf_node_id := node,
           gf_solution_type := dd_project_name dd, gf_node_deployment_id := [(node, dl_contract dl)]\<rparr>)
           (new_gateway_fqdn_from_workload (cl_wl cl) (workload3 wl))) w"

text \<open>The workload has the name of its deployment; the name contract is looked up by the gateway's name.\<close>

definition load_gateway_name :: "('o, 'w) client \<Rightarrow> grid_state \<Rightarrow> u32 \<Rightarrow> string \<Rightarrow> string \<Rightarrow> 'w \<Rightarrow> (string + gateway_name) \<times> 'w" where
  "load_gateway_name cl st node name deploymentName w =
     (case get_workload_in_deployment cl st node deploymentName deploymentName w of
        (Inl e, w1) \<Rightarrow> (Inl (''could not get workload from node '' @ dec_text (unat node) @ '': '' @ e), w1)
      | (Inr (wl, dl), w1) \<Rightarrow>
     (case contract_id_by_name (cl_chain cl) name w1 of
        (Inl e, w2) \<Rightarrow> (Inl (''failed to get gateway name contract '' @ name @ '': '' @ ce_text e), w2)
      | (Inr nameContractID, w2) \<Rightarrow>
     (case parse_deployment_data (dl_metadata dl) of
        None \<Rightarrow> (Inl (''could not generate deployment metadata for '' @ deploymentName), w2)
      | Some dd \<Rightarrow>
          (map_sum id (\<lambda>g. g\<lparr>gn_name_contract_id := nameContractID, gn_contract_id := dl_contract dl, gn_node_id := node,
             gn_solution_type := dd_project_name dd, gn_node_deployment_id := [(node, dl_contract dl)]\<rparr>)
             (new_gateway_name_from_workload (cl_wl cl) (cl_codec cl) (workload3 wl)), w2))))"

section \<open>Loading a network\<close>

text \<open>
  What is collected over the deployments: the parts of the network, the contract of each node, the text of the public
  node's endpoint. \<open>parse\<close> reads a part from a workload, \<open>endpoint\<close> asks a public node.
\<close>

record 'n loaded =
  ld_nets :: "'n list"
  ld_ids :: "(u32 \<times> u64) list"
  ld_endpoint :: string

record ('n, 'w) net_reader =
  rd_kind :: string
  rd_name :: string
  rd_parse :: "u32 \<Rightarrow> deployment_data \<Rightarrow> workload \<Rightarrow> string + 'n"
  rd_endpoint :: "u32 \<Rightarrow> 'n \<Rightarrow> string \<Rightarrow> 'w \<Rightarrow> (string + string) \<times> 'w"

text \<open>The flag tells that a contract without metadata ended the search.\<close>

fun load_contracts :: "'w deploy_env \<Rightarrow> ('n, 'w) net_reader \<Rightarrow> u32 \<Rightarrow> u64 list \<Rightarrow> 'n loaded \<Rightarrow> 'w
    \<Rightarrow> (string + bool \<times> 'n loaded) \<times> 'w" where
  "load_contracts env rd node [] acc w = (Inr (False, acc), w)"
| "load_contracts env rd node (i # ids) acc w =
     (case read_deployment env ''could not get network deployment ''
             (''could not generate deployment metadata for '' @ rd_name rd) node i w of
        (Inl (Some e), w1) \<Rightarrow> (Inl e, w1)
      | (Inl None, w1) \<Rightarrow> (Inr (True, acc), w1)
      | (Inr (dl, dd), w1) \<Rightarrow>
     (case find (\<lambda>wl. wl_type wl = rd_kind rd \<and> wl_name wl = rd_name rd) (dl_workloads dl) of
        None \<Rightarrow> load_contracts env rd node ids acc w1
      | Some wl \<Rightarrow>
     (case rd_parse rd node dd wl of
        Inl e \<Rightarrow> (Inl (''failed to get network from workload '' @ rd_name rd @ '': '' @ e), w1)
      | Inr n \<Rightarrow>
     (case rd_endpoint rd node n (ld_endpoint acc) w1 of
        (Inl e, w2) \<Rightarrow> (Inl (''failed to get node '' @ dec_text (unat node) @ '' endpoint: '' @ e), w2)
      | (Inr t, w2) \<Rightarrow>
          load_contracts env rd node ids
            \<lparr>ld_nets = ld_nets acc @ [n], ld_ids = AList.update node (dl_contract dl) (ld_ids acc), ld_endpoint = t\<rparr> w2))))"

fun load_nodes :: "'w deploy_env \<Rightarrow> ('n, 'w) net_reader \<Rightarrow> (u32 \<times> u64 list) list \<Rightarrow> 'n loaded \<Rightarrow> 'w
    \<Rightarrow> (string + bool \<times> 'n loaded) \<times> 'w" where
  "load_nodes env rd [] acc w = (Inr (False, acc), w)"
| "load_nodes env rd ((node, ids) # nodes) acc w =
     (case dv_client env node w of
        (Some e, w1) \<Rightarrow> (Inl (''could not get node client: '' @ dec_text (unat node) @ '': '' @ e), w1)
      | (None, w1) \<Rightarrow>
     (case load_contracts env rd node ids acc w1 of
        (Inl e, w2) \<Rightarrow> (Inl e, w2)
      | (Inr (True, acc'), w2) \<Rightarrow> (Inr (True, acc'), w2)
      | (Inr (False, acc'), w2) \<Rightarrow> load_nodes env rd nodes acc' w2))"

definition no_parts :: "'n loaded" where
  "no_parts = \<lparr>ld_nets = [], ld_ids = [], ld_endpoint = []\<rparr>"

text \<open>\<open>maps.Copy\<close>: the parts' maps into one, a later part's entry replacing an earlier one's.\<close>

definition merge_maps :: "('n \<Rightarrow> (u32 \<times> 'v) list) \<Rightarrow> 'n list \<Rightarrow> (u32 \<times> 'v) list" where
  "merge_maps f ns = fold (\<lambda>n m. fold (\<lambda>(k, v). AList.update k v) (f n) m) ns []"

definition zero_znet :: znet where
  "zero_znet = \<lparr>zn_name = [], zn_description = [], zn_nodes = [], zn_ip_range = nil_net, zn_add_wg_access = False,
     zn_mycelium_keys = [], zn_solution_type = [], zn_access_wg_config = [], zn_external_ip = None,
     zn_external_sk = zero_key, zn_public_node_id = 0, zn_nodes_ip_range = [], zn_node_deployment_id = [],
     zn_wg_port = [], zn_keys = []\<rparr>"

definition zero_znet_light :: znet_light where
  "zero_znet_light = \<lparr>znl_name = [], znl_description = [], znl_solution_type = [], znl_nodes = [], znl_ip_range = nil_net,
     znl_mycelium_keys = [], znl_public_node_id = 0, znl_nodes_ip_range = [], znl_node_deployment_id = []\<rparr>"

definition last_or :: "'n \<Rightarrow> 'n list \<Rightarrow> 'n" where
  "last_or z ns = (if ns = [] then z else last ns)"

definition network_reader :: "('o, 'w) client \<Rightarrow> string \<Rightarrow> (znet, 'w) net_reader" where
  "network_reader cl name = \<lparr>rd_kind = NetworkType, rd_name = name,
     rd_parse = (\<lambda>node dd wl. map_sum id (\<lambda>z. z\<lparr>zn_solution_type := dd_project_name dd\<rparr>)
       (new_network_from_workload (cl_api3 cl) (cl_net cl) wl node)),
     rd_endpoint = (\<lambda>node z t w.
       if zn_public_node_id z \<noteq> node then (Inr t, w)
       else case node_endpoint (cl_net cl) node w of
         (Endpoint p, w') \<Rightarrow> (Inr (ip_text p), w')
       | (NoAccessibleInterface, w') \<Rightarrow> (Inl ''could not find a publicly accessible ipv4 or ipv6'', w')
       | (EndpointError e, w') \<Rightarrow> (Inl e, w'))\<rparr>"

definition merge_network :: "znet loaded \<Rightarrow> znet" where
  "merge_network acc =
     (last_or zero_znet (ld_nets acc))\<lparr>zn_node_deployment_id := ld_ids acc,
        zn_nodes := concat (map zn_nodes (ld_nets acc)),
        zn_nodes_ip_range := merge_maps zn_nodes_ip_range (ld_nets acc),
        zn_mycelium_keys := merge_maps zn_mycelium_keys (ld_nets acc),
        zn_keys := merge_maps zn_keys (ld_nets acc),
        zn_wg_port := merge_maps zn_wg_port (ld_nets acc)\<rparr>"

text \<open>The access configuration of a merged network.\<close>

definition with_access_config :: "'w net_env \<Rightarrow> string \<Rightarrow> znet \<Rightarrow> znet option" where
  "with_access_config env endpoint z =
     (if \<not> zn_add_wg_access z then Some z
      else case zn_external_ip z of
        None \<Rightarrow> None
      | Some e \<Rightarrow>
          map_option (\<lambda>g. z\<lparr>zn_access_wg_config := generate_wg_config (ip_text (IP g)) (wg_string env (zn_external_sk z))
            (wg_string env (wg_public env (key_of z (zn_public_node_id z))))
            (endpoint @ '':'' @ int_text (port_of z (zn_public_node_id z))) (net_text (zn_ip_range z))\<rparr>) (wg_ip e))"

definition load_network_from_grid :: "('o, 'w) client \<Rightarrow> string \<Rightarrow> grid_state \<Rightarrow> 'w
    \<Rightarrow> (((string + znet) \<times> grid_state) \<times> 'w) option" where
  "load_network_from_grid cl name st w =
     (case load_nodes (cl_dep cl) (network_reader cl name) (gs_contracts st) no_parts w of
        (Inl e, w') \<Rightarrow> Some ((Inl e, st), w')
      | (Inr (True, acc), w') \<Rightarrow> Some ((Inr (last_or zero_znet (ld_nets acc)), st), w')
      | (Inr (False, acc), w') \<Rightarrow>
          if ld_nets acc = [] then Some ((Inl (''failed to get network '' @ name @ '': not found''), st), w')
          else map_option (\<lambda>z. ((Inr z, st\<lparr>gs_networks := update_network_subnets (zn_name z) (zn_nodes_ip_range z)
                 (gs_networks st)\<rparr>), w'))
                 (with_access_config (cl_net cl) (ld_endpoint acc) (merge_network acc)))"

definition light_reader :: "('o, 'w) client \<Rightarrow> string \<Rightarrow> (znet_light, 'w) net_reader" where
  "light_reader cl name = \<lparr>rd_kind = NetworkLightType, rd_name = name,
     rd_parse = (\<lambda>node dd wl. map_sum id (\<lambda>z. z\<lparr>znl_solution_type := dd_project_name dd\<rparr>)
       (new_network_light_from_workload (cl_api4 cl) wl node)),
     rd_endpoint = (\<lambda>node z t w. (Inr t, w))\<rparr>"

definition merge_network_light :: "znet_light loaded \<Rightarrow> znet_light" where
  "merge_network_light acc =
     (last_or zero_znet_light (ld_nets acc))\<lparr>znl_node_deployment_id := ld_ids acc,
        znl_nodes := concat (map znl_nodes (ld_nets acc)),
        znl_nodes_ip_range := merge_maps znl_nodes_ip_range (ld_nets acc),
        znl_mycelium_keys := merge_maps znl_mycelium_keys (ld_nets acc)\<rparr>"

definition load_network_light_from_grid :: "('o, 'w) client \<Rightarrow> string \<Rightarrow> grid_state \<Rightarrow> 'w
    \<Rightarrow> ((string + znet_light) \<times> grid_state) \<times> 'w" where
  "load_network_light_from_grid cl name st w =
     (case load_nodes (cl_dep cl) (light_reader cl name) (gs_contracts st) no_parts w of
        (Inl e, w') \<Rightarrow> ((Inl e, st), w')
      | (Inr (True, acc), w') \<Rightarrow> ((Inr (last_or zero_znet_light (ld_nets acc)), st), w')
      | (Inr (False, acc), w') \<Rightarrow>
          if ld_nets acc = [] then ((Inl (''failed to get network '' @ name @ '': not found''), st), w')
          else (let z = merge_network_light acc in
                ((Inr z, st\<lparr>gs_networks := update_network_subnets (znl_name z) (znl_nodes_ip_range z) (gs_networks st)\<rparr>), w')))"

section \<open>Loading a deployment\<close>

definition load_some_network :: "('o, 'w) client \<Rightarrow> string \<Rightarrow> grid_state \<Rightarrow> 'w \<Rightarrow> ((string option \<times> grid_state) \<times> 'w) option" where
  "load_some_network cl name st w =
     (case load_network_from_grid cl name st w of
        None \<Rightarrow> None
      | Some ((Inr _, st1), w1) \<Rightarrow> Some ((None, st1), w1)
      | Some ((Inl _, st1), w1) \<Rightarrow>
          (case load_network_light_from_grid cl name st1 w1 of
             ((Inr _, st2), w2) \<Rightarrow> Some ((None, st2), w2)
           | ((Inl e, st2), w2) \<Rightarrow> Some ((Some (''failed to load network '' @ name @ '': '' @ e), st2), w2)))"

definition load_deployment_from_grid :: "('o, 'w) client \<Rightarrow> u32 \<Rightarrow> string \<Rightarrow> grid_state \<Rightarrow> 'w
    \<Rightarrow> (((string + wl_deployment) \<times> grid_state) \<times> 'w) option" where
  "load_deployment_from_grid cl node name st w =
     (case get_workload_in_deployment cl st node [] name w of
        (Inl e, w1) \<Rightarrow> Some ((Inl e, st), w1)
      | (Inr (_, dl), w1) \<Rightarrow>
     (case new_wl_deployment_from_zos (cl_wl cl) dl node of
        None \<Rightarrow> None
      | Some (Inl e) \<Rightarrow> Some ((Inl e, st), w1)
      | Some (Inr d) \<Rightarrow>
          if wd_network_name d = [] then Some ((Inr d, st), w1)
          else
     (case load_some_network cl (wd_network_name d) st w1 of
        None \<Rightarrow> None
      | Some ((Some e, st1), w2) \<Rightarrow> Some ((Inl e, st1), w2)
      | Some ((None, st1), w2) \<Rightarrow>
          (case get_network (wd_network_name d) (gs_networks st1) of
             (n, nets) \<Rightarrow> Some ((Inr (d\<lparr>wd_ip_range := get_node_subnet n node\<rparr>), st1\<lparr>gs_networks := nets\<rparr>), w2)))))"

section \<open>Loading a cluster\<close>

text \<open>\<open>gridtypes.ParseIPNet\<close> is the function the package's own \<open>ParseIPNet\<close> is a copy of.\<close>

fun worker_ranges :: "(string \<Rightarrow> ip option) \<Rightarrow> subnets \<Rightarrow> k8s_node list \<Rightarrow> (u32 \<times> ip_net) list \<Rightarrow> string + (u32 \<times> ip_net) list" where
  "worker_ranges parse6 n [] m = Inr m"
| "worker_ranges parse6 n (v # vs) m =
     (case parse_ip_net parse6 (get_node_subnet n (kn_node v)) of
        Inl e \<Rightarrow> Inl (''could not parse worker node ('' @ dec_text (unat (kn_node v)) @ '') ip range: '' @ e)
      | Inr r \<Rightarrow> worker_ranges parse6 n vs (AList.update (kn_node v) r m))"

definition assign_nodes_ip_range :: "('o, 'w) client \<Rightarrow> k8s_cluster \<Rightarrow> grid_state
    \<Rightarrow> (string option \<times> k8s_cluster \<times> grid_state) option" where
  "assign_nodes_ip_range cl k st =
     (case get_network (kc_network_name k) (gs_networks st) of
        (n, nets) \<Rightarrow>
          map_option (\<lambda>m.
            let st' = st\<lparr>gs_networks := nets\<rparr>; parse6 = we_parse_ip6 (cl_wl cl) in
            case parse_ip_net parse6 (get_node_subnet n (kn_node m)) of
              Inl e \<Rightarrow> (Some (''could not parse master node ip range: '' @ e), k, st')
            | Inr r \<Rightarrow>
                (case worker_ranges parse6 n (kc_workers k) [(kn_node m, r)] of
                   Inl e \<Rightarrow> (Some e, k, st')
                 | Inr ranges \<Rightarrow> (None, k\<lparr>kc_nodes_ip_range := ranges\<rparr>, st'))) (kc_master k))"

text \<open>The sizes of the disks and the public addresses of a deployment, by the names of their workloads.\<close>

record k8s_resources =
  kr_disks :: "(string \<times> u64) list"
  kr_ips :: "(string \<times> string) list"
  kr_ip6s :: "(string \<times> string) list"

definition no_resources :: k8s_resources where
  "no_resources = \<lparr>kr_disks = [], kr_ips = [], kr_ip6s = []\<rparr>"

fun scan_resources :: "wl_env \<Rightarrow> workload list \<Rightarrow> k8s_resources \<Rightarrow> (string + k8s_resources) option" where
  "scan_resources env [] r = Some (Inr r)"
| "scan_resources env (w # ws) r =
     (if wl_type w = PublicIPType then
        (case we_public_ip_result env (rs_data (wl_result w)) of
           Inl e \<Rightarrow> Some (Inl (''failed to load public ip data: '' @ e))
         | Inr (p4, p6) \<Rightarrow> scan_resources env ws (r\<lparr>kr_ips := AList.update (wl_name w) (net_text p4) (kr_ips r),
             kr_ip6s := AList.update (wl_name w) (net_text p6) (kr_ip6s r)\<rparr>))
      else if wl_type w = ZMountType then
        (case gt_workload_data (we_api3 env) (workload3 w) of
           Inl e \<Rightarrow> Some (Inl (''failed to load disk data: '' @ e))
         | Inr (PZMount sz) \<Rightarrow>
             scan_resources env ws (r\<lparr>kr_disks := AList.update (wl_name w) (sz div we_gigabyte env) (kr_disks r)\<rparr>)
         | Inr _ \<Rightarrow> None)
      else scan_resources env ws r)"

definition text_at :: "(string \<times> string) list \<Rightarrow> string \<Rightarrow> string" where
  "text_at m k = (case map_of m k of Some t \<Rightarrow> t | None \<Rightarrow> [])"

definition disk_at :: "k8s_resources \<Rightarrow> string \<Rightarrow> u64" where
  "disk_at r name = (case map_of (kr_disks r) (name @ ''disk'') of Some n \<Rightarrow> n | None \<Rightarrow> 0)"

definition is_master_node :: "wl_env \<Rightarrow> gt_workload \<Rightarrow> string + bool" where
  "is_master_node env wl =
     (case gt_workload_data (we_api3 env) wl of
        Inl e \<Rightarrow> Inl (''could not get workload '' @ gw_name wl @ '' data: '' @ e)
      | Inr (PZMachine d) \<Rightarrow> Inr (text_at (zm_env d) ''K3S_URL'' = [])
      | Inr _ \<Rightarrow> Inr False)"

text \<open>The machines of a deployment, put into the cluster.\<close>

fun read_cluster_nodes :: "('o, 'w) client \<Rightarrow> u32 \<Rightarrow> deployment \<Rightarrow> workload list \<Rightarrow> k8s_cluster \<Rightarrow> (string + k8s_cluster) option" where
  "read_cluster_nodes cl node dl [] k = Some (Inr k)"
| "read_cluster_nodes cl node dl (w # ws) k =
     (if wl_type w \<noteq> ZMachineType then read_cluster_nodes cl node dl ws k
      else
     (case scan_resources (cl_wl cl) (dl_workloads dl) no_resources of
        None \<Rightarrow> None
      | Some (Inl e) \<Rightarrow> Some (Inl (''could not compute node '' @ wl_name w @ '', resources: '' @ e))
      | Some (Inr r) \<Rightarrow>
     (case new_k8s_node_from_workload (cl_wl cl) (cl_codec cl) (workload3 w) node (disk_at r (wl_name w))
             (text_at (kr_ips r) (wl_name w @ ''ip'')) (text_at (kr_ip6s r) (wl_name w @ ''ip'')) of
        None \<Rightarrow> None
      | Some (Inl e) \<Rightarrow> Some (Inl (''could not generate node data for '' @ wl_name w @ '': '' @ e))
      | Some (Inr n) \<Rightarrow>
     (case is_master_node (cl_wl cl) (workload3 w) of
        Inl e \<Rightarrow> Some (Inl e)
      | Inr False \<Rightarrow> read_cluster_nodes cl node dl ws (k\<lparr>kc_workers := kc_workers k @ [n]\<rparr>)
      | Inr True \<Rightarrow>
          (case parse_deployment_data (dl_metadata dl) of
             None \<Rightarrow> Some (Inl (''could not generate node deployment metadata for '' @ wl_name w))
           | Some dd \<Rightarrow> read_cluster_nodes cl node dl ws (k\<lparr>kc_master := Some n, kc_solution_type := dd_project_name dd\<rparr>))))))"

fun read_cluster :: "('o, 'w) client \<Rightarrow> (u32 \<times> deployment) list \<Rightarrow> k8s_cluster \<Rightarrow> (string + k8s_cluster) option" where
  "read_cluster cl [] k = Some (Inr k)"
| "read_cluster cl ((node, dl) # dls) k =
     (case read_cluster_nodes cl node dl (dl_workloads dl) k of
        None \<Rightarrow> None
      | Some (Inl e) \<Rightarrow> Some (Inl e)
      | Some (Inr k') \<Rightarrow> read_cluster cl dls k')"

fun cluster_deployments :: "('o, 'w) client \<Rightarrow> grid_state \<Rightarrow> string \<Rightarrow> u32 list \<Rightarrow> (u32 \<times> deployment) list \<Rightarrow> 'w
    \<Rightarrow> (string + (u32 \<times> deployment) list) \<times> 'w" where
  "cluster_deployments cl st dn [] dls w = (Inr dls, w)"
| "cluster_deployments cl st dn (node # nodes) dls w =
     (case get_workload_in_deployment cl st node [] dn w of
        (Inl e, w') \<Rightarrow> (Inl (''could not get deployment '' @ dn @ '': '' @ e), w')
      | (Inr (_, dl), w') \<Rightarrow> cluster_deployments cl st dn nodes (AList.update node dl dls) w')"

definition zero_cluster :: k8s_cluster where
  "zero_cluster = \<lparr>kc_master = None, kc_workers = [], kc_token = [], kc_network_name = [], kc_flist = [],
     kc_flist_checksum = [], kc_entrypoint = [], kc_solution_type = [], kc_ssh_key = [], kc_nodes_ip_range = [],
     kc_node_deployment_id = []\<rparr>"

text \<open>What the cluster takes over from its master.\<close>

definition complete_cluster :: "(u32 \<times> u64) list \<Rightarrow> k8s_node \<Rightarrow> k8s_cluster \<Rightarrow> k8s_cluster" where
  "complete_cluster ids m k =
     (let v = kn_vm m in
      k\<lparr>kc_node_deployment_id := ids, kc_network_name := vm_network_name v, kc_ssh_key := text_at (vm_env_vars v) ''SSH_KEY'',
        kc_token := text_at (vm_env_vars v) ''K3S_TOKEN'', kc_flist := vm_flist v, kc_flist_checksum := vm_flist_checksum v,
        kc_entrypoint := vm_entrypoint v\<rparr>)"

definition load_k8s_from_grid :: "('o, 'w) client \<Rightarrow> u32 list \<Rightarrow> string \<Rightarrow> grid_state \<Rightarrow> 'w
    \<Rightarrow> (((string + k8s_cluster) \<times> grid_state) \<times> 'w) option" where
  "load_k8s_from_grid cl nodes dn st w =
     (case cluster_deployments cl st dn nodes [] w of
        (Inl e, w1) \<Rightarrow> Some ((Inl e, st), w1)
      | (Inr dls, w1) \<Rightarrow>
     (case read_cluster cl dls zero_cluster of
        None \<Rightarrow> None
      | Some (Inl e) \<Rightarrow> Some ((Inl e, st), w1)
      | Some (Inr k) \<Rightarrow>
     (case kc_master k of
        None \<Rightarrow> Some ((Inl (''failed to get master node for k8s cluster '' @ dn @ '': not found''), st), w1)
      | Some m \<Rightarrow>
          (let k' = complete_cluster (map (\<lambda>(n, d). (n, dl_contract d)) dls) m k in
     (case load_network_from_grid cl (kc_network_name k') st w1 of
        None \<Rightarrow> None
      | Some ((Inl e, st1), w2) \<Rightarrow> Some ((Inl (''failed to load network '' @ kc_network_name k' @ '': '' @ e), st1), w2)
      | Some ((Inr _, st1), w2) \<Rightarrow>
     (case assign_nodes_ip_range cl k' st1 of
        None \<Rightarrow> None
      | Some (Some _, _, st2) \<Rightarrow> Some ((Inl (''failed to assign ip ranges for k8s cluster '' @ dn), st2), w2)
      | Some (None, k2, st2) \<Rightarrow> Some ((Inr k2, st2), w2)))))))"

section \<open>Facts\<close>

lemma node_contracts_set [simp]:
  "node_contracts (set_contracts n ids st) m = (if m = n then ids else node_contracts st m)"
  by (simp add: node_contracts_def set_contracts_def update_conv')

lemma node_contracts_store:
  "node_contracts (store_contract n i st) m =
     (if m = n \<and> i \<notin> set (node_contracts st n) then node_contracts st n @ [i] else node_contracts st m)"
  by (simp add: store_contract_def)

lemma node_contracts_remove:
  "node_contracts (remove_contract n i st) m = (if m = n then remove1 i (node_contracts st n) else node_contracts st m)"
  by (simp add: remove_contract_def)

lemma gs_networks_store [simp]: "gs_networks (store_contract n i st) = gs_networks st"
  by (simp add: store_contract_def set_contracts_def)

text \<open>The contracts of a node are kept without repetition, and removing undoes storing.\<close>

definition contracts_distinct :: "grid_state \<Rightarrow> bool" where
  "contracts_distinct st \<longleftrightarrow> (\<forall>n. distinct (node_contracts st n))"

lemma contracts_distinct_store: "contracts_distinct st \<Longrightarrow> contracts_distinct (store_contract n i st)"
  by (simp add: contracts_distinct_def node_contracts_store)

lemma contracts_distinct_store_ids: "contracts_distinct st \<Longrightarrow> contracts_distinct (store_contract_ids n ids st)"
  unfolding store_contract_ids_def by (induction ids arbitrary: st) (simp_all add: contracts_distinct_store)

lemma contracts_distinct_remove: "contracts_distinct st \<Longrightarrow> contracts_distinct (remove_contract n i st)"
  by (simp add: contracts_distinct_def node_contracts_remove)

lemma set_store_contract: "set (node_contracts (store_contract n i st) m) = set (node_contracts st m) \<union> (if m = n then {i} else {})"
  by (auto simp: node_contracts_store)

lemma set_remove_contract:
  "contracts_distinct st \<Longrightarrow>
     set (node_contracts (remove_contract n i st) m) = set (node_contracts st m) - (if m = n then {i} else {})"
  by (auto simp: node_contracts_remove contracts_distinct_def)

text \<open>What a found workload is.\<close>

lemma find_workload_Inr:
  assumes "find_workload env node name dn ids w = (Inr (wl, dl), w')"
  shows "(wl, dl) = (zero_workload, zero_deployment)
    \<or> (\<exists>dd. parse_deployment_data (dl_metadata dl) = Some dd \<and> dd_name dd = dn
         \<and> (if name = [] then wl = zero_workload else wl \<in> set (dl_workloads dl) \<and> wl_name wl = name))"
  using assms
proof (induction ids arbitrary: w)
  case (Cons i ids)
  show ?case
  proof (cases "read_deployment env ''could not get deployment '' (''could not get deployment '' @ dec_text (unat i) @ '' data'') node i w")
    case (Pair r w1)
    show ?thesis
    proof (cases r)
      case (Inl e)
      then show ?thesis using Cons.prems Pair by (cases e) auto
    next
      case (Inr p)
      obtain d dd where p: "p = (d, dd)" by fastforce
      have dd: "parse_deployment_data (dl_metadata d) = Some dd"
        using Pair Inr p by (auto simp: read_deployment_def split: prod.splits sum.splits option.splits)
      show ?thesis
        using Cons Pair Inr p dd
        by (auto split: if_splits option.splits simp: find_Some_iff)
    qed
  qed
qed simp

end
