(* ===== verification/ClientCalls.thy ===== *)
theory ClientCalls
  imports GridState
begin

unbundle bit_operations_syntax

text \<open>
  What the deployers of \<open>grid-client/deployer\<close> share: the check of the account's balance, the reachability of nodes, and
  the search for the contract of a name among the deployments of a batch. A batch returns its errors as a list; no error
  is the empty list. Texts of errors show the balance in its smallest unit.
\<close>

definition validate_balance :: "('o, 'w) client \<Rightarrow> 'w \<Rightarrow> string option \<times> 'w" where
  "validate_balance cl w =
     (case cl_balance cl w of
        (Inl e, w') \<Rightarrow> (Some (''failed to get account with the given mnemonics: '' @ e), w')
      | (Inr free, w') \<Rightarrow>
          (check (free < 20000000) (''account contains '' @ int_text free @ '' tft, min fee is 2 tft''), w'))"

fun are_nodes_up :: "('o, 'w) client \<Rightarrow> u32 list \<Rightarrow> 'w \<Rightarrow> string option \<times> 'w" where
  "are_nodes_up cl [] w = (None, w)"
| "are_nodes_up cl (node # nodes) w =
     (case dv_client (cl_dep cl) node w of
        (Some e, w1) \<Rightarrow> (Some (''could not get node '' @ dec_text (unat node) @ '' client: '' @ e), w1)
      | (None, w1) \<Rightarrow>
          (case is_node_up (cl_net cl) node w1 of
             (Some e, w2) \<Rightarrow> (Some (''could not reach node '' @ dec_text (unat node) @ '': '' @ e), w2)
           | (None, w2) \<Rightarrow> are_nodes_up cl nodes w2))"

definition create_name_contract :: "'w chain \<Rightarrow> string \<Rightarrow> 'w \<Rightarrow> (chain_error + u64) \<times> 'w" where
  "create_name_contract ch name w = normalize_result ch (ch_create_name ch name w)"

text \<open>The last deployment of the name whose contract passes the test; metadata that is no data ends the search.\<close>

fun own_contract :: "(u64 \<Rightarrow> bool) \<Rightarrow> string \<Rightarrow> deployment list \<Rightarrow> u64 option \<Rightarrow> string option \<times> u64 option" where
  "own_contract ok name [] cur = (None, cur)"
| "own_contract ok name (d # ds) cur =
     (case parse_deployment_data (dl_metadata d) of
        None \<Rightarrow> (Some (''could not get deployment '' @ dec_text (unat (dl_contract d)) @ '' data''), cur)
      | Some dd \<Rightarrow> own_contract ok name ds (if dd_name dd = name \<and> ok (dl_contract d) then Some (dl_contract d) else cur))"

abbreviation node_map :: "u32 \<Rightarrow> 'v option \<Rightarrow> (u32 \<times> 'v) list" where
  "node_map node v \<equiv> (case v of None \<Rightarrow> [] | Some x \<Rightarrow> [(node, x)])"

text \<open>The deployments a node has in a map of lists, and one more.\<close>

definition dls_at :: "(u32 \<times> deployment list) list \<Rightarrow> u32 \<Rightarrow> deployment list" where
  "dls_at m node = (case map_of m node of Some ds \<Rightarrow> ds | None \<Rightarrow> [])"

definition add_dl :: "u32 \<Rightarrow> deployment \<Rightarrow> (u32 \<times> deployment list) list \<Rightarrow> (u32 \<times> deployment list) list" where
  "add_dl node d m = AList.update node (dls_at m node @ [d]) m"

definition contract_at :: "(u32 \<times> u64) list \<Rightarrow> u32 \<Rightarrow> u64" where
  "contract_at m node = (case map_of m node of Some i \<Rightarrow> i | None \<Rightarrow> 0)"

section \<open>Host ids\<close>

text \<open>The last byte of an IPv4 address that is given as a text, and the bytes of an address whose last one is overwritten.\<close>

definition last_byte :: "(string \<Rightarrow> ip option) \<Rightarrow> string \<Rightarrow> u8 option" where
  "last_byte parse6 t = (if t = [] then None else case To4 (parse_ip parse6 t) of [_, _, _, h] \<Rightarrow> Some h | _ \<Rightarrow> None)"

definition with_host :: "ip \<Rightarrow> u8 \<Rightarrow> ip" where
  "with_host p h = p[length p - 1 := h]"

lemma with_host_twice [simp]: "with_host (with_host p g) h = with_host p h"
  by (simp add: with_host_def)

lemma with_host_cases:
  assumes "To4 p \<noteq> []"
  obtains a b c where "\<And>h. To4 (with_host p h) = [a, b, c, h]"
proof -
  obtain a b c d where "p = [a, b, c, d] \<or> p = IPv4 a b c d" using To4_cases [OF assms] by blast
  then have "with_host p h = [a, b, c, h] \<or> with_host p h = IPv4 a b c h" for h
    by (auto simp: with_host_def IPv4_def v4_in_v6_def list_update_append)
  then have "To4 (with_host p h) = [a, b, c, h]" for h using To4_IPv4 [of a b c h] To4_four [of a b c h] by metis
  then show thesis by (rule that)
qed

lemma To4_with_host: "To4 p \<noteq> [] \<Longrightarrow> To4 (with_host p h) \<noteq> []"
  by (erule with_host_cases) simp

lemma parse_ip_ip4_text [simp]: "parse_ip parse6 (ip4_text [a, b, c, d]) = IPv4 a b c d"
  by (simp add: parse_ip_def)

lemma ip_text_four [simp]: "ip_text [a, b, c, d] = ip4_text [a, b, c, d]"
  by (simp add: ip_text_def)

lemma host_text:
  assumes "To4 p \<noteq> []"
  shows "\<exists>a b c. To4 (parse_ip parse6 (ip_text (To4 (with_host p h)))) = [a, b, c, h]"
  using with_host_cases [OF assms] by (metis To4_IPv4 ip_text_four parse_ip_ip4_text)

lemma last_byte_host:
  assumes "To4 p \<noteq> []"
  shows "last_byte parse6 (ip_text (To4 (with_host p h))) = Some h"
proof (rule with_host_cases [OF assms])
  fix a b c
  assume "\<And>h. To4 (with_host p h) = [a, b, c, h]"
  moreover have "ip4_text [a, b, c, h] \<noteq> []" by (simp add: ip4_text_def)
  ultimately show ?thesis by (simp add: last_byte_def)
qed

lemma host_ids: "set (map word_of_nat [2..<255]) = {h :: u8. 2 \<le> h \<and> h \<le> 254}"
proof -
  have "h \<in> word_of_nat ` {2..<255} \<longleftrightarrow> 2 \<le> h \<and> h \<le> 254" for h :: u8
  proof
    assume "2 \<le> h \<and> h \<le> 254"
    then have "unat h \<in> {2..<255}" by (simp add: word_le_nat_alt)
    moreover have "h = word_of_nat (unat h)" by simp
    ultimately show "h \<in> word_of_nat ` {2..<255}" by blast
  next
    assume "h \<in> word_of_nat ` {2..<255}"
    then obtain n where "h = word_of_nat n" "2 \<le> n" "n < 255" by auto
    then show "2 \<le> h \<and> h \<le> 254" by (simp add: word_le_nat_alt unat_of_nat)
  qed
  then show ?thesis by (simp only: set_map set_upt) blast
qed

lemma find_in: "find P xs = Some x \<Longrightarrow> P x \<and> x \<in> set xs"
  by (auto simp: find_Some_iff)

text \<open>A node's range: a /24 of IPv4.\<close>

definition slash24 :: "ip_net \<Rightarrow> bool" where
  "slash24 r \<longleftrightarrow> To4 (IP r) \<noteq> [] \<and> Mask r = CIDRMask 24 32"

lemma CIDR24: "CIDRMask 24 32 = [255, 255, 255, 0]"
  by code_simp

lemma and_byte: "(x :: u8) AND 255 = x"
proof -
  have "(255 :: u8) = - 1" by simp
  then show ?thesis by (metis and.right_neutral)
qed

lemma four_all: "(\<forall>i < 4. P i) \<longleftrightarrow> P 0 \<and> P 1 \<and> P 2 \<and> P (3 :: nat)"
  by (auto simp: numeral_eq_Suc less_Suc_eq)

lemma slash24_contains:
  assumes "slash24 r" and "To4 (IP r) = [a, b, c, d]"
  shows "net_contains r x \<longleftrightarrow> (\<exists>e. To4 x = [a, b, c, e])"
proof -
  have n: "number_and_mask r = Some ([a, b, c, d], [255, 255, 255, 0])"
    using assms by (simp add: number_and_mask_def slash24_def CIDR24 Let_def)
  show ?thesis
  proof (cases "To4 x = []")
    case True
    then have "length x \<noteq> 4" by (auto simp: To4_def split: if_splits)
    then show ?thesis using True by (simp add: net_contains_def n)
  next
    case False
    then obtain p q s t where x: "To4 x = [p, q, s, t]" using To4_cases by blast
    have "net_contains r x \<longleftrightarrow> (\<forall>i < 4. [a, b, c, d] ! i AND [255, 255, 255, 0] ! i = [p, q, s, t] ! i AND [255, 255, 255, 0] ! i)"
      using x by (simp add: net_contains_def n numeral_eq_Suc)
    then show ?thesis using x by (auto simp: four_all and_byte)
  qed
qed

lemma slash24_host:
  assumes "slash24 r"
  shows "slash24 (r\<lparr>IP := with_host (IP r) h\<rparr>)"
    and "net_contains (r\<lparr>IP := with_host (IP r) h\<rparr>) x = net_contains r x"
    and "net_contains r (parse_ip parse6 (ip_text (To4 (with_host (IP r) h))))"
proof -
  obtain a b c d where q: "To4 (IP r) = [a, b, c, d]" using assms To4_cases [of "IP r"] by (auto simp: slash24_def)
  obtain a' b' c' where w: "\<And>h. To4 (with_host (IP r) h) = [a', b', c', h]"
    using with_host_cases [of "IP r"] assms by (auto simp: slash24_def)
  have "\<exists>g. with_host (IP r) g = IP r" by (metis with_host_def list_update_id)
  then have abc: "a' = a \<and> b' = b \<and> c' = c" using q w by (metis list.inject)
  show s: "slash24 (r\<lparr>IP := with_host (IP r) h\<rparr>)" using assms w by (simp add: slash24_def)
  show "net_contains (r\<lparr>IP := with_host (IP r) h\<rparr>) x = net_contains r x"
    using slash24_contains [OF assms q] slash24_contains [OF s, of a b c h] w abc by simp
  show "net_contains r (parse_ip parse6 (ip_text (To4 (with_host (IP r) h))))"
    using slash24_contains [OF assms q] w abc by simp
qed

section \<open>Facts\<close>

lemma own_contract_from:
  assumes "own_contract ok name ds cur = (e, Some i)" and "cur \<noteq> Some i"
  shows "ok i \<and> (\<exists>d \<in> set ds. dl_contract d = i \<and> (\<exists>dd. parse_deployment_data (dl_metadata d) = Some dd \<and> dd_name dd = name))"
  using assms
proof (induction ds arbitrary: cur)
  case (Cons d ds)
  show ?case
  proof (cases "parse_deployment_data (dl_metadata d)")
    case None
    then show ?thesis using Cons.prems by simp
  next
    case (Some dd)
    let ?c = "if dd_name dd = name \<and> ok (dl_contract d) then Some (dl_contract d) else cur"
    have r: "own_contract ok name ds ?c = (e, Some i)" using Cons.prems Some by simp
    show ?thesis
    proof (cases "?c = Some i")
      case True
      then show ?thesis using Cons.prems(2) Some by (auto split: if_splits)
    next
      case False
      then show ?thesis using Cons.IH [OF r] by auto
    qed
  qed
qed simp

lemma are_nodes_up_None: "are_nodes_up cl nodes w = (None, w') \<Longrightarrow> node \<in> set nodes \<Longrightarrow>
    \<exists>w1 w2 w3. dv_client (cl_dep cl) node w1 = (None, w2) \<and> is_node_up (cl_net cl) node w2 = (None, w3)"
  by (induction nodes arbitrary: w) (auto split: prod.splits option.splits)

end
