(* ===== verification/DeploymentDeployer.thy ===== *)
theory DeploymentDeployer
  imports ClientCalls
begin

text \<open>
  Deploying machines, disks, volumes and databases (\<open>grid-client/deployer/deployment_deployer.go\<close>): private addresses are
  given to the machines, each deployment becomes one of the grid, the deployer brings them up and the contracts are
  recorded. The caller's deployments are changed and returned. The goroutines run one after the other in the order of the
  list; another order only repeats host ids a node already has. Errors inside another error are shown as their texts.
  A panic and a wait that never ends are \<open>None\<close>. Lemmas: the addresses that are given.
\<close>

section \<open>Private addresses\<close>

text \<open>The host ids in use on a node: the last bytes of its private addresses that are in the node's range.\<close>

definition hosts_in :: "(string \<Rightarrow> ip option) \<Rightarrow> ip_net \<Rightarrow> string list \<Rightarrow> u8 list" where
  "hosts_in parse6 cidr privateIPs =
     map (\<lambda>p. p ! 3) (filter (\<lambda>p. p \<noteq> [] \<and> net_contains cidr p) (map (\<lambda>t. To4 (parse_ip parse6 t)) privateIPs))"

definition used_host_ids :: "('o, 'w) client \<Rightarrow> u32 \<Rightarrow> string \<Rightarrow> grid_state \<Rightarrow> 'w \<Rightarrow> ((string + u8 list) \<times> grid_state) \<times> 'w" where
  "used_host_ids cl nodeID networkName st w =
     (case dv_client (cl_dep cl) nodeID w of
        (Some e, w1) \<Rightarrow> ((Inl (''could not get node client for node '' @ dec_text (unat nodeID) @ '': '' @ e), st), w1)
      | (None, w1) \<Rightarrow>
     (case cl_private_ips cl nodeID networkName w1 of
        (Inl e, w2) \<Rightarrow> ((Inl (''could not list private ips from node '' @ dec_text (unat nodeID) @ '': '' @ e), st), w2)
      | (Inr privateIPs, w2) \<Rightarrow>
     (case get_network networkName (gs_networks st) of
        (network, nets) \<Rightarrow>
          (let st' = st\<lparr>gs_networks := nets\<rparr>; ipRange = get_node_subnet network nodeID in
           case parse_cidr (we_parse_ip6 (cl_wl cl)) ipRange of
             None \<Rightarrow> ((Inl (''invalid ip range '' @ ipRange), st'), w2)
           | Some (_, cidr) \<Rightarrow> ((Inr (hosts_in (we_parse_ip6 (cl_wl cl)) cidr privateIPs), st'), w2)))))"

definition has_machines :: "wl_deployment \<Rightarrow> bool" where
  "has_machines d = (wd_vms d \<noteq> [] \<or> wd_vms_light d \<noteq> [])"

text \<open>\<open>usedHosts[network]\<close> exists, and \<open>usedHosts[network][node]\<close>.\<close>

definition with_network :: "used_hosts \<Rightarrow> string \<Rightarrow> used_hosts" where
  "with_network used network = (if map_of used network = None then AList.update network [] used else used)"

definition node_known :: "used_hosts \<Rightarrow> string \<Rightarrow> u32 \<Rightarrow> bool" where
  "node_known used network node = (case map_of used network of None \<Rightarrow> False | Some m \<Rightarrow> map_of m node \<noteq> None)"

definition add_hosts :: "used_hosts \<Rightarrow> string \<Rightarrow> u32 \<Rightarrow> u8 list \<Rightarrow> used_hosts" where
  "add_hosts used network node hs =
     AList.update network (AList.update node (node_hosts used network node @ hs)
       (case map_of used network of None \<Rightarrow> [] | Some m \<Rightarrow> m)) used"

fun networks_used_ips :: "('o, 'w) client \<Rightarrow> wl_deployment list \<Rightarrow> used_hosts \<Rightarrow> string list \<Rightarrow> grid_state \<Rightarrow> 'w
    \<Rightarrow> (used_hosts \<times> string list \<times> grid_state) \<times> 'w" where
  "networks_used_ips cl [] used errs st w = ((used, errs, st), w)"
| "networks_used_ips cl (d # ds) used errs st w =
     (if \<not> has_machines d then networks_used_ips cl ds used errs st w
      else (let used1 = with_network used (wd_network_name d) in
        if node_known used1 (wd_network_name d) (wd_node_id d) then networks_used_ips cl ds used1 errs st w
        else (case used_host_ids cl (wd_node_id d) (wd_network_name d) st w of
          ((Inl e, st'), w') \<Rightarrow>
            networks_used_ips cl ds used1 (errs @ [''failed to get used host ids for network '' @ wd_network_name d
              @ '' node '' @ dec_text (unat (wd_node_id d)) @ '': '' @ e]) st' w'
        | ((Inr hs, st'), w') \<Rightarrow>
            networks_used_ips cl ds (add_hosts used1 (wd_network_name d) (wd_node_id d) hs) errs st' w')))"

text \<open>
  The machines of a deployment in order: the last byte of the address \<open>p\<close> is overwritten by each automatic one. \<open>name\<close>,
  \<open>addr\<close> and \<open>give\<close> read and write a machine.
\<close>

fun assign_machines :: "(string \<Rightarrow> ip option) \<Rightarrow> ('v \<Rightarrow> string) \<Rightarrow> ('v \<Rightarrow> string) \<Rightarrow> (string \<Rightarrow> 'v \<Rightarrow> 'v)
    \<Rightarrow> string \<Rightarrow> string \<Rightarrow> u32 \<Rightarrow> ip_net \<Rightarrow> 'v list \<Rightarrow> ip \<Rightarrow> used_hosts \<Rightarrow> string list
    \<Rightarrow> ('v list \<times> ip \<times> used_hosts \<times> string list) option" where
  "assign_machines parse6 name addr give network ipRange node cidr [] p used errs = Some ([], p, used, errs)"
| "assign_machines parse6 name addr give network ipRange node cidr (v # vs) p used errs =
     (case assign_private_ip parse6 (name v) (addr v) network ipRange node cidr p 2 used of
        None \<Rightarrow> None
      | Some (Inl e, p', used') \<Rightarrow>
          map_option (\<lambda>(vs', r). (v # vs', r)) (assign_machines parse6 name addr give network ipRange node cidr vs p' used'
            (errs @ [''failed to assign IP to vm '' @ name v @ '': '' @ e]))
      | Some (Inr a, p', used') \<Rightarrow>
          map_option (\<lambda>(vs', r). (give a v # vs', r))
            (assign_machines parse6 name addr give network ipRange node cidr vs p' used' errs))"

text \<open>The flag tells whether the deployment goes on.\<close>

fun assign_all :: "('o, 'w) client \<Rightarrow> wl_deployment list \<Rightarrow> used_hosts \<Rightarrow> string list \<Rightarrow> grid_state
    \<Rightarrow> ((bool \<times> wl_deployment) list \<times> string list \<times> grid_state) option" where
  "assign_all cl [] used errs st = Some ([], errs, st)"
| "assign_all cl (d # ds) used errs st =
     (if \<not> has_machines d
      then map_option (\<lambda>(ds', r). ((True, d) # ds', r)) (assign_all cl ds used errs st)
      else
     (case get_network (wd_network_name d) (gs_networks st) of
        (network, nets) \<Rightarrow>
          (let st' = st\<lparr>gs_networks := nets\<rparr>; ipRange = get_node_subnet network (wd_node_id d); parse6 = we_parse_ip6 (cl_wl cl) in
     (case parse_cidr parse6 ipRange of
        None \<Rightarrow> map_option (\<lambda>(ds', r). ((False, d) # ds', r)) (assign_all cl ds used (errs @ [''invalid ip range '' @ ipRange]) st')
      | Some (p, cidr) \<Rightarrow>
     (case assign_machines parse6 vm_name vm_ip (\<lambda>a v. v\<lparr>vm_ip := a\<rparr>) (wd_network_name d) ipRange (wd_node_id d) cidr
             (wd_vms d) p used errs of
        None \<Rightarrow> None
      | Some (vms, p1, used1, errs1) \<Rightarrow>
     (case assign_machines parse6 vl_name vl_ip (\<lambda>a v. v\<lparr>vl_ip := a\<rparr>) (wd_network_name d) ipRange (wd_node_id d) cidr
             (wd_vms_light d) p1 used1 errs1 of
        None \<Rightarrow> None
      | Some (vmsLight, _, used2, errs2) \<Rightarrow>
          map_option (\<lambda>(ds', r). ((True, d\<lparr>wd_vms := vms, wd_vms_light := vmsLight, wd_ip_range := ipRange\<rparr>) # ds', r))
            (assign_all cl ds used2 errs2 st')))))))"

definition assign_private_ips :: "('o, 'w) client \<Rightarrow> wl_deployment list \<Rightarrow> grid_state \<Rightarrow> 'w
    \<Rightarrow> (((bool \<times> wl_deployment) list \<times> string list \<times> grid_state) \<times> 'w) option" where
  "assign_private_ips cl ds st w =
     (case networks_used_ips cl ds [] [] st w of
        ((used, errs, st'), w') \<Rightarrow>
          map_option (\<lambda>r. (r, w')) (assign_all cl ds used
            (if errs = [] then [] else [''couldn't calculate networks used ips: '' @ concat errs]) st'))"

section \<open>The deployments of the grid\<close>

definition grid_workloads :: "wl_env \<Rightarrow> wl_deployment \<Rightarrow> (string + workload list) option" where
  "grid_workloads env d =
     (case (all_some (map (vm_workloads env) (wd_vms d)), all_some (map (vm_light_workloads env) (wd_vms_light d))) of
        (Some vws, Some lws) \<Rightarrow>
          Some (case qsfs_workloads (wd_qsfs d) of
             Inl e \<Rightarrow> Inl (''failed to generate QSFS in deployment '' @ quoted (wd_name d) @ '': '' @ e)
           | Inr qws \<Rightarrow> Inr (map disk_workload (wd_disks d) @ map volume_workload (wd_volumes d)
               @ map zdb_workload (wd_zdbs d) @ concat vws @ concat lws @ qws))
      | _ \<Rightarrow> None)"

text \<open>The deployments that go on, as deployments of the grid on their nodes; the caller's ones; the errors.\<close>

fun build_grid_deployments :: "('o, 'w) client \<Rightarrow> (bool \<times> wl_deployment) list \<Rightarrow> (u32 \<times> deployment list) list \<Rightarrow> string list
    \<Rightarrow> ((u32 \<times> deployment list) list \<times> wl_deployment list \<times> string list) option" where
  "build_grid_deployments cl [] dls errs = Some (dls, [], errs)"
| "build_grid_deployments cl ((keep, d) # ds) dls errs =
     (if \<not> keep then map_option (\<lambda>(m, ds', e). (m, d # ds', e)) (build_grid_deployments cl ds dls errs)
      else case grid_workloads (cl_wl cl) d of
        None \<Rightarrow> None
      | Some (Inl e) \<Rightarrow> map_option (\<lambda>(m, ds', e). (m, d # ds', e)) (build_grid_deployments cl ds dls (errs @ [e]))
      | Some (Inr ws) \<Rightarrow>
          (case wl_generate_metadata d of
             (m, d') \<Rightarrow>
               map_option (\<lambda>(m, ds', e). (m, d' # ds', e)) (build_grid_deployments cl ds
                 (add_dl (wd_node_id d) ((wl_new_grid_deployment (dv_twin (cl_dep cl)) 0 ws)\<lparr>dl_metadata := m\<rparr>) dls) errs)))"

text \<open>The deployments per node with the errors, the caller's deployments and the state.\<close>

definition dd_generate :: "('o, 'w) client \<Rightarrow> wl_deployment list \<Rightarrow> grid_state \<Rightarrow> 'w
    \<Rightarrow> (((u32 \<times> deployment list) list \<times> string list \<times> wl_deployment list \<times> grid_state) \<times> 'w) option" where
  "dd_generate cl ds st w =
     (case assign_private_ips cl ds st w of
        None \<Rightarrow> None
      | Some ((kept, errs, st'), w') \<Rightarrow>
          map_option (\<lambda>(dls, ds', errs'). ((dls, errs', ds', st'), w'))
            (build_grid_deployments cl kept [] (if errs = [] then [] else [''failed to assign node ips: '' @ concat errs])))"

section \<open>Deploying\<close>

definition dd_validate :: "('o, 'w) client \<Rightarrow> wl_deployment list \<Rightarrow> 'w \<Rightarrow> string option \<times> 'w" where
  "dd_validate cl ds w =
     (case validate_balance cl w of
        (Some e, w') \<Rightarrow> (Some e, w')
      | (None, w') \<Rightarrow> (first_err (map (wl_deployment_validate (cl_wl cl)) ds), w'))"

definition dd_record :: "wl_deployment \<Rightarrow> grid_state \<Rightarrow> wl_deployment \<times> grid_state" where
  "dd_record d st =
     (let i = contract_at (wd_node_deployment_id d) (wd_node_id d) in
      if i \<noteq> 0 then (d\<lparr>wd_contract_id := i\<rparr>, store_contract (wd_node_id d) i st) else (d, st))"

definition dd_deploy :: "('o, 'w) client \<Rightarrow> wl_deployment \<Rightarrow> grid_state \<Rightarrow> 'w
    \<Rightarrow> ((string option \<times> wl_deployment \<times> grid_state) \<times> 'w) option" where
  "dd_deploy cl d st w =
     (case dd_validate cl [d] w of
        (Some e, w1) \<Rightarrow> Some ((Some (''invalid deployment: '' @ e), d, st), w1)
      | (None, w1) \<Rightarrow>
     (case dd_generate cl [d] st w1 of
        None \<Rightarrow> None
      | Some ((dls, errs, ds, st1), w2) \<Rightarrow>
          (let d1 = hd ds in
           if errs \<noteq> [] then Some ((Some (''could not generate deployments data: '' @ concat errs), d1, st1), w2)
           else case dls_at dls (wd_node_id d1) of
             [] \<Rightarrow> Some ((Some ''failed to generate the grid deployment'', d1, st1), w2)
           | dl # _ \<Rightarrow>
               (case dep_deploy (cl_dep cl) True (wd_node_deployment_id d1) [(wd_node_id d1, dl)]
                       [(wd_node_id d1, wd_solution_provider d1)] w2 of
                  None \<Rightarrow> None
                | Some ((ids, e), w3) \<Rightarrow>
                    (case dd_record (d1\<lparr>wd_node_deployment_id := ids\<rparr>) st1 of (d2, st2) \<Rightarrow> Some ((e, d2, st2), w3))))))"

text \<open>Every deployment of the name with a contract is recorded; the last one is the deployment's own.\<close>

fun dd_update :: "deployment list \<Rightarrow> wl_deployment \<Rightarrow> grid_state \<Rightarrow> string option \<times> wl_deployment \<times> grid_state" where
  "dd_update [] d st = (None, d, st)"
| "dd_update (n # ns) d st =
     (case parse_deployment_data (dl_metadata n) of
        None \<Rightarrow> (Some (''could not get deployment '' @ dec_text (unat (dl_contract n)) @ '' data''), d, st)
      | Some dd \<Rightarrow>
          if dd_name dd = wd_name d \<and> dl_contract n \<noteq> 0
          then dd_update ns (d\<lparr>wd_node_deployment_id := [(wd_node_id d, dl_contract n)], wd_contract_id := dl_contract n\<rparr>)
                 (store_contract (wd_node_id d) (dl_contract n) st)
          else dd_update ns d st)"

definition dd_update_state :: "wl_deployment \<Rightarrow> (u32 \<times> deployment list) list \<Rightarrow> grid_state
    \<Rightarrow> string option \<times> wl_deployment \<times> grid_state" where
  "dd_update_state d newDls st = dd_update (dls_at newDls (wd_node_id d)) (d\<lparr>wd_node_deployment_id := []\<rparr>) st"

fun dd_update_all :: "wl_deployment list \<Rightarrow> (u32 \<times> deployment list) list \<Rightarrow> grid_state
    \<Rightarrow> string list \<times> wl_deployment list \<times> grid_state" where
  "dd_update_all [] newDls st = ([], [], st)"
| "dd_update_all (d # ds) newDls st =
     (case dd_update_state d newDls st of
        (e, d', st') \<Rightarrow>
          (case dd_update_all ds newDls st' of
             (errs, ds', st'') \<Rightarrow>
               ((case e of Some t \<Rightarrow> [''failed to update deployment '' @ quoted (wd_name d) @ '' state: '' @ t] | None \<Rightarrow> []) @ errs,
                d' # ds', st'')))"

text \<open>An invalid deployment is an error and yet deployed; the providers of solutions are not passed on.\<close>

definition dd_batch_deploy :: "('o, 'w) client \<Rightarrow> wl_deployment list \<Rightarrow> grid_state \<Rightarrow> 'w
    \<Rightarrow> ((string list \<times> wl_deployment list \<times> grid_state) \<times> 'w) option" where
  "dd_batch_deploy cl ds st w =
     (case dd_validate cl ds w of
        (v, w1) \<Rightarrow>
          (let errs0 = (case v of Some e \<Rightarrow> [''invalid deployments: '' @ e] | None \<Rightarrow> []) in
     (case dd_generate cl ds st w1 of
        None \<Rightarrow> None
      | Some ((dls, errs, ds1, st1), w2) \<Rightarrow>
          (let errs1 = errs0 @ (if errs = [] then [] else [''could not generate grid deployments: '' @ concat errs]) in
           if dls = []
           then Some ((if errs1 = [] then [] else [''failed to generate the grid deployments: '' @ concat errs1], ds1, st1), w2)
           else
     (case batch_deploy (cl_dep cl) dls [] w2 of
        None \<Rightarrow> None
      | Some ((newDls, errs2), w3) \<Rightarrow>
          (case dd_update_all ds1 newDls st1 of
             (errs3, ds2, st2) \<Rightarrow> Some ((errs1 @ errs2 @ errs3, ds2, st2), w3)))))))"

definition dd_cancel :: "('o, 'w) client \<Rightarrow> wl_deployment \<Rightarrow> grid_state \<Rightarrow> 'w
    \<Rightarrow> (string option \<times> wl_deployment \<times> grid_state) \<times> 'w" where
  "dd_cancel cl d st w =
     (case dd_validate cl [d] w of
        (Some e, w1) \<Rightarrow> ((Some e, d, st), w1)
      | (None, w1) \<Rightarrow>
     (case dep_cancel (cl_dep cl) (wd_contract_id d) w1 of
        (Some e, w2) \<Rightarrow> ((Some e, d, st), w2)
      | (None, w2) \<Rightarrow>
          ((None, d\<lparr>wd_node_deployment_id := AList.delete (wd_node_id d) (wd_node_deployment_id d), wd_contract_id := 0\<rparr>,
            remove_contract (wd_node_id d) (wd_contract_id d) st), w2)))"

section \<open>Reading the deployment back\<close>

definition dd_sync_contract :: "('o, 'w) client \<Rightarrow> wl_deployment \<Rightarrow> 'w \<Rightarrow> (string option \<times> wl_deployment) \<times> 'w" where
  "dd_sync_contract cl d w =
     (if wd_contract_id d = 0 then ((None, d), w)
      else case is_valid_contract (cl_chain cl) (wd_contract_id d) w of
        ((_, Some e), w') \<Rightarrow> ((Some (''error checking contract validity: '' @ ce_text e), d), w')
      | ((valid, None), w') \<Rightarrow> ((None, if valid then d else d\<lparr>wd_contract_id := 0\<rparr>), w'))"

text \<open>The workloads that are fine; one that cannot be read is left out.\<close>

fun sync_parts :: "wl_env \<Rightarrow> deployment \<Rightarrow> u32 \<Rightarrow> workload list \<Rightarrow> wl_parts \<Rightarrow> wl_parts option" where
  "sync_parts env dl nodeID [] p = Some p"
| "sync_parts env dl nodeID (w # ws) p =
     (if \<not> is_okay (rs_state (wl_result w)) then sync_parts env dl nodeID ws p
      else if wl_type w = ZMachineType then
        (case new_vm_from_workload env w dl nodeID of
           None \<Rightarrow> None
         | Some r \<Rightarrow> sync_parts env dl nodeID ws (case r of Inl _ \<Rightarrow> p | Inr v \<Rightarrow> p\<lparr>wp_vms := wp_vms p @ [v]\<rparr>))
      else if wl_type w = ZMachineLightType then
        (case new_vm_light_from_workload env w dl nodeID of
           None \<Rightarrow> None
         | Some r \<Rightarrow> sync_parts env dl nodeID ws (case r of Inl _ \<Rightarrow> p | Inr v \<Rightarrow> p\<lparr>wp_vms_light := wp_vms_light p @ [v]\<rparr>))
      else sync_parts env dl nodeID ws
        (if wl_type w = ZDBType
         then (case new_zdb_from_workload env w of Inl _ \<Rightarrow> p | Inr z \<Rightarrow> p\<lparr>wp_zdbs := wp_zdbs p @ [z]\<rparr>)
         else if wl_type w = QuantumSafeFSType
         then (case new_qsfs_from_workload env w of Inl _ \<Rightarrow> p | Inr q \<Rightarrow> p\<lparr>wp_qsfs := wp_qsfs p @ [q]\<rparr>)
         else if wl_type w = ZMountType
         then (case new_disk_from_workload env w of Inl _ \<Rightarrow> p | Inr k \<Rightarrow> p\<lparr>wp_disks := wp_disks p @ [k]\<rparr>)
         else if wl_type w = VolumeType
         then (case new_volume_from_workload env w of Inl _ \<Rightarrow> p | Inr v \<Rightarrow> p\<lparr>wp_volumes := wp_volumes p @ [v]\<rparr>)
         else p))"

definition no_wl_parts :: wl_parts where
  "no_wl_parts = \<lparr>wp_vms = [], wp_vms_light = [], wp_disks = [], wp_qsfs = [], wp_zdbs = [], wp_volumes = [], wp_network_name = []\<rparr>"

definition dd_sync :: "('o, 'w) client \<Rightarrow> wl_deployment \<Rightarrow> 'w \<Rightarrow> ((string option \<times> wl_deployment) \<times> 'w) option" where
  "dd_sync cl d w =
     (case dd_sync_contract cl d w of
        ((Some e, d1), w1) \<Rightarrow> Some ((Some e, d1), w1)
      | ((None, d1), w1) \<Rightarrow>
     (case get_deployments (cl_dep cl) (wd_node_deployment_id d1) [] w1 of
        (Inl e, w2) \<Rightarrow> Some ((Some (''failed to get deployments to update local state: '' @ e), d1), w2)
      | (Inr dls, w2) \<Rightarrow>
          if wd_contract_id d1 = 0 then Some ((None, wl_nullify d1), w2)
          else (let dl = (case map_of dls (wd_node_id d1) of Some x \<Rightarrow> x | None \<Rightarrow> zero_deployment) in
            case sync_parts (cl_wl cl) dl (wd_node_id d1) (dl_workloads dl) no_wl_parts of
              None \<Rightarrow> None
            | Some p \<Rightarrow>
                (case wl_match (cl_sorts cl) d1 (wp_disks p) (wp_qsfs p) (wp_zdbs p) (wp_vms p) (wp_vms_light p) (wp_volumes p) of
                   (disks, qsfs, zdbs, vms, vmsLight, volumes) \<Rightarrow>
                     Some ((None, d1\<lparr>wd_disks := disks, wd_qsfs := qsfs, wd_zdbs := zdbs, wd_vms := vms,
                       wd_vms_light := vmsLight, wd_volumes := volumes\<rparr>), w2)))))"

section \<open>Facts\<close>

text \<open>One automatic address.\<close>

lemma add_host_hosts:
  assumes "add_host used network node h = Some used'"
  shows "node_hosts used' n m = (if n = network \<and> m = node then node_hosts used network node @ [h] else node_hosts used n m)"
  using assms by (cases "n = network"; cases "m = node") (auto simp: add_host_def node_hosts_def update_conv' split: option.splits)

lemma no_ip: "To4 (parse_ip parse6 []) = []"
  by (simp add: parse_ip_def parse_addr_def To4_def)

lemma assign_auto:
  assumes "assign_private_ip parse6 nm addr network rng node cidr p 2 used = Some (r, p', used')" and "addr = []"
  shows "(\<exists>e. r = Inl e \<and> p' = p \<and> used' = used)
    \<or> (\<exists>h. r = Inr (ip_text (To4 (with_host p h))) \<and> p' = with_host p h \<and> To4 p \<noteq> [] \<and> 2 \<le> h \<and> h \<le> 254
         \<and> h \<notin> set (node_hosts used network node) \<and> add_host used network node h = Some used')"
proof -
  have n: "To4 (parse_ip parse6 addr) = []" using assms(2) by (simp add: no_ip)
  show ?thesis
  proof (cases "free_host (node_hosts used network node) 2")
    case None
    then show ?thesis using assms n by (auto simp: assign_private_ip_def)
  next
    case (Some h)
    then have "h \<notin> set (node_hosts used network node) \<and> 2 \<le> h \<and> h \<le> 254"
      using free_host_spec [of 2 "node_hosts used network node"] by auto
    then show ?thesis using assms n Some
      by (auto simp: assign_private_ip_def Let_def with_host_def split: option.splits if_splits)
  qed
qed

text \<open>The machines of a deployment that ask for no address: the host ids \<open>hs\<close> they get.\<close>

definition hosts_given :: "used_hosts \<Rightarrow> string \<Rightarrow> u32 \<Rightarrow> ip \<Rightarrow> u8 list \<Rightarrow> string list \<Rightarrow> ip \<Rightarrow> used_hosts \<Rightarrow> bool" where
  "hosts_given used network node p hs addrs p' used' \<longleftrightarrow>
     filter (\<lambda>a. a \<noteq> []) addrs = map (\<lambda>h. ip_text (To4 (with_host p h))) hs \<and> (hs \<noteq> [] \<longrightarrow> To4 p \<noteq> [])
     \<and> distinct hs \<and> (\<forall>h \<in> set hs. 2 \<le> h \<and> h \<le> 254 \<and> h \<notin> set (node_hosts used network node))
     \<and> (\<forall>n m. node_hosts used' n m = node_hosts used n m @ (if n = network \<and> m = node then hs else []))
     \<and> with_host p' = with_host p \<and> (To4 p' = [] \<longleftrightarrow> To4 p = [])"

lemma ip_text_ne: "To4 p \<noteq> [] \<Longrightarrow> ip_text (To4 (with_host p h)) \<noteq> []"
  using last_byte_host [of p "\<lambda>_. None" h] by (auto simp: last_byte_def)

lemma hosts_given_nil: "hosts_given used network node p [] [] p used"
  by (simp add: hosts_given_def)

lemma hosts_given_append:
  assumes "hosts_given used network node p hs xs p1 used1" and "hosts_given used1 network node p1 gs ys q2 used2"
  shows "hosts_given used network node p (hs @ gs) (xs @ ys) q2 used2"
  using assms by (auto simp: hosts_given_def)

lemma assign_machines_given:
  assumes "assign_machines parse6 name addr give network rng node cidr vs p used errs = Some (vs', p', used', errs')"
    and "\<forall>v \<in> set vs. addr v = []" and "\<And>a v. addr (give a v) = a"
  shows "\<exists>hs. hosts_given used network node p hs (map addr vs') p' used'"
  using assms(1,2)
proof (induction vs arbitrary: vs' p used errs)
  case Nil
  then show ?case using hosts_given_nil by fastforce
next
  case (Cons v vs)
  obtain r p1 used1 where a: "assign_private_ip parse6 (name v) (addr v) network rng node cidr p 2 used = Some (r, p1, used1)"
    using Cons.prems(1) by (cases "assign_private_ip parse6 (name v) (addr v) network rng node cidr p 2 used") auto
  obtain us errs1 where us: "assign_machines parse6 name addr give network rng node cidr vs p1 used1 errs1 = Some (us, p', used', errs')"
    and vs': "vs' = (case r of Inl _ \<Rightarrow> v | Inr t \<Rightarrow> give t v) # us"
    using Cons.prems(1) a by (auto split: sum.splits)
  obtain hs where hs: "hosts_given used1 network node p1 hs (map addr us) p' used'" using Cons.IH [OF us] Cons.prems(2) by auto
  have "addr v = []" using Cons.prems(2) by simp
  from assign_auto [OF a this] have "\<exists>gs. hosts_given used network node p gs (map addr [case r of Inl _ \<Rightarrow> v | Inr t \<Rightarrow> give t v]) p1 used1"
  proof (elim disjE exE conjE)
    fix e assume "r = Inl e" "p1 = p" "used1 = used"
    then show ?thesis using hosts_given_nil [of used network node p] Cons.prems(2) by (intro exI [of _ "[]"]) (simp add: hosts_given_def)
  next
    fix h assume h: "r = Inr (ip_text (To4 (with_host p h)))" "p1 = with_host p h" "To4 p \<noteq> []" "2 \<le> h" "h \<le> 254"
      "h \<notin> set (node_hosts used network node)" "add_host used network node h = Some used1"
    have "with_host (with_host p h) = with_host p" "To4 (with_host p h) \<noteq> []"
      using To4_with_host [OF h(3)] by (simp_all add: fun_eq_iff)
    then show ?thesis using h ip_text_ne [OF h(3)] add_host_hosts [OF h(7)] assms(3)
      by (intro exI [of _ "[h]"]) (auto simp: hosts_given_def)
  qed
  then obtain gs where "hosts_given used network node p gs (map addr [case r of Inl _ \<Rightarrow> v | Inr t \<Rightarrow> give t v]) p1 used1" by blast
  from hosts_given_append [OF this hs] show ?case by (auto simp: vs')
qed

lemma hosts_given_texts:
  assumes "hosts_given used network node p hs addrs p' used'"
  shows "distinct (filter (\<lambda>a. a \<noteq> []) addrs)"
    and "a \<in> set addrs \<Longrightarrow> a \<noteq> [] \<Longrightarrow> \<exists>h \<in> set hs. last_byte parse6 a = Some h"
proof -
  let ?t = "\<lambda>h. ip_text (To4 (with_host p h))"
  have f: "filter (\<lambda>a. a \<noteq> []) addrs = map ?t hs" and p: "hs \<noteq> [] \<Longrightarrow> To4 p \<noteq> []" and d: "distinct hs"
    using assms by (auto simp: hosts_given_def)
  have b: "last_byte parse6 (?t h) = Some h" if "h \<in> set hs" for h
    using last_byte_host p that by fastforce
  have "inj_on ?t (set hs)" using b by (intro inj_onI) (metis option.inject)
  then show "distinct (filter (\<lambda>a. a \<noteq> []) addrs)" using d f by (simp add: distinct_map)
  assume "a \<in> set addrs" "a \<noteq> []"
  then have "a \<in> set (filter (\<lambda>a. a \<noteq> []) addrs)" by simp
  then have "a \<in> set (map ?t hs)" using f by simp
  then show "\<exists>h \<in> set hs. last_byte parse6 a = Some h" using b by auto
qed

text \<open>The private addresses of a deployment's machines, with their network and node.\<close>

definition machine_addresses :: "wl_deployment \<Rightarrow> (string \<times> u32 \<times> string) list" where
  "machine_addresses d =
     map (\<lambda>a. (wd_network_name d, wd_node_id d, a)) (filter (\<lambda>a. a \<noteq> []) (map vm_ip (wd_vms d) @ map vl_ip (wd_vms_light d)))"

fun all_addresses :: "(bool \<times> wl_deployment) list \<Rightarrow> (string \<times> u32 \<times> string) list" where
  "all_addresses [] = []"
| "all_addresses ((_, d) # ds) = machine_addresses d @ all_addresses ds"

lemma machine_addresses_Nil: "machine_addresses d = [] \<longleftrightarrow> (\<forall>v \<in> set (wd_vms d). vm_ip v = []) \<and> (\<forall>v \<in> set (wd_vms_light d). vl_ip v = [])"
  by (auto simp: machine_addresses_def filter_empty_conv)

definition fresh_address :: "(string \<Rightarrow> ip option) \<Rightarrow> used_hosts \<Rightarrow> string \<times> u32 \<times> string \<Rightarrow> bool" where
  "fresh_address parse6 used t \<longleftrightarrow> (case t of (network, node, a) \<Rightarrow>
     (case last_byte parse6 a of None \<Rightarrow> False
      | Some h \<Rightarrow> 2 \<le> h \<and> h \<le> 254 \<and> h \<notin> set (node_hosts used network node)))"

lemma assign_all_given:
  assumes "assign_all cl ds used errs st = Some (kept, errs', st')" and "\<forall>d \<in> set ds. machine_addresses d = []"
  shows "distinct (all_addresses kept)
    \<and> (\<forall>t \<in> set (all_addresses kept). fresh_address (we_parse_ip6 (cl_wl cl)) used t)"
  using assms
proof (induction ds arbitrary: used errs st kept)
  case (Cons d ds)
  let ?parse6 = "we_parse_ip6 (cl_wl cl)"
  have d: "machine_addresses d = []" using Cons.prems(2) by simp
  obtain network nets where net: "get_network (wd_network_name d) (gs_networks st) = (network, nets)" by fastforce
  let ?range = "get_node_subnet network (wd_node_id d)"
  show ?case
  proof (cases "has_machines d \<and> parse_cidr ?parse6 ?range \<noteq> None")
    case False
    then obtain b us errs1 st1 where "assign_all cl ds used errs1 st1 = Some (us, errs', st')" "kept = (b, d) # us"
      using Cons.prems(1) net by (auto simp: Let_def split: if_splits option.splits)
    then show ?thesis using Cons.IH [of used errs1 st1 us] Cons.prems(2) d by simp
  next
    case True
    then obtain p cidr where c: "parse_cidr ?parse6 ?range = Some (p, cidr)" by fastforce
    obtain vms p1 used1 errs1 vmsLight p2 used2 errs2 us st1 where
      v: "assign_machines ?parse6 vm_name vm_ip (\<lambda>a v. v\<lparr>vm_ip := a\<rparr>) (wd_network_name d) ?range (wd_node_id d) cidr
            (wd_vms d) p used errs = Some (vms, p1, used1, errs1)"
      and l: "assign_machines ?parse6 vl_name vl_ip (\<lambda>a v. v\<lparr>vl_ip := a\<rparr>) (wd_network_name d) ?range (wd_node_id d) cidr
            (wd_vms_light d) p1 used1 errs1 = Some (vmsLight, p2, used2, errs2)"
      and us: "assign_all cl ds used2 errs2 st1 = Some (us, errs', st')"
      and k: "kept = (True, d\<lparr>wd_vms := vms, wd_vms_light := vmsLight, wd_ip_range := ?range\<rparr>) # us"
      using Cons.prems(1) net c True by (auto simp: Let_def split: option.splits)
    obtain hs gs where "hosts_given used (wd_network_name d) (wd_node_id d) p hs (map vm_ip vms) p1 used1"
      "hosts_given used1 (wd_network_name d) (wd_node_id d) p1 gs (map vl_ip vmsLight) p2 used2"
      using assign_machines_given [OF v] assign_machines_given [OF l] d by (auto simp: machine_addresses_Nil)
    from hosts_given_append [OF this]
    have g: "hosts_given used (wd_network_name d) (wd_node_id d) p (hs @ gs) (map vm_ip vms @ map vl_ip vmsLight) p2 used2" .
    let ?new = "machine_addresses (snd (hd kept))"
    have new: "?new = map (\<lambda>a. (wd_network_name d, wd_node_id d, a)) (filter (\<lambda>a. a \<noteq> []) (map vm_ip vms @ map vl_ip vmsLight))"
      by (simp add: k machine_addresses_def)
    have "distinct ?new" using hosts_given_texts(1) [OF g] unfolding new distinct_map by (auto intro: inj_onI)
    moreover have old: "\<exists>h \<in> set (hs @ gs). last_byte ?parse6 a = Some h \<and> n = wd_network_name d \<and> m = wd_node_id d"
      if "(n, m, a) \<in> set ?new" for n m a
      using hosts_given_texts(2) [OF g, of a ?parse6] that by (auto simp: new)
    moreover have "fresh_address ?parse6 used t" if "t \<in> set ?new" for t
      using old [of "fst t" "fst (snd t)" "snd (snd t)"] that g
      by (cases t) (auto simp: fresh_address_def hosts_given_def)
    moreover have tail: "distinct (all_addresses us)"
        "\<forall>t \<in> set (all_addresses us). fresh_address ?parse6 used2 t"
      using Cons.IH [OF us] Cons.prems(2) by auto
    moreover have more: "node_hosts used2 n m = node_hosts used n m @ (if n = wd_network_name d \<and> m = wd_node_id d then hs @ gs else [])" for n m
      using g by (simp add: hosts_given_def)
    moreover have "set ?new \<inter> set (all_addresses us) = {}"
    proof -
      have "False" if "(n, m, a) \<in> set ?new" "fresh_address ?parse6 used2 (n, m, a)" for n m a
        using old [OF that(1)] that(2) by (auto simp: fresh_address_def more)
      then show ?thesis using tail(2) by fast
    qed
    moreover have "fresh_address ?parse6 used2 t \<Longrightarrow> fresh_address ?parse6 used t" for t
      by (auto simp: fresh_address_def more split: option.splits prod.splits)
    ultimately show ?thesis unfolding k by (auto simp: k)
  qed
qed simp

text \<open>The subnet of a node in a network of the state, which looking networks up does not change.\<close>

definition subnet_of :: "grid_state \<Rightarrow> string \<Rightarrow> u32 \<Rightarrow> string" where
  "subnet_of st network node = get_node_subnet (fst (get_network network (gs_networks st))) node"

lemma subnet_of_get_network: "get_network network (gs_networks st) = (n, nets) \<Longrightarrow> subnet_of (st\<lparr>gs_networks := nets\<rparr>) = subnet_of st"
proof -
  assume "get_network network (gs_networks st) = (n, nets)"
  then have "nets = (if gs_networks st network = None then (gs_networks st)(network \<mapsto> new_network) else gs_networks st)"
    by (simp add: get_network_def Let_def)
  then show ?thesis by (intro ext) (auto simp: subnet_of_def get_network_def Let_def)
qed

text \<open>The node told its private addresses of the network, and the host ids of those in its subnet are known.\<close>

definition hosts_reported :: "('o, 'w) client \<Rightarrow> grid_state \<Rightarrow> used_hosts \<Rightarrow> string \<Rightarrow> u32 \<Rightarrow> bool" where
  "hosts_reported cl st used network node \<longleftrightarrow> (\<exists>ips w w' p cidr.
     cl_private_ips cl node network w = (Inr ips, w')
     \<and> parse_cidr (we_parse_ip6 (cl_wl cl)) (subnet_of st network node) = Some (p, cidr)
     \<and> set (hosts_in (we_parse_ip6 (cl_wl cl)) cidr ips) \<subseteq> set (node_hosts used network node))"

definition more_hosts :: "used_hosts \<Rightarrow> used_hosts \<Rightarrow> bool" where
  "more_hosts used used' \<longleftrightarrow> (\<forall>n m. set (node_hosts used n m) \<subseteq> set (node_hosts used' n m))"

lemma hosts_reported_more: "hosts_reported cl st used n m \<Longrightarrow> more_hosts used used' \<Longrightarrow> hosts_reported cl st used' n m"
  unfolding hosts_reported_def more_hosts_def by fast

lemma node_hosts_with_network [simp]: "node_hosts (with_network used network) = node_hosts used"
  by (auto simp: with_network_def node_hosts_def fun_eq_iff update_conv' split: option.splits)

lemma node_hosts_add:
  "node_hosts (add_hosts used network node hs) n m = node_hosts used n m @ (if n = network \<and> m = node then hs else [])"
  by (cases "n = network"; cases "m = node") (auto simp: add_hosts_def node_hosts_def update_conv' split: option.splits)

lemma used_host_ids_Inr:
  assumes "used_host_ids cl node network st w = ((r, st'), w')"
  shows "subnet_of st' = subnet_of st"
    and "r = Inr hs \<Longrightarrow> hosts_reported cl st (add_hosts used network node hs) network node"
proof -
  show "subnet_of st' = subnet_of st"
    using assms by (auto simp: used_host_ids_def Let_def subnet_of_get_network split: option.splits sum.splits prod.splits)
  assume "r = Inr hs"
  then show "hosts_reported cl st (add_hosts used network node hs) network node"
    using assms unfolding hosts_reported_def node_hosts_add
    by (fastforce simp: used_host_ids_def Let_def subnet_of_def split: option.splits sum.splits prod.splits)
qed

lemma hosts_reported_cong: "subnet_of st' = subnet_of st \<Longrightarrow> hosts_reported cl st' used n m = hosts_reported cl st used n m"
  by (simp add: hosts_reported_def)

lemma node_known_with [simp]: "node_known (with_network used network) n m = node_known used n m"
  by (auto simp: with_network_def node_known_def update_conv' split: option.splits)

lemma node_known_add: "node_known (add_hosts used network node hs) n m \<longleftrightarrow> node_known used n m \<or> n = network \<and> m = node"
  by (cases "n = network"; cases "m = node") (auto simp: add_hosts_def node_known_def update_conv' split: option.splits)

lemma with_network_reported [simp]:
  "hosts_reported cl st (with_network used network) = hosts_reported cl st used"
  "more_hosts (with_network used network) used' = more_hosts used used'"
  by (simp_all add: hosts_reported_def more_hosts_def fun_eq_iff)

lemma more_hosts_trans: "more_hosts u v \<Longrightarrow> more_hosts v w \<Longrightarrow> more_hosts u w"
  unfolding more_hosts_def by blast

text \<open>Without errors, the host ids of every node that gets machines are known.\<close>

lemma networks_used_ips_reported:
  assumes "networks_used_ips cl ds used errs st w = ((used', [], st'), w')"
    and "\<forall>n m. node_known used n m \<longrightarrow> hosts_reported cl st used n m"
  shows "errs = [] \<and> subnet_of st' = subnet_of st \<and> more_hosts used used'
    \<and> (\<forall>d \<in> set ds. has_machines d \<longrightarrow> hosts_reported cl st used' (wd_network_name d) (wd_node_id d))"
  using assms
proof (induction ds arbitrary: used errs st w)
  case Nil
  then show ?case by (simp add: more_hosts_def)
next
  case (Cons d ds)
  let ?n = "wd_network_name d" and ?m = "wd_node_id d"
  let ?u1 = "with_network used ?n"
  consider (none) "\<not> has_machines d" | (known) "has_machines d" "node_known used ?n ?m" | (ask) "has_machines d" "\<not> node_known used ?n ?m"
    by blast
  then show ?case
  proof cases
    case none
    then show ?thesis using Cons.IH [of used errs st w] Cons.prems by simp
  next
    case known
    have run: "networks_used_ips cl ds ?u1 errs st w = ((used', [], st'), w')" using Cons.prems(1) known by (simp add: Let_def)
    have "\<forall>n m. node_known ?u1 n m \<longrightarrow> hosts_reported cl st ?u1 n m" using Cons.prems(2) by simp
    from Cons.IH [OF run this] show ?thesis
      using Cons.prems(2) known hosts_reported_more by simp blast
  next
    case ask
    obtain r st1 w1 where u: "used_host_ids cl ?m ?n st w = ((r, st1), w1)" by (metis prod.collapse)
    note st1 = used_host_ids_Inr(1) [OF u]
    show ?thesis
    proof (cases r)
      case (Inl e)
      have run: "networks_used_ips cl ds ?u1 (errs @ [''failed to get used host ids for network '' @ ?n @ '' node ''
          @ dec_text (unat ?m) @ '': '' @ e]) st1 w1 = ((used', [], st'), w')"
        using Cons.prems(1) ask u Inl by (simp add: Let_def)
      have "\<forall>n m. node_known ?u1 n m \<longrightarrow> hosts_reported cl st1 ?u1 n m"
        using Cons.prems(2) by (simp add: hosts_reported_cong [OF st1])
      from Cons.IH [OF run this] show ?thesis by simp
    next
      case (Inr hs)
      let ?u2 = "add_hosts ?u1 ?n ?m hs"
      have run: "networks_used_ips cl ds ?u2 errs st1 w1 = ((used', [], st'), w')"
        using Cons.prems(1) ask u Inr by (simp add: Let_def)
      have new: "hosts_reported cl st ?u2 ?n ?m"
        using hosts_reported_more [OF used_host_ids_Inr(2) [OF u Inr], of ?u2] by (simp add: more_hosts_def node_hosts_add)
      have more: "more_hosts used ?u2" by (simp add: more_hosts_def node_hosts_add)
      have keep: "hosts_reported cl st used n m \<Longrightarrow> hosts_reported cl st ?u2 n m" for n m
        by (rule hosts_reported_more [OF _ more])
      have "\<forall>n m. node_known ?u2 n m \<longrightarrow> hosts_reported cl st1 ?u2 n m"
        using Cons.prems(2) new keep by (auto simp: hosts_reported_cong [OF st1] node_known_add)
      from Cons.IH [OF run this] show ?thesis
        using hosts_reported_more [OF new] more_hosts_trans [OF more] by (simp add: st1 hosts_reported_cong [OF st1])
    qed
  qed
qed

lemma assign_machines_errs:
  "assign_machines parse6 name addr give network rng node cidr vs p used errs = Some (vs', p', used', []) \<Longrightarrow> errs = []"
  by (induction vs arbitrary: vs' p used errs) (auto split: option.splits sum.splits prod.splits)

lemma assign_all_errs: "assign_all cl ds used errs st = Some (kept, [], st') \<Longrightarrow> errs = []"
proof (induction ds arbitrary: used errs st kept)
  case (Cons d ds)
  show ?case using Cons.prems Cons.IH
    by (auto simp: Let_def split: if_splits option.splits prod.splits dest!: assign_machines_errs)
qed simp

lemma assign_private_ips_fresh:
  assumes "assign_private_ips cl ds st w = Some ((kept, [], st'), w')" and "\<forall>d \<in> set ds. machine_addresses d = []"
  shows "distinct (all_addresses kept)
    \<and> (\<exists>used. (\<forall>d \<in> set ds. has_machines d \<longrightarrow> hosts_reported cl st used (wd_network_name d) (wd_node_id d))
         \<and> (\<forall>t \<in> set (all_addresses kept). fresh_address (we_parse_ip6 (cl_wl cl)) used t))"
proof -
  obtain used errs st1 w1 where u: "networks_used_ips cl ds [] [] st w = ((used, errs, st1), w1)" by (metis prod.collapse)
  have a: "assign_all cl ds used (if errs = [] then [] else [''couldn't calculate networks used ips: '' @ concat errs]) st1
      = Some (kept, [], st')"
    using assms(1) u by (auto simp: assign_private_ips_def split: if_splits)
  have "errs = []" using assign_all_errs [OF a] by (simp split: if_splits)
  moreover have "\<forall>n m. node_known [] n m \<longrightarrow> hosts_reported cl st [] n m" by (simp add: node_known_def)
  ultimately show ?thesis using networks_used_ips_reported [of cl ds "[]" "[]" st w used st1 w1] u assign_all_given [OF a assms(2)] by blast
qed

text \<open>What every question to a node keeps, the questions to all nodes keep.\<close>

lemma networks_used_ips_keeps:
  assumes ask: "\<And>n net st w r st1 w1. used_host_ids cl n net st w = ((r, st1), w1) \<Longrightarrow> P st w \<Longrightarrow> P st1 w1"
  shows "networks_used_ips cl ds used errs st w = ((used', errs', st'), w') \<Longrightarrow> P st w \<Longrightarrow> P st' w'"
proof (induction ds arbitrary: used errs st w)
  case (Cons d ds)
  obtain r st1 w1 where u: "used_host_ids cl (wd_node_id d) (wd_network_name d) st w = ((r, st1), w1)" by (metis prod.collapse)
  show ?case
  proof (cases "has_machines d \<and> \<not> node_known used (wd_network_name d) (wd_node_id d)")
    case False
    then obtain used1 where "networks_used_ips cl ds used1 errs st w = ((used', errs', st'), w')"
      using Cons.prems(1) by (auto simp: Let_def split: if_splits)
    then show ?thesis using Cons.prems(2) by (rule Cons.IH)
  next
    case True
    then obtain used1 errs1 where "networks_used_ips cl ds used1 errs1 st1 w1 = ((used', errs', st'), w')"
      using Cons.prems(1) u by (auto simp: Let_def split: sum.splits)
    then show ?thesis using ask [OF u Cons.prems(2)] by (rule Cons.IH)
  qed
qed simp

lemma used_host_ids_contracts: "used_host_ids cl n net st w = ((r, st1), w1) \<Longrightarrow> gs_contracts st1 = gs_contracts st"
  by (auto simp: used_host_ids_def Let_def split: prod.splits option.splits sum.splits)

lemma assign_all_contracts: "assign_all cl ds used errs st = Some (kept, errs', st') \<Longrightarrow> gs_contracts st' = gs_contracts st"
proof (induction ds arbitrary: used errs st kept)
  case (Cons d ds)
  have *: "assign_all cl ds u e (st\<lparr>gs_networks := n\<rparr>) = Some (k, errs', st') \<Longrightarrow> gs_contracts st' = gs_contracts st" for u e n k
    using Cons.IH by fastforce
  show ?case using Cons.prems Cons.IH by (auto simp: Let_def split: if_splits option.splits prod.splits dest: *)
qed simp

lemma dd_generate_contracts:
  assumes "dd_generate cl ds st w = Some ((dls, errs, ds', st'), w')"
  shows "gs_contracts st' = gs_contracts st"
proof -
  obtain used errs0 st0 w0 where u: "networks_used_ips cl ds [] [] st w = ((used, errs0, st0), w0)" by (metis prod.collapse)
  have "gs_contracts st0 = gs_contracts st"
    using networks_used_ips_keeps [of cl "\<lambda>s _. gs_contracts s = gs_contracts st", OF _ u] used_host_ids_contracts by metis
  then show ?thesis using assms u by (auto simp: dd_generate_def assign_private_ips_def split: option.splits dest!: assign_all_contracts)
qed

end
