(* ===== verification/NetworkDeployer.thy ===== *)
theory NetworkDeployer
  imports ClientCalls
begin

text \<open>
  Deploying networks (\<open>grid-client/deployer/network_deployer.go\<close>). A network is of one of two kinds, as the values of the
  interface \<open>Network\<close> are; the networks of a batch share the map of endpoints and the map of used ports. The caller's
  networks are changed and returned with the state of the client. A panic and a wait that never ends are \<open>None\<close>.
  Lemmas: a node without client leaves every network of a batch without deployments.
\<close>

section \<open>Networks of both kinds\<close>

datatype any_network = FullNet znet | LightNet znet_light

fun net_name :: "any_network \<Rightarrow> string" where
  "net_name (FullNet z) = zn_name z"
| "net_name (LightNet z) = znl_name z"

fun net_nodes :: "any_network \<Rightarrow> u32 list" where
  "net_nodes (FullNet z) = zn_nodes z"
| "net_nodes (LightNet z) = znl_nodes z"

fun net_public_node :: "any_network \<Rightarrow> u32" where
  "net_public_node (FullNet z) = zn_public_node_id z"
| "net_public_node (LightNet z) = znl_public_node_id z"

fun net_wg_access :: "any_network \<Rightarrow> bool" where
  "net_wg_access (FullNet z) = zn_add_wg_access z"
| "net_wg_access (LightNet z) = False"

fun net_ranges :: "any_network \<Rightarrow> (u32 \<times> ip_net) list" where
  "net_ranges (FullNet z) = zn_nodes_ip_range z"
| "net_ranges (LightNet z) = znl_nodes_ip_range z"

fun net_contracts :: "any_network \<Rightarrow> (u32 \<times> u64) list" where
  "net_contracts (FullNet z) = zn_node_deployment_id z"
| "net_contracts (LightNet z) = znl_node_deployment_id z"

fun set_net_contracts :: "(u32 \<times> u64) list \<Rightarrow> any_network \<Rightarrow> any_network" where
  "set_net_contracts m (FullNet z) = FullNet (z\<lparr>zn_node_deployment_id := m\<rparr>)"
| "set_net_contracts m (LightNet z) = LightNet (z\<lparr>znl_node_deployment_id := m\<rparr>)"

fun net_validate :: "any_network \<Rightarrow> string option" where
  "net_validate (FullNet z) = znet_validate z"
| "net_validate (LightNet z) = znet_light_validate z"

fun net_invalidate :: "'w net_env \<Rightarrow> any_network \<Rightarrow> 'w \<Rightarrow> ((string option \<times> any_network) \<times> 'w) option" where
  "net_invalidate env (FullNet z) w = map_option (map_prod (map_prod id FullNet) id) (invalidate_broken_attributes env z w)"
| "net_invalidate env (LightNet z) w = map_option (map_prod (map_prod id LightNet) id) (light_invalidate_broken env z w)"

fun net_read_config :: "('o, 'w) client \<Rightarrow> deployments \<Rightarrow> any_network \<Rightarrow> string option \<times> any_network" where
  "net_read_config cl dls (FullNet z) = map_prod id FullNet (read_nodes_config (cl_api3 cl) (cl_net cl) dls z)"
| "net_read_config cl dls (LightNet z) = map_prod id LightNet (light_read_nodes_config (cl_api4 cl) dls z)"

section \<open>Checking networks\<close>

text \<open>Each network, whether it passed, with the errors; an account without balance returns none of them.\<close>

fun validate_networks :: "'w net_env \<Rightarrow> any_network list \<Rightarrow> 'w \<Rightarrow> (((bool \<times> any_network) list \<times> string list) \<times> 'w) option" where
  "validate_networks env [] w = Some (([], []), w)"
| "validate_networks env (z # zs) w =
     (case net_validate z of
        Some e \<Rightarrow> map_option (\<lambda>((zs', es), w'). (((False, z) # zs', e # es), w')) (validate_networks env zs w)
      | None \<Rightarrow>
     (case net_invalidate env z w of
        None \<Rightarrow> None
      | Some ((Some e, z'), w1) \<Rightarrow> map_option (\<lambda>((zs', es), w'). (((False, z') # zs', e # es), w')) (validate_networks env zs w1)
      | Some ((None, z'), w1) \<Rightarrow> map_option (\<lambda>((zs', es), w'). (((True, z') # zs', es), w')) (validate_networks env zs w1)))"

definition nd_validate :: "('o, 'w) client \<Rightarrow> any_network list \<Rightarrow> 'w
    \<Rightarrow> (((bool \<times> any_network) list \<times> string list) \<times> 'w) option" where
  "nd_validate cl zs w =
     (case validate_balance cl w of
        (Some e, w1) \<Rightarrow> Some ((map (\<lambda>z. (False, z)) zs, [e]), w1)
      | (None, w1) \<Rightarrow> validate_networks (cl_net cl) zs w1)"

section \<open>Deployments of the networks\<close>

definition need_public_node :: "any_network list \<Rightarrow> bool" where
  "need_public_node zs = list_ex (\<lambda>z. net_wg_access z \<or> length (net_nodes z) > 1) zs"

definition all_nodes :: "any_network list \<Rightarrow> u32 list" where
  "all_nodes zs = remdups (concat (map (\<lambda>z. net_nodes z @ (if net_public_node z \<noteq> 0 then [net_public_node z] else [])) zs))"

fun public_error_text :: "public_error \<Rightarrow> string" where
  "public_error_text (SearchFailed NoNodesMatch) = ''could not find enough nodes with specified options''"
| "public_error_text (SearchFailed (FoundErrors e)) = ''could not find enough nodes, found errors: '' @ e"
| "public_error_text (SearchFailed (ProxyError e)) = e"
| "public_error_text (NoPublicNode e) = e"

text \<open>
  The nodes of the networks and a public node: one of theirs with an IPv4 endpoint, else a new one when one is needed.
\<close>

definition calc_public_node :: "('o, 'w) client \<Rightarrow> any_network list \<Rightarrow> (u32 \<times> ip) list \<Rightarrow> 'w
    \<Rightarrow> (u32 list \<times> u32 \<times> string list) \<times> 'w" where
  "calc_public_node cl zs endpoints w =
     (let nodes = all_nodes zs in
      case find (\<lambda>n. case map_of endpoints n of Some p \<Rightarrow> To4 p \<noteq> [] | None \<Rightarrow> False) nodes of
        Some n \<Rightarrow> ((nodes, n, []), w)
      | None \<Rightarrow>
          if \<not> need_public_node zs then ((nodes, 0, []), w)
          else (case get_public_node (cl_filter cl) (cl_no_others cl) [] w of
            (Inl e, w') \<Rightarrow> ((nodes, 0, [''failed to get public node: '' @ public_error_text e]), w')
          | (Inr n, w') \<Rightarrow> ((nodes, n, []), w')))"

definition add_dls :: "deployments \<Rightarrow> (u32 \<times> deployment list) list \<Rightarrow> (u32 \<times> deployment list) list" where
  "add_dls new m = fold (\<lambda>(n, d). add_dl n d) new m"

text \<open>A network with any error adds no deployments, also when they were generated.\<close>

fun generate_all :: "('o, 'w) client \<Rightarrow> u32 \<Rightarrow> u32 list \<Rightarrow> any_network list \<Rightarrow> (u32 \<times> ip) list \<Rightarrow> (u32 \<times> u16 list) list
    \<Rightarrow> (u32 \<times> deployment list) list \<Rightarrow> string list \<Rightarrow> 'w
    \<Rightarrow> (((u32 \<times> deployment list) list \<times> string list \<times> any_network list) \<times> 'w) option" where
  "generate_all cl publicNode nodes [] eps ports dls errs w = Some ((dls, errs, []), w)"
| "generate_all cl publicNode nodes (FullNet z # zs) eps ports dls errs w =
     (case generate_versionless_deployments (cl_net cl) (dv_twin (cl_dep cl)) publicNode nodes eps ports z w of
        None \<Rightarrow> None
      | Some (((new, es), eps', ports', z'), w') \<Rightarrow>
          map_option (\<lambda>((m, e, zs'), w''). ((m, e, FullNet z' # zs'), w''))
            (generate_all cl publicNode nodes zs eps' ports' (if es = [] then add_dls new dls else dls) (errs @ es) w'))"
| "generate_all cl publicNode nodes (LightNet z # zs) eps ports dls errs w =
     (case light_generate_deployments (dv_twin (cl_dep cl)) z of
        None \<Rightarrow> None
      | Some (r, z') \<Rightarrow>
          map_option (\<lambda>((m, e, zs'), w''). ((m, e, LightNet z' # zs'), w''))
            (generate_all cl publicNode nodes zs eps ports
              (case r of Inl _ \<Rightarrow> dls | Inr new \<Rightarrow> add_dls new dls) (errs @ (case r of Inl e \<Rightarrow> [e] | Inr _ \<Rightarrow> [])) w))"

definition nd_generate :: "('o, 'w) client \<Rightarrow> any_network list \<Rightarrow> 'w
    \<Rightarrow> (((u32 \<times> deployment list) list \<times> string list \<times> any_network list) \<times> 'w) option" where
  "nd_generate cl zs w =
     (case calc_public_node cl zs [] w of
        ((nodes, publicNode, errs), w') \<Rightarrow> generate_all cl publicNode nodes zs [] [] [] errs w')"

section \<open>Deploying\<close>

definition nodes_used :: "any_network \<Rightarrow> u32 list" where
  "nodes_used z =
     (if net_public_node z \<noteq> 0 \<and> net_public_node z \<notin> set (net_nodes z) then net_nodes z @ [net_public_node z] else net_nodes z)"

text \<open>The node's contract and the ranges of the network, when the node has a contract.\<close>

definition nd_record :: "any_network \<Rightarrow> u32 \<Rightarrow> grid_state \<Rightarrow> grid_state" where
  "nd_record z node st =
     (let i = contract_at (net_contracts z) node in
      if i = 0 then st
      else store_contract node i (st\<lparr>gs_networks := update_network_subnets (net_name z) (net_ranges z) (gs_networks st)\<rparr>))"

definition nd_record_all :: "any_network \<Rightarrow> grid_state \<Rightarrow> grid_state" where
  "nd_record_all z st = fold (nd_record z) (nodes_used z) st"

definition nd_drop_old :: "(u32 \<times> u64) list \<Rightarrow> (u32 \<times> u64) list \<Rightarrow> grid_state \<Rightarrow> grid_state" where
  "nd_drop_old old new st = fold (\<lambda>(node, i) st. if map_of new node = None then remove_contract node i st else st) old st"

text \<open>A node with several deployments, which does not happen for one network, is left out.\<close>

definition single_deployments :: "(u32 \<times> deployment list) list \<Rightarrow> deployments" where
  "single_deployments m = concat (map (\<lambda>(n, ds). case ds of [d] \<Rightarrow> [(n, d)] | _ \<Rightarrow> []) m)"

definition nd_read_back :: "('o, 'w) client \<Rightarrow> any_network \<Rightarrow> 'w \<Rightarrow> (string option \<times> any_network) \<times> 'w" where
  "nd_read_back cl z w =
     (case get_deployments (cl_dep cl) (net_contracts z) [] w of
        (Inl e, w') \<Rightarrow> ((Some (''failed to get deployment objects: '' @ e), z), w')
      | (Inr dls, w') \<Rightarrow>
          (case net_read_config cl dls z of (e, z') \<Rightarrow> ((wrap_err ''could not read node's data'' e, z'), w')))"

definition nd_deploy :: "('o, 'w) client \<Rightarrow> any_network \<Rightarrow> grid_state \<Rightarrow> 'w
    \<Rightarrow> ((string option \<times> any_network \<times> grid_state) \<times> 'w) option" where
  "nd_deploy cl z st w =
     (case nd_validate cl [z] w of
        None \<Rightarrow> None
      | Some ((checked, errs), w1) \<Rightarrow>
          (let z1 = snd (hd checked) in
           if errs \<noteq> [] then Some ((Some (concat errs), z1, st), w1)
           else
     (case nd_generate cl [z1] w1 of
        None \<Rightarrow> None
      | Some ((dls, errs, zs), w2) \<Rightarrow>
          (let z2 = hd zs; old = net_contracts z2 in
           if errs \<noteq> [] then Some ((Some (''could not generate deployments data: '' @ concat errs), z2, st), w2)
           else
     (case dep_deploy (cl_dep cl) True old (single_deployments dls) (map (\<lambda>n. (n, None)) (net_nodes z2)) w2 of
        None \<Rightarrow> None
      | Some ((ids, e), w3) \<Rightarrow>
          (let z3 = set_net_contracts ids z2;
               st' = nd_drop_old old ids (nd_record_all z3 st) in
           case e of
             Some e \<Rightarrow> Some ((Some (''could not deploy network '' @ net_name z3 @ '': '' @ e), z3, st'), w3)
           | None \<Rightarrow> (case nd_read_back cl z3 w3 of ((e, z4), w4) \<Rightarrow> Some ((e, z4, st'), w4))))))))"

text \<open>The contracts of the nodes one after the other, each recorded at once.\<close>

fun nd_collect :: "any_network \<Rightarrow> u32 list \<Rightarrow> (u32 \<times> deployment list) list \<Rightarrow> grid_state
    \<Rightarrow> string option \<times> any_network \<times> grid_state" where
  "nd_collect z [] newDls st = (None, z, st)"
| "nd_collect z (node # nodes) newDls st =
     (case own_contract (\<lambda>i. i \<noteq> 0) (net_name z) (dls_at newDls node) None of
        (e, c) \<Rightarrow>
          (let z' = (case c of None \<Rightarrow> z | Some i \<Rightarrow> set_net_contracts (AList.update node i (net_contracts z)) z) in
           if e \<noteq> None then (e, z', st) else nd_collect z' nodes newDls (nd_record z' node st)))"

definition nd_update_state :: "('o, 'w) client \<Rightarrow> any_network \<Rightarrow> (u32 \<times> deployment list) list \<Rightarrow> bool \<Rightarrow> grid_state \<Rightarrow> 'w
    \<Rightarrow> (string option \<times> any_network \<times> grid_state) \<times> 'w" where
  "nd_update_state cl z newDls updateMetadata st w =
     (case nd_collect (set_net_contracts [] z) (nodes_used z) newDls st of
        (Some e, z1, st1) \<Rightarrow> ((Some e, z1, st1), w)
      | (None, z1, st1) \<Rightarrow>
          if \<not> updateMetadata then ((None, z1, st1), w)
          else (case nd_read_back cl z1 w of ((e, z2), w') \<Rightarrow> ((e, z2, st1), w')))"

fun nd_update_all :: "('o, 'w) client \<Rightarrow> any_network list \<Rightarrow> (u32 \<times> deployment list) list \<Rightarrow> bool \<Rightarrow> grid_state \<Rightarrow> 'w
    \<Rightarrow> (string option \<times> any_network list \<times> grid_state) \<times> 'w" where
  "nd_update_all cl [] newDls updateMetadata st w = ((None, [], st), w)"
| "nd_update_all cl (z # zs) newDls updateMetadata st w =
     (case nd_update_state cl z newDls updateMetadata st w of
        ((Some e, z', st'), w') \<Rightarrow> ((Some (''failed to update network '' @ quoted (net_name z) @ '' state: '' @ e), z' # zs, st'), w')
      | ((None, z', st'), w') \<Rightarrow>
          (case nd_update_all cl zs newDls updateMetadata st' w' of
             ((e, zs', st''), w'') \<Rightarrow> ((e, z' # zs', st''), w'')))"

text \<open>The networks of the caller in their order: those that passed are replaced by their generated versions.\<close>

fun put_back :: "(bool \<times> any_network) list \<Rightarrow> any_network list \<Rightarrow> any_network list" where
  "put_back [] gen = []"
| "put_back ((ok, z) # zs) gen = (if ok then (case gen of g # gs \<Rightarrow> g # put_back zs gs | [] \<Rightarrow> z # put_back zs []) else z # put_back zs gen)"

text \<open>The state is updated for every network, those that failed the checks included: these lose their contracts.\<close>

definition nd_batch_deploy :: "('o, 'w) client \<Rightarrow> any_network list \<Rightarrow> bool \<Rightarrow> grid_state \<Rightarrow> 'w
    \<Rightarrow> ((string list \<times> any_network list \<times> grid_state) \<times> 'w) option" where
  "nd_batch_deploy cl zs updateMetadata st w =
     (case nd_validate cl zs w of
        None \<Rightarrow> None
      | Some ((checked, errs0), w1) \<Rightarrow>
          (let ok = map snd (filter fst checked) in
           if ok = [] then Some ((errs0, map snd checked, st), w1)
           else
     (case nd_generate cl ok w1 of
        None \<Rightarrow> None
      | Some ((dls, errs1, gen), w2) \<Rightarrow>
          (let zs1 = put_back checked gen in
           if dls = [] then Some ((errs0 @ errs1, zs1, st), w2)
           else
     (case batch_deploy (cl_dep cl) dls [] w2 of
        None \<Rightarrow> None
      | Some ((newDls, errs2), w3) \<Rightarrow>
          (case nd_update_all cl zs1 newDls updateMetadata st w3 of
             ((Some e, zs2, st'), w4) \<Rightarrow> Some (([e], zs2, st'), w4)
           | ((None, zs2, st'), w4) \<Rightarrow> Some ((errs0 @ errs1 @ errs2, zs2, st'), w4)))))))"

section \<open>Cancelling\<close>

fun nd_cancel_loop :: "('o, 'w) client \<Rightarrow> (u32 \<times> u64) list \<Rightarrow> any_network \<Rightarrow> grid_state \<Rightarrow> 'w
    \<Rightarrow> (string option \<times> any_network \<times> grid_state) \<times> 'w" where
  "nd_cancel_loop cl [] z st w = ((None, z, st), w)"
| "nd_cancel_loop cl ((node, i) # ids) z st w =
     (case dep_cancel (cl_dep cl) i w of
        (Some e, w') \<Rightarrow> ((Some (''could not cancel network '' @ net_name z @ '', contract '' @ dec_text (unat i) @ '': '' @ e), z, st), w')
      | (None, w') \<Rightarrow>
          nd_cancel_loop cl ids (set_net_contracts (AList.delete node (net_contracts z)) z) (remove_contract node i st) w')"

definition forget_network :: "any_network \<Rightarrow> grid_state \<Rightarrow> grid_state" where
  "forget_network z st = st\<lparr>gs_networks := delete_network (net_name z) (gs_networks st)\<rparr>"

definition nd_cancel :: "('o, 'w) client \<Rightarrow> any_network \<Rightarrow> grid_state \<Rightarrow> 'w
    \<Rightarrow> (string option \<times> any_network \<times> grid_state) \<times> 'w" where
  "nd_cancel cl z st w =
     (case validate_balance cl w of
        (Some e, w1) \<Rightarrow> ((Some e, z, st), w1)
      | (None, w1) \<Rightarrow>
     (case nd_cancel_loop cl (net_contracts z) z st w1 of
        ((Some e, z1, st1), w2) \<Rightarrow> ((Some e, z1, st1), w2)
      | ((None, z1, st1), w2) \<Rightarrow>
          (case nd_read_back cl z1 w2 of ((e, z2), w3) \<Rightarrow> ((e, z2, forget_network z1 st1), w3))))"

fun reset_network :: "any_network \<Rightarrow> any_network" where
  "reset_network (FullNet z) = FullNet (z\<lparr>zn_node_deployment_id := [], zn_keys := [], zn_wg_port := [],
     zn_nodes_ip_range := [], zn_access_wg_config := []\<rparr>)"
| "reset_network (LightNet z) = LightNet (z\<lparr>znl_node_deployment_id := [], znl_nodes_ip_range := []\<rparr>)"

definition nd_forget :: "any_network \<Rightarrow> grid_state \<Rightarrow> grid_state" where
  "nd_forget z st = forget_network z (fold (\<lambda>(node, i). remove_contract node i) (net_contracts z) st)"

definition nd_batch_cancel :: "('o, 'w) client \<Rightarrow> any_network list \<Rightarrow> grid_state \<Rightarrow> 'w
    \<Rightarrow> (string option \<times> any_network list \<times> grid_state) \<times> 'w" where
  "nd_batch_cancel cl zs st w =
     (case ch_batch_cancel (cl_chain cl) (filter (\<lambda>i. i \<noteq> 0) (concat (map (\<lambda>z. map snd (net_contracts z)) zs))) w of
        (Some e, w') \<Rightarrow> ((Some (''failed to cancel contracts: '' @ ce_text e), zs, st), w')
      | (None, w') \<Rightarrow> ((None, map reset_network zs, fold nd_forget zs st), w'))"

section \<open>Facts\<close>

text \<open>A node whose client cannot be got, whatever happens before.\<close>

definition unreachable :: "'w net_env \<Rightarrow> u32 \<Rightarrow> bool" where
  "unreachable env n \<longleftrightarrow> (\<forall>w. fst (get_node_client env n w) \<noteq> None)"

lemma node_endpoint_unreachable: "unreachable env n \<Longrightarrow> \<exists>e w'. node_endpoint_and_ports env n w = (Inl e, w')"
  by (cases "get_node_client env n w") (auto simp: unreachable_def node_endpoint_and_ports_def split: option.splits dest: spec [of _ w])

lemma read_nodes_errs:
  "read_nodes env ns eps ports errs w = ((eps', ports', errs'), w') \<Longrightarrow> errs = [] \<and> (\<forall>n \<in> set ns. \<not> unreachable env n) \<or> errs' \<noteq> []"
proof (induction ns arbitrary: eps ports errs w)
  case (Cons n ns)
  show ?case
  proof (cases "node_endpoint_and_ports env n w")
    case (Pair r w1)
    show ?thesis
    proof (cases r)
      case (Inl e)
      then show ?thesis using Cons.IH [of eps ports "errs @ [e]" w1] Cons.prems Pair by auto
    next
      case (Inr p)
      obtain a ps where p: "p = (a, ps)" by fastforce
      have "\<not> unreachable env n" using node_endpoint_unreachable [of env n w] Pair Inr by auto
      then show ?thesis using Cons.IH [of "AList.update n a eps" "AList.update n ps ports" errs w1] Cons.prems Pair Inr p by auto
    qed
  qed
qed simp

lemma generate_unreachable:
  assumes "unreachable env n" and "n \<in> set ns"
    and "generate_versionless_deployments env twin pn ns eps ports z w = Some (((dls, errs), r), w')"
  shows "errs \<noteq> []"
proof -
  obtain eps1 ports1 errs1 w1 where a: "read_nodes env ns eps ports [] w = ((eps1, ports1, errs1), w1)" by (metis prod.collapse)
  have e1: "errs1 \<noteq> []" using read_nodes_errs [OF a] assms(1,2) by auto
  obtain eps2 ports2 errs2 w2 where b: "(if map_of eps1 pn = None \<and> pn \<noteq> 0 then read_nodes env [pn] eps1 ports1 errs1 w1
      else ((eps1, ports1, errs1), w1)) = ((eps2, ports2, errs2), w2)" by (metis prod.collapse)
  have e2: "errs2 \<noteq> []"
  proof (cases "map_of eps1 pn = None \<and> pn \<noteq> 0")
    case True
    then have "read_nodes env [pn] eps1 ports1 errs1 w1 = ((eps2, ports2, errs2), w2)" using b by simp
    from read_nodes_errs [OF this] e1 show ?thesis by auto
  next
    case False
    then show ?thesis using b e1 by auto
  qed
  then show ?thesis using assms(3) a b
    by (auto simp: generate_versionless_deployments_def split: option.split_asm sum.split_asm)
qed

lemma generate_all_blocked:
  assumes "unreachable (cl_net cl) n" and "n \<in> set ns" and "\<forall>z \<in> set zs. \<exists>x. z = FullNet x"
  shows "generate_all cl pn ns zs eps ports dls errs w = Some ((dls', errs', zs'), w')
    \<Longrightarrow> dls' = dls \<and> (zs \<noteq> [] \<longrightarrow> errs' \<noteq> []) \<and> (errs \<noteq> [] \<longrightarrow> errs' \<noteq> [])"
  using assms(3)
proof (induction zs arbitrary: eps ports dls errs w zs')
  case (Cons z zs)
  obtain x where z: "z = FullNet x" using Cons.prems(2) by auto
  obtain new es eps1 ports1 z1 w1 where
    g: "generate_versionless_deployments (cl_net cl) (dv_twin (cl_dep cl)) pn ns eps ports x w = Some (((new, es), eps1, ports1, z1), w1)"
    using Cons.prems(1) z by (auto split: option.splits)
  note es = generate_unreachable [OF assms(1,2) g]
  obtain us where "generate_all cl pn ns zs eps1 ports1 dls (errs @ es) w1 = Some ((dls', errs', us), w')"
    using Cons.prems(1) z g es by auto
  from Cons.IH [OF this] Cons.prems(2) es show ?case by auto
qed simp

end
