(* ===== verification/GatewayDeployers.thy ===== *)
theory GatewayDeployers
  imports ClientCalls
begin

text \<open>
  Deploying gateways (\<open>grid-client/deployer/gateway_name_deployer.go\<close>, \<open>gateway_fqdn_deployer.go\<close>): the gateway the caller
  passes is changed and returned with the state of the client. A gateway with a name has a second contract, for the name.
  A panic and a wait that never ends are \<open>None\<close>.
\<close>

type_synonym ('g, 'w) gw_result = "((string option \<times> 'g \<times> grid_state) \<times> 'w) option"

section \<open>Gateways with a name\<close>

definition gn_validate :: "('o, 'w) client \<Rightarrow> gateway_name \<Rightarrow> 'w \<Rightarrow> string option \<times> 'w" where
  "gn_validate cl g w =
     (case validate_balance cl w of
        (Some e, w1) \<Rightarrow> (Some e, w1)
      | (None, w1) \<Rightarrow>
          (case gateway_name_validate (cl_codec cl) g of
             Some e \<Rightarrow> (Some e, w1)
           | None \<Rightarrow> are_nodes_up cl [gn_node_id g] w1))"

definition gn_generate :: "('o, 'w) client \<Rightarrow> gateway_name \<Rightarrow> deployment \<times> gateway_name" where
  "gn_generate cl g =
     (case gateway_name_metadata g of
        (m, g') \<Rightarrow> ((wl_new_grid_deployment (dv_twin (cl_dep cl)) 0
            [from_zos_workload (cl_api3 cl) (gateway_name_workload (cl_codec cl) g)])\<lparr>dl_metadata := m\<rparr>, g'))"

text \<open>After an error the gateway has no name contract any more.\<close>

definition gn_invalidate :: "('o, 'w) client \<Rightarrow> gateway_name \<Rightarrow> 'w \<Rightarrow> (string option \<times> gateway_name) \<times> 'w" where
  "gn_invalidate cl g w =
     (if gn_name_contract_id g = 0 then ((None, g), w)
      else case invalidate_name_contract (cl_chain cl) (gn_name_contract_id g) (gn_name g) w of
        (Inl e, w') \<Rightarrow> ((Some e, g\<lparr>gn_name_contract_id := 0\<rparr>), w')
      | (Inr i, w') \<Rightarrow> ((None, g\<lparr>gn_name_contract_id := i\<rparr>), w'))"

definition gn_name_contract :: "('o, 'w) client \<Rightarrow> gateway_name \<Rightarrow> 'w \<Rightarrow> (string option \<times> gateway_name) \<times> 'w" where
  "gn_name_contract cl g w =
     (case gn_invalidate cl g w of
        ((Some e, g1), w1) \<Rightarrow> ((Some e, g1), w1)
      | ((None, g1), w1) \<Rightarrow>
          if gn_name_contract_id g1 \<noteq> 0 then ((None, g1), w1)
          else (case create_name_contract (cl_chain cl) (gn_name g1) w1 of
            (Inl e, w2) \<Rightarrow> ((Some (ce_text e), g1\<lparr>gn_name_contract_id := 0\<rparr>), w2)
          | (Inr i, w2) \<Rightarrow> ((None, g1\<lparr>gn_name_contract_id := i\<rparr>), w2)))"

text \<open>The contract of the gateway's node is recorded in the gateway and the state.\<close>

definition gn_record :: "gateway_name \<Rightarrow> grid_state \<Rightarrow> gateway_name \<times> grid_state" where
  "gn_record g st =
     (let i = contract_at (gn_node_deployment_id g) (gn_node_id g) in
      if i \<noteq> 0 then (g\<lparr>gn_contract_id := i\<rparr>, store_contract (gn_node_id g) i st) else (g, st))"

text \<open>A failure cancels the name contract, whether it was made by this call or before.\<close>

definition gn_deploy :: "('o, 'w) client \<Rightarrow> gateway_name \<Rightarrow> grid_state \<Rightarrow> 'w \<Rightarrow> (gateway_name, 'w) gw_result" where
  "gn_deploy cl g st w =
     (case gn_validate cl g w of
        (Some e, w1) \<Rightarrow> Some ((Some e, g, st), w1)
      | (None, w1) \<Rightarrow>
     (case gn_generate cl g of
        (dl, g1) \<Rightarrow>
     (case gn_name_contract cl g1 w1 of
        ((Some e, g2), w2) \<Rightarrow> Some ((Some e, g2, st), w2)
      | ((None, g2), w2) \<Rightarrow>
     (case dep_deploy (cl_dep cl) True (gn_node_deployment_id g2) [(gn_node_id g2, dl)] [(gn_node_id g2, None)] w2 of
        None \<Rightarrow> None
      | Some ((ids, Some e), w3) \<Rightarrow>
          (case ensure_contract_canceled (cl_chain cl) (gn_name_contract_id g2) w3 of
             (Some ce, w4) \<Rightarrow> Some ((Some (''failed to deploy gateway name '' @ e @ '', failed to cancel gateway name contract ''
               @ ce_text ce), g2\<lparr>gn_node_deployment_id := ids\<rparr>, st), w4)
           | (None, w4) \<Rightarrow> Some ((Some (''failed to deploy gateway name id: '' @ e), g2\<lparr>gn_node_deployment_id := ids\<rparr>, st), w4))
      | Some ((ids, None), w3) \<Rightarrow>
          (case gn_record (g2\<lparr>gn_node_deployment_id := ids\<rparr>) st of (g3, st') \<Rightarrow> Some ((None, g3, st'), w3))))))"

text \<open>The gateways of a batch one by one; an error leaves the name contracts of those before.\<close>

fun gn_prepare :: "('o, 'w) client \<Rightarrow> gateway_name list \<Rightarrow> (u32 \<times> deployment list) list \<Rightarrow> 'w
    \<Rightarrow> (string option \<times> gateway_name list \<times> (u32 \<times> deployment list) list) \<times> 'w" where
  "gn_prepare cl [] dls w = ((None, [], dls), w)"
| "gn_prepare cl (g # gs) dls w =
     (case gn_validate cl g w of
        (Some e, w1) \<Rightarrow> ((Some e, g # gs, dls), w1)
      | (None, w1) \<Rightarrow>
     (case gn_generate cl g of
        (dl, g1) \<Rightarrow>
     (case gn_name_contract cl g1 w1 of
        ((Some e, g2), w2) \<Rightarrow> ((Some e, g2 # gs, dls), w2)
      | ((None, g2), w2) \<Rightarrow>
          (case gn_prepare cl gs (add_dl (gn_node_id g2) dl dls) w2 of
             ((e, gs', dls'), w3) \<Rightarrow> ((e, g2 # gs', dls'), w3)))))"

definition gn_update_state :: "gateway_name \<Rightarrow> (u32 \<times> deployment list) list \<Rightarrow> grid_state \<Rightarrow> string option \<times> gateway_name \<times> grid_state" where
  "gn_update_state g newDls st =
     (case own_contract (\<lambda>_. True) (gn_name g) (dls_at newDls (gn_node_id g)) None of
        (e, c) \<Rightarrow>
          (let g' = g\<lparr>gn_node_deployment_id := node_map (gn_node_id g) c\<rparr> in
           if e \<noteq> None then (e, g', st) else (case gn_record g' st of (g'', st') \<Rightarrow> (None, g'', st'))))"

fun gn_update_all :: "gateway_name list \<Rightarrow> (u32 \<times> deployment list) list \<Rightarrow> grid_state
    \<Rightarrow> string option \<times> gateway_name list \<times> grid_state" where
  "gn_update_all [] newDls st = (None, [], st)"
| "gn_update_all (g # gs) newDls st =
     (case gn_update_state g newDls st of
        (Some e, g', st') \<Rightarrow> (Some (''failed to update gateway fqdn '' @ quoted (gn_name g) @ '' state: '' @ e), g' # gs, st')
      | (None, g', st') \<Rightarrow> (case gn_update_all gs newDls st' of (e, gs', st'') \<Rightarrow> (e, g' # gs', st'')))"

definition gn_batch_deploy :: "('o, 'w) client \<Rightarrow> gateway_name list \<Rightarrow> grid_state \<Rightarrow> 'w
    \<Rightarrow> ((string list \<times> gateway_name list \<times> grid_state) \<times> 'w) option" where
  "gn_batch_deploy cl gs st w =
     (case gn_prepare cl gs [] w of
        ((Some e, gs1, _), w1) \<Rightarrow> Some (([e], gs1, st), w1)
      | ((None, gs1, dls), w1) \<Rightarrow>
     (case batch_deploy (cl_dep cl) dls (map (\<lambda>p. (fst p, [])) dls) w1 of
        None \<Rightarrow> None
      | Some ((newDls, errs), w2) \<Rightarrow>
          (case gn_update_all gs1 newDls st of
             (Some e, gs2, st') \<Rightarrow> Some (([e], gs2, st'), w2)
           | (None, gs2, st') \<Rightarrow> Some ((errs, gs2, st'), w2))))"

definition gn_cancel :: "('o, 'w) client \<Rightarrow> gateway_name \<Rightarrow> grid_state \<Rightarrow> 'w \<Rightarrow> (string option \<times> gateway_name \<times> grid_state) \<times> 'w" where
  "gn_cancel cl g st w =
     (let i = contract_at (gn_node_deployment_id g) (gn_node_id g) in
      case dep_cancel (cl_dep cl) i w of
        (Some e, w1) \<Rightarrow> ((Some e, g, st), w1)
      | (None, w1) \<Rightarrow>
          (let g1 = g\<lparr>gn_contract_id := 0, gn_node_deployment_id := AList.delete (gn_node_id g) (gn_node_deployment_id g)\<rparr>;
               st1 = remove_contract (gn_node_id g) i st
           in if gn_name_contract_id g1 = 0 then ((None, g1, st1), w1)
              else (case ensure_contract_canceled (cl_chain cl) (gn_name_contract_id g1) w1 of
                (Some e, w2) \<Rightarrow> ((Some (ce_text e), g1, st1), w2)
              | (None, w2) \<Rightarrow> ((None, g1\<lparr>gn_name_contract_id := 0\<rparr>, st1), w2))))"

definition gn_sync_contracts :: "('o, 'w) client \<Rightarrow> gateway_name \<Rightarrow> 'w \<Rightarrow> (string option \<times> gateway_name) \<times> 'w" where
  "gn_sync_contracts cl g w =
     (case delete_invalid_contracts (cl_chain cl) (gn_node_deployment_id g) w of
        ((Some e, ids), w1) \<Rightarrow> ((Some (ce_text e), g\<lparr>gn_node_deployment_id := ids\<rparr>), w1)
      | ((None, ids), w1) \<Rightarrow>
          (let g1 = g\<lparr>gn_node_deployment_id := ids\<rparr> in
           case is_valid_contract (cl_chain cl) (gn_name_contract_id g1) w1 of
             ((_, Some e), w2) \<Rightarrow> ((Some (ce_text e), g1), w2)
           | ((valid, None), w2) \<Rightarrow>
               (let g2 = (if valid then g1 else g1\<lparr>gn_name_contract_id := 0\<rparr>) in
                ((None, if gn_name_contract_id g2 = 0 \<and> length ids = 0 then g2\<lparr>gn_contract_id := 0\<rparr> else g2), w2))))"

text \<open>The workload of the name on the node, when the node has it as running.\<close>

definition running_workload :: "('o, 'w) client \<Rightarrow> deployments \<Rightarrow> u32 \<Rightarrow> string \<Rightarrow> workload option" where
  "running_workload cl dls node name =
     (case dl_get (cl_api3 cl) (cl_api4 cl) (case map_of dls node of Some d \<Rightarrow> d | None \<Rightarrow> zero_deployment) name of
        Inl _ \<Rightarrow> None
      | Inr (wl, _) \<Rightarrow> if is_okay (rs_state (wl_result wl)) then Some wl else None)"

definition gn_copy :: "gateway_name \<Rightarrow> gateway_name \<Rightarrow> gateway_name" where
  "gn_copy g h = g\<lparr>gn_backends := gn_backends h, gn_name := gn_name h, gn_fqdn := gn_fqdn h,
     gn_tls_passthrough := gn_tls_passthrough h, gn_network := gn_network h\<rparr>"

definition gn_sync :: "('o, 'w) client \<Rightarrow> gateway_name \<Rightarrow> 'w \<Rightarrow> (string option \<times> gateway_name) \<times> 'w" where
  "gn_sync cl g w =
     (case gn_sync_contracts cl g w of
        ((Some e, g1), w1) \<Rightarrow> ((Some (''could not sync contracts: '' @ e), g1), w1)
      | ((None, g1), w1) \<Rightarrow>
     (case get_deployments (cl_dep cl) (gn_node_deployment_id g1) [] w1 of
        (Inl e, w2) \<Rightarrow> ((Some (''could not get deployment objects: '' @ e), g1), w2)
      | (Inr dls, w2) \<Rightarrow>
          (let g2 = gn_copy g1 zero_gateway_name in
           case running_workload cl dls (gn_node_id g1) (gn_name g1) of
             None \<Rightarrow> ((None, g2), w2)
           | Some wl \<Rightarrow>
               (case new_gateway_name_from_workload (cl_wl cl) (cl_codec cl) (workload3 wl) of
                  Inl e \<Rightarrow> ((Some e, g2), w2)
                | Inr h \<Rightarrow> ((None, gn_copy g1 h), w2)))))"

section \<open>Gateways with a domain name\<close>

definition gf_validate :: "('o, 'w) client \<Rightarrow> gateway_fqdn \<Rightarrow> 'w \<Rightarrow> string option \<times> 'w" where
  "gf_validate cl g w =
     (case validate_balance cl w of
        (Some e, w1) \<Rightarrow> (Some e, w1)
      | (None, w1) \<Rightarrow>
     (case gateway_fqdn_validate (cl_codec cl) g of
        Some e \<Rightarrow> (Some e, w1)
      | None \<Rightarrow>
     (case dv_client (cl_dep cl) (gf_node_id g) w1 of
        (Some e, w2) \<Rightarrow> (Some (''failed to get node client with ID '' @ dec_text (unat (gf_node_id g)) @ '': '' @ e), w2)
      | (None, w2) \<Rightarrow>
     (case cl_public_ip4 cl (gf_node_id g) w2 of
        (Inl e, w3) \<Rightarrow> (Some (''couldn't get node '' @ dec_text (unat (gf_node_id g)) @ '' public config: '' @ e), w3)
      | (Inr p, w3) \<Rightarrow>
          if p = [] then (Some (''node '' @ dec_text (unat (gf_node_id g)) @ '' doesn't contain a public IP in its public config''), w3)
          else are_nodes_up cl [gf_node_id g] w3))))"

definition gf_generate :: "('o, 'w) client \<Rightarrow> gateway_fqdn \<Rightarrow> deployment \<times> gateway_fqdn" where
  "gf_generate cl g =
     (case gateway_fqdn_metadata g of
        (m, g') \<Rightarrow> ((wl_new_grid_deployment (dv_twin (cl_dep cl)) 0
            [from_zos_workload (cl_api3 cl) (gateway_fqdn_workload (cl_codec cl) g)])\<lparr>dl_metadata := m\<rparr>, g'))"

definition gf_record :: "gateway_fqdn \<Rightarrow> grid_state \<Rightarrow> gateway_fqdn \<times> grid_state" where
  "gf_record g st =
     (let i = contract_at (gf_node_deployment_id g) (gf_node_id g) in
      if i \<noteq> 0 then (g\<lparr>gf_contract_id := i\<rparr>, store_contract (gf_node_id g) i st) else (g, st))"

text \<open>The state is updated also after an error.\<close>

definition gf_deploy :: "('o, 'w) client \<Rightarrow> gateway_fqdn \<Rightarrow> grid_state \<Rightarrow> 'w \<Rightarrow> (gateway_fqdn, 'w) gw_result" where
  "gf_deploy cl g st w =
     (case gf_validate cl g w of
        (Some e, w1) \<Rightarrow> Some ((Some e, g, st), w1)
      | (None, w1) \<Rightarrow>
     (case gf_generate cl g of
        (dl, g1) \<Rightarrow>
     (case dep_deploy (cl_dep cl) True (gf_node_deployment_id g1) [(gf_node_id g1, dl)] [(gf_node_id g1, None)] w1 of
        None \<Rightarrow> None
      | Some ((ids, e), w2) \<Rightarrow>
          (case gf_record (g1\<lparr>gf_node_deployment_id := ids\<rparr>) st of (g2, st') \<Rightarrow> Some ((e, g2, st'), w2)))))"

fun gf_prepare :: "('o, 'w) client \<Rightarrow> gateway_fqdn list \<Rightarrow> (u32 \<times> deployment list) list \<Rightarrow> 'w
    \<Rightarrow> (string option \<times> gateway_fqdn list \<times> (u32 \<times> deployment list) list) \<times> 'w" where
  "gf_prepare cl [] dls w = ((None, [], dls), w)"
| "gf_prepare cl (g # gs) dls w =
     (case gf_validate cl g w of
        (Some e, w1) \<Rightarrow> ((Some e, g # gs, dls), w1)
      | (None, w1) \<Rightarrow>
     (case gf_generate cl g of
        (dl, g1) \<Rightarrow>
          (case gf_prepare cl gs (add_dl (gf_node_id g1) dl dls) w1 of
             ((e, gs', dls'), w2) \<Rightarrow> ((e, g1 # gs', dls'), w2))))"

definition gf_update_state :: "gateway_fqdn \<Rightarrow> (u32 \<times> deployment list) list \<Rightarrow> grid_state \<Rightarrow> string option \<times> gateway_fqdn \<times> grid_state" where
  "gf_update_state g newDls st =
     (case own_contract (\<lambda>_. True) (gf_name g) (dls_at newDls (gf_node_id g)) None of
        (e, c) \<Rightarrow>
          (let g' = g\<lparr>gf_node_deployment_id := node_map (gf_node_id g) c\<rparr> in
           if e \<noteq> None then (e, g', st) else (case gf_record g' st of (g'', st') \<Rightarrow> (None, g'', st'))))"

fun gf_update_all :: "gateway_fqdn list \<Rightarrow> (u32 \<times> deployment list) list \<Rightarrow> grid_state
    \<Rightarrow> string option \<times> gateway_fqdn list \<times> grid_state" where
  "gf_update_all [] newDls st = (None, [], st)"
| "gf_update_all (g # gs) newDls st =
     (case gf_update_state g newDls st of
        (Some e, g', st') \<Rightarrow> (Some (''failed to update gateway fqdn '' @ quoted (gf_name g) @ '' state: '' @ e), g' # gs, st')
      | (None, g', st') \<Rightarrow> (case gf_update_all gs newDls st' of (e, gs', st'') \<Rightarrow> (e, g' # gs', st'')))"

definition gf_batch_deploy :: "('o, 'w) client \<Rightarrow> gateway_fqdn list \<Rightarrow> grid_state \<Rightarrow> 'w
    \<Rightarrow> ((string list \<times> gateway_fqdn list \<times> grid_state) \<times> 'w) option" where
  "gf_batch_deploy cl gs st w =
     (case gf_prepare cl gs [] w of
        ((Some e, gs1, _), w1) \<Rightarrow> Some (([e], gs1, st), w1)
      | ((None, gs1, dls), w1) \<Rightarrow>
     (case batch_deploy (cl_dep cl) dls (map (\<lambda>p. (fst p, [])) dls) w1 of
        None \<Rightarrow> None
      | Some ((newDls, errs), w2) \<Rightarrow>
          (case gf_update_all gs1 newDls st of
             (Some e, gs2, st') \<Rightarrow> Some (([e], gs2, st'), w2)
           | (None, gs2, st') \<Rightarrow> Some ((errs, gs2, st'), w2))))"

definition gf_cancel :: "('o, 'w) client \<Rightarrow> gateway_fqdn \<Rightarrow> grid_state \<Rightarrow> 'w \<Rightarrow> (string option \<times> gateway_fqdn \<times> grid_state) \<times> 'w" where
  "gf_cancel cl g st w =
     (case gf_validate cl g w of
        (Some e, w1) \<Rightarrow> ((Some e, g, st), w1)
      | (None, w1) \<Rightarrow>
          (let i = contract_at (gf_node_deployment_id g) (gf_node_id g) in
           case dep_cancel (cl_dep cl) i w1 of
             (Some e, w2) \<Rightarrow> ((Some e, g, st), w2)
           | (None, w2) \<Rightarrow>
               ((None, g\<lparr>gf_contract_id := 0, gf_node_deployment_id := AList.delete (gf_node_id g) (gf_node_deployment_id g)\<rparr>,
                 remove_contract (gf_node_id g) i st), w2)))"

definition gf_sync_contracts :: "('o, 'w) client \<Rightarrow> gateway_fqdn \<Rightarrow> 'w \<Rightarrow> (string option \<times> gateway_fqdn) \<times> 'w" where
  "gf_sync_contracts cl g w =
     (case delete_invalid_contracts (cl_chain cl) (gf_node_deployment_id g) w of
        ((Some e, ids), w1) \<Rightarrow> ((Some (ce_text e), g\<lparr>gf_node_deployment_id := ids\<rparr>), w1)
      | ((None, ids), w1) \<Rightarrow>
          ((None, if length ids = 0 then g\<lparr>gf_node_deployment_id := ids, gf_contract_id := 0\<rparr>
                  else g\<lparr>gf_node_deployment_id := ids\<rparr>), w1))"

definition gf_copy :: "gateway_fqdn \<Rightarrow> gateway_fqdn \<Rightarrow> gateway_fqdn" where
  "gf_copy g h = g\<lparr>gf_backends := gf_backends h, gf_name := gf_name h, gf_fqdn := gf_fqdn h,
     gf_tls_passthrough := gf_tls_passthrough h, gf_network := gf_network h\<rparr>"

definition gf_sync :: "('o, 'w) client \<Rightarrow> gateway_fqdn \<Rightarrow> 'w \<Rightarrow> (string option \<times> gateway_fqdn) \<times> 'w" where
  "gf_sync cl g w =
     (case gf_sync_contracts cl g w of
        ((Some e, g1), w1) \<Rightarrow> ((Some (''could not sync contracts: '' @ e), g1), w1)
      | ((None, g1), w1) \<Rightarrow>
     (case get_deployments (cl_dep cl) (gf_node_deployment_id g1) [] w1 of
        (Inl e, w2) \<Rightarrow> ((Some (''could not get deployment objects: '' @ e), g1), w2)
      | (Inr dls, w2) \<Rightarrow>
          (let g2 = gf_copy g1 zero_gateway_fqdn in
           case running_workload cl dls (gf_node_id g1) (gf_name g1) of
             None \<Rightarrow> ((None, g2), w2)
           | Some wl \<Rightarrow>
               (case new_gateway_fqdn_from_workload (cl_wl cl) (workload3 wl) of
                  Inl e \<Rightarrow> ((Some e, g2), w2)
                | Inr h \<Rightarrow> ((None, gf_copy g1 h), w2)))))"

end
