(* ===== verification/K8sDeployer.thy ===== *)
theory K8sDeployer
  imports ClientCalls
begin

text \<open>
  Deploying Kubernetes clusters (\<open>grid-client/deployer/k8s_deployer.go\<close>). The caller's cluster is changed and returned with
  the state of the client. A cluster without master panics at every access to it; a panic and a wait that never ends are
  \<open>None\<close>. \<open>getK8sFreeIP\<close> writes the host id into the bytes of the node's range, which shares them with the cluster's
  map of ranges. Lemmas: the addresses given to the nodes.
\<close>

section \<open>Addresses\<close>

text \<open>The last bytes of the addresses the nodes on \<open>node\<close> have.\<close>

definition used_id :: "(string \<Rightarrow> ip option) \<Rightarrow> u32 \<Rightarrow> k8s_node \<Rightarrow> u8 list" where
  "used_id parse6 node v =
     (if kn_node v \<noteq> node then [] else case last_byte parse6 (vm_ip (kn_vm v)) of Some h \<Rightarrow> [h] | None \<Rightarrow> [])"

definition k8s_used_ips :: "(string \<Rightarrow> ip option) \<Rightarrow> k8s_node list \<Rightarrow> u32 \<Rightarrow> u8 list" where
  "k8s_used_ips parse6 vs node = concat (map (used_id parse6 node) vs)"

definition first_free_id :: "u8 list \<Rightarrow> u8 option" where
  "first_free_id used = find (\<lambda>h. \<not> contains used h) (map word_of_nat [2..<255])"

text \<open>The address with the host id \<open>h\<close>, and the range with the bytes after the write.\<close>

definition k8s_free_ip :: "(string \<Rightarrow> ip option) \<Rightarrow> ip_net \<Rightarrow> u32 \<Rightarrow> k8s_node list \<Rightarrow> string + string \<times> ip_net" where
  "k8s_free_ip parse6 range' node vs =
     (if To4 (IP range') = [] then Inl (''the provided ip range ('' @ net_text range' @ '') is not a valid ipv4'')
      else case first_free_id (k8s_used_ips parse6 vs node) of
        None \<Rightarrow> Inl ''all ips are used''
      | Some h \<Rightarrow> Inr (ip_text (To4 (with_host (IP range') h)), range'\<lparr>IP := with_host (IP range') h\<rparr>))"

definition set_ip :: "string \<Rightarrow> k8s_node \<Rightarrow> k8s_node" where
  "set_ip a v = v\<lparr>kn_vm := (kn_vm v)\<lparr>vm_ip := a\<rparr>\<rparr>"

text \<open>The nodes from the \<open>i\<close>-th on, the master being the first.\<close>

fun assign_ips :: "(string \<Rightarrow> ip option) \<Rightarrow> (u32 \<times> ip_net) list \<Rightarrow> k8s_node list \<Rightarrow> k8s_node list
    \<Rightarrow> string option \<times> (u32 \<times> ip_net) list \<times> k8s_node list" where
  "assign_ips parse6 ranges done [] = (None, ranges, done)"
| "assign_ips parse6 ranges done (v # vs) =
     (let r = (case map_of ranges (kn_node v) of Some r \<Rightarrow> r | None \<Rightarrow> nil_net) in
      if vm_ip (kn_vm v) \<noteq> [] \<and> net_contains r (parse_ip parse6 (vm_ip (kn_vm v)))
      then assign_ips parse6 ranges (done @ [v]) vs
      else case k8s_free_ip parse6 r (kn_node v) (done @ v # vs) of
        Inl e \<Rightarrow> (Some ((if done = [] then ''failed to find free ip for master: '' else ''failed to find free ip for worker: '') @ e),
                  ranges, done @ v # vs)
      | Inr (a, r') \<Rightarrow>
          assign_ips parse6 (if map_of ranges (kn_node v) = None then ranges else AList.update (kn_node v) r' ranges)
            (done @ [set_ip a v]) vs)"

definition k8s_assign_ips :: "(string \<Rightarrow> ip option) \<Rightarrow> k8s_cluster \<Rightarrow> (string option \<times> k8s_cluster) option" where
  "k8s_assign_ips parse6 k =
     map_option (\<lambda>m. case assign_ips parse6 (kc_nodes_ip_range k) [] (m # kc_workers k) of
        (e, ranges, vs) \<Rightarrow> (e, k\<lparr>kc_nodes_ip_range := ranges, kc_master := Some (hd vs), kc_workers := tl vs\<rparr>)) (kc_master k)"

section \<open>Checking and generating\<close>

definition kd_validate :: "('o, 'w) client \<Rightarrow> k8s_cluster \<Rightarrow> grid_state \<Rightarrow> 'w
    \<Rightarrow> ((string option \<times> k8s_cluster \<times> grid_state) \<times> 'w) option" where
  "kd_validate cl k st w =
     (case validate_balance cl w of
        (Some e, w1) \<Rightarrow> Some ((Some e, k, st), w1)
      | (None, w1) \<Rightarrow>
     (case assign_nodes_ip_range cl k st of
        None \<Rightarrow> None
      | Some (Some e, k1, st1) \<Rightarrow> Some ((Some e, k1, st1), w1)
      | Some (None, k1, st1) \<Rightarrow>
     (case (k8s_validate (cl_wl cl) k1, kc_master k1) of
        (Some (Some e), _) \<Rightarrow> Some ((Some e, k1, st1), w1)
      | (Some None, Some m) \<Rightarrow>
          (case are_nodes_up cl (foldl (\<lambda>ns v. if contains ns (kn_node v) then ns else ns @ [kn_node v]) [kn_node m]
                  (kc_workers k1)) w1 of
             (e, w2) \<Rightarrow> Some ((e, k1, st1), w2))
      | _ \<Rightarrow> None)))"

definition add_workloads :: "u32 \<Rightarrow> workload list \<Rightarrow> (u32 \<times> workload list) list \<Rightarrow> (u32 \<times> workload list) list" where
  "add_workloads node ws m = AList.update node ((case map_of m node of Some us \<Rightarrow> us | None \<Rightarrow> []) @ ws) m"

definition k8s_node_map :: "('o, 'w) client \<Rightarrow> k8s_cluster \<Rightarrow> (u32 \<times> workload list) list option" where
  "k8s_node_map cl k =
     (case kc_master k of
        None \<Rightarrow> None
      | Some m \<Rightarrow>
          (case (k8s_node_workloads (cl_wl cl) (cl_codec cl) k m False,
                 all_some (map (\<lambda>v. k8s_node_workloads (cl_wl cl) (cl_codec cl) k v True) (kc_workers k))) of
             (Some mws, Some wws) \<Rightarrow>
               Some (fold (\<lambda>(v, ws). add_workloads (kn_node v) (map (from_zos_workload (cl_api3 cl)) ws))
                 (zip (m # kc_workers k) (mws # wws)) [])
           | _ \<Rightarrow> None))"

definition kd_generate :: "('o, 'w) client \<Rightarrow> k8s_cluster \<Rightarrow> ((string + deployments) \<times> k8s_cluster) option" where
  "kd_generate cl k =
     (case k8s_assign_ips (we_parse_ip6 (cl_wl cl)) k of
        None \<Rightarrow> None
      | Some (Some e, k1) \<Rightarrow> Some (Inl (''failed to assign node ips: '' @ e), k1)
      | Some (None, k1) \<Rightarrow>
          (case (k8s_node_map cl k1, k8s_metadata k1) of
             (Some m, Some (t, k2)) \<Rightarrow>
               Some (Inr (map (\<lambda>(n, ws). (n, (wl_new_grid_deployment (dv_twin (cl_dep cl)) 0 ws)\<lparr>dl_metadata := t\<rparr>)) m), k2)
           | _ \<Rightarrow> None))"

definition default_entrypoint :: string where
  "default_entrypoint = ''/sbin/zinit init''"

definition assign_flists :: "k8s_cluster \<Rightarrow> k8s_cluster option" where
  "assign_flists k =
     map_option (\<lambda>m.
       let fl = (if kc_flist k = [] then vm_flist (kn_vm m) else kc_flist k);
           ep = (if kc_entrypoint k \<noteq> [] then kc_entrypoint k
                 else if vm_entrypoint (kn_vm m) \<noteq> [] then vm_entrypoint (kn_vm m) else default_entrypoint);
           set = (\<lambda>v. v\<lparr>kn_vm := (kn_vm v)\<lparr>vm_flist := fl, vm_entrypoint := ep\<rparr>\<rparr>)
       in k\<lparr>kc_flist := fl, kc_entrypoint := ep, kc_master := Some (set m), kc_workers := map set (kc_workers k)\<rparr>) (kc_master k)"

section \<open>Deploying\<close>

text \<open>Everything before the deployer is called: an error, or the deployments.\<close>

definition kd_prepare :: "('o, 'w) client \<Rightarrow> k8s_cluster \<Rightarrow> grid_state \<Rightarrow> 'w
    \<Rightarrow> (((string + deployments) \<times> k8s_cluster \<times> grid_state) \<times> 'w) option" where
  "kd_prepare cl k st w =
     (case assign_nodes_ip_range cl k st of
        None \<Rightarrow> None
      | Some (Some e, k1, st1) \<Rightarrow> Some ((Inl e, k1, st1), w)
      | Some (None, k1, st1) \<Rightarrow>
     (case k8s_invalidate_broken (cl_chain cl) k1 w of
        None \<Rightarrow> None
      | Some ((Some e, k2), w1) \<Rightarrow> Some ((Inl e, k2, st1), w1)
      | Some ((None, k2), w1) \<Rightarrow>
     (case assign_flists k2 of
        None \<Rightarrow> None
      | Some k3 \<Rightarrow>
     (case kd_validate cl k3 st1 w1 of
        None \<Rightarrow> None
      | Some ((Some e, k4, st2), w2) \<Rightarrow> Some ((Inl e, k4, st2), w2)
      | Some ((None, k4, st2), w2) \<Rightarrow>
          map_option (\<lambda>(r, k5). ((case r of Inl e \<Rightarrow> Inl (''could not generate k8s grid deployments: '' @ e) | Inr dls \<Rightarrow> Inr dls,
            k5, st2), w2)) (kd_generate cl k4)))))"

text \<open>The workers' contracts are stored when the master has one; a worker without a contract stores contract 0.\<close>

definition kd_record :: "k8s_cluster \<Rightarrow> k8s_node \<Rightarrow> grid_state \<Rightarrow> grid_state" where
  "kd_record k m st =
     (let ids = kc_node_deployment_id k; i = contract_at ids (kn_node m) in
      if i = 0 then st
      else fold (\<lambda>v. store_contract (kn_node v) (contract_at ids (kn_node v))) (kc_workers k) (store_contract (kn_node m) i st))"

definition kd_deploy :: "('o, 'w) client \<Rightarrow> k8s_cluster \<Rightarrow> grid_state \<Rightarrow> 'w
    \<Rightarrow> ((string option \<times> k8s_cluster \<times> grid_state) \<times> 'w) option" where
  "kd_deploy cl k st w =
     (case kd_prepare cl k st w of
        None \<Rightarrow> None
      | Some ((Inl e, k1, st1), w1) \<Rightarrow> Some ((Some e, k1, st1), w1)
      | Some ((Inr dls, k1, st1), w1) \<Rightarrow>
     (case kc_master k1 of
        None \<Rightarrow> None
      | Some m \<Rightarrow>
     (case dep_deploy (cl_dep cl) True (kc_node_deployment_id k1) dls [(kn_node m, None)] w1 of
        None \<Rightarrow> None
      | Some ((ids, e), w2) \<Rightarrow>
          (let k2 = k1\<lparr>kc_node_deployment_id := ids\<rparr> in Some ((e, k2, kd_record k2 m st1), w2)))))"

fun kd_prepare_all :: "('o, 'w) client \<Rightarrow> k8s_cluster list \<Rightarrow> (u32 \<times> deployment list) list \<Rightarrow> grid_state \<Rightarrow> 'w
    \<Rightarrow> ((string option \<times> k8s_cluster list \<times> (u32 \<times> deployment list) list \<times> grid_state) \<times> 'w) option" where
  "kd_prepare_all cl [] dls st w = Some ((None, [], dls, st), w)"
| "kd_prepare_all cl (k # ks) dls st w =
     (case kd_prepare cl k st w of
        None \<Rightarrow> None
      | Some ((Inl e, k', st'), w') \<Rightarrow> Some ((Some e, k' # ks, dls, st'), w')
      | Some ((Inr new, k', st'), w') \<Rightarrow>
          map_option (\<lambda>((e, ks', m, s), w''). ((e, k' # ks', m, s), w''))
            (kd_prepare_all cl ks (fold (\<lambda>(n, d). add_dl n d) new dls) st' w'))"

text \<open>
  The contract of every node of the cluster is stored under the master's node, so the last node's replaces the master's,
  and no worker on another node gets an entry.
\<close>

fun kd_collect :: "string \<Rightarrow> u32 \<Rightarrow> u32 list \<Rightarrow> (u32 \<times> deployment list) list \<Rightarrow> u64 option \<Rightarrow> string option \<times> u64 option" where
  "kd_collect name master [] newDls cur = (None, cur)"
| "kd_collect name master (node # nodes) newDls cur =
     (case own_contract (\<lambda>_. True) name (dls_at newDls node) cur of
        (Some e, cur') \<Rightarrow> (Some e, cur')
      | (None, cur') \<Rightarrow> kd_collect name master nodes newDls cur')"

definition kd_update_state :: "k8s_cluster \<Rightarrow> (u32 \<times> deployment list) list \<Rightarrow> grid_state
    \<Rightarrow> (string option \<times> k8s_cluster \<times> grid_state) option" where
  "kd_update_state k newDls st =
     map_option (\<lambda>m.
       case kd_collect (kn_name m) (kn_node m) (kn_node m # map kn_node (kc_workers k)) newDls None of
         (e, c) \<Rightarrow>
           (let k' = k\<lparr>kc_node_deployment_id := node_map (kn_node m) c\<rparr> in
            if e \<noteq> None then (e, k', st) else (None, k', kd_record k' m st))) (kc_master k)"

fun kd_update_all :: "k8s_cluster list \<Rightarrow> (u32 \<times> deployment list) list \<Rightarrow> grid_state
    \<Rightarrow> (string option \<times> k8s_cluster list \<times> grid_state) option" where
  "kd_update_all [] newDls st = Some (None, [], st)"
| "kd_update_all (k # ks) newDls st =
     (case (kd_update_state k newDls st, kc_master k) of
        (Some (Some e, k', st'), Some m) \<Rightarrow>
          Some (Some (''failed to update cluster with master name '' @ quoted (kn_name m) @ '' state: '' @ e), k' # ks, st')
      | (Some (None, k', st'), _) \<Rightarrow> map_option (\<lambda>(e, ks', s). (e, k' # ks', s)) (kd_update_all ks newDls st')
      | _ \<Rightarrow> None)"

definition kd_batch_deploy :: "('o, 'w) client \<Rightarrow> k8s_cluster list \<Rightarrow> grid_state \<Rightarrow> 'w
    \<Rightarrow> ((string list \<times> k8s_cluster list \<times> grid_state) \<times> 'w) option" where
  "kd_batch_deploy cl ks st w =
     (case kd_prepare_all cl ks [] st w of
        None \<Rightarrow> None
      | Some ((Some e, ks1, _, st1), w1) \<Rightarrow> Some (([e], ks1, st1), w1)
      | Some ((None, ks1, dls, st1), w1) \<Rightarrow>
     (case batch_deploy (cl_dep cl) dls (map (\<lambda>p. (fst p, [])) dls) w1 of
        None \<Rightarrow> None
      | Some ((newDls, errs), w2) \<Rightarrow>
          map_option (\<lambda>(e, ks2, st2). ((case e of Some t \<Rightarrow> [t] | None \<Rightarrow> errs, ks2, st2), w2)) (kd_update_all ks1 newDls st1)))"

section \<open>Cancelling\<close>

text \<open>The contracts of nodes that are neither the master's nor a worker's are left alone.\<close>

fun kd_cancel_loop :: "('o, 'w) client \<Rightarrow> k8s_node \<Rightarrow> (u32 \<times> u64) list \<Rightarrow> k8s_cluster \<Rightarrow> grid_state \<Rightarrow> 'w
    \<Rightarrow> (string option \<times> k8s_cluster \<times> grid_state) \<times> 'w" where
  "kd_cancel_loop cl m [] k st w = ((None, k, st), w)"
| "kd_cancel_loop cl m ((node, i) # ids) k st w =
     (case (if kn_node m = node then Some (''master '' @ kn_name m)
            else map_option (\<lambda>v. ''worker '' @ kn_name v) (find (\<lambda>v. kn_node v = node) (kc_workers k))) of
        None \<Rightarrow> kd_cancel_loop cl m ids k st w
      | Some what \<Rightarrow>
          (case dep_cancel (cl_dep cl) i w of
             (Some e, w') \<Rightarrow> ((Some (''could not cancel '' @ what @ '', contract '' @ dec_text (unat i) @ '': '' @ e), k, st), w')
           | (None, w') \<Rightarrow>
               kd_cancel_loop cl m ids (k\<lparr>kc_node_deployment_id := AList.delete node (kc_node_deployment_id k)\<rparr>)
                 (remove_contract node i st) w'))"

definition kd_cancel :: "('o, 'w) client \<Rightarrow> k8s_cluster \<Rightarrow> grid_state \<Rightarrow> 'w
    \<Rightarrow> ((string option \<times> k8s_cluster \<times> grid_state) \<times> 'w) option" where
  "kd_cancel cl k st w =
     (if kc_node_deployment_id k = [] then Some ((None, k, st), w)
      else map_option (\<lambda>m. kd_cancel_loop cl m (kc_node_deployment_id k) k st w) (kc_master k))"

section \<open>Reading the cluster back\<close>

text \<open>The contracts that are not deleted.\<close>

fun kd_remove_deleted :: "'w chain \<Rightarrow> (u32 \<times> u64) list \<Rightarrow> 'w \<Rightarrow> (string + (u32 \<times> u64) list) \<times> 'w" where
  "kd_remove_deleted ch [] w = (Inr [], w)"
| "kd_remove_deleted ch ((node, i) # ids) w =
     (case sub_get_contract ch i w of
        (Inl e, w') \<Rightarrow> (Inl (''failed to get deployments: '' @ ce_text e), w')
      | (Inr c, w') \<Rightarrow>
          (case kd_remove_deleted ch ids w' of
             (Inl e, w'') \<Rightarrow> (Inl e, w'')
           | (Inr m, w'') \<Rightarrow> (Inr (if cc_deleted c then m else (node, i) # m), w'')))"

text \<open>The machines of the deployments with their nodes; one whose data is no machine, or without interface, panics.\<close>

definition machine_of :: "wl_env \<Rightarrow> u32 \<times> workload \<Rightarrow> (u32 \<times> workload \<times> zmachine \<times> machine_interface) option" where
  "machine_of env p =
     (case gt_workload_data (we_api3 env) (workload3 (snd p)) of
        Inr (PZMachine d) \<Rightarrow> (case mn_interfaces (zm_network d) of i # _ \<Rightarrow> Some (fst p, snd p, d, i) | [] \<Rightarrow> None)
      | _ \<Rightarrow> None)"

definition remote_machines :: "wl_env \<Rightarrow> deployments \<Rightarrow> (u32 \<times> workload \<times> zmachine \<times> machine_interface) list option" where
  "remote_machines env dls =
     all_some (map (machine_of env) (filter (\<lambda>(n, w). wl_type w = ZMachineType)
       (concat (map (\<lambda>(n, d). map (Pair n) (dl_workloads d)) dls))))"

definition first_change :: "'a \<Rightarrow> 'a list \<Rightarrow> 'a" where
  "first_change cur xs = (case find (\<lambda>x. x \<noteq> cur) xs of Some x \<Rightarrow> x | None \<Rightarrow> cur)"

text \<open>The machines by their names: the last one of a name, at the place of the first.\<close>

definition machine_map :: "(u32 \<times> workload \<times> zmachine \<times> machine_interface) list \<Rightarrow> (string \<times> u32 \<times> workload) list" where
  "machine_map ms = fold (\<lambda>(n, w, _) m. AList.update (wl_name w) (n, w) m) ms []"

definition remote_node :: "('o, 'w) client \<Rightarrow> k8s_resources \<Rightarrow> string \<Rightarrow> u32 \<times> workload \<Rightarrow> (string + k8s_node) option" where
  "remote_node cl r name p =
     new_k8s_node_from_workload (cl_wl cl) (cl_codec cl) (workload3 (snd p)) (fst p) (disk_at r name)
       (text_at (kr_ips r) (name @ ''ip'')) (text_at (kr_ip6s r) (name @ ''ip''))"

text \<open>The workers that are still there; those found are taken out of the map.\<close>

fun remote_workers :: "('o, 'w) client \<Rightarrow> k8s_resources \<Rightarrow> k8s_node list \<Rightarrow> (string \<times> u32 \<times> workload) list
    \<Rightarrow> (string + k8s_node list \<times> (string \<times> u32 \<times> workload) list) option" where
  "remote_workers cl r [] m = Some (Inr ([], m))"
| "remote_workers cl r (v # vs) m =
     (case map_of m (kn_name v) of
        None \<Rightarrow> remote_workers cl r vs m
      | Some p \<Rightarrow>
          (case remote_node cl r (kn_name v) p of
             None \<Rightarrow> None
           | Some (Inl e) \<Rightarrow> Some (Inl (''failed to get worker data from workload: '' @ e))
           | Some (Inr n) \<Rightarrow>
               map_option (map_sum id (\<lambda>(ns, m'). (n # ns, m'))) (remote_workers cl r vs (AList.delete (kn_name v) m))))"

fun other_workers :: "('o, 'w) client \<Rightarrow> k8s_resources \<Rightarrow> string \<Rightarrow> (string \<times> u32 \<times> workload) list
    \<Rightarrow> (string + k8s_node list) option" where
  "other_workers cl r master [] = Some (Inr [])"
| "other_workers cl r master ((name, p) # m) =
     (if name = master then other_workers cl r master m
      else case remote_node cl r name p of
        None \<Rightarrow> None
      | Some (Inl e) \<Rightarrow> Some (Inl (''failed to get worker data from workload: '' @ e))
      | Some (Inr n) \<Rightarrow> map_option (map_sum id ((#) n)) (other_workers cl r master m))"

text \<open>The nodes of the cluster from the machines; without master, any machine that is left panics.\<close>

definition remote_nodes :: "('o, 'w) client \<Rightarrow> k8s_resources \<Rightarrow> k8s_node \<Rightarrow> (string \<times> u32 \<times> workload) list \<Rightarrow> k8s_cluster
    \<Rightarrow> (string option \<times> k8s_cluster) option" where
  "remote_nodes cl r m mm k =
     (case (case map_of mm (kn_name m) of
              None \<Rightarrow> Some (Inr None)
            | Some p \<Rightarrow> map_option (map_sum id Some) (remote_node cl r (kn_name m) p)) of
        None \<Rightarrow> None
      | Some (Inl e) \<Rightarrow> Some (Some (''failed to get master node from workload: '' @ e), k)
      | Some (Inr master) \<Rightarrow>
          (let k1 = k\<lparr>kc_master := master\<rparr> in
     (case remote_workers cl r (kc_workers k) mm of
        None \<Rightarrow> None
      | Some (Inl e) \<Rightarrow> Some (Some e, k1)
      | Some (Inr (ws, rest)) \<Rightarrow>
     (case (case master of None \<Rightarrow> if rest = [] then Some (Inr []) else None
            | Some m' \<Rightarrow> other_workers cl r (kn_name m') rest) of
        None \<Rightarrow> None
      | Some (Inl e) \<Rightarrow> Some (Some e, k1)
      | Some (Inr others) \<Rightarrow> Some (None, k1\<lparr>kc_workers := ws @ others\<rparr>)))))"

definition kd_update_from_remote :: "('o, 'w) client \<Rightarrow> k8s_cluster \<Rightarrow> 'w \<Rightarrow> ((string option \<times> k8s_cluster) \<times> 'w) option" where
  "kd_update_from_remote cl k w =
     (case kd_remove_deleted (cl_chain cl) (kc_node_deployment_id k) w of
        (Inl e, w1) \<Rightarrow> Some ((Some (''failed to remove deleted contracts: '' @ e), k), w1)
      | (Inr ids, w1) \<Rightarrow>
          (let k1 = k\<lparr>kc_node_deployment_id := ids\<rparr> in
     (case get_deployments (cl_dep cl) ids [] w1 of
        (Inl e, w2) \<Rightarrow> Some ((Some (''failed to fetch remote deployments: '' @ e), k1), w2)
      | (Inr dls, w2) \<Rightarrow>
     (case remote_machines (cl_wl cl) dls of
        None \<Rightarrow> None
      | Some ms \<Rightarrow>
          (let k2 = k1\<lparr>kc_ssh_key := first_change (kc_ssh_key k1) (map (\<lambda>(_, _, d, _). text_at (zm_env d) ''SSH_KEY'') ms),
                 kc_token := first_change (kc_token k1) (map (\<lambda>(_, _, d, _). text_at (zm_env d) ''K3S_TOKEN'') ms),
                 kc_network_name := first_change (kc_network_name k1) (map (\<lambda>(_, _, _, i). mi_network i) ms),
                 kc_node_deployment_id := map (\<lambda>(n, d). (n, dl_contract d)) dls\<rparr> in
     (case scan_resources ((cl_wl cl)\<lparr>we_gigabyte := Gigabyte\<rparr>) (concat (map (\<lambda>(_, d). dl_workloads d) dls)) no_resources of
        None \<Rightarrow> None
      | Some (Inl e) \<Rightarrow> Some ((Some e, k2), w2)
      | Some (Inr r) \<Rightarrow>
          (case kc_master k2 of
             None \<Rightarrow> None
           | Some m \<Rightarrow> map_option (\<lambda>x. (x, w2)) (remote_nodes cl r m (machine_map ms) k2))))))))"

section \<open>Facts\<close>

lemma first_free_id_Some: "first_free_id used = Some h \<Longrightarrow> h \<notin> set used \<and> 2 \<le> h \<and> h \<le> 254"
  unfolding first_free_id_def by (drule find_in) (simp only: host_ids, simp)

lemma first_free_id_None: "first_free_id used = None \<Longrightarrow> 2 \<le> h \<Longrightarrow> h \<le> 254 \<Longrightarrow> h \<in> set used"
  unfolding first_free_id_def find_None_iff host_ids by auto

text \<open>The last bytes of the addresses on a node, when a node gets one.\<close>

abbreviation nodes_ranges_ok :: "(u32 \<times> ip_net) list \<Rightarrow> k8s_node list \<Rightarrow> bool" where
  "nodes_ranges_ok ranges vs \<equiv> \<forall>v \<in> set vs. \<exists>r. map_of ranges (kn_node v) = Some r \<and> slash24 r"

lemma set_ip_sel [simp]: "kn_node (set_ip a v) = kn_node v" "vm_ip (kn_vm (set_ip a v)) = a" "kn_name (set_ip a v) = kn_name v"
  by (simp_all add: set_ip_def)

lemma k8s_used_ips_simps [simp]:
  "k8s_used_ips parse6 [] n = []"
  "k8s_used_ips parse6 (v # vs) n = used_id parse6 n v @ k8s_used_ips parse6 vs n"
  "k8s_used_ips parse6 (us @ vs) n = k8s_used_ips parse6 us n @ k8s_used_ips parse6 vs n"
  by (simp_all add: k8s_used_ips_def)

lemma k8s_free_ip_Inr:
  assumes "k8s_free_ip parse6 r node vs = Inr (a, r')"
  obtains h where "h \<notin> set (k8s_used_ips parse6 vs node)" "2 \<le> h" "h \<le> 254" "To4 (IP r) \<noteq> []"
    "a = ip_text (To4 (with_host (IP r) h))" "r' = r\<lparr>IP := with_host (IP r) h\<rparr>"
  using assms first_free_id_Some by (fastforce simp: k8s_free_ip_def split: if_splits option.splits)

lemma used_of_new:
  assumes "To4 p \<noteq> []"
  shows "used_id parse6 n (set_ip (ip_text (To4 (with_host p h))) v) = (if kn_node v = n then [h] else [])"
  by (simp add: used_id_def last_byte_host [OF assms])

lemma assign_ips_ok:
  assumes "assign_ips parse6 ranges done vs = (None, ranges', vs')" and "nodes_ranges_ok ranges vs"
  shows "map kn_node vs' = map kn_node (done @ vs) \<and> map kn_name vs' = map kn_name (done @ vs)
    \<and> (\<forall>n. distinct (k8s_used_ips parse6 (done @ vs) n) \<longrightarrow> distinct (k8s_used_ips parse6 vs' n))
    \<and> (\<exists>us. vs' = done @ us \<and> (\<forall>v \<in> set us. \<exists>r. map_of ranges (kn_node v) = Some r
          \<and> net_contains r (parse_ip parse6 (vm_ip (kn_vm v)))))"
  using assms
proof (induction vs arbitrary: ranges "done")
  case (Cons v vs)
  obtain r where r: "map_of ranges (kn_node v) = Some r" "slash24 r" using Cons.prems(2) by auto
  show ?case
  proof (cases "vm_ip (kn_vm v) \<noteq> [] \<and> net_contains r (parse_ip parse6 (vm_ip (kn_vm v)))")
    case True
    have run: "assign_ips parse6 ranges (done @ [v]) vs = (None, ranges', vs')" using Cons.prems(1) r True by simp
    obtain us where us: "vs' = (done @ [v]) @ us" "\<forall>v \<in> set us. \<exists>r. map_of ranges (kn_node v) = Some r
        \<and> net_contains r (parse_ip parse6 (vm_ip (kn_vm v)))"
      using Cons.IH [OF run] Cons.prems(2) by auto
    have "vs' = done @ (v # us)" using us by simp
    then show ?thesis using Cons.IH [OF run] Cons.prems(2) us r True
      by (intro conjI exI [of _ "v # us"]) auto
  next
    case False
    then obtain a r' where f: "k8s_free_ip parse6 r (kn_node v) (done @ v # vs) = Inr (a, r')"
      using Cons.prems(1) r by (auto split: sum.splits)
    obtain h where h: "h \<notin> set (k8s_used_ips parse6 (done @ v # vs) (kn_node v))"
      and a: "a = ip_text (To4 (with_host (IP r) h))" and r': "r' = r\<lparr>IP := with_host (IP r) h\<rparr>"
      using k8s_free_ip_Inr [OF f] by metis
    let ?rs = "AList.update (kn_node v) r' ranges"
    have q: "To4 (IP r) \<noteq> []" using r(2) by (simp add: slash24_def)
    have run: "assign_ips parse6 ?rs (done @ [set_ip a v]) vs = (None, ranges', vs')"
      using Cons.prems(1) r False f by auto
    have ok: "nodes_ranges_ok ?rs vs"
      using Cons.prems(2) slash24_host(1) [OF r(2)] by (auto simp: update_conv' r')
    have same: "(\<exists>s. map_of ?rs n = Some s \<and> net_contains s x) \<longleftrightarrow> (\<exists>s. map_of ranges n = Some s \<and> net_contains s x)" for n x
      using r slash24_host(2) [OF r(2)] by (auto simp: update_conv' r')
    have dist: "distinct (k8s_used_ips parse6 (done @ v # vs) n) \<Longrightarrow>
        distinct (k8s_used_ips parse6 ((done @ [set_ip a v]) @ vs) n)" for n
      using h used_of_new [OF q, where h = h and v = v and n = n and ?parse6.0 = parse6] by (auto simp: a)
    obtain us where us: "vs' = (done @ [set_ip a v]) @ us" "\<forall>v \<in> set us. \<exists>r. map_of ?rs (kn_node v) = Some r
        \<and> net_contains r (parse_ip parse6 (vm_ip (kn_vm v)))"
      using Cons.IH [OF run ok] by auto
    have new: "\<exists>s. map_of ranges (kn_node (set_ip a v)) = Some s
        \<and> net_contains s (parse_ip parse6 (vm_ip (kn_vm (set_ip a v))))"
      using r slash24_host(3) [OF r(2), where h = h and ?parse6.0 = parse6] by (simp add: a)
    show ?thesis using Cons.IH [OF run ok] us dist new same
      by (intro conjI exI [of _ "set_ip a v # us"]) auto
  qed
qed simp

end
