(* ===== verification/ClientSteps.thy ===== *)
theory ClientSteps
  imports DeploymentDeployer NetworkDeployer GatewayDeployers K8sDeployer
begin

text \<open>
  The state of a client as its user drives it: a step is any call of a deployer or of the loading from the grid, with any
  arguments and in any world. Whatever the calls, the contracts of a node are listed once, so the list of a node stands
  for a set: recording inserts into it and cancelling takes out of it.
\<close>

section \<open>The calls\<close>

inductive client_step :: "('o, 'w) client \<Rightarrow> grid_state \<Rightarrow> grid_state \<Rightarrow> bool" for cl where
  deploy: "dd_deploy cl d st w = Some ((e, d', st'), w') \<Longrightarrow> client_step cl st st'"
| batch: "dd_batch_deploy cl ds st w = Some ((es, ds', st'), w') \<Longrightarrow> client_step cl st st'"
| cancel: "dd_cancel cl d st w = ((e, d', st'), w') \<Longrightarrow> client_step cl st st'"
| net_deploy: "nd_deploy cl z st w = Some ((e, z', st'), w') \<Longrightarrow> client_step cl st st'"
| net_batch: "nd_batch_deploy cl zs meta st w = Some ((es, zs', st'), w') \<Longrightarrow> client_step cl st st'"
| net_cancel: "nd_cancel cl z st w = ((e, z', st'), w') \<Longrightarrow> client_step cl st st'"
| net_batch_cancel: "nd_batch_cancel cl zs st w = ((e, zs', st'), w') \<Longrightarrow> client_step cl st st'"
| name_deploy: "gn_deploy cl g st w = Some ((e, g', st'), w') \<Longrightarrow> client_step cl st st'"
| name_batch: "gn_batch_deploy cl gs st w = Some ((es, gs', st'), w') \<Longrightarrow> client_step cl st st'"
| name_cancel: "gn_cancel cl g st w = ((e, g', st'), w') \<Longrightarrow> client_step cl st st'"
| fqdn_deploy: "gf_deploy cl f st w = Some ((e, f', st'), w') \<Longrightarrow> client_step cl st st'"
| fqdn_batch: "gf_batch_deploy cl fs st w = Some ((es, fs', st'), w') \<Longrightarrow> client_step cl st st'"
| fqdn_cancel: "gf_cancel cl f st w = ((e, f', st'), w') \<Longrightarrow> client_step cl st st'"
| k8s_deploy: "kd_deploy cl k st w = Some ((e, k', st'), w') \<Longrightarrow> client_step cl st st'"
| k8s_batch: "kd_batch_deploy cl ks st w = Some ((es, ks', st'), w') \<Longrightarrow> client_step cl st st'"
| k8s_cancel: "kd_cancel cl k st w = Some ((e, k', st'), w') \<Longrightarrow> client_step cl st st'"
| load_net: "load_network_from_grid cl name st w = Some ((r, st'), w') \<Longrightarrow> client_step cl st st'"
| load_light: "load_network_light_from_grid cl name st w = ((r', st'), w') \<Longrightarrow> client_step cl st st'"
| load_dl: "load_deployment_from_grid cl node name st w = Some ((r'', st'), w') \<Longrightarrow> client_step cl st st'"
| load_k8s: "load_k8s_from_grid cl nodes name st w = Some ((r3, st'), w') \<Longrightarrow> client_step cl st st'"
| store: "client_step cl st (store_contract_ids node ids st)"

inductive client_reachable :: "('o, 'w) client \<Rightarrow> grid_state \<Rightarrow> bool" for cl where
  new: "client_reachable cl new_grid_state"
| step: "client_reachable cl st \<Longrightarrow> client_step cl st st' \<Longrightarrow> client_reachable cl st'"

inductive_cases client_stepE: "client_step cl st st'"

section \<open>Every call keeps the lists distinct\<close>

named_theorems distinct_intro

lemma contracts_distinct_networks [simp]: "contracts_distinct (st\<lparr>gs_networks := nets\<rparr>) = contracts_distinct st"
  by (simp add: contracts_distinct_def node_contracts_def)

declare contracts_distinct_store [distinct_intro] contracts_distinct_remove [distinct_intro]
  contracts_distinct_store_ids [distinct_intro]

lemma fold_distinct [distinct_intro]:
  "(\<And>x st. x \<in> set xs \<Longrightarrow> contracts_distinct st \<Longrightarrow> contracts_distinct (f x st)) \<Longrightarrow> contracts_distinct st
     \<Longrightarrow> contracts_distinct (fold f xs st)"
  by (induction xs arbitrary: st) auto

lemma distinct_same: "gs_contracts st' = gs_contracts st \<Longrightarrow> contracts_distinct st' = contracts_distinct st"
  by (simp add: contracts_distinct_def node_contracts_def)

text \<open>Deployments.\<close>

lemma dd_record_distinct: "dd_record d st = (d', st') \<Longrightarrow> contracts_distinct st \<Longrightarrow> contracts_distinct st'"
  by (auto simp: dd_record_def Let_def distinct_intro split: if_splits)

lemma dd_update_distinct: "dd_update ns d st = (e, d', st') \<Longrightarrow> contracts_distinct st \<Longrightarrow> contracts_distinct st'"
  by (induction ns d st rule: dd_update.induct) (auto simp: distinct_intro split: option.splits if_splits)

lemma dd_update_all_distinct: "dd_update_all ds ns st = (es, ds', st') \<Longrightarrow> contracts_distinct st \<Longrightarrow> contracts_distinct st'"
proof (induction ds arbitrary: st es ds')
  case (Cons d ds)
  then show ?case by (auto simp: dd_update_state_def split: prod.splits dest: dd_update_distinct)
qed simp

lemma dd_generate_distinct:
  "dd_generate cl ds st w = Some ((dls, errs, ds', st'), w') \<Longrightarrow> contracts_distinct st' = contracts_distinct st"
  by (rule distinct_same) (rule dd_generate_contracts)

lemma dd_deploy_distinct: "dd_deploy cl d st w = Some ((e, d', st'), w') \<Longrightarrow> contracts_distinct st \<Longrightarrow> contracts_distinct st'"
  by (auto simp: dd_deploy_def Let_def split: option.splits prod.splits if_splits list.splits
      dest!: dd_generate_distinct intro: dd_record_distinct)

lemma dd_batch_distinct: "dd_batch_deploy cl ds st w = Some ((es, ds', st'), w') \<Longrightarrow> contracts_distinct st \<Longrightarrow> contracts_distinct st'"
  by (auto simp: dd_batch_deploy_def Let_def split: option.splits prod.splits if_splits
      dest!: dd_generate_distinct intro: dd_update_all_distinct)

lemma dd_cancel_distinct: "dd_cancel cl d st w = ((e, d', st'), w') \<Longrightarrow> contracts_distinct st \<Longrightarrow> contracts_distinct st'"
  by (auto simp: dd_cancel_def distinct_intro split: option.splits prod.splits)

text \<open>Networks.\<close>

lemma nd_record_distinct [distinct_intro]: "contracts_distinct st \<Longrightarrow> contracts_distinct (nd_record z n st)"
  by (auto simp: nd_record_def Let_def intro!: distinct_intro)

lemma nd_record_all_distinct [distinct_intro]: "contracts_distinct st \<Longrightarrow> contracts_distinct (nd_record_all z st)"
  unfolding nd_record_all_def by (intro distinct_intro)

lemma nd_drop_old_distinct [distinct_intro]: "contracts_distinct st \<Longrightarrow> contracts_distinct (nd_drop_old old new st)"
  unfolding nd_drop_old_def by (rule fold_distinct) (auto intro!: distinct_intro)

lemma nd_deploy_distinct: "nd_deploy cl z st w = Some ((e, z', st'), w') \<Longrightarrow> contracts_distinct st \<Longrightarrow> contracts_distinct st'"
  by (auto simp: nd_deploy_def Let_def intro!: distinct_intro split: option.splits prod.splits if_splits)

lemma nd_collect_distinct: "nd_collect z ns dls st = (e, z', st') \<Longrightarrow> contracts_distinct st \<Longrightarrow> contracts_distinct st'"
  by (induction z ns dls st rule: nd_collect.induct) (auto simp: Let_def intro!: distinct_intro split: prod.splits if_splits)

lemma nd_update_all_distinct:
  "nd_update_all cl zs dls m st w = ((e, zs', st'), w') \<Longrightarrow> contracts_distinct st \<Longrightarrow> contracts_distinct st'"
proof (induction zs arbitrary: st w e zs' w')
  case (Cons z zs)
  have "nd_update_state cl z dls m st w = ((e1, z1, st1), w1) \<Longrightarrow> contracts_distinct st1" for e1 z1 st1 w1
    using Cons.prems(2) by (auto simp: nd_update_state_def split: prod.splits option.splits if_splits dest: nd_collect_distinct)
  then show ?case using Cons by (auto split: prod.splits option.splits)
qed simp

lemma nd_batch_distinct: "nd_batch_deploy cl zs m st w = Some ((es, zs', st'), w') \<Longrightarrow> contracts_distinct st \<Longrightarrow> contracts_distinct st'"
  by (auto simp: nd_batch_deploy_def Let_def split: option.splits prod.splits if_splits intro: nd_update_all_distinct)

lemma nd_cancel_loop_distinct:
  "nd_cancel_loop cl ids z st w = ((e, z', st'), w') \<Longrightarrow> contracts_distinct st \<Longrightarrow> contracts_distinct st'"
  by (induction cl ids z st w rule: nd_cancel_loop.induct) (auto simp: distinct_intro split: prod.splits option.splits)

lemma nd_cancel_distinct: "nd_cancel cl z st w = ((e, z', st'), w') \<Longrightarrow> contracts_distinct st \<Longrightarrow> contracts_distinct st'"
  by (auto simp: nd_cancel_def forget_network_def split: option.splits prod.splits dest: nd_cancel_loop_distinct)

lemma nd_batch_cancel_distinct:
  "nd_batch_cancel cl zs st w = ((e, zs', st'), w') \<Longrightarrow> contracts_distinct st \<Longrightarrow> contracts_distinct st'"
  by (auto simp: nd_batch_cancel_def nd_forget_def forget_network_def intro!: distinct_intro split: option.splits prod.splits)

text \<open>Gateways.\<close>

lemma gn_record_distinct: "gn_record g st = (g', st') \<Longrightarrow> contracts_distinct st \<Longrightarrow> contracts_distinct st'"
  by (auto simp: gn_record_def Let_def distinct_intro split: if_splits)

lemma gf_record_distinct: "gf_record g st = (g', st') \<Longrightarrow> contracts_distinct st \<Longrightarrow> contracts_distinct st'"
  by (auto simp: gf_record_def Let_def distinct_intro split: if_splits)

lemma gn_deploy_distinct: "gn_deploy cl g st w = Some ((e, g', st'), w') \<Longrightarrow> contracts_distinct st \<Longrightarrow> contracts_distinct st'"
  by (auto simp: gn_deploy_def split: option.splits prod.splits intro: gn_record_distinct)

lemma gf_deploy_distinct: "gf_deploy cl g st w = Some ((e, g', st'), w') \<Longrightarrow> contracts_distinct st \<Longrightarrow> contracts_distinct st'"
  by (auto simp: gf_deploy_def split: option.splits prod.splits intro: gf_record_distinct)

lemma gn_update_all_distinct: "gn_update_all gs dls st = (e, gs', st') \<Longrightarrow> contracts_distinct st \<Longrightarrow> contracts_distinct st'"
proof (induction gs arbitrary: st e gs')
  case (Cons g gs)
  then show ?case by (auto simp: gn_update_state_def Let_def split: prod.splits option.splits if_splits dest: gn_record_distinct)
qed simp

lemma gf_update_all_distinct: "gf_update_all gs dls st = (e, gs', st') \<Longrightarrow> contracts_distinct st \<Longrightarrow> contracts_distinct st'"
proof (induction gs arbitrary: st e gs')
  case (Cons g gs)
  then show ?case by (auto simp: gf_update_state_def Let_def split: prod.splits option.splits if_splits dest: gf_record_distinct)
qed simp

lemma gn_batch_distinct: "gn_batch_deploy cl gs st w = Some ((es, gs', st'), w') \<Longrightarrow> contracts_distinct st \<Longrightarrow> contracts_distinct st'"
  by (auto simp: gn_batch_deploy_def split: option.splits prod.splits dest: gn_update_all_distinct)

lemma gf_batch_distinct: "gf_batch_deploy cl gs st w = Some ((es, gs', st'), w') \<Longrightarrow> contracts_distinct st \<Longrightarrow> contracts_distinct st'"
  by (auto simp: gf_batch_deploy_def split: option.splits prod.splits dest: gf_update_all_distinct)

lemma gn_cancel_distinct: "gn_cancel cl g st w = ((e, g', st'), w') \<Longrightarrow> contracts_distinct st \<Longrightarrow> contracts_distinct st'"
  by (auto simp: gn_cancel_def Let_def distinct_intro split: option.splits prod.splits if_splits)

lemma gf_cancel_distinct: "gf_cancel cl g st w = ((e, g', st'), w') \<Longrightarrow> contracts_distinct st \<Longrightarrow> contracts_distinct st'"
  by (auto simp: gf_cancel_def Let_def distinct_intro split: option.splits prod.splits if_splits)

text \<open>Clusters.\<close>

lemma assign_range_distinct:
  assumes "assign_nodes_ip_range cl k st = Some (e, k', st')"
  shows "contracts_distinct st' = contracts_distinct st"
proof -
  obtain n nets where g: "get_network (kc_network_name k) (gs_networks st) = (n, nets)" by fastforce
  obtain m where m: "kc_master k = Some m" using assms g by (auto simp: assign_nodes_ip_range_def)
  show ?thesis
  proof (cases "parse_ip_net (we_parse_ip6 (cl_wl cl)) (get_node_subnet n (kn_node m))")
    case (Inl t)
    then show ?thesis using assms g m by (auto simp: assign_nodes_ip_range_def Let_def)
  next
    case (Inr r)
    then show ?thesis using assms g m
      by (cases "worker_ranges (we_parse_ip6 (cl_wl cl)) n (kc_workers k) [(kn_node m, r)]")
        (auto simp: assign_nodes_ip_range_def Let_def)
  qed
qed

lemma kd_validate_distinct:
  "kd_validate cl k st w = Some ((e, k', st'), w') \<Longrightarrow> contracts_distinct st' = contracts_distinct st"
  by (auto simp: kd_validate_def split: prod.splits option.splits dest: assign_range_distinct)

lemma kd_prepare_distinct:
  "kd_prepare cl k st w = Some ((r, k', st'), w') \<Longrightarrow> contracts_distinct st' = contracts_distinct st"
  by (auto simp: kd_prepare_def split: prod.splits option.splits dest!: assign_range_distinct kd_validate_distinct)

lemma kd_record_distinct [distinct_intro]: "contracts_distinct st \<Longrightarrow> contracts_distinct (kd_record k m st)"
  by (auto simp: kd_record_def Let_def intro!: distinct_intro)

lemma kd_deploy_distinct: "kd_deploy cl k st w = Some ((e, k', st'), w') \<Longrightarrow> contracts_distinct st \<Longrightarrow> contracts_distinct st'"
  by (auto simp: kd_deploy_def Let_def intro!: kd_record_distinct split: option.splits prod.splits sum.splits
      dest!: kd_prepare_distinct)

lemma kd_prepare_all_distinct:
  "kd_prepare_all cl ks dls st w = Some ((e, ks', dls', st'), w') \<Longrightarrow> contracts_distinct st' = contracts_distinct st"
proof (induction ks arbitrary: dls st w ks')
  case (Cons k ks)
  obtain r k1 st1 w1 where p: "kd_prepare cl k st w = Some ((r, k1, st1), w1)"
    using Cons.prems by (auto split: option.splits)
  show ?case
  proof (cases r)
    case (Inl t)
    then show ?thesis using Cons.prems kd_prepare_distinct [OF p] by (simp add: p)
  next
    case (Inr new)
    then obtain ks1 where "kd_prepare_all cl ks (fold (\<lambda>(n, d). add_dl n d) new dls) st1 w1 = Some ((e, ks1, dls', st'), w')"
      using Cons.prems p by auto
    from Cons.IH [OF this] show ?thesis using kd_prepare_distinct [OF p] by simp
  qed
qed simp

lemma kd_update_state_distinct:
  assumes "kd_update_state k dls st = Some (e, k', st')" and "contracts_distinct st"
  shows "contracts_distinct st'"
proof -
  obtain m where m: "kc_master k = Some m" using assms(1) by (auto simp: kd_update_state_def)
  obtain e1 c where "kd_collect (kn_name m) (kn_node m) (kn_node m # map kn_node (kc_workers k)) dls None = (e1, c)" by fastforce
  then show ?thesis using assms m
    by (auto simp: kd_update_state_def Let_def intro!: kd_record_distinct split: if_split_asm simp del: kd_collect.simps)
qed

lemma kd_update_all_distinct: "kd_update_all ks dls st = Some (e, ks', st') \<Longrightarrow> contracts_distinct st \<Longrightarrow> contracts_distinct st'"
proof (induction ks arbitrary: st e ks')
  case (Cons k ks)
  have "kd_update_state k dls st = Some (e1, k1, st1) \<Longrightarrow> contracts_distinct st1" for e1 k1 st1
    using Cons.prems(2) kd_update_state_distinct by metis
  then show ?case using Cons by (auto split: option.splits prod.splits)
qed simp

lemma kd_batch_distinct: "kd_batch_deploy cl ks st w = Some ((es, ks', st'), w') \<Longrightarrow> contracts_distinct st \<Longrightarrow> contracts_distinct st'"
  by (auto simp: kd_batch_deploy_def split: option.splits prod.splits dest!: kd_prepare_all_distinct intro: kd_update_all_distinct)

lemma kd_cancel_loop_distinct:
  "kd_cancel_loop cl m ids k st w = ((e, k', st'), w') \<Longrightarrow> contracts_distinct st \<Longrightarrow> contracts_distinct st'"
  by (induction cl m ids k st w rule: kd_cancel_loop.induct) (auto simp: distinct_intro split: prod.splits option.splits if_splits)

lemma kd_cancel_distinct: "kd_cancel cl k st w = Some ((e, k', st'), w') \<Longrightarrow> contracts_distinct st \<Longrightarrow> contracts_distinct st'"
  by (auto simp: kd_cancel_def split: if_splits dest: kd_cancel_loop_distinct)

text \<open>Loading changes the networks only.\<close>

lemma load_network_distinct:
  "load_network_from_grid cl name st w = Some ((r, st'), w') \<Longrightarrow> contracts_distinct st' = contracts_distinct st"
  by (auto simp: load_network_from_grid_def split: prod.split_asm sum.split_asm bool.split_asm if_split_asm)

lemma load_light_distinct:
  "load_network_light_from_grid cl name st w = ((r, st'), w') \<Longrightarrow> contracts_distinct st' = contracts_distinct st"
  by (auto simp: load_network_light_from_grid_def Let_def split: prod.split_asm sum.split_asm bool.split_asm if_split_asm)

lemma load_some_distinct:
  "load_some_network cl name st w = Some ((e, st'), w') \<Longrightarrow> contracts_distinct st' = contracts_distinct st"
  by (auto simp: load_some_network_def split: option.split_asm prod.split_asm sum.split_asm
      dest!: load_network_distinct load_light_distinct)

lemma load_deployment_distinct:
  "load_deployment_from_grid cl node name st w = Some ((r, st'), w') \<Longrightarrow> contracts_distinct st' = contracts_distinct st"
  by (auto simp: load_deployment_from_grid_def split: option.split_asm prod.split_asm sum.split_asm if_split_asm
      dest!: load_some_distinct)

lemma load_k8s_distinct:
  "load_k8s_from_grid cl nodes dn st w = Some ((r, st'), w') \<Longrightarrow> contracts_distinct st' = contracts_distinct st"
  by (auto simp: load_k8s_from_grid_def Let_def split: option.split_asm prod.split_asm sum.split_asm
      dest!: load_network_distinct assign_range_distinct)

lemmas call_distinct = dd_deploy_distinct dd_batch_distinct dd_cancel_distinct nd_deploy_distinct nd_batch_distinct
  nd_cancel_distinct nd_batch_cancel_distinct gn_deploy_distinct gn_batch_distinct gn_cancel_distinct gf_deploy_distinct
  gf_batch_distinct gf_cancel_distinct kd_deploy_distinct kd_batch_distinct kd_cancel_distinct

lemmas load_distinct = load_network_distinct load_light_distinct load_deployment_distinct load_k8s_distinct

lemma client_step_distinct: "client_step cl st st' \<Longrightarrow> contracts_distinct st \<Longrightarrow> contracts_distinct st'"
  by (erule client_stepE) (blast dest: call_distinct load_distinct [THEN iffD2] | simp add: contracts_distinct_store_ids)+

lemma client_reachable_distinct: "client_reachable cl st \<Longrightarrow> contracts_distinct st"
proof (induction rule: client_reachable.induct)
  case new
  show ?case by (simp add: contracts_distinct_def node_contracts_def new_grid_state_def)
qed (rule client_step_distinct)

section \<open>The list of a node as a set\<close>

definition contract_set :: "grid_state \<Rightarrow> u32 \<Rightarrow> u64 set" where
  "contract_set st node = set (node_contracts st node)"

lemma contract_set_store: "contract_set (store_contract n i st) = (contract_set st)(n := insert i (contract_set st n))"
  by (auto simp: contract_set_def fun_eq_iff node_contracts_store)

lemma contract_set_remove:
  "contracts_distinct st \<Longrightarrow> contract_set (remove_contract n i st) = (contract_set st)(n := contract_set st n - {i})"
  by (auto simp: contract_set_def fun_eq_iff set_remove_contract)

end
