(* ===== verification/DeployTracking.thy ===== *)
theory DeployTracking
  imports DeploymentDeployer DeployerProofs
begin

text \<open>
  Contracts and the client's records: over a whole call of \<open>Deployer.Deploy\<close>, reverting included, and of
  \<open>DeploymentDeployer.Deploy\<close>, no contract is made without being recorded. The laws of the chain and the nodes are those of
  \<open>ledger\<close>; the calls that only read leave the contracts alone.
\<close>

section \<open>Calls that only read\<close>

definition reads_law :: "'w deploy_env \<Rightarrow> ('w \<Rightarrow> u64 set) \<Rightarrow> bool" where
  "reads_law env live \<longleftrightarrow> (\<forall>n. keeps live (dv_node env n)) \<and> (\<forall>f. keeps live (dv_farm env f))
     \<and> (\<forall>i. keeps live (ch_get_contract (dv_chain env) i))"

definition account_law :: "('o, 'w) client \<Rightarrow> ('w \<Rightarrow> u64 set) \<Rightarrow> bool" where
  "account_law cl live \<longleftrightarrow> reads_law (cl_dep cl) live \<and> keeps live (cl_balance cl)
     \<and> (\<forall>n net. keeps live (cl_private_ips cl n net))"

lemma reads_keeps:
  assumes "reads_law env live"
  shows "keeps live (dv_node env n)" "keeps live (dv_farm env f)" "keeps live (ch_get_contract (dv_chain env) i)"
  using assms by (simp_all add: reads_law_def)

lemmas live_node = keepsD [OF reads_keeps(1)]
  and live_farm = keepsD [OF reads_keeps(2)]

lemma live_sub_get_contract: "reads_law env live \<Longrightarrow> sub_get_contract (dv_chain env) i w = (r, w') \<Longrightarrow> live w' = live w"
  using reads_keeps(3) [of env live i] by (auto simp: sub_get_contract_def normalize_result_def keeps_def)

lemma live_get_deployments:
  "ledger env live \<Longrightarrow> get_deployments env ids res w = (r, w') \<Longrightarrow> live w' = live w"
proof (induction env ids res w rule: get_deployments.induct)
  case (2 env node i ids res w)
  then show ?case using live_client [of env live] live_get [of env live]
    by (fastforce split: prod.splits option.splits sum.splits)
qed simp

lemma live_collect: "reads_law env live \<Longrightarrow> collect_nodes env ns known farms w = (r, w') \<Longrightarrow> live w' = live w"
proof (induction env ns known farms w rule: collect_nodes.induct)
  case (2 env n ns known farms w)
  then show ?case using live_node [of env live] by (fastforce split: if_splits prod.splits sum.splits)
qed simp

lemma live_count: "reads_law env live \<Longrightarrow> count_farm_ips env fs farms w = (r, w') \<Longrightarrow> live w' = live w"
proof (induction env fs farms w rule: count_farm_ips.induct)
  case (2 env f fs farms w)
  then show ?case using live_farm [of env live] by (fastforce split: prod.splits sum.splits option.splits)
qed simp

lemma live_without_old: "reads_law env live \<Longrightarrow> without_old env n ni old ips w = (r, w') \<Longrightarrow> live w' = live w"
  using live_sub_get_contract [of env live]
  by (fastforce simp: without_old_def split: option.splits prod.splits sum.splits if_splits)

lemma live_validate_one: "reads_law env live \<Longrightarrow> validate_one env nodes old n dl farms w = Some (r, w') \<Longrightarrow> live w' = live w"
  using live_without_old [of env live]
  by (fastforce simp: validate_one_def Let_def split: option.splits prod.splits sum.splits)

lemma live_validate_new: "reads_law env live \<Longrightarrow> validate_new env nodes old new farms w = Some (r, w') \<Longrightarrow> live w' = live w"
proof (induction env nodes old new farms w rule: validate_new.induct)
  case (2 env nodes old n dl dls farms w)
  then show ?case using live_validate_one [of env live] by (fastforce split: option.splits prod.splits sum.splits)
qed simp

lemma live_dep_validate: "reads_law env live \<Longrightarrow> dep_validate env old new w = Some (r, w') \<Longrightarrow> live w' = live w"
  using live_collect [of env live] live_count [of env live] live_validate_new [of env live]
  by (fastforce simp: dep_validate_def split: option.splits prod.splits sum.splits)

section \<open>Deploying and reverting\<close>

text \<open>The error names a contract the user has to cancel by hand.\<close>

definition cancel_text :: string where
  "cancel_text = ''error cancelling contract: ''"

definition by_hand :: "string option \<Rightarrow> bool" where
  "by_hand err \<longleftrightarrow> (\<exists>a t. err = Some (a @ cancel_text @ t))"

lemma by_hand_manual: "manual err \<Longrightarrow> by_hand err"
  by (force simp: manual_def by_hand_def cancel_text_def)

lemma by_hand_wrap: "by_hand (Some e) \<Longrightarrow> by_hand (Some (a @ e @ b))"
  unfolding by_hand_def by (metis append.assoc option.inject)

lemma by_hand_prefix: "by_hand (Some e) \<Longrightarrow> by_hand (Some (a @ e))"
  using by_hand_wrap [of e a "[]"] by simp

lemma dep_deploy_accounted:
  assumes L: "ledger env live" "reads_law env live" and d: "distinct (map fst oldIDs)" "distinct (map fst new)"
    and r: "dep_deploy env True oldIDs new providers w = Some ((cur, err), w')"
  shows "distinct (map fst cur) \<and> (\<forall>i \<in> live w'. i \<in> live w \<or> i \<in> snd ` set cur \<or> by_hand err)"
proof -
  obtain old w1 where old: "get_deployments env oldIDs [] w = (old, w1)" by fastforce
  obtain v w2 where v: "(case old of Inl _ \<Rightarrow> Some (None, w1) | Inr oldDls \<Rightarrow> dep_validate env oldDls new w1) = Some (v, w2)"
    using r old by (auto simp: dep_deploy_def split: option.splits)
  have w1: "live w1 = live w" using live_get_deployments [OF L(1) old] .
  have w2: "live w2 = live w" using v w1 live_dep_validate [OF L(2)] by (cases old) auto
  show ?thesis
  proof (cases v)
    case (Some e)
    then show ?thesis using r old v w2 d by (auto simp: dep_deploy_def)
  next
    case None
    obtain cur1 e1 w3 where dep: "deploy_to env oldIDs new providers w2 = Some ((cur1, e1), w3)"
      using r old v None by (auto simp: dep_deploy_def split: option.splits)
    note D = deploy_to_accounted [OF L(1) d dep]
    have D1: "distinct (map fst cur1)" "\<forall>i \<in> live w3. i \<in> live w \<or> i \<in> snd ` set cur1 \<or> by_hand e1"
      using D by_hand_manual unfolding w2 by blast+
    consider (ok) "cur = cur1" "err = e1" "w' = w3"
      | (lost) e a where "e1 = Some e" "cur = cur1" "err = Some (a @ e)" "w' = w3"
      | (reverted) e dls where "e1 = Some e" "old = Inr dls"
      using r old v None dep by (cases e1; cases old) (auto simp: dep_deploy_def split: option.splits)
    then show ?thesis
    proof cases
      case ok
      then show ?thesis using D1 by simp
    next
      case lost
      then have x: "by_hand e1 \<longrightarrow> by_hand err" using by_hand_prefix [of e a] by simp
      have "i \<in> live w \<or> i \<in> snd ` set cur1 \<or> by_hand err" if "i \<in> live w3" for i
        using bspec [OF D1(2) that] x by (elim disjE) simp_all
      then show ?thesis using D1(1) unfolding lost(2,4) by (intro conjI ballI)
    next
      case reverted
      have keys: "distinct (map fst dls)" using get_deployments_keys [of env oldIDs "[]" w dls w1] old reverted by auto
      obtain cur2 e2 w4 where rev: "deploy_to env cur1 dls providers w3 = Some ((cur2, e2), w4)"
        using r old v None dep reverted by (auto simp: dep_deploy_def split: option.splits)
      note R = deploy_to_accounted [OF L(1) D1(1) keys rev]
      have R2: "distinct (map fst cur2)"
        "\<forall>i \<in> live w4. i \<in> live w3 \<and> i \<notin> snd ` set cur1 \<or> i \<in> snd ` set cur2 \<or> manual e2"
        using R by simp_all
      have R1: "i \<in> live w \<or> i \<in> snd ` set cur2 \<or> by_hand e1 \<or> by_hand e2" if "i \<in> live w4" for i
        using bspec [OF R2(2) that] bspec [OF D1(2), of i] by_hand_manual [of e2] by (elim disjE conjE) auto
      have c: "cur = cur2" "w' = w4"
        and err: "err = Some (case e2 of None \<Rightarrow> e | Some re \<Rightarrow> ''failed to revert deployments: '' @ re @ ''; try again: '' @ e)"
        using r old v None dep reverted rev by (auto simp: dep_deploy_def split: option.splits)
      have "by_hand e1 \<or> by_hand e2 \<Longrightarrow> by_hand err"
      proof (cases e2)
        case None
        moreover have "\<not> by_hand None" by (simp add: by_hand_def)
        ultimately show "by_hand e1 \<or> by_hand e2 \<Longrightarrow> by_hand err" using err reverted by simp
      next
        case (Some re)
        then show "by_hand e1 \<or> by_hand e2 \<Longrightarrow> by_hand err"
          using err reverted by_hand_wrap [of re "''failed to revert deployments: ''" "''; try again: '' @ e"]
            by_hand_prefix [of e "''failed to revert deployments: '' @ re @ ''; try again: ''"] by auto
      qed
      then have x: "by_hand e1 \<or> by_hand e2 \<longrightarrow> by_hand err" by (rule impI)
      have "i \<in> live w \<or> i \<in> snd ` set cur2 \<or> by_hand err" if "i \<in> live w4" for i
        using R1 [OF that] x by (elim disjE) simp_all
      then show ?thesis using R2(1) unfolding c by (intro conjI ballI)
    qed
  qed
qed

section \<open>A deployment of the user\<close>

lemma live_balance: "account_law cl live \<Longrightarrow> validate_balance cl w = (r, w') \<Longrightarrow> live w' = live w"
  by (auto simp: validate_balance_def account_law_def split: prod.splits sum.splits dest: keepsD)

lemma live_dd_validate: "account_law cl live \<Longrightarrow> dd_validate cl ds w = (r, w') \<Longrightarrow> live w' = live w"
  using live_balance [of cl live] by (auto simp: dd_validate_def split: prod.splits option.splits)

lemma live_used_host_ids:
  "ledger (cl_dep cl) live \<Longrightarrow> account_law cl live \<Longrightarrow> used_host_ids cl n net st w = (r, w') \<Longrightarrow> live w' = live w"
  using live_client [of "cl_dep cl" live] keepsD [of live "cl_private_ips cl n net"]
  by (fastforce simp: used_host_ids_def Let_def account_law_def split: prod.splits option.splits sum.splits)

text \<open>A call for one deployment keeps its node, its contracts and the recorded contracts.\<close>

lemma assign_all_one:
  assumes "assign_all cl [d] used errs st = Some (kept, errs', st')"
  shows "\<exists>b d1. kept = [(b, d1)] \<and> wd_node_id d1 = wd_node_id d \<and> wd_node_deployment_id d1 = wd_node_deployment_id d
    \<and> gs_contracts st' = gs_contracts st"
  using assms by (auto simp: Let_def split: if_splits option.splits prod.splits)

lemma metadata_keeps:
  "wl_generate_metadata d = (m, d1) \<Longrightarrow> wd_node_id d1 = wd_node_id d \<and> wd_node_deployment_id d1 = wd_node_deployment_id d"
  by (auto simp: wl_generate_metadata_def Let_def split: if_splits)

lemma dd_generate_one:
  assumes L: "ledger (cl_dep cl) live" "account_law cl live"
    and r: "dd_generate cl [d] st w = Some ((dls, errs, ds, st'), w')"
  shows "\<exists>d1. ds = [d1] \<and> wd_node_id d1 = wd_node_id d \<and> wd_node_deployment_id d1 = wd_node_deployment_id d
    \<and> gs_contracts st' = gs_contracts st \<and> live w' = live w"
proof -
  obtain used errs0 st0 w0 where u: "networks_used_ips cl [d] [] [] st w = ((used, errs0, st0), w0)" by (metis prod.collapse)
  obtain kept errs1 errs2 where a: "assign_all cl [d] used errs2 st0 = Some (kept, errs1, st')" and w: "w' = w0"
    and b: "\<exists>e. build_grid_deployments cl kept [] e = Some (dls, ds, errs)"
    using r u by (auto simp: dd_generate_def assign_private_ips_def split: option.splits)
  obtain k d1 where k: "kept = [(k, d1)]" "wd_node_id d1 = wd_node_id d" "wd_node_deployment_id d1 = wd_node_deployment_id d"
    "gs_contracts st' = gs_contracts st0" using assign_all_one [OF a] by blast
  have "live w0 = live w"
    using networks_used_ips_keeps [of cl "\<lambda>_ v. live v = live w", OF _ u] live_used_host_ids [OF L] by metis
  then show ?thesis using b k metadata_keeps w dd_generate_contracts [OF r]
    by (auto split: if_splits option.splits sum.splits prod.splits)
qed

text \<open>The contract of the deployment's node is recorded.\<close>

lemma dd_deploy_tracks:
  assumes L: "ledger (cl_dep cl) live" "account_law cl live" and ids: "distinct (map fst (wd_node_deployment_id d))"
    and r: "dd_deploy cl d st w = Some ((e, d', st'), w')" and i: "i \<in> live w'" "i \<notin> live w"
  shows "by_hand e \<or> (\<exists>n. (n, i) \<in> set (wd_node_deployment_id d')
      \<and> (n = wd_node_id d \<longrightarrow> wd_contract_id d' = i \<and> i \<in> set (node_contracts st' n)))"
proof -
  obtain v w1 where v: "dd_validate cl [d] w = (v, w1)" by fastforce
  have w1: "live w1 = live w" by (rule live_dd_validate [OF L(2) v])
  have "v = None" using r v i w1 by (auto simp: dd_deploy_def split: option.splits)
  then obtain dls errs ds st1 w2 where g: "dd_generate cl [d] st w1 = Some ((dls, errs, ds, st1), w2)"
    using r v by (auto simp: dd_deploy_def split: option.splits)
  obtain d1 where d1: "ds = [d1]" "wd_node_id d1 = wd_node_id d" "wd_node_deployment_id d1 = wd_node_deployment_id d"
    "live w2 = live w" using dd_generate_one [OF L g] w1 by auto
  obtain dl rest where dl: "errs = []" "dls_at dls (wd_node_id d1) = dl # rest"
    using r v g d1 i \<open>v = None\<close> by (auto simp: dd_deploy_def Let_def split: if_splits list.splits)
  obtain ids' w3 where dep: "dep_deploy (cl_dep cl) True (wd_node_deployment_id d1) [(wd_node_id d1, dl)]
      [(wd_node_id d1, wd_solution_provider d1)] w2 = Some ((ids', e), w3)"
    and fin: "dd_record (d1\<lparr>wd_node_deployment_id := ids'\<rparr>) st1 = (d', st')" "w' = w3"
    using r v g d1 dl \<open>v = None\<close> by (auto simp: dd_deploy_def Let_def split: option.splits prod.splits)
  have acc: "distinct (map fst ids') \<and> (\<forall>i \<in> live w3. i \<in> live w2 \<or> i \<in> snd ` set ids' \<or> by_hand e)"
    using dep_deploy_accounted [OF L(1) _ _ _ dep] ids L(2) by (simp add: d1 account_law_def)
  show ?thesis
  proof (cases "by_hand e")
    case False
    then obtain n where n: "(n, i) \<in> set ids'" using acc i d1(4) fin(2) by force
    have "i \<noteq> 0" using i live_zero [OF L(1)] by auto
    moreover have "contract_at ids' n = i" using n acc by (simp add: contract_at_def)
    ultimately have "wd_node_deployment_id d' = ids'"
      "n = wd_node_id d \<longrightarrow> wd_contract_id d' = i \<and> i \<in> set (node_contracts st' n)"
      using fin(1) d1(2) by (auto simp: dd_record_def Let_def set_store_contract split: if_splits)
    then show ?thesis using n by blast
  qed simp
qed

end
