(* ===== verification/ClientSim.thy ===== *)
theory ClientSim
  imports GridSim ClientSteps DeployTracking
begin

text \<open>
  A client on the grid of \<open>GridSim\<close>: its account has a balance, no node reports a private address, one network has the
  ranges of two nodes. The calls of nodes that fail are an argument.
\<close>

definition sim_nets :: "(u32 \<Rightarrow> string option) \<Rightarrow> u64 list net_env" where
  "sim_nets fails = \<lparr>get_contract = (\<lambda>i w. (ContractCreated, w)), get_node_client = (\<lambda>n w. (fails n, w)),
     is_node_up = (\<lambda>n w. (None, w)), node_free_wg_port = (\<lambda>n ps w. (Inr 3000, w)),
     node_endpoint = (\<lambda>n w. (Endpoint (IPv4 1 2 3 4), w)), node_wg_ports = (\<lambda>n w. (Inr [], w)),
     wg_generate_key = (\<lambda>w. (Inr zero_key, w)), wg_generate_private = (\<lambda>w. (Inr zero_key, w)), rand_intn = (\<lambda>k w. (7, w)),
     wg_parse = (\<lambda>t. Inr zero_key), wg_string = (\<lambda>k. ''key''), wg_public = id, parse_ip6 = (\<lambda>s. None)\<rparr>"

definition sim_codec :: gt_codec where
  "sim_codec = \<lparr>gc_marshal = (\<lambda>p. ''data''), gc_proxy_result = (\<lambda>t. Inr ''site.grid.tf''),
     gc_machine_result = (\<lambda>t. Inl ''no machine''), gc_backend_valid = (\<lambda>tls b. None)\<rparr>"

definition sim_filters :: "(unit, u64 list) filter_env" where
  "sim_filters = \<lparr>fe_twin = 5, fe_nodes = (\<lambda>options lmt w. (Inl ''timeout'', w)), fe_node = (\<lambda>n w. (Inl ''not found'', w)),
     fe_pools = (\<lambda>n w. (Inr [], w)), fe_pool_sort = sort_key pool_key, fe_size_sort = sort_key (\<lambda>x. - int (unat x)),
     fe_merge = concat, fe_conv_int = (\<lambda>x. 0), fe_hdd = ''hdd'', fe_ssd = ''ssd'', fe_parse_ip6 = (\<lambda>s. None)\<rparr>"

definition sim_sorts :: match_sorts where
  "sim_sorts = \<lparr>vs_zlogs = sort_key, vs_mounts = sort_key, ms_disks = sort_key, ms_volumes = sort_key, ms_qsfs = sort_key,
     ms_zdbs = sort_key, ms_vms = sort_key, ms_vms_light = sort_key\<rparr>"

definition sim_client :: "(u32 \<Rightarrow> u64 list \<Rightarrow> string option) \<Rightarrow> (u32 \<Rightarrow> string option) \<Rightarrow> (unit, u64 list) client" where
  "sim_client no_client refuses = \<lparr>cl_dep = grid_env no_client refuses, cl_net = sim_nets refuses, cl_filter = sim_filters,
     cl_no_others = (), cl_codec = sim_codec, cl_sorts = sim_sorts, cl_balance = (\<lambda>w. (Inr 50000000, w)),
     cl_private_ips = (\<lambda>n net w. (Inr [''10.20.2.2''], w)), cl_public_ip4 = (\<lambda>n w. (Inr (IPv4 1 2 3 4), w))\<rparr>"

abbreviation calm_client :: "(unit, u64 list) client" where
  "calm_client \<equiv> sim_client (\<lambda>n w. None) (\<lambda>n. None)"

definition sim_account_state :: grid_state where
  "sim_account_state = \<lparr>gs_contracts = [], gs_networks = [''net'' \<mapsto> [1 \<mapsto> ''10.20.2.0/24'', 2 \<mapsto> ''10.20.3.0/24'']]\<rparr>"

lemma sim_account: "account_law (sim_client no_client refuses) sim_live"
  by (simp add: account_law_def reads_law_def keeps_def sim_client_def grid_env_def sim_chain_def)

end
