(* ===== verification/GridStateProofs.thy ===== *)
theory GridStateProofs
  imports GridState
begin

text \<open>
  Facts of the loading from the grid: what holds for every part a reader reads holds for the parts that are collected,
  the nodes of a loaded network are the nodes of its contracts, and a loaded light network has no address range.
\<close>

section \<open>The parts that are collected\<close>

lemma load_contracts_inv:
  assumes "load_contracts env rd node ids acc w = (Inr (b, acc'), w')" and "P acc"
    and step: "\<And>dd wl n acc i t. rd_parse rd node dd wl = Inr n \<Longrightarrow> P acc \<Longrightarrow>
      P \<lparr>ld_nets = ld_nets acc @ [n], ld_ids = AList.update node i (ld_ids acc), ld_endpoint = t\<rparr>"
  shows "P acc'"
  using assms(1,2)
proof (induction ids arbitrary: acc w)
  case (Cons i ids)
  obtain r w1 where r: "read_deployment env ''could not get network deployment ''
      (''could not generate deployment metadata for '' @ rd_name rd) node i w = (r, w1)" by fastforce
  show ?case
  proof (cases r)
    case (Inl e)
    then show ?thesis using Cons.prems r by (auto split: option.splits)
  next
    case (Inr p)
    obtain dl dd where p: "p = (dl, dd)" by fastforce
    show ?thesis
    proof (cases "find (\<lambda>wl. wl_type wl = rd_kind rd \<and> wl_name wl = rd_name rd) (dl_workloads dl)")
      case None
      then show ?thesis using Cons.IH [of acc w1] Cons.prems r Inr p by simp
    next
      case (Some wl)
      obtain n where n: "rd_parse rd node dd wl = Inr n" using Cons.prems r Inr p Some by (auto split: sum.splits)
      obtain t w2 where t: "rd_endpoint rd node n (ld_endpoint acc) w1 = (Inr t, w2)"
        using Cons.prems r Inr p Some n by (auto split: sum.splits prod.splits)
      show ?thesis using Cons.IH [of _ w2] step [OF n Cons.prems(2)] Cons.prems(1) r Inr p Some n t by auto
    qed
  qed
qed simp

lemma load_nodes_inv:
  assumes "load_nodes env rd nodes acc w = (Inr (b, acc'), w')" and "P acc"
    and step: "\<And>node dd wl n acc i t. rd_parse rd node dd wl = Inr n \<Longrightarrow> P acc \<Longrightarrow>
      P \<lparr>ld_nets = ld_nets acc @ [n], ld_ids = AList.update node i (ld_ids acc), ld_endpoint = t\<rparr>"
  shows "P acc'"
  using assms(1,2)
proof (induction nodes arbitrary: acc w)
  case (Cons p nodes)
  obtain node ids where p: "p = (node, ids)" by fastforce
  obtain e w1 where c: "dv_client env node w = (e, w1)" by fastforce
  obtain r w2 where l: "load_contracts env rd node ids acc w1 = (r, w2)" by fastforce
  have "e = None" using Cons.prems p c by (cases e) auto
  obtain b1 acc1 where r: "r = Inr (b1, acc1)" using Cons.prems p c l \<open>e = None\<close> by (cases r) auto
  have "P acc1" using load_contracts_inv [OF l [unfolded r] Cons.prems(2) step] .
  then show ?case using Cons.IH [of acc1 w2] Cons.prems p c l r \<open>e = None\<close> by (cases b1) auto
qed simp

section \<open>Networks\<close>

lemma merge_maps_keys: "map_of (merge_maps f ns) k \<noteq> None \<longleftrightarrow> (\<exists>n \<in> set ns. k \<in> fst ` set (f n))"
proof -
  have inner: "map_of (fold (\<lambda>(k, v). AList.update k v) m m0) k \<noteq> None \<longleftrightarrow> map_of m0 k \<noteq> None \<or> k \<in> fst ` set m" for m m0
    by (induction m arbitrary: m0) (auto simp: update_conv')
  have "map_of (fold (\<lambda>n m. fold (\<lambda>(k, v). AList.update k v) (f n) m) ns m0) k \<noteq> None
      \<longleftrightarrow> map_of m0 k \<noteq> None \<or> (\<exists>n \<in> set ns. k \<in> fst ` set (f n))" for m0
  proof (induction ns arbitrary: m0)
    case (Cons n ns)
    show ?case unfolding fold.simps comp_apply Cons.IH inner by auto
  qed simp
  then show ?thesis by (simp add: merge_maps_def)
qed

definition parts_match :: "znet loaded \<Rightarrow> bool" where
  "parts_match acc \<longleftrightarrow> set (concat (map zn_nodes (ld_nets acc))) = fst ` set (ld_ids acc)
     \<and> (\<forall>n \<in> set (ld_nets acc). fst ` set (zn_nodes_ip_range n) = set (zn_nodes n)
          \<and> zn_node_deployment_id n = [])"

lemma network_reader_match:
  "rd_parse (network_reader cl name) node dd wl = Inr n \<Longrightarrow> parts_match acc \<Longrightarrow>
     parts_match \<lparr>ld_nets = ld_nets acc @ [n], ld_ids = AList.update node i (ld_ids acc), ld_endpoint = t\<rparr>"
proof -
  assume r: "rd_parse (network_reader cl name) node dd wl = Inr n" and m: "parts_match acc"
  then obtain z where z: "new_network_from_workload (cl_api3 cl) (cl_net cl) wl node = Inr z" "n = z\<lparr>zn_solution_type := dd_project_name dd\<rparr>"
    by (auto simp: network_reader_def map_sum_def split: sum.splits)
  then have "zn_nodes n = [node]" "fst ` set (zn_nodes_ip_range n) = {node}" "zn_node_deployment_id n = []"
    by (auto simp: new_network_from_workload_def Let_def split: sum.splits option.splits)
  then show ?thesis using m by (auto simp: parts_match_def dom_update)
qed

lemma load_network_complete:
  assumes "load_network_from_grid cl name st w = Some ((Inr z, st'), w')" and "zn_node_deployment_id z \<noteq> []"
  shows "set (zn_nodes z) = fst ` set (zn_node_deployment_id z)
    \<and> (\<forall>n. map_of (zn_nodes_ip_range z) n \<noteq> None \<longleftrightarrow> n \<in> set (zn_nodes z))"
proof -
  obtain b acc w1 where l: "load_nodes (cl_dep cl) (network_reader cl name) (gs_contracts st) no_parts w = (Inr (b, acc), w1)"
    using assms(1) by (auto simp: load_network_from_grid_def split: prod.split_asm sum.split_asm)
  have m: "parts_match acc"
  proof (rule load_nodes_inv [OF l, where P = parts_match])
    show "parts_match no_parts" by (simp add: parts_match_def no_parts_def)
  qed (rule network_reader_match)
  show ?thesis
  proof (cases b)
    case True
    then have "z = last_or zero_znet (ld_nets acc)" using assms(1) l by (simp add: load_network_from_grid_def)
    then have "zn_node_deployment_id z = []" using m by (auto simp: last_or_def zero_znet_def parts_match_def)
    then show ?thesis using assms(2) by simp
  next
    case False
    then have a: "with_access_config (cl_net cl) (ld_endpoint acc) (merge_network acc) = Some z"
      using assms(1) l by (auto simp: load_network_from_grid_def split: if_split_asm)
    then have "zn_nodes z = concat (map zn_nodes (ld_nets acc))" "zn_node_deployment_id z = ld_ids acc"
      "zn_nodes_ip_range z = merge_maps zn_nodes_ip_range (ld_nets acc)"
      by (auto simp: with_access_config_def merge_network_def split: if_split_asm option.split_asm)
    moreover have "(\<exists>p \<in> set (ld_nets acc). n \<in> fst ` set (zn_nodes_ip_range p)) \<longleftrightarrow> n \<in> fst ` set (ld_ids acc)" for n
      using m by (auto simp: parts_match_def)
    ultimately show ?thesis
      using m merge_maps_keys [of zn_nodes_ip_range "ld_nets acc"] by (simp only: parts_match_def simp_thms)
  qed
qed

section \<open>Light networks\<close>

lemma light_reader_range: "rd_parse (light_reader cl name) node dd wl = Inr n \<Longrightarrow> znl_ip_range n = nil_net"
  by (auto simp: light_reader_def new_network_light_from_workload_def map_sum_def split: sum.split_asm option.split_asm)

lemma nil_mask: "fst (mask_size (Mask nil_net)) \<noteq> 16"
  by (simp add: nil_net_def mask_size_def)

lemma light_without_range:
  assumes "znl_ip_range z = nil_net"
  shows "znet_light_validate z \<noteq> None"
  using nil_mask by (simp add: znet_light_validate_def assms wrap_err_def split: option.split)

lemma load_light_without_range:
  assumes "load_network_light_from_grid cl name st w = ((Inr z, st'), w')"
  shows "znl_ip_range z = nil_net"
proof -
  obtain b acc w1 where l: "load_nodes (cl_dep cl) (light_reader cl name) (gs_contracts st) no_parts w = (Inr (b, acc), w1)"
    using assms(1) by (auto simp: load_network_light_from_grid_def split: prod.split_asm sum.split_asm)
  have "\<forall>n \<in> set (ld_nets acc). znl_ip_range n = nil_net"
    by (rule load_nodes_inv [OF l, where P = "\<lambda>acc. \<forall>n \<in> set (ld_nets acc). znl_ip_range n = nil_net"])
      (auto simp: no_parts_def dest: light_reader_range)
  then have "znl_ip_range (last_or zero_znet_light (ld_nets acc)) = nil_net"
    by (auto simp: last_or_def zero_znet_light_def)
  then show ?thesis using assms l
    by (auto simp: load_network_light_from_grid_def merge_network_light_def Let_def split: bool.split_asm if_split_asm)
qed

end
