(* ===== verification/ClientRuns.thy ===== *)
theory ClientRuns
  imports ClientSim GridStateProofs
begin

text \<open>
  Calls of the client run on the grid of \<open>ClientSim\<close>: machines that get addresses, deployments the nodes have
      stored and that
  are loaded, a cluster, networks of which one is on a node without client, a deployment and a gateway that is refused.
\<close>

section \<open>Two machines that get addresses\<close>

definition sim_machine :: "string \<Rightarrow> vm" where
  "sim_machine name = zero_vm\<lparr>vm_name := name, vm_node_id := 1, vm_network_name := ''net''\<rparr>"

definition sim_dl :: "vm list \<Rightarrow> wl_deployment" where
  "sim_dl vms = \<lparr>wd_name = ''site'', wd_node_id = 1, wd_solution_type = ''site'', wd_solution_provider = None,
     wd_network_name = ''net'', wd_disks = [], wd_zdbs = [], wd_vms = vms, wd_vms_light = [], wd_qsfs = [], wd_volumes = [],
     wd_node_deployment_id = [], wd_contract_id = 0, wd_ip_range = []\<rparr>"

abbreviation sim_cidr :: ip_net where
  "sim_cidr \<equiv> \<lparr>IP = mask_ip (IPv4 10 20 2 0) (CIDRMask 24 32), Mask = CIDRMask 24 32\<rparr>"

lemma sim_subnet: "parse_cidr (\<lambda>s. None) ''10.20.2.0/24'' = Some (IPv4 10 20 2 0, sim_cidr)"
proof -
  have "net_text \<lparr>IP = IPv4 10 20 2 0, Mask = CIDRMask 24 32\<rparr> = ''10.20.2.0/24''" by code_simp
  then show ?thesis using parse_cidr_net_text [of 24 "\<lambda>s. None" 10 20 2 0] by simp
qed

lemma sim_hosts: "hosts_in (\<lambda>s. None) sim_cidr [''10.20.2.2''] = [2]" by code_simp

lemma sim_parts [simp]:
  "we_parse_ip6 (cl_wl (sim_client f g)) = (\<lambda>s. None)" "dv_client (cl_dep (sim_client f g)) n w = (f n w, w)"
  "cl_private_ips (sim_client f g) n net w = (Inr [''10.20.2.2''], w)"
  by (simp_all add: sim_client_def grid_env_def sim_wl_env_def)

lemma sim_network:
  "get_network ''net'' (gs_networks sim_account_state) = ([1 \<mapsto> ''10.20.2.0/24'', 2 \<mapsto> ''10.20.3.0/24''], gs_networks
      sim_account_state)"
  by (simp add: get_network_def sim_account_state_def)

lemma sim_machines:
  "assign_machines (\<lambda>s. None) vm_name vm_ip (\<lambda>a v. v\<lparr>vm_ip := a\<rparr>) ''net'' ''10.20.2.0/24'' 1
      sim_cidr
     [sim_machine ''a'', sim_machine ''b''] (IPv4 10 20 2 0) [(''net'', [(1, [2])])] []
   = Some ([(sim_machine ''a'')\<lparr>vm_ip := ''10.20.2.3''\<rparr>, (sim_machine ''b'')\<lparr>vm_ip :=
       ''10.20.2.4''\<rparr>], IPv4 10 20 2 4,
       [(''net'', [(1, [2, 3, 4])])], [])"
  by code_simp

abbreviation sim_given :: wl_deployment where
  "sim_given \<equiv> (sim_dl [(sim_machine ''a'')\<lparr>vm_ip := ''10.20.2.3''\<rparr>, (sim_machine ''b'')\<lparr>vm_ip :=
      ''10.20.2.4''\<rparr>])
     \<lparr>wd_ip_range := ''10.20.2.0/24''\<rparr>"

lemma sim_addresses_given:
  "assign_private_ips calm_client [sim_dl [sim_machine ''a'', sim_machine ''b'']] sim_account_state w
   = Some (([(True, sim_given)], [], sim_account_state), w)"
proof -
  have "used_host_ids calm_client 1 ''net'' sim_account_state w = ((Inr [2], sim_account_state), w)"
    by (simp add: used_host_ids_def sim_network get_node_subnet_def sim_subnet sim_hosts)
  then show ?thesis
    by (simp add: assign_private_ips_def has_machines_def sim_dl_def with_network_def node_known_def add_hosts_def
        node_hosts_def sim_network get_node_subnet_def sim_subnet sim_machines Let_def del: assign_machines.simps(2))
qed

declare wait_loop.simps [code] free_port.simps [code]

section \<open>What the nodes have stored\<close>

definition sim_data :: deployment_data where
  "sim_data = \<lparr>dd_version = 3, dd_type = ''vm'', dd_name = ''site'', dd_project_name = ''p''\<rparr>"

definition sim_metadata :: string where
  "sim_metadata = json_text (j_deployment_data sim_data)"

lemma sim_metadata [simp]: "parse_deployment_data sim_metadata = Some sim_data" "trim_space sim_metadata \<noteq> []"
proof -
  show "parse_deployment_data sim_metadata = Some sim_data"
    unfolding sim_metadata_def by (rule parse_deployment_data_text) (simp_all add: sim_data_def)
qed code_simp

definition sim_stored :: "string \<Rightarrow> u64 \<Rightarrow> deployment" where
  "sim_stored kind i = zero_deployment\<lparr>dl_contract := i, dl_metadata := sim_metadata,
     dl_workloads := [\<lparr>wl_version = 0, wl_name = ''net'', wl_type = kind, wl_data = [], wl_metadata = ''{}'',
       wl_description = [], wl_result = zero_result\<rparr>]\<rparr>"

definition sim_part :: gt_payload where
  "sim_part = PNetwork \<lparr>nw_ip_range = sim_cidr, nw_subnet = sim_cidr, nw_private_key = [], nw_listen_port = 0, nw_peers = [], nw_mycelium = None\<rparr>"

definition sim_light_part :: gt_payload where
  "sim_light_part = PNetworkLight \<lparr>nl_subnet = sim_cidr, nl_mycelium = \<lparr>my_key = [], my_peers = []\<rparr>\<rparr>"

definition stored_client :: "string \<Rightarrow> gt_payload \<Rightarrow> (unit, u64 list) client" where
  "stored_client kind p = calm_client\<lparr>cl_dep := calm_env\<lparr>dv_get := (\<lambda>n i w. (Inr (sim_stored kind i), w)),
     dv_wl := sim_wl_env\<lparr>we_api3 := sim_api\<lparr>gt_workload_data := (\<lambda>w. Inr p)\<rparr>,
       we_api4 := sim_api\<lparr>gt_workload_data := (\<lambda>w. Inr p)\<rparr>\<rparr>\<rparr>\<rparr>"

definition stored_state :: grid_state where
  "stored_state = store_contract 1 7 (store_contract 2 8 new_grid_state)"

lemma stored_contracts: "gs_contracts stored_state = [(2, [8]), (1, [7])]"
  by (simp add: stored_state_def store_contract_def set_contracts_def node_contracts_def new_grid_state_def)

lemma empty_network_metadata: "unmarshal_network_metadata ''{}'' = Some \<lparr>nm_version = 0, nm_user_accesses = []\<rparr>"
  by code_simp

lemmas sim_load_simps = stored_contracts stored_client_def sim_stored_def read_deployment_def with_metadata_def sim_client_def
  grid_env_def sim_data_def payload_of_def no_parts_def empty_network_metadata last_or_def

lemma sim_workload_found:
  "get_workload_in_deployment (stored_client kind p) stored_state 1 ''net'' ''site'' w
   = (Inr (hd (dl_workloads (sim_stored kind 7)), sim_stored kind 7), w)"
  by (simp add: get_workload_in_deployment_def sim_load_simps)

lemma sim_loaded:
  "\<exists>z st'. load_network_from_grid (stored_client NetworkType sim_part) ''net'' stored_state w = Some ((Inr z, st'), w)
     \<and> zn_node_deployment_id z = [(2,8), (1,7)]"
  by (simp add: load_network_from_grid_def sim_load_simps sim_part_def
    network_reader_def new_network_from_workload_def network_workload_def sim_nets_def merge_network_def
        with_access_config_def)

lemma sim_loaded_light:
  "\<exists>z st'. load_network_light_from_grid (stored_client NetworkLightType sim_light_part) ''net'' stored_state w = ((Inr z, st'), w)
     \<and> znl_nodes z = [2, 1]"
  by (simp add: load_network_light_from_grid_def sim_load_simps sim_light_part_def
    light_reader_def new_network_light_from_workload_def network_light_workload_def merge_network_light_def)

section \<open>A cluster of two nodes\<close>

definition sim_k8s_node :: "string \<Rightarrow> u32 \<Rightarrow> k8s_node" where
  "sim_k8s_node name node = \<lparr>kn_vm = zero_vm\<lparr>vm_name := name, vm_node_id := node\<rparr>, kn_disk_size_gb = 0\<rparr>"

definition sim_cluster :: "u32 \<Rightarrow> k8s_cluster" where
  "sim_cluster node = zero_cluster\<lparr>kc_master := Some (sim_k8s_node ''site'' 1), kc_workers := [sim_k8s_node ''w'' node],
     kc_nodes_ip_range := [(1, sim_cidr)]\<rparr>"

lemma sim_cluster_update:
  "kd_update_state (sim_cluster 2) [(1, [sim_stored NetworkType 7]), (2, [sim_stored NetworkType 8])] new_grid_state
   = Some (None, (sim_cluster 2)\<lparr>kc_node_deployment_id := [(1, 8)]\<rparr>,
       store_contract 2 0 (store_contract 1 8 new_grid_state))"
  by (simp add: kd_update_state_def sim_cluster_def sim_k8s_node_def sim_stored_def dls_at_def sim_data_def kd_record_def
      contract_at_def Let_def)

lemma sim_cluster_addresses:
  "map_option (\<lambda>(e, k). (e, map (\<lambda>v. vm_ip (kn_vm v)) (kc_workers k)))
    (k8s_assign_ips (\<lambda>s. None) (sim_cluster 1)) = Some (None, [''10.20.2.3''])"
  by code_simp

lemma sim_slash24: "slash24 sim_cidr" by code_simp

section \<open>Two networks, one on a node without client\<close>

definition broken_client :: "(unit, u64 list) client" where
  "broken_client = calm_client\<lparr>cl_net := (sim_nets (\<lambda>n. if n = 2 then Some ''down'' else None))
     \<lparr>node_endpoint := (\<lambda>n w. (NoAccessibleInterface, w))\<rparr>\<rparr>"

definition sim_znet :: "string \<Rightarrow> u32 \<Rightarrow> znet" where
  "sim_znet name node = zero_znet\<lparr>zn_name := name, zn_nodes := [node],
     zn_ip_range := \<lparr>IP = IPv4 10 20 0 0, Mask = CIDRMask 16 32\<rparr>\<rparr>"

lemma sim_unreachable: "unreachable (cl_net broken_client) 2"
  by (simp add: unreachable_def broken_client_def sim_client_def sim_nets_def)

definition hidden1 :: node_classes where
  "hidden1 = \<lparr>nc_hidden = [1], nc_accessible = [], nc_ipv4 = 0, nc_endpoints = []\<rparr>"

definition sim_placed :: znet where
  "sim_placed = (sim_znet ''a'' 1)\<lparr>zn_nodes_ip_range := [(1, \<lparr>IP = IPv4 10 20 2 0, Mask = CIDRMask 24 32\<rparr>)]\<rparr>"

lemma sim_hidden_classes: "classify_nodes ''a'' [(1, [])] [1] no_classes = Inr hidden1" by code_simp
lemma sim_hidden_choice: "choose_public_node [(1, [])] 0 (sim_znet ''a'' 1) hidden1 = Inr (sim_znet ''a'' 1, hidden1)"
  by code_simp
lemma sim_hidden_ranges: "assign_nodes_ips [1] (sim_znet ''a'' 1) = Some (None, sim_placed)" by code_simp
lemma sim_hidden_wg: "with_wg \<lparr>IP = IPv4 10 20 2 0, Mask = CIDRMask 24 32\<rparr> \<noteq> None" by code_simp

lemma sim_generate_reachable:
  "generate_deployments (cl_net broken_client) [(1, [])] 0 5 (sim_znet ''a'' 1) [(1, [])] [] \<noteq> None"
proof -
  have draw: "free_port (cl_net broken_client) [] w = Some (1031, w)" for w
    by (subst free_port.simps) (simp add: broken_client_def sim_nets_def)
  obtain ks where k: "assign_nodes_wg_key (cl_net broken_client) [1] sim_placed [] = ((None, sim_placed\<lparr>zn_keys := ks\<rparr>), [])"
    by (simp add: broken_client_def sim_nets_def sim_placed_def sim_znet_def zero_znet_def)
  have p: "assign_random_ports (cl_net broken_client) [1] [(1, [])] [] w = Some ([(1, [1031])], [(1, 1031)], w)" for w
    by (simp add: draw)
  have f: "zn_name (sim_znet ''a'' 1) = ''a''" "zn_nodes (sim_znet ''a'' 1) = [1]"
    "zn_wg_port (sim_placed\<lparr>zn_keys := ks\<rparr>) = []" "nc_hidden hidden1 @ nc_accessible hidden1 = [1]"
    by (simp_all add: sim_znet_def zero_znet_def hidden1_def sim_placed_def)
  have "generate_deployments (cl_net broken_client) [(1, [])] 0 5 (sim_znet ''a'' 1) [(1, [])] []
     = build_deployments (cl_net broken_client) 5 hidden1 (sim_placed\<lparr>zn_keys := ks, zn_wg_port := [(1, 1031)]\<rparr>)
         [(1, [1031])] []"
    by (simp only: generate_deployments_def Let_def f sim_hidden_classes sim_hidden_choice sim_hidden_ranges k p sum.case
        prod.case option.case)
  also have "\<dots> \<noteq> None"
    using sim_hidden_wg
    by (auto simp: sim_placed_def hidden1_def sim_znet_def zero_znet_def broken_client_def sim_nets_def Let_def
        build_deployments_def non_accessible_ranges_def access_config_def node_deployment_def znet_workload_def
        must_parse_ip_net_def znet_generate_metadata_def)
  finally show ?thesis .
qed

lemma sim_generate_unreachable:
  "\<exists>e. generate_deployments (cl_net broken_client) [(1, [])] 0 5 (sim_znet ''b'' 2) ports w
    = Some (Inl e, sim_znet ''b'' 2, ports, w)"
  by (simp add: generate_deployments_def sim_znet_def)

lemma sim_read_first:
  "read_nodes (cl_net broken_client) [1, 2] [] [] [] []
    = (([(1, [])], [(1, [])], [''could not get node 2 client: down'']), [])"
  by code_simp

lemma sim_read_again:
  "read_nodes (cl_net broken_client) [1, 2] [(1, [])] ports [] w
    = (([(1, [])], AList.update 1 [] ports, [''could not get node 2 client: down'']), w)"
proof -
  have "dec_text 2 = ''2''" by code_simp
  then show ?thesis by (simp add: broken_client_def sim_nets_def node_endpoint_and_ports_def)
qed

lemma sim_networks_generated:
  "\<exists>dls errs zs' w'. nd_generate broken_client (map FullNet [sim_znet ''a'' 1, sim_znet ''b'' 2]) []
    = Some ((dls, errs, zs'), w')"
proof -
  let ?za = "sim_znet ''a'' 1" and ?zb = "sim_znet ''b'' 2"
  obtain r z us w where a: "generate_deployments (cl_net broken_client) [(1, [])] 0 5 ?za [(1, [])] [] = Some (r, z, us, w)"
    using sim_generate_reachable by auto
  have va: "\<exists>x es. generate_versionless_deployments (cl_net broken_client) 5 0 [1, 2] [] [] ?za []
      = Some ((x, [(1, [])], us, z), w) \<and> snd x \<noteq> []"
    by (cases r) (simp_all add: generate_versionless_deployments_def sim_read_first a del: read_nodes.simps)
  have vb: "\<exists>x z' us'. generate_versionless_deployments (cl_net broken_client) 5 0 [1, 2] [(1, [])] us ?zb w
      = Some ((x, [(1, [])], us', z'), w) \<and> snd x \<noteq> []"
    using sim_generate_unreachable [of "AList.update 1 [] us" w] 
    by (auto simp: generate_versionless_deployments_def sim_read_again simp del: read_nodes.simps)
  have c: "calc_public_node broken_client [FullNet ?za, FullNet ?zb] [] [] = (([1, 2], 0, []), [])"
    by (simp add: calc_public_node_def all_nodes_def need_public_node_def sim_znet_def zero_znet_def Let_def)
  have t: "dv_twin (cl_dep broken_client) = 5" by (simp add: broken_client_def sim_client_def grid_env_def)
  show ?thesis using va vb by (auto simp: nd_generate_def c t)
qed

section \<open>A deployment without workloads\<close>

lemma sim_dl_valid: "dd_validate calm_client [sim_dl []] w = (None, w)"
proof -
  have "validate_name ''site'' = None" by code_simp
  then show ?thesis by (simp add: dd_validate_def validate_balance_def check_def sim_client_def sim_dl_def
      wl_deployment_validate_def)
qed

lemma sim_dl_deployed:
  "dep_deploy (cl_dep calm_client) True [] [(1, (wl_new_grid_deployment 5 0 [])\<lparr>dl_metadata := m\<rparr>)] [(1, None)] []
   = Some (([(1, 1)], None), [1])"
  by code_simp

lemma sim_dl_generated:
  "\<exists>m. dd_generate calm_client [sim_dl []] st w
   = Some (([(1, [(wl_new_grid_deployment 5 0 [])\<lparr>dl_metadata := m\<rparr>])], [], [sim_dl []], st), w)"
  by (simp add: dd_generate_def assign_private_ips_def has_machines_def sim_dl_def wl_generate_metadata_def Let_def
      grid_workloads_def qsfs_workloads.simps add_dl_def dls_at_def sim_client_def grid_env_def) (rule exI, rule refl)

lemma sim_dl_run: "\<exists>d' st'. dd_deploy calm_client (sim_dl []) sim_account_state [] = Some ((None, d', st'), [1])"
proof -
  obtain m where m: "dd_generate calm_client [sim_dl []] sim_account_state []
     = Some (([(1, [(wl_new_grid_deployment 5 0 [])\<lparr>dl_metadata := m\<rparr>])], [], [sim_dl []], sim_account_state), [])"
    using sim_dl_generated by blast
  have f: "wd_node_id (sim_dl []) = 1" "wd_node_deployment_id (sim_dl []) = []" "wd_solution_provider (sim_dl []) = None"
    by (simp_all add: sim_dl_def)
  obtain d' st' where "dd_record ((sim_dl [])\<lparr>wd_node_deployment_id := [(1, 1)]\<rparr>) sim_account_state = (d', st')"
    by fastforce
  then show ?thesis by (simp add: dd_deploy_def sim_dl_valid m sim_dl_deployed f dls_at_def)
qed

section \<open>A gateway on a node that refuses it\<close>

definition sim_gateway :: gateway_name where
  "sim_gateway = zero_gateway_name\<lparr>gn_node_id := 1, gn_name := ''site'', gn_backends := [''http://10.0.0.1''],
      gn_name_contract_id := 9\<rparr>"

abbreviation refusing_client :: "(unit, u64 list) client" where
  "refusing_client \<equiv> sim_client (\<lambda>n w. None) (\<lambda>n. Some ''refused'')"

lemma sim_gateway_valid: "gn_validate refusing_client sim_gateway [9] = (None, [9])"
proof -
  have "validate_name ''site'' = None" "trim_space [] = []" by code_simp+
  then show ?thesis
    by (simp add: wrap_err_def gn_validate_def validate_balance_def check_def gateway_name_validate_def
        gateway_errors_def validate_backend_def sim_client_def sim_gateway_def zero_gateway_name_def sim_codec_def grid_env_def sim_nets_def)
qed

lemma sim_gateway_name:
  "gn_name g = ''site'' \<Longrightarrow> gn_name_contract_id g = 9 \<Longrightarrow> gn_name_contract refusing_client g [9] = ((None, g), [9])"
  by (simp add: gn_name_contract_def gn_invalidate_def invalidate_name_contract_def sim_client_def grid_env_def
      sim_chain_def)

lemma sim_gateway_refused:
  "map_option (\<lambda>((ids, e), w). (ids, e = None, w))
     (dep_deploy (cl_dep refusing_client) True []
        [(1, (wl_new_grid_deployment 5 0
           [from_zos_workload (cl_api3 refusing_client) (gateway_name_workload (cl_codec refusing_client) g)])
             \<lparr>dl_metadata := m\<rparr>)] [(1, None)] [9])
   = Some ([], False, [9])"
  by code_simp

end
