(* ===== verification/DeployProps.thy ===== *)
theory DeployProps
  imports ClientRuns
begin

text \<open>
  What the client promises to its users: addresses of machines and cluster nodes, contracts and their records, the errors
  that leave something behind, and what is loaded from the grid. Each is followed by its application on a small grid.
\<close>

section \<open>Addresses\<close>

text \<open>C8: When the private addresses of a call are given without an error to machines that had none, no address is given
    twice
  in a network and node, and its host id, from 2 to 254, is none the node reports as used in its range.\<close>

theorem machine_addresses_distinct:
  assumes "assign_private_ips cl ds st w = Some ((kept, [], st'), w')" and "\<forall>d \<in> set ds. machine_addresses d = []"
  shows "distinct (all_addresses kept)
    \<and> (\<exists>used. (\<forall>d \<in> set ds. has_machines d \<longrightarrow> hosts_reported cl st used
        (wd_network_name d) (wd_node_id d))
         \<and> (\<forall>t \<in> set (all_addresses kept). fresh_address (we_parse_ip6 (cl_wl cl)) used t))"
  by (rule assign_private_ips_fresh [OF assms])

theorem machine_addresses_distinct_witness:
  "distinct (all_addresses [(True, sim_given)])
   \<and> all_addresses [(True, sim_given)] = [(''net'', 1, ''10.20.2.3''), (''net'', 1, ''10.20.2.4'')]"
proof -
  have none: "\<forall>d \<in> set [sim_dl [sim_machine ''a'', sim_machine ''b'']]. machine_addresses d = []"
    by (simp add: machine_addresses_def sim_dl_def sim_machine_def zero_vm_def)
  have "all_addresses [(True, sim_given)] = [(''net'', 1, ''10.20.2.3''), (''net'', 1, ''10.20.2.4'')]"
    by (simp add: machine_addresses_def sim_dl_def)
  then show ?thesis using machine_addresses_distinct [OF sim_addresses_given none] by simp
qed

text \<open>C14: When the nodes of a cluster are given addresses, on nodes that have ranges of 24 bits, no two of them share an
    address on
  a node, if none did before, and every address is in the range of its node.\<close>

theorem cluster_addresses:
  assumes "k8s_assign_ips parse6 k = Some (None, k')" and "kc_master k = Some m"
    and "nodes_ranges_ok (kc_nodes_ip_range k) (m # kc_workers k)"
    and "\<forall>n. distinct (k8s_used_ips parse6 (m # kc_workers k) n)"
  shows "\<exists>m'. kc_master k' = Some m' \<and> map kn_node (m' # kc_workers k') = map kn_node (m # kc_workers k)
    \<and> (\<forall>n. distinct (k8s_used_ips parse6 (m' # kc_workers k') n))
    \<and> (\<forall>v \<in> set (m' # kc_workers k'). \<exists>r. map_of (kc_nodes_ip_range k) (kn_node v) = Some r
          \<and> net_contains r (parse_ip parse6 (vm_ip (kn_vm v))))"
proof -
  obtain rs vs where a: "assign_ips parse6 (kc_nodes_ip_range k) [] (m # kc_workers k) = (None, rs, vs)"
    and k': "k' = k\<lparr>kc_nodes_ip_range := rs, kc_master := Some (hd vs), kc_workers := tl vs\<rparr>"
    using assms(1,2) by (auto simp: k8s_assign_ips_def split: prod.splits)
  note ok = assign_ips_ok [OF a assms(3)]
  obtain m' ws where vs: "vs = m' # ws" using ok by (cases vs) auto
  show ?thesis using ok assms(4) unfolding k' vs by auto
qed

theorem cluster_addresses_witness:
  "\<exists>(k' :: k8s_cluster) m'. kc_master k' = Some m' \<and> distinct (k8s_used_ips (\<lambda>s. None) (m' # kc_workers
      k') 1)
     \<and> map (\<lambda>v. vm_ip (kn_vm v)) (kc_workers k') = [''10.20.2.3'']"
proof -
  obtain k' where k: "k8s_assign_ips (\<lambda>s. None) (sim_cluster 1) = Some (None, k')"
      "map (\<lambda>v. vm_ip (kn_vm v)) (kc_workers k') = [''10.20.2.3'']"
    using sim_cluster_addresses by auto
  have m: "kc_master (sim_cluster 1) = Some (sim_k8s_node ''site'' 1)"
    and ranges: "nodes_ranges_ok (kc_nodes_ip_range (sim_cluster 1)) (sim_k8s_node ''site'' 1 # kc_workers (sim_cluster 1))"
    using sim_slash24 by (simp_all add: sim_cluster_def sim_k8s_node_def)
  have "last_byte (\<lambda>s. None) [] = None" by code_simp
  then have "\<forall>n. distinct (k8s_used_ips (\<lambda>s. None) (sim_k8s_node ''site'' 1 # kc_workers (sim_cluster 1)) n)"
    by (simp add: sim_cluster_def sim_k8s_node_def used_id_def zero_vm_def)
  from cluster_addresses [OF k(1) m ranges this]
  obtain m' where "kc_master k' = Some m'" "distinct (k8s_used_ips (\<lambda>s. None) (m' # kc_workers k') 1)"
    by (elim exE conjE) (rule that, assumption, erule spec)
  with k(2) show ?thesis by (intro exI conjI)
qed

section \<open>Contracts and their records\<close>



text \<open>C12: Whatever deployers and loads a client has run, the contracts of a node are listed once: recording a contract and
  cancelling it act on the set of the node's contracts.\<close>

theorem client_contracts_are_a_set:
  assumes "client_reachable cl st"
  shows "distinct (node_contracts st n)
    \<and> contract_set (store_contract n i st) = (contract_set st)(n := insert i (contract_set st n))
    \<and> contract_set (remove_contract n i st) = (contract_set st)(n := contract_set st n - {i})"
  using client_reachable_distinct [OF assms] contract_set_store contract_set_remove by (auto simp: contracts_distinct_def)

theorem client_contracts_are_a_set_witness:
  "contract_set (remove_contract 1 7 (store_contract_ids 1 [7, 9, 7] new_grid_state)) 1 = {9}"
proof -
  have "client_reachable calm_client (store_contract_ids 1 [7, 9, 7] new_grid_state)"
    by (rule client_reachable.step [OF client_reachable.new client_step.store])
  from client_contracts_are_a_set [OF this, of 1 7]
  have "contract_set (remove_contract 1 7 (store_contract_ids 1 [7, 9, 7] new_grid_state)) 1
      = contract_set (store_contract_ids 1 [7, 9, 7] new_grid_state) 1 - {7}" by (simp only: fun_upd_same)
  also have "contract_set (store_contract_ids 1 [7, 9, 7] new_grid_state) 1 = {7, 9}"
    by (auto simp: contract_set_store store_contract_ids_def) (simp_all add: contract_set_def node_contracts_def
        new_grid_state_def)
  finally show ?thesis by auto
qed

section \<open>Errors\<close>



text \<open>C31: When the deployment of a named gateway fails, the name contract is cancelled, one of an earlier deployment of the
  gateway too, and the gateway that is returned still has its id.\<close>

theorem failed_gateway_loses_name:
  assumes "ledger (cl_dep cl) live"
    and "gn_validate cl g w = (None, w1)" and "gn_generate cl g = (dl, g1)" and "gn_name_contract cl g1 w1 = ((None, g2), w2)"
    and "dep_deploy (cl_dep cl) True (gn_node_deployment_id g2) [(gn_node_id g2, dl)] [(gn_node_id g2, None)] w2
           = Some ((ids, Some e), w3)"
    and "gn_deploy cl g st w = Some ((e', g', st'), w')"
  shows "e' \<noteq> None \<and> gn_name_contract_id g' = gn_name_contract_id g2 \<and> st' = st
    \<and> (gn_name_contract_id g' \<notin> live w'
       \<or> (\<exists>t. e' = Some (''failed to deploy gateway name '' @ e @ '', failed to cancel gateway name contract '' @
           t)))"
proof -
  obtain c w4 where c: "ensure_contract_canceled (cl_chain cl) (gn_name_contract_id g2) w3 = (c, w4)" by fastforce
  note L = live_cancel [OF assms(1) c]
  show ?thesis
  proof (cases c)
    case None
    have r: "e' = Some (''failed to deploy gateway name id: '' @ e)" "g' = g2\<lparr>gn_node_deployment_id := ids\<rparr>"
        "st' = st" "w' = w4"
      using assms(6) unfolding gn_deploy_def assms(2-5) by (simp_all add: assms(2-5) c None)
    show ?thesis using L by (simp add: r None)
  next
    case (Some ce)
    have "e' = Some (''failed to deploy gateway name '' @ e @ '', failed to cancel gateway name contract '' @ ce_text ce)"
      "g' = g2\<lparr>gn_node_deployment_id := ids\<rparr>" "st' = st"
      using assms(6) unfolding gn_deploy_def assms(2-5) by (simp_all add: assms(2-5) c Some)
    then show ?thesis by simp
  qed
qed

theorem failed_gateway_loses_name_witness:
  "\<exists>e g' st' w'. gn_deploy refusing_client sim_gateway sim_account_state [9] = Some ((e, g', st'), w') \<and> e \<noteq> None
     \<and> gn_name_contract_id g' = 9"
proof -
  let ?cl = refusing_client
  obtain dl g1 where g: "gn_generate ?cl sim_gateway = (dl, g1)" by fastforce
  then obtain m where dl: "dl = (wl_new_grid_deployment 5 0
      [from_zos_workload (cl_api3 ?cl) (gateway_name_workload (cl_codec ?cl) sim_gateway)])\<lparr>dl_metadata := m\<rparr>"
    and g1: "gn_name g1 = ''site''" "gn_name_contract_id g1 = 9" "gn_node_deployment_id g1 = []" "gn_node_id g1 = 1"
    by (auto simp: gn_generate_def gateway_name_metadata_def Let_def sim_client_def grid_env_def sim_gateway_def
        zero_gateway_name_def
        split: prod.splits if_splits)
  obtain ids e w3 where d: "dep_deploy (cl_dep ?cl) True (gn_node_deployment_id g1) [(gn_node_id g1, dl)] [(gn_node_id g1,
      None)] [9]
      = Some ((ids, Some e), w3)"
    using sim_gateway_refused [where g = sim_gateway and m = m] by (auto simp: dl g1)
  have L: "ledger (cl_dep ?cl) sim_live" using sim_ledger by (simp add: sim_client_def)
  obtain e' g' st' w' where r: "gn_deploy ?cl sim_gateway sim_account_state [9] = Some ((e', g', st'), w')"
    by (cases "ensure_contract_canceled (cl_chain ?cl) (gn_name_contract_id g1) w3"; cases "fst (ensure_contract_canceled
        (cl_chain ?cl) (gn_name_contract_id g1) w3)")
      (simp_all add: gn_deploy_def sim_gateway_valid g sim_gateway_name [OF g1(1,2)] d)
  from failed_gateway_loses_name [OF L sim_gateway_valid g sim_gateway_name [OF g1(1,2)] d r] r g1 show ?thesis by auto
qed

text \<open>C32: After a batch a cluster has at most the contract of one of its nodes, listed under its master's node; every worker
    on
  another node is recorded with the contract 0.\<close>

theorem cluster_batch_loses_workers:
  assumes "kd_update_state k newDls st = Some (None, k', st')" and "kc_master k = Some m"
  shows "(\<exists>c. kc_node_deployment_id k' = node_map (kn_node m) c)
    \<and> (contract_at (kc_node_deployment_id k') (kn_node m) \<noteq> 0 \<longrightarrow>
        (\<forall>v \<in> set (kc_workers k). kn_node v \<noteq> kn_node m \<longrightarrow> 0 \<in> set (node_contracts st'
            (kn_node v))))"
proof -
  obtain e c where c: "kd_collect (kn_name m) (kn_node m) (kn_node m # map kn_node (kc_workers k)) newDls None = (e, c)"
    by fastforce
  let ?k = "k\<lparr>kc_node_deployment_id := node_map (kn_node m) c\<rparr>"
  have r: "k' = ?k" "st' = kd_record ?k m st"
    using assms c by (auto simp: kd_update_state_def Let_def simp del: kd_collect.simps split: if_split_asm)
  have stored: "0 \<in> set (node_contracts (fold (\<lambda>v. store_contract (kn_node v) (f v)) vs s) n)"
    if "0 \<in> set (node_contracts s n) \<or> (\<exists>v \<in> set vs. kn_node v = n \<and> f v = 0)" for f :: "k8s_node
        \<Rightarrow> u64" and vs s n
    using that by (induction vs arbitrary: s) (auto simp: set_store_contract)
  have zero: "contract_at (node_map (kn_node m) c) n = 0" if "n \<noteq> kn_node m" for n
    using that by (auto simp: contract_at_def split: option.split)
  show ?thesis
  proof (intro conjI impI ballI)
    fix v assume i: "contract_at (kc_node_deployment_id k') (kn_node m) \<noteq> 0" and v: "v \<in> set (kc_workers k)"
        "kn_node v \<noteq> kn_node m"
    show "0 \<in> set (node_contracts st' (kn_node v))"
      using i v zero unfolding r kd_record_def Let_def by (auto intro!: stored)
  qed (use r in auto)
qed

theorem cluster_batch_loses_workers_witness:
  "0 \<in> set (node_contracts (store_contract 2 0 (store_contract 1 8 new_grid_state)) 2)"
proof -
  have "kc_master (sim_cluster 2) = Some (sim_k8s_node ''site'' 1)" by (simp add: sim_cluster_def)
  from cluster_batch_loses_workers [OF sim_cluster_update this]
  show ?thesis by (simp add: sim_cluster_def sim_k8s_node_def contract_at_def)
qed

section \<open>Loading from the grid\<close>

text \<open>C33: A light network loaded from the grid, found or not by a node, never passes its own validation: its range is not
    loaded.\<close>

theorem loaded_light_network_invalid:
  assumes "load_network_light_from_grid cl name st w = ((Inr z, st'), w')"
  shows "znet_light_validate z \<noteq> None"
  by (rule light_without_range) (rule load_light_without_range [OF assms])

theorem loaded_light_network_invalid_witness:
  "\<exists>z st'. load_network_light_from_grid (stored_client NetworkLightType sim_light_part) ''net'' stored_state [] =
      ((Inr z, st'), [])
     \<and> znl_nodes z = [2, 1] \<and> znet_light_validate z \<noteq> None"
proof -
  obtain z st' where "load_network_light_from_grid (stored_client NetworkLightType sim_light_part) ''net'' stored_state [] =
      ((Inr z, st'), [])"
      "znl_nodes z = [2, 1]"
    using sim_loaded_light by blast
  with loaded_light_network_invalid [OF this(1)] show ?thesis by blast
qed

text \<open>C21: A network that was loaded with contracts has exactly the nodes of its contracts, each with a range.\<close>

theorem loaded_network_complete:
  assumes "load_network_from_grid cl name st w = Some ((Inr z, st'), w')" and "zn_node_deployment_id z \<noteq> []"
  shows "set (zn_nodes z) = fst ` set (zn_node_deployment_id z)
    \<and> (\<forall>n. map_of (zn_nodes_ip_range z) n \<noteq> None \<longleftrightarrow> n \<in> set (zn_nodes z))"
  by (rule load_network_complete [OF assms])

theorem loaded_network_complete_witness:
  "\<exists>z st'. load_network_from_grid (stored_client NetworkType sim_part) ''net'' stored_state [] = Some ((Inr z, st'),
      [])
     \<and> set (zn_nodes z) = {1, 2}"
proof -
  obtain z st' where z: "load_network_from_grid (stored_client NetworkType sim_part) ''net'' stored_state [] = Some ((Inr z,
      st'), [])"
      "zn_node_deployment_id z = [(2, 8), (1, 7)]"
    using sim_loaded by blast
  then have "zn_node_deployment_id z \<noteq> []" by simp
  from loaded_network_complete [OF z(1) this] z show ?thesis by auto
qed

text \<open>C22: A workload that is found is one of its name in a deployment of the wanted name; without a name to look for it is
    empty;
  a contract without metadata ends the search with an empty workload and no error.\<close>

theorem found_workload:
  assumes "get_workload_in_deployment cl st node name dn w = (Inr (wl, dl), w')"
  shows "(wl, dl) = (zero_workload, zero_deployment)
    \<or> (\<exists>dd. parse_deployment_data (dl_metadata dl) = Some dd \<and> dd_name dd = dn
         \<and> (if name = [] then wl = zero_workload else wl \<in> set (dl_workloads dl) \<and> wl_name wl = name))"
proof -
  obtain ids w1 where "find_workload (cl_dep cl) node name dn ids w1 = (Inr (wl, dl), w')"
    using assms by (auto simp: get_workload_in_deployment_def split: option.splits prod.splits)
  then show ?thesis by (rule find_workload_Inr)
qed

theorem found_workload_witness:
  "\<exists>wl dl. get_workload_in_deployment (stored_client NetworkType sim_part) stored_state 1 ''net'' ''site'' [] = (Inr
      (wl, dl), [])
     \<and> wl \<in> set (dl_workloads dl) \<and> wl_name wl = ''net''"
proof -
  let ?wl = "hd (dl_workloads (sim_stored NetworkType 7))"
  have "?wl \<noteq> zero_workload" by (simp add: sim_stored_def zero_workload_def)
  with found_workload [OF sim_workload_found [where kind = NetworkType and p = sim_part and w = "[]"]] sim_workload_found show ?thesis by
      fastforce
qed


end
