(* ===== verification/Spec2Isabelle.thy ===== *)
theory Spec2Isabelle
  imports FarmProps FarmRoundProps NetProps GridProps DeployProps
begin

text \<open>
  A verification library for the Go repository \<open>tfgrid-sdk-go\<close>.

  \<^bold>\<open>Parts.\<close> Under construction.
\<close>

end
